(* ===== verification/Prelude.thy ===== *)
theory Prelude
  imports Main "HOL-Library.Word"
begin

text \<open>
  Shared vocabulary of the development: the machine types of the Rust sources, the
  three-valued result of a fallible Rust computation (\<open>Ok\<close>, \<open>Err\<close>, or a panic), the
  big-endian integer codec of the \<^verbatim>\<open>bytes\<close> buffer traits, the checked and saturating integer
  operations of the standard library, UTF-8 validation as performed by
  \<^verbatim>\<open>std::str::from_utf8\<close>, and the locale of self-delimiting codecs from which every wire
  format of the repository takes its list-reading lemmas.
\<close>

named_theorems np_intros \<open>introduction rules for absence of panics\<close>
named_theorems codec_simps \<open>read-after-write equations\<close>

section \<open>Machine types\<close>

type_synonym u8 = "8 word"
type_synonym u16 = "16 word"
type_synonym u32 = "32 word"
type_synonym u64 = "64 word"
type_synonym bytes = "u8 list"

text \<open>Byte string literals: \<open>bstr ''abc''\<close> is the Rust literal \<^verbatim>\<open>b"abc"\<close>.\<close>

definition bstr :: "string \<Rightarrow> bytes" where
  "bstr s = map of_char s"

section \<open>Results of fallible computations\<close>

text \<open>
  A Rust computation of type \<^verbatim>\<open>Result<T, E>\<close> returns \<open>Ok\<close> or \<open>Err\<close>, or it panics
  (an \<^verbatim>\<open>unwrap\<close>, an out-of-range slice, a buffer read past its end, an overflow check).
\<close>

datatype ('a, 'e) result = Ok 'a | Err 'e | Panic

primrec and_then :: "('a, 'e) result \<Rightarrow> ('a \<Rightarrow> ('b, 'e) result) \<Rightarrow> ('b, 'e) result" where
  "and_then (Ok x) f = f x"
| "and_then (Err e) f = Err e"
| "and_then Panic f = Panic"

primrec map_err :: "('e \<Rightarrow> 'f) \<Rightarrow> ('a, 'e) result \<Rightarrow> ('a, 'f) result" where
  "map_err g (Ok x) = Ok x"
| "map_err g (Err e) = Err (g e)"
| "map_err g Panic = Panic"

primrec map_ok :: "('a \<Rightarrow> 'b) \<Rightarrow> ('a, 'e) result \<Rightarrow> ('b, 'e) result" where
  "map_ok g (Ok x) = Ok (g x)"
| "map_ok g (Err e) = Err e"
| "map_ok g Panic = Panic"

text \<open>\<^verbatim>\<open>Result::unwrap\<close> turns an error into a panic.\<close>

primrec unwrap :: "('a, 'e) result \<Rightarrow> ('a, 'f) result" where
  "unwrap (Ok x) = Ok x"
| "unwrap (Err e) = Panic"
| "unwrap Panic = Panic"

definition is_ok :: "('a, 'e) result \<Rightarrow> bool" where
  "is_ok r = (case r of Ok _ \<Rightarrow> True | _ \<Rightarrow> False)"

text \<open>A guard with an early return of an error.\<close>

definition ensure :: "bool \<Rightarrow> 'e \<Rightarrow> (unit, 'e) result" where
  "ensure c e = (if c then Ok () else Err e)"

lemma and_then_eq_Ok: "and_then r f = Ok y \<longleftrightarrow> (\<exists>x. r = Ok x \<and> f x = Ok y)"
  by (cases r) auto

lemma map_err_eq_Ok: "map_err g r = Ok y \<longleftrightarrow> r = Ok y"
  by (cases r) auto

lemma map_ok_eq_Ok: "map_ok g r = Ok y \<longleftrightarrow> (\<exists>x. r = Ok x \<and> y = g x)"
  by (cases r) auto

lemma ensure_eq_Ok: "ensure c e = Ok u \<longleftrightarrow> c"
  by (auto simp: ensure_def)

lemma ensure_simps [simp]: "ensure True e = Ok ()" "ensure False e = Err e"
  by (simp_all add: ensure_def)

lemmas ok_simps = and_then_eq_Ok map_err_eq_Ok map_ok_eq_Ok ensure_eq_Ok

lemma np_and_then [np_intros]:
  "r \<noteq> Panic \<Longrightarrow> (\<And>x. r = Ok x \<Longrightarrow> f x \<noteq> Panic) \<Longrightarrow> and_then r f \<noteq> Panic"
  by (cases r) auto

lemma np_map_err [np_intros]: "r \<noteq> Panic \<Longrightarrow> map_err g r \<noteq> Panic"
  by (cases r) auto

lemma np_map_ok [np_intros]: "r \<noteq> Panic \<Longrightarrow> map_ok g r \<noteq> Panic"
  by (cases r) auto

lemma np_ensure [np_intros]: "ensure c e \<noteq> Panic"
  by (simp add: ensure_def)

lemma np_case_prod [np_intros]:
  "(\<And>x y. p = (x, y) \<Longrightarrow> f x y \<noteq> Panic) \<Longrightarrow> (case p of (x, y) \<Rightarrow> f x y) \<noteq> Panic"
  by (cases p) simp

lemma np_Ok [np_intros]: "Ok x \<noteq> Panic"
  by simp

lemma np_Err [np_intros]: "Err e \<noteq> Panic"
  by simp

lemma np_if [np_intros]:
  "(c \<Longrightarrow> x \<noteq> Panic) \<Longrightarrow> (\<not> c \<Longrightarrow> y \<noteq> Panic) \<Longrightarrow> (if c then x else y) \<noteq> Panic"
  by simp

lemma np_unwrap: "unwrap r \<noteq> Panic \<longleftrightarrow> is_ok r"
  by (cases r) (auto simp: is_ok_def)

section \<open>Integer arithmetic of the standard library\<close>

lemma unat_bound: "unat (w :: 'l::len word) < 2 ^ LENGTH('l)"
  by (rule unsigned_less)

definition u64_max :: u64 where
  "u64_max = - 1"

definition saturating_sub :: "'l::len word \<Rightarrow> 'l word \<Rightarrow> 'l word" where
  "saturating_sub x y = (if x < y then 0 else x - y)"

definition saturating_add :: "'l::len word \<Rightarrow> 'l word \<Rightarrow> 'l word" where
  "saturating_add x y = (if unat x + unat y < 2 ^ LENGTH('l) then x + y else - 1)"

text \<open>Plain \<open>+\<close>, \<open>-\<close> and \<open>*\<close> with the overflow check: a panic when the result does not fit.\<close>

definition checked_add :: "'l::len word \<Rightarrow> 'l word \<Rightarrow> ('l word, 'e) result" where
  "checked_add x y = (if unat x + unat y < 2 ^ LENGTH('l) then Ok (x + y) else Panic)"

definition checked_sub :: "'l::len word \<Rightarrow> 'l word \<Rightarrow> ('l word, 'e) result" where
  "checked_sub x y = (if y \<le> x then Ok (x - y) else Panic)"

definition checked_mul :: "'l::len word \<Rightarrow> 'l word \<Rightarrow> ('l word, 'e) result" where
  "checked_mul x y = (if unat x * unat y < 2 ^ LENGTH('l) then Ok (x * y) else Panic)"

definition checked_div :: "'l::len word \<Rightarrow> 'l word \<Rightarrow> ('l word, 'e) result" where
  "checked_div x y = (if y = 0 then Panic else Ok (x div y))"

lemma unat_saturating_sub: "unat (saturating_sub x y) = unat x - unat y"
  by (auto simp: saturating_sub_def word_less_nat_alt unat_sub_if')

lemma unat_saturating_add:
  fixes x y :: "'l::len word"
  shows "unat (saturating_add x y) = min (unat x + unat y) (2 ^ LENGTH('l) - 1)"
proof (cases "unat x + unat y < 2 ^ LENGTH('l)")
  case True
  then have "unat (x + y) = unat x + unat y" by (simp only: unat_add_lem)
  moreover have "unat x + unat y \<le> 2 ^ LENGTH('l) - 1" using True by linarith
  ultimately show ?thesis using True by (simp only: saturating_add_def if_True min_absorb1)
next
  case False
  then have "2 ^ LENGTH('l) - 1 \<le> unat x + unat y" by linarith
  then show ?thesis
    using False unfolding saturating_add_def
    by (simp only: if_False min_absorb2 unsigned_minus_1_eq_mask mask_eq_exp_minus_1)
qed

lemma unat_checked_add:
  "checked_add (x :: 'l::len word) y = Ok z \<Longrightarrow> unat z = unat x + unat y"
  by (auto simp: checked_add_def unat_add_lem split: if_splits)

lemma unat_checked_sub: "checked_sub x y = Ok z \<Longrightarrow> unat z = unat x - unat y"
  by (auto simp: checked_sub_def unat_sub split: if_splits)

lemma unat_checked_mul:
  "checked_mul (x :: 'l::len word) y = Ok z \<Longrightarrow> unat z = unat x * unat y"
  by (auto simp: checked_mul_def unat_mult_lem split: if_splits)

section \<open>Big-endian integers\<close>

text \<open>
  \<open>be_encode n v\<close> is what \<^verbatim>\<open>BufMut::put_uint(v, n)\<close> writes: the \<open>n\<close> low-order bytes of
  \<open>v\<close>, most significant first. \<open>be_decode\<close> is the value \<^verbatim>\<open>Buf::get_uint\<close> reads.
\<close>

primrec be_encode :: "nat \<Rightarrow> nat \<Rightarrow> bytes" where
  "be_encode 0 v = []"
| "be_encode (Suc n) v = be_encode n (v div 256) @ [of_nat v]"

definition be_decode :: "bytes \<Rightarrow> nat" where
  "be_decode bs = foldl (\<lambda>acc c. acc * 256 + unat c) 0 bs"

lemma length_be_encode [simp]: "length (be_encode n v) = n"
  by (induction n arbitrary: v) auto

lemma be_decode_Nil [simp]: "be_decode [] = 0"
  by (simp add: be_decode_def)

lemma be_decode_snoc [simp]: "be_decode (bs @ [c]) = be_decode bs * 256 + unat c"
  by (simp add: be_decode_def)

lemma unat_of_nat_byte [simp]: "unat (of_nat v :: u8) = v mod 256"
  by (simp add: unat_of_nat)

lemma be_decode_encode [simp]: "be_decode (be_encode n v) = v mod 256 ^ n"
proof (induction n arbitrary: v)
  case (Suc n)
  have "be_decode (be_encode (Suc n) v) = (v div 256) mod 256 ^ n * 256 + v mod 256"
    using Suc.IH [of "v div 256"] by simp
  also have "\<dots> = v mod (256 * 256 ^ n)"
    by (simp add: mod_mult2_eq mult.commute)
  finally show ?case by simp
qed simp

lemma be_decode_less: "be_decode bs < 256 ^ length bs"
proof (induction bs rule: rev_induct)
  case (snoc c bs)
  have "unat c < 256" using unat_bound [of c] by simp
  moreover have "be_decode bs + 1 \<le> 256 ^ length bs" using snoc by simp
  then have "(be_decode bs + 1) * 256 \<le> 256 ^ length bs * 256" by (rule mult_le_mono1)
  ultimately show ?case by (simp add: mult.commute)
qed simp

lemma be_encode_decode: "length bs = n \<Longrightarrow> be_encode n (be_decode bs) = bs"
proof (induction n arbitrary: bs)
  case (Suc n)
  then obtain cs c where bs: "bs = cs @ [c]" and n: "length cs = n"
    by (metis length_Suc_conv_rev)
  have c: "unat c < 256" using unat_bound [of c] by simp
  have "(be_decode cs * 256 + unat c) div 256 = be_decode cs" using c by simp
  moreover have "(of_nat (be_decode cs * 256 + unat c) :: u8) = c"
    using c by (intro word_unat_eq_iff [THEN iffD2]) (simp only: unat_of_nat_byte, simp)
  ultimately show ?case using Suc.IH [OF n] bs by simp
qed simp

lemma be_encode_inj:
  "v < 256 ^ n \<Longrightarrow> w < 256 ^ n \<Longrightarrow> be_encode n v = be_encode n w \<Longrightarrow> v = w"
  by (metis be_decode_encode mod_less)

text \<open>The fixed-width writers of \<^verbatim>\<open>BufMut\<close>.\<close>

definition put_u16 :: "u16 \<Rightarrow> bytes" where "put_u16 v = be_encode 2 (unat v)"
definition put_u32 :: "u32 \<Rightarrow> bytes" where "put_u32 v = be_encode 4 (unat v)"
definition put_u64 :: "u64 \<Rightarrow> bytes" where "put_u64 v = be_encode 8 (unat v)"

text \<open>
  The readers of \<^verbatim>\<open>Buf\<close> on a byte slice return the value and the rest of the slice, and panic
  when the slice is too short.
\<close>

definition copy_to_slice :: "nat \<Rightarrow> bytes \<Rightarrow> (bytes \<times> bytes, 'e) result" where
  "copy_to_slice n bs = (if n \<le> length bs then Ok (take n bs, drop n bs) else Panic)"

definition get_u8 :: "bytes \<Rightarrow> (u8 \<times> bytes, 'e) result" where
  "get_u8 bs = (case bs of [] \<Rightarrow> Panic | c # cs \<Rightarrow> Ok (c, cs))"

definition get_uint :: "nat \<Rightarrow> bytes \<Rightarrow> (u64 \<times> bytes, 'e) result" where
  "get_uint n bs =
     (if n \<le> 8 \<and> n \<le> length bs then Ok (of_nat (be_decode (take n bs)), drop n bs) else Panic)"

definition get_u16 :: "bytes \<Rightarrow> (u16 \<times> bytes, 'e) result" where
  "get_u16 bs = (if 2 \<le> length bs then Ok (of_nat (be_decode (take 2 bs)), drop 2 bs) else Panic)"

definition get_u32 :: "bytes \<Rightarrow> (u32 \<times> bytes, 'e) result" where
  "get_u32 bs = (if 4 \<le> length bs then Ok (of_nat (be_decode (take 4 bs)), drop 4 bs) else Panic)"

definition get_u64 :: "bytes \<Rightarrow> (u64 \<times> bytes, 'e) result" where
  "get_u64 bs = (if 8 \<le> length bs then Ok (of_nat (be_decode (take 8 bs)), drop 8 bs) else Panic)"

lemma length_put [simp]:
  "length (put_u16 v) = 2" "length (put_u32 w) = 4" "length (put_u64 x) = 8"
  by (simp_all add: put_u16_def put_u32_def put_u64_def)

lemma get_u8_Cons [codec_simps]: "get_u8 (c # cs) = Ok (c, cs)"
  by (simp add: get_u8_def)

lemma get_u16_put [codec_simps]: "get_u16 (put_u16 v @ rest) = Ok (v, rest)"
  using unat_bound [of v] by (simp add: get_u16_def put_u16_def)

lemma get_u32_put [codec_simps]: "get_u32 (put_u32 v @ rest) = Ok (v, rest)"
  using unat_bound [of v] by (simp add: get_u32_def put_u32_def)

lemma get_u64_put [codec_simps]: "get_u64 (put_u64 v @ rest) = Ok (v, rest)"
  using unat_bound [of v] by (simp add: get_u64_def put_u64_def)

lemma copy_to_slice_append [codec_simps]:
  "length xs = n \<Longrightarrow> copy_to_slice n (xs @ rest) = Ok (xs, rest)"
  by (simp add: copy_to_slice_def)

lemma get_uint_append:
  assumes "length xs = n" and "n \<le> 8"
  shows "get_uint n (xs @ rest) = Ok (of_nat (be_decode xs), rest)"
  using assms by (simp add: get_uint_def)

lemma take_drop_step: "take j (drop i xs) @ drop (i + j) xs = drop i xs"
  by (metis add.commute append_take_drop_id drop_drop)

lemma np_get [np_intros]:
  "0 < length bs \<Longrightarrow> get_u8 bs \<noteq> Panic"
  "2 \<le> length bs \<Longrightarrow> get_u16 bs \<noteq> Panic"
  "4 \<le> length bs \<Longrightarrow> get_u32 bs \<noteq> Panic"
  "8 \<le> length bs \<Longrightarrow> get_u64 bs \<noteq> Panic"
  "n \<le> length bs \<Longrightarrow> copy_to_slice n bs \<noteq> Panic"
  by (auto simp: get_u8_def get_u16_def get_u32_def get_u64_def copy_to_slice_def
      split: list.split)

section \<open>UTF-8 validation\<close>

text \<open>
  \<^verbatim>\<open>std::str::from_utf8\<close> accepts exactly the well-formed sequences of the Unicode standard: no
  overlong forms, no surrogates, nothing above U+10FFFF.
\<close>

definition utf8_cont :: "u8 \<Rightarrow> bool" where
  "utf8_cont c \<longleftrightarrow> 0x80 \<le> c \<and> c \<le> 0xBF"

fun utf8_valid :: "bytes \<Rightarrow> bool" where
  "utf8_valid [] = True"
| "utf8_valid (a # cs) =
     (if a < 0x80 then utf8_valid cs
      else if 0xC2 \<le> a \<and> a \<le> 0xDF then
        (case cs of c1 # r \<Rightarrow> utf8_cont c1 \<and> utf8_valid r | _ \<Rightarrow> False)
      else if 0xE0 \<le> a \<and> a \<le> 0xEF then
        (case cs of
           c1 # c2 # r \<Rightarrow>
             (if a = 0xE0 then 0xA0 \<le> c1 \<and> c1 \<le> 0xBF
              else if a = 0xED then 0x80 \<le> c1 \<and> c1 \<le> 0x9F
              else utf8_cont c1) \<and> utf8_cont c2 \<and> utf8_valid r
         | _ \<Rightarrow> False)
      else if 0xF0 \<le> a \<and> a \<le> 0xF4 then
        (case cs of
           c1 # c2 # c3 # r \<Rightarrow>
             (if a = 0xF0 then 0x90 \<le> c1 \<and> c1 \<le> 0xBF
              else if a = 0xF4 then 0x80 \<le> c1 \<and> c1 \<le> 0x8F
              else utf8_cont c1) \<and> utf8_cont c2 \<and> utf8_cont c3 \<and> utf8_valid r
         | _ \<Rightarrow> False)
      else False)"

lemma ascii_utf8_valid: "list_all (\<lambda>c. c < 0x80) cs \<Longrightarrow> utf8_valid cs"
  by (induction cs) simp_all

section \<open>Self-delimiting codecs\<close>

text \<open>Reading a counted sequence of items, one after the other, stopping at the first error.\<close>

primrec read_many ::
  "(bytes \<Rightarrow> ('a \<times> bytes, 'e) result) \<Rightarrow> nat \<Rightarrow> bytes \<Rightarrow> ('a list \<times> bytes, 'e) result" where
  "read_many get 0 bs = Ok ([], bs)"
| "read_many get (Suc n) bs =
     and_then (get bs) (\<lambda>(x, rest).
     and_then (read_many get n rest) (\<lambda>(xs, rest'). Ok (x # xs, rest')))"

lemma length_read_many: "read_many get n bs = Ok (xs, rest) \<Longrightarrow> length xs = n"
  by (induction n arbitrary: bs xs) (auto simp: ok_simps)

text \<open>
  A writer and a reader agree: reading what was written, whatever follows it, gives the value and
  leaves what follows.
\<close>

locale wire_codec =
  fixes put :: "'a \<Rightarrow> bytes"
    and get :: "bytes \<Rightarrow> ('a \<times> bytes, 'e) result"
    and valid :: "'a \<Rightarrow> bool"
  assumes get_put: "valid x \<Longrightarrow> get (put x @ rest) = Ok (x, rest)"
begin

lemma put_prefix_free:
  assumes "valid x" "valid y" "put x @ r = put y @ s"
  shows "x = y \<and> r = s"
proof -
  have "Ok (x, r) = get (put y @ s)"
    using get_put [OF assms(1), of r] by (simp only: assms(3))
  also have "\<dots> = Ok (y, s)" by (rule get_put [OF assms(2)])
  finally show ?thesis by simp
qed

lemma put_injective: "valid x \<Longrightarrow> valid y \<Longrightarrow> put x = put y \<Longrightarrow> x = y"
  using put_prefix_free [of x y "[]" "[]"] by simp

lemma read_many_puts:
  "list_all valid xs \<Longrightarrow>
   read_many get (length xs) (concat (map put xs) @ rest) = Ok (xs, rest)"
  by (induction xs) (auto simp: get_put)

end

text \<open>
  A reader of untrusted bytes never panics and is self-delimiting: it consumes a prefix, and its
  result does not depend on what follows that prefix.
\<close>

locale safe_reader =
  fixes get :: "bytes \<Rightarrow> ('a \<times> bytes, 'e) result"
  assumes no_panic: "get bs \<noteq> Panic"
    and delimits: "get bs = Ok (x, rest) \<Longrightarrow>
      \<exists>pre. bs = pre @ rest \<and> (\<forall>r. get (pre @ r) = Ok (x, r))"
begin

lemma rest_length: "get bs = Ok (x, rest) \<Longrightarrow> length rest \<le> length bs"
  by (drule delimits) auto

lemma read_many_no_panic: "read_many get n bs \<noteq> Panic"
  by (induction n arbitrary: bs) (simp_all add: np_and_then no_panic split: prod.split)

lemma read_many_delimits:
  "read_many get n bs = Ok (xs, rest) \<Longrightarrow>
   \<exists>pre. bs = pre @ rest \<and> (\<forall>r. read_many get n (pre @ r) = Ok (xs, r))"
proof (induction n arbitrary: bs xs)
  case (Suc n)
  then obtain x mid ys where "get bs = Ok (x, mid)" "read_many get n mid = Ok (ys, rest)"
    and xs: "xs = x # ys"
    by (auto simp: ok_simps)
  with delimits Suc.IH obtain p q where "bs = p @ mid" "\<forall>r. get (p @ r) = Ok (x, r)"
      "mid = q @ rest" "\<forall>r. read_many get n (q @ r) = Ok (ys, r)" by metis
  with xs show ?case by (intro exI [of _ "p @ q"]) simp
qed simp

end

end
