(* ===== verification/Oer.thy ===== *)
theory Oer
  imports Prelude
begin

text \<open>
  The Octet Encoding Rules layer, \<^verbatim>\<open>crates/interledger-packet/src/oer.rs\<close>, with its error types
  from \<^verbatim>\<open>errors.rs\<close>: length determinants, variable-length octet strings, variable-length unsigned
  integers and variable-length timestamps. Readers take a slice and return the value with the rest
  of the slice; writers return the bytes they append. Lengths are \<^verbatim>\<open>usize\<close> of a 64-bit target,
  written as \<^typ>\<open>nat\<close> with the bound \<open>2 ^ 64\<close> in the lemmas that need it.

  The lemmas show that both readers return what the writers wrote whatever follows it, that no
  reader panics, that with the \<^verbatim>\<open>strict\<close> cargo feature the encoding is canonical (what is read is
  exactly what would be written), and that the \<^verbatim>\<open>BytesMut\<close> extraction used by the packet types
  agrees with the slice reader.
\<close>

unbundle bit_operations_syntax

section \<open>Build configuration and errors\<close>

text \<open>The cargo features of \<^verbatim>\<open>interledger-packet\<close>; \<^verbatim>\<open>roundtrip-only\<close> switches \<^verbatim>\<open>strict\<close> on.\<close>

record features =
  strict :: bool
  roundtrip_only :: bool

definition features_ok :: "features \<Rightarrow> bool" where
  "features_ok cfg \<longleftrightarrow> (roundtrip_only cfg \<longrightarrow> strict cfg)"

definition default_features :: features where
  "default_features = \<lparr>strict = False, roundtrip_only = False\<rparr>"

definition strict_features :: features where
  "strict_features = \<lparr>strict = True, roundtrip_only = False\<rparr>"

datatype LengthPrefixError =
    IndefiniteLength | TooLarge | UsizeOverflow | LeadingZeros | StrictLeadingZeros

datatype VarUintError = ZeroLength | VarUintTooLarge

datatype VariableLengthTimestampError = InvalidLength nat | InvalidTimestamp

datatype OerError =
    UnexpectedEof
  | LengthPrefix LengthPrefixError
  | VarUint VarUintError
  | VariableLengthTimestamp VariableLengthTimestampError

section \<open>Sizes\<close>

definition HIGH_BIT :: u8 where "HIGH_BIT = 0x80"
definition LOWER_SEVEN_BITS :: u8 where "LOWER_SEVEN_BITS = 0x7f"

text \<open>\<open>u64::leading_zeros\<close>, through the number of significant bits.\<close>

fun bit_len :: "nat \<Rightarrow> nat" where
  "bit_len n = (if n = 0 then 0 else Suc (bit_len (n div 2)))"

declare bit_len.simps [simp del]

definition leading_zeros :: "u64 \<Rightarrow> nat" where
  "leading_zeros w = 64 - bit_len (unat w)"

definition predict_var_uint_size :: "u64 \<Rightarrow> nat" where
  "predict_var_uint_size value0 =
     (let value1 = value0 OR 1;
          highest_bit = 64 - leading_zeros value1
      in (highest_bit + 8 - 1) div 8)"

definition predict_var_octet_string :: "nat \<Rightarrow> nat" where
  "predict_var_octet_string len =
     (if len < 128 then 1 + len
      else let length_of_length = predict_var_uint_size (of_nat len)
           in 1 + length_of_length + len)"

definition EMPTY_VARLEN_OCTETS_LEN :: nat where
  "EMPTY_VARLEN_OCTETS_LEN = predict_var_octet_string 0"

definition MIN_VARUINT_LEN :: nat where
  "MIN_VARUINT_LEN = 2"

definition MIN_VARLEN_TIMESTAMP_LEN :: nat where
  "MIN_VARLEN_TIMESTAMP_LEN = predict_var_octet_string 15"

section \<open>Readers\<close>

definition check_no_leading_zeroes ::
  "features \<Rightarrow> nat \<Rightarrow> u64 \<Rightarrow> (unit, LengthPrefixError) result" where
  "check_no_leading_zeroes cfg size_on_wire uint0 =
     (if strict cfg \<and> size_on_wire \<noteq> predict_var_uint_size uint0
      then Err StrictLeadingZeros else Ok ())"

text \<open>\<open>usize::try_from\<close> on a target whose \<open>usize\<close> has 64 bits.\<close>

definition usize_try_from :: "u64 \<Rightarrow> nat option" where
  "usize_try_from v = (if unat v < 2 ^ 64 then Some (unat v) else None)"

definition read_var_octet_string_length ::
  "features \<Rightarrow> bytes \<Rightarrow> (nat \<times> bytes, OerError) result" where
  "read_var_octet_string_length cfg bs =
     (if length bs < 1 then Err UnexpectedEof
      else and_then (get_u8 bs) (\<lambda>(len, r).
        if len AND HIGH_BIT \<noteq> 0 then
          (let length_prefix_length = unat (len AND LOWER_SEVEN_BITS) in
           if length_prefix_length > 8 then Err (LengthPrefix TooLarge)
           else if length_prefix_length = 0 then Err (LengthPrefix IndefiniteLength)
           else if length r < length_prefix_length then Err UnexpectedEof
           else and_then (get_uint length_prefix_length r) (\<lambda>(uint0, r').
             and_then (map_err LengthPrefix
                         (check_no_leading_zeroes cfg length_prefix_length uint0)) (\<lambda>_.
             if length_prefix_length = 1 \<and> uint0 < 128 then Err (LengthPrefix LeadingZeros)
             else case usize_try_from uint0 of
                 None \<Rightarrow> Err (LengthPrefix UsizeOverflow)
               | Some n \<Rightarrow> Ok (n, r'))))
        else Ok (unat len, r)))"

definition peek_var_octet_string :: "features \<Rightarrow> bytes \<Rightarrow> (bytes, OerError) result" where
  "peek_var_octet_string cfg bs =
     and_then (read_var_octet_string_length cfg bs) (\<lambda>(actual_length, peek).
       let offset = length bs - length peek in
       if length peek < actual_length then Err UnexpectedEof
       else Ok (take actual_length (drop offset bs)))"

definition read_var_octet_string ::
  "features \<Rightarrow> bytes \<Rightarrow> (bytes \<times> bytes, OerError) result" where
  "read_var_octet_string cfg bs =
     and_then (read_var_octet_string_length cfg bs) (\<lambda>(actual_length, r).
       if length r < actual_length then Err UnexpectedEof
       else Ok (take actual_length r, drop actual_length r))"

definition skip :: "nat \<Rightarrow> bytes \<Rightarrow> (unit \<times> bytes, OerError) result" where
  "skip discard_bytes bs =
     (if length bs < discard_bytes then Err UnexpectedEof else Ok ((), drop discard_bytes bs))"

definition skip_var_octet_string ::
  "features \<Rightarrow> bytes \<Rightarrow> (unit \<times> bytes, OerError) result" where
  "skip_var_octet_string cfg bs =
     and_then (read_var_octet_string_length cfg bs) (\<lambda>(actual_length, r). skip actual_length r)"

definition read_var_uint :: "features \<Rightarrow> bytes \<Rightarrow> (u64 \<times> bytes, OerError) result" where
  "read_var_uint cfg bs =
     and_then (read_var_octet_string_length cfg bs) (\<lambda>(size, r).
       if size = 0 then Err (VarUint ZeroLength)
       else if size > 8 then Err (VarUint VarUintTooLarge)
       else if length r < size then Err UnexpectedEof
       else and_then (get_uint size r) (\<lambda>(uint0, r').
         and_then (map_err LengthPrefix (check_no_leading_zeroes cfg size uint0)) (\<lambda>_.
         Ok (uint0, r'))))"

text \<open>
  \<^verbatim>\<open>BytesMut::split_off\<close> and \<^verbatim>\<open>split_to\<close> return the two halves and panic past the end.
  \<^verbatim>\<open>extract_var_octet_string\<close> takes the contents out of an owned buffer.
\<close>

definition split_at :: "nat \<Rightarrow> bytes \<Rightarrow> (bytes \<times> bytes, 'e) result" where
  "split_at n bs = (if n \<le> length bs then Ok (take n bs, drop n bs) else Panic)"

definition extract_var_octet_string :: "features \<Rightarrow> bytes \<Rightarrow> (bytes, OerError) result" where
  "extract_var_octet_string cfg buffer =
     (let buffer_length = length buffer in
      and_then (read_var_octet_string_length cfg buffer) (\<lambda>(content_length, reader).
      let content_offset = buffer_length - length reader in
      and_then (split_at content_offset buffer) (\<lambda>(_, remaining).
      if length remaining < content_length then Err UnexpectedEof
      else and_then (split_at content_length remaining) (\<lambda>(content, _). Ok content))))"

section \<open>Writers\<close>

definition put_var_octet_string_length :: "nat \<Rightarrow> bytes" where
  "put_var_octet_string_length len =
     (if len < 128 then [of_nat len]
      else let length_of_length = predict_var_uint_size (of_nat len)
           in (HIGH_BIT OR of_nat length_of_length)
              # be_encode length_of_length (unat (of_nat len :: u64)))"

definition put_var_octet_string :: "bytes \<Rightarrow> bytes" where
  "put_var_octet_string buf = put_var_octet_string_length (length buf) @ buf"

definition put_var_uint :: "u64 \<Rightarrow> bytes" where
  "put_var_uint uint0 =
     (let size = predict_var_uint_size uint0
      in put_var_octet_string_length size @ be_encode size (unat uint0))"

section \<open>Size lemmas\<close>

lemma bit_len_less: "n < 2 ^ bit_len n"
proof (induction n rule: bit_len.induct)
  case (1 n)
  then show ?case by (subst bit_len.simps) (auto split: if_splits)
qed

lemma bit_len_le_iff: "bit_len n \<le> k \<longleftrightarrow> n < 2 ^ k"
proof (induction n arbitrary: k rule: bit_len.induct)
  case (1 n)
  show ?case
  proof (cases "n = 0")
    case True
    then show ?thesis by (simp add: bit_len.simps)
  next
    case n: False
    show ?thesis
    proof (cases k)
      case 0
      with n show ?thesis by (subst bit_len.simps) simp
    next
      case (Suc j)
      have "bit_len n \<le> k \<longleftrightarrow> n div 2 < 2 ^ j"
        using n Suc 1 by (subst bit_len.simps) simp
      also have "\<dots> \<longleftrightarrow> n < 2 ^ k" using Suc by auto
      finally show ?thesis .
    qed
  qed
qed

text \<open>
  The bit arithmetic of \<^verbatim>\<open>predict_var_uint_size\<close> computes the least number of bytes, at least
  one, in which the value fits.
\<close>

lemma unat_or_1_less_iff:
  assumes "0 < k"
  shows "unat ((w :: u64) OR 1) < 2 ^ k \<longleftrightarrow> unat w < 2 ^ k"
proof -
  have "unat (w OR 1) = unat w OR 1" by (simp only: unsigned_or_eq unsigned_1)
  also have "\<dots> = (if even (unat w) then unat w + 1 else unat w)"
    by (simp only: or_one_eq) simp
  finally have "unat (w OR 1) = (if even (unat w) then unat w + 1 else unat w)" .
  moreover have "even n \<Longrightarrow> n + 1 < 2 ^ k \<longleftrightarrow> n < 2 ^ k" for n :: nat
    using assms by (metis Suc_eq_plus1 Suc_lessI even_Suc even_power even_numeral lessI less_trans)
  ultimately show ?thesis by simp
qed

lemma predict_var_uint_size_le_iff:
  assumes "0 < n"
  shows "predict_var_uint_size w \<le> n \<longleftrightarrow> unat w < 256 ^ n"
proof -
  let ?v = "w OR 1"
  have le64: "bit_len (unat ?v) \<le> 64"
    using unat_bound [of ?v] by (simp add: bit_len_le_iff)
  have "predict_var_uint_size w \<le> n \<longleftrightarrow> bit_len (unat ?v) \<le> 8 * n"
    using le64 by (simp add: predict_var_uint_size_def leading_zeros_def Let_def) linarith
  also have "\<dots> \<longleftrightarrow> unat w < 2 ^ (8 * n)"
    using assms by (simp add: bit_len_le_iff unat_or_1_less_iff)
  also have "(2::nat) ^ (8 * n) = 256 ^ n" by (simp add: power_mult)
  finally show ?thesis .
qed

lemma predict_var_uint_size_pos: "0 < predict_var_uint_size w"
proof -
  have "bit_len (unat (w OR 1)) \<noteq> 0"
    by (subst bit_len.simps) (simp add: unsigned_or_eq or_eq_0_iff)
  then show ?thesis
    using unat_bound [of "w OR 1"]
    by (simp add: predict_var_uint_size_def leading_zeros_def Let_def bit_len_le_iff)
qed

lemma predict_var_uint_size_le_8: "predict_var_uint_size w \<le> 8"
  using unat_bound [of w] by (simp add: predict_var_uint_size_le_iff)

lemma predict_fits: "unat w < 256 ^ predict_var_uint_size w"
  using predict_var_uint_size_le_iff [of "predict_var_uint_size w" w] predict_var_uint_size_pos
  by simp

lemma unat_of_nat_u64: "n < 2 ^ 64 \<Longrightarrow> unat (of_nat n :: u64) = n"
  by (simp add: unat_of_nat)

lemma length_put_var_octet_string_length:
  "length (put_var_octet_string_length n) =
     (if n < 128 then 1 else 1 + predict_var_uint_size (of_nat n))"
  by (simp add: put_var_octet_string_length_def Let_def)

lemma length_put_var_uint: "2 \<le> length (put_var_uint v)"
  using predict_var_uint_size_pos [of v]
  by (simp add: put_var_uint_def Let_def length_put_var_octet_string_length)

lemma length_put_var_uint_le: "length (put_var_uint v) \<le> 9"
  using predict_var_uint_size_le_8 [of v]
  by (simp add: put_var_uint_def Let_def length_put_var_octet_string_length)

lemma predict_var_octet_string_correct:
  "predict_var_octet_string (length buf) = length (put_var_octet_string buf)"
  by (simp add: predict_var_octet_string_def put_var_octet_string_def
      length_put_var_octet_string_length Let_def)

section \<open>Reading back what was written\<close>

lemma HIGH_BIT_nonzero [simp]: "HIGH_BIT \<noteq> 0"
  by (simp add: HIGH_BIT_def)

lemma prefix_byte_bits:
  assumes "0 < n" and "n \<le> 8"
  shows "(HIGH_BIT OR of_nat n) AND HIGH_BIT \<noteq> 0"
    and "unat ((HIGH_BIT OR of_nat n) AND LOWER_SEVEN_BITS) = n"
proof -
  have "n \<in> {1, 2, 3, 4, 5, 6, 7, 8}" using assms by auto
  then show "(HIGH_BIT OR of_nat n) AND HIGH_BIT \<noteq> 0"
    and "unat ((HIGH_BIT OR of_nat n) AND LOWER_SEVEN_BITS) = n"
    by (auto simp: HIGH_BIT_def LOWER_SEVEN_BITS_def)
qed

lemma short_length_bits:
  assumes "n < 128"
  shows "(of_nat n :: u8) AND HIGH_BIT = 0"
proof -
  have "(of_nat n :: u8) AND HIGH_BIT = of_nat (n AND 128)"
    by (simp add: HIGH_BIT_def of_nat_and_eq)
  also have "n AND 128 = 0"
  proof (rule bit_eqI)
    fix i
    have "\<not> bit n 7" using assms by (simp add: bit_iff_odd)
    then show "bit (n AND 128) i = bit 0 i"
      using bit_exp_iff [of 7 i, where 'a = nat] by (auto simp: bit_and_iff)
  qed
  finally show ?thesis by simp
qed

lemma read_put_length [codec_simps]:
  assumes "n < 2 ^ 64"
  shows "read_var_octet_string_length cfg (put_var_octet_string_length n @ rest) = Ok (n, rest)"
proof (cases "n < 128")
  case True
  then have "unat (of_nat n :: u8) = n" by simp
  with True show ?thesis
    by (simp add: put_var_octet_string_length_def read_var_octet_string_length_def
        short_length_bits get_u8_def)
next
  case False
  let ?k = "predict_var_uint_size (of_nat n)"
  have k: "0 < ?k" "?k \<le> 8" by (simp_all add: predict_var_uint_size_pos predict_var_uint_size_le_8)
  have n: "unat (of_nat n :: u64) = n" using assms by (rule unat_of_nat_u64)
  have fits: "n < 256 ^ ?k" using predict_fits [of "of_nat n"] n by simp
  have "\<not> (of_nat n :: u64) < 128" using False n by (simp add: word_less_nat_alt)
  then show ?thesis
    using False k n fits assms
    by (simp add: put_var_octet_string_length_def read_var_octet_string_length_def Let_def
        get_u8_def prefix_byte_bits get_uint_append check_no_leading_zeroes_def usize_try_from_def)
qed

lemma read_put_var_octet_string [codec_simps]:
  "length buf < 2 ^ 64 \<Longrightarrow>
   read_var_octet_string cfg (put_var_octet_string buf @ rest) = Ok (buf, rest)"
  by (simp add: read_var_octet_string_def put_var_octet_string_def read_put_length)

lemma read_put_var_uint [codec_simps]:
  "read_var_uint cfg (put_var_uint v @ rest) = Ok (v, rest)"
proof -
  let ?k = "predict_var_uint_size v"
  have k: "0 < ?k" "?k \<le> 8" by (simp_all add: predict_var_uint_size_pos predict_var_uint_size_le_8)
  have "read_var_octet_string_length cfg
          (put_var_octet_string_length ?k @ be_encode ?k (unat v) @ rest) =
        Ok (?k, be_encode ?k (unat v) @ rest)"
    using k by (intro read_put_length) simp
  then show ?thesis
    using k predict_fits [of v]
    by (simp add: read_var_uint_def put_var_uint_def Let_def get_uint_append
        check_no_leading_zeroes_def)
qed

lemma peek_put_var_octet_string [codec_simps]:
  "length buf < 2 ^ 64 \<Longrightarrow>
   peek_var_octet_string cfg (put_var_octet_string buf @ rest) = Ok buf"
  by (simp add: peek_var_octet_string_def put_var_octet_string_def read_put_length Let_def)

lemma skip_put_var_octet_string [codec_simps]:
  "length buf < 2 ^ 64 \<Longrightarrow>
   skip_var_octet_string cfg (put_var_octet_string buf @ rest) = Ok ((), rest)"
  by (simp add: skip_var_octet_string_def put_var_octet_string_def read_put_length skip_def)

interpretation vos: wire_codec put_var_octet_string "read_var_octet_string cfg"
    "\<lambda>buf. length buf < 2 ^ 64" for cfg
  by unfold_locales (rule read_put_var_octet_string)

interpretation vuint: wire_codec put_var_uint "read_var_uint cfg" "\<lambda>_. True" for cfg
  by unfold_locales (rule read_put_var_uint)

section \<open>No reader panics\<close>

lemma get_uint_eq_Ok:
  "get_uint n bs = Ok (v, rest) \<longleftrightarrow>
     n \<le> 8 \<and> n \<le> length bs \<and> v = of_nat (be_decode (take n bs)) \<and> rest = drop n bs"
  by (auto simp: get_uint_def)

lemma np_get_uint [np_intros]: "n \<le> 8 \<Longrightarrow> n \<le> length bs \<Longrightarrow> get_uint n bs \<noteq> Panic"
  by (simp add: get_uint_def)

lemma np_check_no_leading_zeroes [np_intros]: "check_no_leading_zeroes cfg n v \<noteq> Panic"
  by (simp add: check_no_leading_zeroes_def)

lemma np_case_option [np_intros]:
  "(o1 = None \<Longrightarrow> x \<noteq> Panic) \<Longrightarrow> (\<And>v. o1 = Some v \<Longrightarrow> f v \<noteq> Panic) \<Longrightarrow>
   (case o1 of None \<Rightarrow> x | Some v \<Rightarrow> f v) \<noteq> Panic"
  by (cases o1) simp_all

lemma np_Let [np_intros]: "(\<And>x. x = v \<Longrightarrow> f x \<noteq> Panic) \<Longrightarrow> (let x = v in f x) \<noteq> Panic"
  by simp

lemma np_read_length [np_intros]: "read_var_octet_string_length cfg bs \<noteq> Panic"
  unfolding read_var_octet_string_length_def by (intro np_intros) auto

lemma np_read_var_octet_string [np_intros]: "read_var_octet_string cfg bs \<noteq> Panic"
  unfolding read_var_octet_string_def by (intro np_intros)

lemma np_peek_var_octet_string [np_intros]: "peek_var_octet_string cfg bs \<noteq> Panic"
  unfolding peek_var_octet_string_def by (intro np_intros)

lemma np_skip [np_intros]: "skip n bs \<noteq> Panic"
  by (simp add: skip_def)

lemma np_skip_var_octet_string [np_intros]: "skip_var_octet_string cfg bs \<noteq> Panic"
  unfolding skip_var_octet_string_def by (intro np_intros)

lemma np_read_var_uint [np_intros]: "read_var_uint cfg bs \<noteq> Panic"
  unfolding read_var_uint_def by (intro np_intros) auto

section \<open>What the readers leave\<close>

lemma get_u8_eq_Ok: "get_u8 bs = Ok (c, rest) \<longleftrightarrow> bs = c # rest"
  by (auto simp: get_u8_def split: list.splits)

text \<open>The accepted forms of a length determinant.\<close>

lemma read_length_cases:
  assumes "read_var_octet_string_length cfg bs = Ok (n, rest)"
  obtains (short) c where "bs = c # rest" "c AND HIGH_BIT = 0" "n = unat c"
  | (long) c r k where "bs = c # r" "c AND HIGH_BIT \<noteq> 0" "k = unat (c AND LOWER_SEVEN_BITS)"
      "0 < k" "k \<le> 8" "k \<le> length r" "rest = drop k r"
      "n = be_decode (take k r)" "strict cfg \<Longrightarrow> k = predict_var_uint_size (of_nat n)"
      "k = 1 \<Longrightarrow> 128 \<le> n"
proof -
  from assms obtain c r where bs: "bs = c # r"
    by (cases bs) (simp_all add: read_var_octet_string_length_def)
  show ?thesis
  proof (cases "c AND HIGH_BIT = 0")
    case True
    then show ?thesis
      using assms bs short by (simp add: read_var_octet_string_length_def get_u8_def)
  next
    case False
    let ?k = "unat (c AND LOWER_SEVEN_BITS)"
    let ?v = "of_nat (be_decode (take ?k r)) :: u64"
    have facts: "0 < ?k" "?k \<le> 8" "?k \<le> length r" "rest = drop ?k r" "n = unat ?v"
        "strict cfg \<longrightarrow> ?k = predict_var_uint_size ?v" "\<not> (?k = 1 \<and> ?v < 128)"
      using assms bs False
      by (auto simp: read_var_octet_string_length_def get_u8_def Let_def ok_simps get_uint_eq_Ok
          check_no_leading_zeroes_def usize_try_from_def split: if_splits)
    have "be_decode (take ?k r) < 256 ^ length (take ?k r)" by (rule be_decode_less)
    also have "\<dots> \<le> 256 ^ 8" using facts by (intro power_increasing) auto
    finally have "unat ?v = be_decode (take ?k r)" by (simp add: unat_of_nat)
    with facts bs False show ?thesis
      by (intro long [of c r ?k]) (auto simp: word_less_nat_alt)
  qed
qed

lemma read_length_delimits:
  assumes "read_var_octet_string_length cfg bs = Ok (n, rest)"
  shows "\<exists>pre. bs = pre @ rest \<and>
    (\<forall>r. read_var_octet_string_length cfg (pre @ r) = Ok (n, r))"
  using assms
proof (cases rule: read_length_cases)
  case (short c)
  then show ?thesis
    by (intro exI [of _ "[c]"]) (simp add: read_var_octet_string_length_def get_u8_def)
next
  case (long c r k)
  have "n < 256 ^ k" using long(6,8) be_decode_less [of "take k r"] by simp
  also have "(256 :: nat) ^ k \<le> 256 ^ 8" using long(5) by (intro power_increasing) auto
  finally have n: "n < 2 ^ 64" by simp
  then have "unat (of_nat n :: u64) = n" by (rule unat_of_nat_u64)
  then have "k = 1 \<Longrightarrow> \<not> (of_nat n :: u64) < 128" using long(10) by (simp add: word_less_nat_alt)
  moreover have "check_no_leading_zeroes cfg k (of_nat n) = Ok ()"
    using long(9) by (simp add: check_no_leading_zeroes_def)
  moreover have "get_uint k (take k r @ r') = (Ok (of_nat n, r') :: (_, OerError) result)" for r'
    unfolding long(8) using long(5,6) by (intro get_uint_append) auto
  ultimately have "read_var_octet_string_length cfg ((c # take k r) @ r') = Ok (n, r')" for r'
    using long(2,4,5,6) n
    by (auto simp: read_var_octet_string_length_def get_u8_def Let_def usize_try_from_def
        unat_of_nat_u64 simp flip: long(3))
  then show ?thesis using long(1,7) by (intro exI [of _ "c # take k r"]) auto
qed

lemma read_var_octet_string_delimits:
  assumes "read_var_octet_string cfg bs = Ok (buf, rest)"
  shows "\<exists>pre. bs = pre @ buf @ rest \<and>
    (\<forall>buf' r. length buf' = length buf \<longrightarrow>
       read_var_octet_string cfg (pre @ buf' @ r) = Ok (buf', r))"
proof -
  from assms obtain n r where "read_var_octet_string_length cfg bs = Ok (n, r)"
    and n: "n \<le> length r" "buf = take n r" "rest = drop n r"
    by (auto simp: read_var_octet_string_def ok_simps split: if_splits)
  with read_length_delimits obtain pre where "bs = pre @ r"
    and "\<And>r. read_var_octet_string_length cfg (pre @ r) = Ok (n, r)" by blast
  then show ?thesis
    using n by (intro exI [of _ pre]) (auto simp: read_var_octet_string_def)
qed

lemma read_var_uint_delimits:
  assumes "read_var_uint cfg bs = Ok (v, rest)"
  shows "\<exists>pre. bs = pre @ rest \<and> (\<forall>r. read_var_uint cfg (pre @ r) = Ok (v, r))"
proof -
  from assms obtain n r where "read_var_octet_string_length cfg bs = Ok (n, r)"
    and n: "n \<noteq> 0" "n \<le> 8" "n \<le> length r" "rest = drop n r" "v = of_nat (be_decode (take n r))"
    and chk: "check_no_leading_zeroes cfg n v = Ok ()"
    by (auto simp: read_var_uint_def ok_simps get_uint_eq_Ok split: if_splits)
  with read_length_delimits obtain pre where bs: "bs = pre @ r"
    and "\<And>r. read_var_octet_string_length cfg (pre @ r) = Ok (n, r)" by blast
  moreover have "get_uint n (take n r @ r') = (Ok (v, r') :: (_, OerError) result)" for r'
    unfolding n(5) using n(2,3) by (intro get_uint_append) auto
  ultimately have "read_var_uint cfg ((pre @ take n r) @ r') = Ok (v, r')" for r'
    using n(1,2,3) chk by (auto simp: read_var_uint_def)
  then show ?thesis using bs n(4) by (intro exI [of _ "pre @ take n r"]) auto
qed

interpretation len_safe: safe_reader "read_var_octet_string_length cfg" for cfg
  by unfold_locales (rule np_read_length, rule read_length_delimits)

interpretation vos_safe: safe_reader "read_var_octet_string cfg" for cfg
  by unfold_locales
    (rule np_read_var_octet_string, metis append.assoc read_var_octet_string_delimits)

interpretation vuint_safe: safe_reader "read_var_uint cfg" for cfg
  by unfold_locales (rule np_read_var_uint, rule read_var_uint_delimits)

text \<open>A read consumes at least its length byte.\<close>

lemma read_length_shrinks:
  "read_var_octet_string_length cfg bs = Ok (n, rest) \<Longrightarrow> length rest < length bs"
  by (erule read_length_cases) auto

lemma read_var_octet_string_shrinks:
  "read_var_octet_string cfg bs = Ok (buf, rest) \<Longrightarrow> length buf + length rest < length bs"
  by (auto simp: read_var_octet_string_def ok_simps split: if_splits dest!: read_length_shrinks)

lemma read_var_uint_shrinks:
  "read_var_uint cfg bs = Ok (v, rest) \<Longrightarrow> length rest < length bs"
  by (auto simp: read_var_uint_def ok_simps get_uint_eq_Ok split: if_splits
      dest!: read_length_shrinks)

section \<open>The strict encoding is canonical\<close>

lemma byte_exhaustive:
  assumes "list_all (\<lambda>n. P (of_nat n)) [0..<256]"
  shows "P (c :: u8)"
proof -
  have "unat c < 256" using unat_bound [of c] by simp
  with assms have "P (of_nat (unat c))" unfolding list_all_iff by (metis atLeastLessThan_iff le0 set_upt)
  then show ?thesis by simp
qed

lemma high_bit_byte: "c AND HIGH_BIT = 0 \<or> HIGH_BIT OR (c AND LOWER_SEVEN_BITS) = c"
  by (rule byte_exhaustive) code_simp

lemma low_byte: "c AND HIGH_BIT = 0 \<longrightarrow> unat c < 128"
  by (rule byte_exhaustive) code_simp

lemma read_length_canonical:
  assumes "strict cfg" and "read_var_octet_string_length cfg bs = Ok (n, rest)"
  shows "bs = put_var_octet_string_length n @ rest"
  using assms(2)
proof (cases rule: read_length_cases)
  case (short c)
  then show ?thesis using low_byte [of c] by (simp add: put_var_octet_string_length_def)
next
  case (long c r k)
  have k: "k = predict_var_uint_size (of_nat n)" using long assms(1) by blast
  have "n < 256 ^ k" using long be_decode_less [of "take k r"] by simp
  also have "(256 :: nat) ^ k \<le> 256 ^ 8" using long by (intro power_increasing) auto
  finally have n: "unat (of_nat n :: u64) = n" by (simp add: unat_of_nat)
  have "128 \<le> n"
  proof (cases "k = 1")
    case False
    then have "\<not> k \<le> 1" using long(4) by simp
    then have "\<not> unat (of_nat n :: u64) < 256 ^ 1"
      unfolding k by (subst (asm) predict_var_uint_size_le_iff) simp_all
    then show ?thesis unfolding n by simp
  qed (use long(10) in simp)
  moreover have "be_encode k n = take k r"
    unfolding long(8) using long(6) by (intro be_encode_decode) simp
  moreover have "HIGH_BIT OR of_nat k = c"
    unfolding long(3) using long(2) high_bit_byte [of c] by simp
  ultimately have "put_var_octet_string_length n = c # take k r"
    by (simp add: put_var_octet_string_length_def Let_def n flip: k)
  then show ?thesis using long(1,7) by simp
qed

lemma read_var_octet_string_canonical:
  assumes "strict cfg" and "read_var_octet_string cfg bs = Ok (buf, rest)"
  shows "bs = put_var_octet_string buf @ rest"
proof -
  from assms(2) obtain n r where "read_var_octet_string_length cfg bs = Ok (n, r)"
      "n \<le> length r" "buf = take n r" "rest = drop n r"
    by (auto simp: read_var_octet_string_def ok_simps split: if_splits)
  with read_length_canonical [OF assms(1)] show ?thesis
    by (simp add: put_var_octet_string_def)
qed

lemma read_var_uint_canonical:
  assumes "strict cfg" and "read_var_uint cfg bs = Ok (v, rest)"
  shows "bs = put_var_uint v @ rest"
proof -
  from assms obtain n r where len: "read_var_octet_string_length cfg bs = Ok (n, r)"
    and n: "n \<le> length r" "n \<le> 8" and chk: "check_no_leading_zeroes cfg n v = Ok ()"
    and v: "v = of_nat (be_decode (take n r))" and rest: "rest = drop n r"
    by (auto simp: read_var_uint_def ok_simps get_uint_eq_Ok split: if_splits)
  from chk assms(1) have size: "predict_var_uint_size v = n"
    by (simp add: check_no_leading_zeroes_def split: if_splits)
  have "be_decode (take n r) < 256 ^ n" using be_decode_less [of "take n r"] n by simp
  also have "(256 :: nat) ^ n \<le> 256 ^ 8" using n by (intro power_increasing) auto
  finally have "unat v = be_decode (take n r)" using v by (simp add: unat_of_nat)
  then have "be_encode n (unat v) = take n r" using n by (simp add: be_encode_decode)
  with read_length_canonical [OF assms(1) len] show ?thesis
    using rest by (simp add: put_var_uint_def Let_def size)
qed

section \<open>Extraction from an owned buffer\<close>

lemma extract_var_octet_string_eq:
  "extract_var_octet_string cfg buffer = map_ok fst (read_var_octet_string cfg buffer)"
proof (cases "read_var_octet_string_length cfg buffer")
  case (Ok p)
  obtain n r where p: "p = (n, r)" by (cases p)
  with Ok read_length_delimits obtain pre where "buffer = pre @ r" by blast
  with Ok p show ?thesis
    by (simp add: extract_var_octet_string_def read_var_octet_string_def split_at_def Let_def)
qed (simp_all add: extract_var_octet_string_def read_var_octet_string_def)

lemma peek_var_octet_string_eq:
  "peek_var_octet_string cfg bs = map_ok fst (read_var_octet_string cfg bs)"
proof (cases "read_var_octet_string_length cfg bs")
  case (Ok p)
  obtain n r where p: "p = (n, r)" by (cases p)
  with Ok read_length_delimits obtain pre where "bs = pre @ r" by blast
  with Ok p show ?thesis
    by (simp add: peek_var_octet_string_def read_var_octet_string_def Let_def)
qed (simp_all add: peek_var_octet_string_def read_var_octet_string_def)

lemma skip_var_octet_string_eq:
  "skip_var_octet_string cfg bs = map_ok (\<lambda>(_, r). ((), r)) (read_var_octet_string cfg bs)"
  by (cases "read_var_octet_string_length cfg bs")
    (auto simp: skip_var_octet_string_def read_var_octet_string_def skip_def split: prod.split)

section \<open>Variable-length timestamps\<close>

text \<open>
  Decimal formatting as in \<^verbatim>\<open>write!(f, "{:0w}", n)\<close>. The calendar functions are those of the
  \<^verbatim>\<open>chrono\<close> crate and are parameters: \<open>format_secs\<close> is \<^verbatim>\<open>format("%Y%m%d%H%M%S")\<close>, \<open>nanosecond\<close>
  is \<^verbatim>\<open>time().nanosecond()\<close> and \<open>datetime_from_str\<close> is \<^verbatim>\<open>Utc.datetime_from_str\<close> at
  \<^verbatim>\<open>VARIABLE_LENGTH_TIMESTAMP_FORMAT\<close>.
\<close>

fun dec_digits :: "nat \<Rightarrow> bytes" where
  "dec_digits n = (if n < 10 then [of_nat (48 + n)]
                   else dec_digits (n div 10) @ [of_nat (48 + n mod 10)])"

declare dec_digits.simps [simp del]

definition fmt_dec :: "nat \<Rightarrow> nat \<Rightarrow> bytes" where
  "fmt_dec w n = (let ds = dec_digits n in replicate (w - length ds) 48 @ ds)"

definition is_digit :: "u8 \<Rightarrow> bool" where
  "is_digit c \<longleftrightarrow> 48 \<le> c \<and> c \<le> 57"

record 'd VariableLengthTimestamp =
  vts_inner :: 'd
  vts_len :: u8

definition parse_from_rfc3339 ::
  "(bytes \<Rightarrow> ('d, 'e) result) \<Rightarrow> bytes \<Rightarrow> ('d VariableLengthTimestamp, 'e) result" where
  "parse_from_rfc3339 rfc3339 s = map_ok (\<lambda>d. \<lparr>vts_inner = d, vts_len = 19\<rparr>) (rfc3339 s)"

definition fmt_timestamp ::
  "('d \<Rightarrow> bytes) \<Rightarrow> ('d \<Rightarrow> nat) \<Rightarrow> 'd VariableLengthTimestamp \<Rightarrow> (bytes, OerError) result" where
  "fmt_timestamp format_secs nanosecond vts =
     (let secs = format_secs (vts_inner vts);
          nanos = nanosecond (vts_inner vts) mod 1000000000
      in map_ok (\<lambda>frac. secs @ frac @ bstr ''Z'')
           (if vts_len vts = 15 then Ok []
            else if vts_len vts = 17 then Ok (bstr ''.'' @ fmt_dec 1 (nanos div 100000000))
            else if vts_len vts = 18 then Ok (bstr ''.'' @ fmt_dec 2 (nanos div 10000000))
            else if vts_len vts = 19 then Ok (bstr ''.'' @ fmt_dec 3 (nanos div 1000000))
            else Panic))"

text \<open>The regular expression \<^verbatim>\<open>^[0-9]{4}[0-9]{2}{5}(\.[0-9]{1,3})?Z$\<close>.\<close>

definition timestamp_re :: "bytes \<Rightarrow> bool" where
  "timestamp_re s \<longleftrightarrow>
     14 \<le> length s \<and> list_all is_digit (take 14 s) \<and>
     (drop 14 s = bstr ''Z'' \<or>
      (let frac = butlast (drop 15 s) in
       take 1 (drop 14 s) = bstr ''.'' \<and> 1 \<le> length frac \<and> length frac \<le> 3 \<and>
       list_all is_digit frac \<and> drop 15 s = frac @ bstr ''Z''))"

definition read_variable_length_timestamp ::
  "features \<Rightarrow> (bytes \<Rightarrow> 'd option) \<Rightarrow> bytes \<Rightarrow>
   ('d VariableLengthTimestamp \<times> bytes, OerError) result" where
  "read_variable_length_timestamp cfg datetime_from_str bs =
     and_then (read_var_octet_string cfg bs) (\<lambda>(octets, rest).
     and_then (if length octets \<in> {15, 17, 18, 19} then Ok (of_nat (length octets))
               else Err (VariableLengthTimestamp (InvalidLength (length octets)))) (\<lambda>l.
     if \<not> timestamp_re octets then Err (VariableLengthTimestamp InvalidTimestamp)
     else if \<not> utf8_valid octets then Panic
     else case datetime_from_str octets of
         None \<Rightarrow> Err (VariableLengthTimestamp InvalidTimestamp)
       | Some ts \<Rightarrow> Ok (\<lparr>vts_inner = ts, vts_len = l\<rparr>, rest)))"

definition put_variable_length_timestamp ::
  "('d \<Rightarrow> bytes) \<Rightarrow> ('d \<Rightarrow> nat) \<Rightarrow> 'd VariableLengthTimestamp \<Rightarrow> (bytes, OerError) result" where
  "put_variable_length_timestamp format_secs nanosecond vts =
     map_ok (\<lambda>s. put_var_octet_string_length (unat (vts_len vts)) @ s)
       (fmt_timestamp format_secs nanosecond vts)"

lemma is_digit_ascii: "is_digit c \<Longrightarrow> c < 0x80"
  by (simp add: is_digit_def word_le_nat_alt word_less_nat_alt)

lemma digits_utf8: "list_all is_digit cs \<Longrightarrow> list_all (\<lambda>c. c < 0x80) cs"
  by (auto simp: list_all_iff is_digit_ascii)

lemma timestamp_re_utf8: "timestamp_re s \<Longrightarrow> utf8_valid s"
proof (rule ascii_utf8_valid)
  assume re: "timestamp_re s"
  then have "list_all is_digit (take 14 s)" by (simp add: timestamp_re_def)
  then have "list_all (\<lambda>c. c < 0x80) (take 14 s)" by (rule digits_utf8)
  moreover have "list_all (\<lambda>c. c < 0x80) (drop 14 s)"
  proof -
    from re consider "drop 14 s = bstr ''Z''"
      | frac where "take 1 (drop 14 s) = bstr ''.''" "list_all is_digit frac"
          "drop 1 (drop 14 s) = frac @ bstr ''Z''"
      by (auto simp: timestamp_re_def Let_def)
    then show ?thesis
    proof cases
      case 2
      then have "drop 14 s = bstr ''.'' @ frac @ bstr ''Z''"
        by (metis append_take_drop_id)
      with 2(2) show ?thesis by (simp add: bstr_def digits_utf8)
    qed (simp add: bstr_def)
  qed
  ultimately have "list_all (\<lambda>c. c < 0x80) (take 14 s @ drop 14 s)" by (simp only: list_all_append)
  then show "list_all (\<lambda>c. c < 0x80) s" by simp
qed

lemma np_read_variable_length_timestamp [np_intros]:
  "read_variable_length_timestamp cfg p bs \<noteq> Panic"
  unfolding read_variable_length_timestamp_def
  by (intro np_intros) (auto dest: timestamp_re_utf8)

lemma read_variable_length_timestamp_delimits:
  assumes "read_variable_length_timestamp cfg p bs = Ok (t, rest)"
  shows "\<exists>pre. bs = pre @ rest \<and>
    (\<forall>r. read_variable_length_timestamp cfg p (pre @ r) = Ok (t, r))"
proof -
  from assms obtain octets where o: "read_var_octet_string cfg bs = Ok (octets, rest)"
    by (auto simp: read_variable_length_timestamp_def ok_simps split: if_splits option.splits)
  from vos_safe.delimits [OF o] obtain pre where "bs = pre @ rest"
    and pre: "\<And>r. read_var_octet_string cfg (pre @ r) = Ok (octets, r)" by blast
  moreover have "read_variable_length_timestamp cfg p (pre @ r) = Ok (t, r)" for r
    using assms unfolding read_variable_length_timestamp_def o pre
    by (auto simp: ok_simps split: if_splits option.splits)
  ultimately show ?thesis by blast
qed

interpretation vts_safe: safe_reader "read_variable_length_timestamp cfg p" for cfg p
  by unfold_locales
    (rule np_read_variable_length_timestamp, rule read_variable_length_timestamp_delimits)

lemma dec_digits_digit: "list_all is_digit (dec_digits n)"
proof (induction n rule: dec_digits.induct)
  case (1 n)
  have "is_digit (of_nat (48 + k))" if "k < 10" for k
    using that by (simp add: is_digit_def word_le_nat_alt del: of_nat_add)
  with 1 show ?case by (subst dec_digits.simps) (simp del: of_nat_add)
qed

lemma dec_digits_length: "0 < w \<Longrightarrow> n < 10 ^ w \<Longrightarrow> length (dec_digits n) \<le> w"
proof (induction n arbitrary: w rule: dec_digits.induct)
  case (1 n)
  show ?case
  proof (cases "n < 10")
    case False
    obtain v where w: "w = Suc v" using 1(2) by (cases w) auto
    moreover have "v \<noteq> 0" using 1(3) False w by (intro notI) simp
    ultimately have w: "w = Suc v" "0 < v" by simp_all
    then have "n div 10 < 10 ^ v" using 1(3) by auto
    with 1(1) w False show ?thesis by (subst dec_digits.simps) simp
  qed (use 1 in \<open>subst dec_digits.simps, simp\<close>)
qed

lemma fmt_dec_shape:
  assumes "0 < w" "n < 10 ^ w"
  shows "length (fmt_dec w n) = w" and "list_all is_digit (fmt_dec w n)"
  using dec_digits_length [OF assms] dec_digits_digit [of n]
  by (auto simp: fmt_dec_def Let_def list_all_iff is_digit_def)

text \<open>
  What the code relies on in \<^verbatim>\<open>chrono\<close>: on dates whose \<^verbatim>\<open>%Y\<close> has four digits the date part is
  fourteen digits, and parsing a formatted date followed by its exact fraction of a second gives
  the date back.
\<close>

definition chrono_varlen ::
  "(bytes \<Rightarrow> 'd option) \<Rightarrow> ('d \<Rightarrow> bytes) \<Rightarrow> ('d \<Rightarrow> nat) \<Rightarrow> bool" where
  "chrono_varlen datetime_from_str format_secs nanosecond \<longleftrightarrow>
     (\<forall>d. length (format_secs d) = 14 \<longrightarrow>
        list_all is_digit (format_secs d) \<and>
        (nanosecond d = 0 \<longrightarrow> datetime_from_str (format_secs d @ bstr ''Z'') = Some d) \<and>
        (\<forall>k \<in> {1, 2, 3}. \<forall>m < 10 ^ k. nanosecond d = m * 10 ^ (9 - k) \<longrightarrow>
           datetime_from_str (format_secs d @ bstr ''.'' @ fmt_dec k m @ bstr ''Z'') = Some d))"

text \<open>A timestamp whose length field leaves room for its fraction.\<close>

definition timestamp_wf :: "('d \<Rightarrow> bytes) \<Rightarrow> ('d \<Rightarrow> nat) \<Rightarrow> 'd VariableLengthTimestamp \<Rightarrow> bool" where
  "timestamp_wf format_secs nanosecond vts \<longleftrightarrow>
     length (format_secs (vts_inner vts)) = 14 \<and> nanosecond (vts_inner vts) < 10 ^ 9 \<and>
     (vts_len vts = 15 \<and> nanosecond (vts_inner vts) = 0 \<or>
      vts_len vts = 17 \<and> 10 ^ 8 dvd nanosecond (vts_inner vts) \<or>
      vts_len vts = 18 \<and> 10 ^ 7 dvd nanosecond (vts_inner vts) \<or>
      vts_len vts = 19 \<and> 10 ^ 6 dvd nanosecond (vts_inner vts))"

lemma timestamp_re_frac:
  assumes "length secs = 14" "list_all is_digit secs" "0 < w" "w \<le> 3" "n < 10 ^ w"
  shows "timestamp_re (secs @ bstr ''.'' @ fmt_dec w n @ bstr ''Z'')"
  using assms fmt_dec_shape [OF assms(3,5)]
  by (simp add: timestamp_re_def Let_def bstr_def butlast_append)

lemma timestamp_wf_cases:
  assumes "timestamp_wf fmt nanos vts"
  obtains (w) "vts_len vts = 15" "nanos (vts_inner vts) = 0"
  | (f) k where "k \<in> {1, 2, 3}" "vts_len vts = of_nat (16 + k)"
      "10 ^ (9 - k) dvd nanos (vts_inner vts)"
proof -
  from assms consider "vts_len vts = 15" "nanos (vts_inner vts) = 0"
    | "vts_len vts = 17" "10 ^ 8 dvd nanos (vts_inner vts)"
    | "vts_len vts = 18" "10 ^ 7 dvd nanos (vts_inner vts)"
    | "vts_len vts = 19" "10 ^ 6 dvd nanos (vts_inner vts)"
    by (auto simp: timestamp_wf_def)
  then show thesis
    by cases (use w f [of 1] f [of 2] f [of 3] in simp_all)
qed

lemma fmt_timestamp_frac:
  assumes "k \<in> {1, 2, 3}" "vts_len vts = of_nat (16 + k)"
  shows "fmt_timestamp fmt nanos vts =
    Ok (fmt (vts_inner vts) @ bstr ''.'' @
        fmt_dec k (nanos (vts_inner vts) mod 1000000000 div 10 ^ (9 - k)) @ bstr ''Z'')"
proof -
  from assms consider "k = 1" "vts_len vts = 17" | "k = 2" "vts_len vts = 18"
    | "k = 3" "vts_len vts = 19" by auto
  then show ?thesis by cases (simp_all add: fmt_timestamp_def)
qed

lemma fmt_timestamp_wf:
  assumes "chrono_varlen p fmt nanos" and "timestamp_wf fmt nanos vts"
  obtains s where "fmt_timestamp fmt nanos vts = Ok s" "length s = unat (vts_len vts)"
    "unat (vts_len vts) \<in> {15, 17, 18, 19}" "timestamp_re s" "p s = Some (vts_inner vts)"
proof -
  let ?d = "vts_inner vts"
  have d: "length (fmt ?d) = 14" "list_all is_digit (fmt ?d)" "nanos ?d < 10 ^ 9"
    and p0: "nanos ?d = 0 \<Longrightarrow> p (fmt ?d @ bstr ''Z'') = Some ?d"
    and pk: "\<And>k m. k \<in> {1, 2, 3} \<Longrightarrow> m < 10 ^ k \<Longrightarrow> nanos ?d = m * 10 ^ (9 - k) \<Longrightarrow>
           p (fmt ?d @ bstr ''.'' @ fmt_dec k m @ bstr ''Z'') = Some ?d"
    using assms by (auto simp: chrono_varlen_def timestamp_wf_def)
  from assms(2) consider (whole) "vts_len vts = 15" "nanos ?d = 0"
    | (frac) k m where "k \<in> {1, 2, 3}" "vts_len vts = of_nat (16 + k)" "nanos ?d = m * 10 ^ (9 - k)"
  proof (cases rule: timestamp_wf_cases)
    case w then show ?thesis using whole by blast
  next
    case (f k) then show ?thesis using frac [of k "nanos ?d div 10 ^ (9 - k)"] by simp
  qed
  then show thesis
  proof cases
    case whole
    then show thesis
      using d p0 by (intro that [of "fmt ?d @ bstr ''Z''"])
        (simp_all add: fmt_timestamp_def timestamp_re_def bstr_def)
  next
    case frac
    have "(10 :: nat) ^ k * 10 ^ (9 - k) = 10 ^ 9"
      using frac(1) by (auto simp flip: power_add)
    with d(3) frac(3) have "m * 10 ^ (9 - k) < 10 ^ k * 10 ^ (9 - k)" by simp
    then have m: "m < 10 ^ k" by simp
    have div: "nanos ?d mod 1000000000 div 10 ^ (9 - k) = m"
      using d(3) unfolding frac(3) by simp
    have k: "0 < k" "k \<le> 3" "unat (vts_len vts) = 16 + k" using frac(1,2) by auto
    show thesis
    proof (rule that [of "fmt ?d @ bstr ''.'' @ fmt_dec k m @ bstr ''Z''"])
      show "fmt_timestamp fmt nanos vts = Ok (fmt ?d @ bstr ''.'' @ fmt_dec k m @ bstr ''Z'')"
        by (simp only: fmt_timestamp_frac [OF frac(1,2)] div)
      show "length (fmt ?d @ bstr ''.'' @ fmt_dec k m @ bstr ''Z'') = unat (vts_len vts)"
        using k d(1) fmt_dec_shape [OF k(1) m] by (simp add: bstr_def)
      show "unat (vts_len vts) \<in> {15, 17, 18, 19}" using frac(1) k(3) by auto
      show "timestamp_re (fmt ?d @ bstr ''.'' @ fmt_dec k m @ bstr ''Z'')"
        by (rule timestamp_re_frac [OF d(1,2) k(1,2) m])
      show "p (fmt ?d @ bstr ''.'' @ fmt_dec k m @ bstr ''Z'') = Some ?d"
        by (rule pk [OF frac(1) m frac(3)])
    qed
  qed
qed

lemma read_put_timestamp:
  assumes "chrono_varlen p fmt nanos" and "timestamp_wf fmt nanos vts"
  shows "\<exists>bs. put_variable_length_timestamp fmt nanos vts = Ok bs \<and>
           (\<forall>rest. read_variable_length_timestamp cfg p (bs @ rest) = Ok (vts, rest))"
proof -
  from assms obtain s where s: "fmt_timestamp fmt nanos vts = Ok s" "length s = unat (vts_len vts)"
    "unat (vts_len vts) \<in> {15, 17, 18, 19}" "timestamp_re s" "p s = Some (vts_inner vts)"
    by (rule fmt_timestamp_wf)
  then have "put_variable_length_timestamp fmt nanos vts = Ok (put_var_octet_string s)"
    by (simp add: put_variable_length_timestamp_def put_var_octet_string_def)
  moreover have "read_variable_length_timestamp cfg p (put_var_octet_string s @ rest) =
      Ok (\<lparr>vts_inner = vts_inner vts, vts_len = of_nat (length s)\<rparr>, rest)" for rest
    using s timestamp_re_utf8 [OF s(4)]
    by (subst read_variable_length_timestamp_def, subst read_put_var_octet_string) auto
  ultimately show ?thesis using s(2) by simp
qed

section \<open>Properties\<close>

text \<open>
  C18. With the \<^verbatim>\<open>strict\<close> feature the encodings are canonical: a reader accepts a buffer exactly when
  it starts with the bytes the writer produces for the value that is read. This covers
  variable-length octet strings and variable-length unsigned integers.
\<close>

theorem strict_reads_are_writes:
  assumes "strict cfg"
  shows "(read_var_uint cfg bs = Ok (v, rest) \<longleftrightarrow> bs = put_var_uint v @ rest) \<and>
    (length buf < 2 ^ 64 \<longrightarrow>
      (read_var_octet_string cfg bs = Ok (buf, rest) \<longleftrightarrow> bs = put_var_octet_string buf @ rest))"
  using read_var_uint_canonical [OF assms] read_var_octet_string_canonical [OF assms]
    read_put_var_uint read_put_var_octet_string by blast

theorem strict_reads_are_writes_witness:
  "strict strict_features \<and> read_var_uint strict_features [2, 1, 0, 9] = Ok (256, [9]) \<and>
   [2, 1, 0, 9] = put_var_uint 256 @ [9]"
proof -
  have st: "strict strict_features" by (simp add: strict_features_def)
  moreover have "[2, 1, 0, 9] = put_var_uint 256 @ [9]" by code_simp
  ultimately show ?thesis using strict_reads_are_writes [of strict_features "[2, 1, 0, 9]" 256 "[9]"]
    by blast
qed

text \<open>
  \<^verbatim>\<open>predict_var_uint_size\<close> is the least number of bytes, between one and eight, in which the value
  fits, and \<^verbatim>\<open>predict_var_octet_string\<close> is exactly the number of bytes \<^verbatim>\<open>put_var_octet_string\<close> writes.
\<close>

lemma predicted_sizes_are_exact:
  "1 \<le> predict_var_uint_size v \<and> predict_var_uint_size v \<le> 8 \<and>
   unat v < 256 ^ predict_var_uint_size v \<and>
   (1 < predict_var_uint_size v \<longrightarrow> 256 ^ (predict_var_uint_size v - 1) \<le> unat v) \<and>
   predict_var_octet_string (length buf) = length (put_var_octet_string buf)"
proof -
  have "256 ^ (predict_var_uint_size v - 1) \<le> unat v" if "1 < predict_var_uint_size v"
    using predict_var_uint_size_le_iff [of "predict_var_uint_size v - 1" v] that
    by (intro leI) auto
  then show ?thesis
    using predict_var_uint_size_pos [of v]
    by (simp add: predict_var_uint_size_le_8 predict_fits predict_var_octet_string_correct Suc_le_eq)
qed

lemma predicted_sizes_are_exact_example:
  "1 < predict_var_uint_size 256 \<and> 256 ^ (predict_var_uint_size 256 - 1) \<le> unat (256 :: u64)"
proof -
  have "predict_var_uint_size 256 = 2" by code_simp
  then show ?thesis using predicted_sizes_are_exact [of 256 "[]"] by simp
qed

text \<open>
  A variable-length timestamp is read back as it was written, its length field included,
  whenever the length leaves room for its fraction of a second.
\<close>

theorem timestamp_roundtrip:
  assumes "chrono_varlen datetime_from_str format_secs nanosecond"
    and "timestamp_wf format_secs nanosecond vts"
  shows "\<exists>bs. put_variable_length_timestamp format_secs nanosecond vts = Ok bs \<and>
    (\<forall>rest. read_variable_length_timestamp cfg datetime_from_str (bs @ rest) = Ok (vts, rest))"
  using assms by (rule read_put_timestamp)

text \<open>
  For the example a date is its fourteen digits and its nanoseconds, parsed by splitting at the
  fraction.
\<close>

definition dec_value :: "bytes \<Rightarrow> nat" where
  "dec_value ds = foldl (\<lambda>n c. n * 10 + (unat c - 48)) 0 ds"

definition example_parse :: "bytes \<Rightarrow> (bytes \<times> nat) option" where
  "example_parse s =
     (let frac = butlast (drop 15 s)
      in Some (take 14 s, dec_value frac * 10 ^ (9 - length frac)))"

lemma dec_value_snoc: "dec_value (ds @ [c]) = dec_value ds * 10 + (unat c - 48)"
  by (simp add: dec_value_def)

lemma dec_value_digits: "dec_value (dec_digits n) = n"
proof (induction n rule: dec_digits.induct)
  case (1 n)
  have "unat (of_nat (48 + k) :: u8) = 48 + k" if "k < 10" for k :: nat
    using that by (simp add: unat_of_nat del: of_nat_add)
  then show ?case
    using 1 dec_value_snoc [of "[]"]
    by (subst dec_digits.simps) (auto simp: dec_value_snoc dec_value_def [of "[]"] simp del: of_nat_add)
qed

lemma dec_value_zeros: "dec_value (replicate k 48 @ ds) = dec_value ds"
  by (induction k) (simp_all add: dec_value_def)

lemma dec_value_fmt: "dec_value (fmt_dec w m) = m"
  by (simp add: fmt_dec_def Let_def dec_value_zeros dec_value_digits)

lemma example_chrono:
  "chrono_varlen example_parse
     (\<lambda>d. if list_all is_digit (fst d) then fst d else []) snd"
proof -
  have "example_parse (s @ bstr ''.'' @ fmt_dec k m @ bstr ''Z'') = Some (s, m * 10 ^ (9 - k))"
    if "length s = 14" "0 < k" "m < 10 ^ k" for s k m
    using that fmt_dec_shape(1) [of k m]
    by (simp add: example_parse_def bstr_def dec_value_fmt)
  moreover have "example_parse (s @ bstr ''Z'') = Some (s, 0)" if "length s = 14" for s
    using that by (simp add: example_parse_def bstr_def dec_value_def)
  ultimately show ?thesis
    unfolding chrono_varlen_def by (auto split: if_splits)
qed

theorem timestamp_roundtrip_witness:
  "\<exists>bs. put_variable_length_timestamp (\<lambda>d. if list_all is_digit (fst d) then fst d else []) snd
        \<lparr>vts_inner = (bstr ''20210102030405'', 120000000), vts_len = 18\<rparr> = Ok bs \<and>
    read_variable_length_timestamp strict_features example_parse (bs @ [1]) =
      Ok (\<lparr>vts_inner = (bstr ''20210102030405'', 120000000), vts_len = 18\<rparr>, [1])"
proof -
  have "list_all is_digit (bstr ''20210102030405'')" by code_simp
  then have "timestamp_wf (\<lambda>d. if list_all is_digit (fst d) then fst d else []) snd
      \<lparr>vts_inner = (bstr ''20210102030405'', 120000000), vts_len = 18\<rparr>"
    by (simp add: timestamp_wf_def) (simp add: bstr_def)
  from timestamp_roundtrip [OF example_chrono this, of strict_features] show ?thesis by blast
qed

end
