(* ===== verification/Address.thy ===== *)
theory Address
  imports Oer
begin

text \<open>
  ILP addresses, \<^verbatim>\<open>crates/interledger-packet/src/address.rs\<close>: validation against the regular
  expression of the source, segments, scheme and suffixing. The lemmas show that validation is
  exactly the length bound together with the grammar of schemes and non-empty segments, that
  every accepted address is ASCII (which the unchecked UTF-8 conversions of the source rely on), and
  how suffixing acts on segments.
\<close>

section \<open>Model\<close>

definition MAX_ADDRESS_LENGTH :: nat where
  "MAX_ADDRESS_LENGTH = 1023"

datatype AddressError = InvalidLength nat | InvalidFormat

text \<open>
  The regular expression
  \<^verbatim>\<open>^(g|private|example|peer|self|test[1-3]?|local)([.][a-zA-Z0-9_~-]+)+$\<close>.
\<close>

definition schemes :: "bytes list" where
  "schemes = map bstr
     [''g'', ''private'', ''example'', ''peer'', ''self'', ''test'', ''test1'', ''test2'', ''test3'',
      ''local'']"

definition dot :: u8 where "dot = of_char (CHR ''.'')"

definition segment_char :: "u8 \<Rightarrow> bool" where
  "segment_char c \<longleftrightarrow>
     of_char (CHR ''a'') \<le> c \<and> c \<le> of_char (CHR ''z'') \<or>
     of_char (CHR ''A'') \<le> c \<and> c \<le> of_char (CHR ''Z'') \<or>
     of_char (CHR ''0'') \<le> c \<and> c \<le> of_char (CHR ''9'') \<or>
     c = of_char (CHR ''_'') \<or> c = of_char (CHR ''~'') \<or> c = of_char (CHR ''-'')"

text \<open>\<^verbatim>\<open>([.][a-zA-Z0-9_~-]+)+$\<close>\<close>

function (sequential) segments_match :: "bytes \<Rightarrow> bool" where
  "segments_match [] = False"
| "segments_match (c # cs) =
     (c = dot \<and>
      (let run = takeWhile segment_char cs; rest = dropWhile segment_char cs
       in run \<noteq> [] \<and> (rest = [] \<or> segments_match rest)))"
  by pat_completeness auto
termination
  by (relation "measure length") (auto intro: le_imp_less_Suc length_dropWhile_le)

definition ADDRESS_PATTERN :: "bytes \<Rightarrow> bool" where
  "ADDRESS_PATTERN s \<longleftrightarrow>
     list_ex (\<lambda>sch. take (length sch) s = sch \<and> segments_match (drop (length sch) s)) schemes"

datatype Address = Address (addr_bytes: bytes)

text \<open>
  A \<^verbatim>\<open>Buf\<close> is a chain of slices; \<open>chunk\<close> is the first one that is not empty. Converting copies
  a chained buffer before matching.
\<close>

definition chunk :: "bytes list \<Rightarrow> bytes" where
  "chunk buf = (case filter (\<lambda>c. c \<noteq> []) buf of [] \<Rightarrow> [] | c # _ \<Rightarrow> c)"

definition try_from_buf :: "bytes list \<Rightarrow> (Address, AddressError) result" where
  "try_from_buf buf =
     (let remaining = length (concat buf) in
      if remaining > MAX_ADDRESS_LENGTH then Err (InvalidLength remaining)
      else let (copied, matches) =
             (if length (chunk buf) = remaining then (None, ADDRESS_PATTERN (chunk buf))
              else (let copied = concat buf in (Some copied, ADDRESS_PATTERN copied)))
           in if matches
              then Ok (Address (case copied of Some bs \<Rightarrow> bs | None \<Rightarrow> concat buf))
              else Err InvalidFormat)"

definition address_try_from :: "bytes \<Rightarrow> (Address, AddressError) result" where
  "address_try_from bs = try_from_buf [bs]"

definition ADDRESS_MIN_LEN :: nat where
  "ADDRESS_MIN_LEN = predict_var_octet_string (length (bstr ''g.1''))"

definition address_len :: "Address \<Rightarrow> nat" where
  "address_len a = length (addr_bytes a)"

text \<open>\<^verbatim>\<open>slice::split\<close> at every separator.\<close>

fun split_on :: "u8 \<Rightarrow> bytes \<Rightarrow> bytes list" where
  "split_on d [] = [[]]"
| "split_on d (c # cs) =
     (if c = d then [] # split_on d cs
      else case split_on d cs of [] \<Rightarrow> [[c]] | x # xs \<Rightarrow> (c # x) # xs)"

definition segments :: "Address \<Rightarrow> bytes list" where
  "segments a = split_on dot (addr_bytes a)"

definition scheme :: "Address \<Rightarrow> (bytes, 'e) result" where
  "scheme a = (case segments a of [] \<Rightarrow> Panic | s # _ \<Rightarrow> Ok s)"

definition with_suffix :: "Address \<Rightarrow> bytes \<Rightarrow> (Address, AddressError) result" where
  "with_suffix a suffix = address_try_from (addr_bytes a @ [dot] @ suffix)"

text \<open>The values the type can hold: those that passed validation.\<close>

definition address_wf :: "Address \<Rightarrow> bool" where
  "address_wf a \<longleftrightarrow> length (addr_bytes a) \<le> MAX_ADDRESS_LENGTH \<and> ADDRESS_PATTERN (addr_bytes a)"

section \<open>Validation\<close>

lemma chunk_concat: "length (chunk buf) = length (concat buf) \<Longrightarrow> chunk buf = concat buf"
proof -
  have eq: "concat buf = concat (filter (\<lambda>c. c \<noteq> []) buf)" by (induction buf) auto
  assume "length (chunk buf) = length (concat buf)"
  then show ?thesis
    unfolding eq chunk_def by (cases "filter (\<lambda>c. c \<noteq> []) buf") auto
qed

lemma try_from_buf_eq:
  "try_from_buf buf =
     (if length (concat buf) > MAX_ADDRESS_LENGTH then Err (InvalidLength (length (concat buf)))
      else if ADDRESS_PATTERN (concat buf) then Ok (Address (concat buf)) else Err InvalidFormat)"
proof (cases "length (chunk buf) = length (concat buf)")
  case True
  then show ?thesis using chunk_concat [OF True] by (simp add: try_from_buf_def)
qed (simp add: try_from_buf_def Let_def)

lemma address_try_from_eq:
  "address_try_from bs =
     (if length bs > MAX_ADDRESS_LENGTH then Err (InvalidLength (length bs))
      else if ADDRESS_PATTERN bs then Ok (Address bs) else Err InvalidFormat)"
  by (simp add: address_try_from_def try_from_buf_eq)

lemma address_try_from_Ok:
  "address_try_from bs = Ok a \<longleftrightarrow> a = Address bs \<and> address_wf a"
  by (auto simp: address_try_from_eq address_wf_def)

lemma address_try_from_bytes [codec_simps]:
  "address_wf a \<Longrightarrow> address_try_from (addr_bytes a) = Ok a"
  by (simp add: address_try_from_Ok)

lemma np_address_try_from [np_intros]: "address_try_from bs \<noteq> Panic"
  by (simp add: address_try_from_eq)

section \<open>The grammar through segments\<close>

fun join_on :: "u8 \<Rightarrow> bytes list \<Rightarrow> bytes" where
  "join_on d [] = []"
| "join_on d [x] = x"
| "join_on d (x # y # zs) = x @ d # join_on d (y # zs)"

lemma split_on_nonempty [simp]: "split_on d s \<noteq> []"
  by (induction s) (auto split: list.split)

lemma join_split: "join_on d (split_on d s) = s"
proof (induction s)
  case (Cons c cs)
  then show ?case by (cases "split_on d cs") (auto, (cases "tl (split_on d cs)"; simp)+)
qed simp

lemma split_on_append_sep: "split_on d (s @ d # t) = split_on d s @ split_on d t"
  by (induction s) (auto split: list.split)

lemma split_on_no_sep: "d \<notin> set s \<Longrightarrow> split_on d s = [s]"
  by (induction s) auto

definition segment_ok :: "bytes \<Rightarrow> bool" where
  "segment_ok s \<longleftrightarrow> s \<noteq> [] \<and> list_all segment_char s"

lemma dot_not_segment_char [simp]: "\<not> segment_char dot"
  by (simp add: segment_char_def dot_def word_le_nat_alt)

lemma split_ok_chars:
  "list_all segment_ok (split_on dot t) \<Longrightarrow> list_all (\<lambda>c. segment_char c \<or> c = dot) t"
proof -
  have "list_all (list_all segment_char) (split_on dot t) \<Longrightarrow>
        list_all (\<lambda>c. segment_char c \<or> c = dot) t"
    by (induction t) (auto split: if_splits list.splits)
  then show "list_all segment_ok (split_on dot t) \<Longrightarrow> ?thesis"
    by (auto simp: segment_ok_def list_all_iff)
qed

lemma segments_match_iff:
  "segments_match s \<longleftrightarrow> (\<exists>t. s = dot # t \<and> list_all segment_ok (split_on dot t))"
proof (induction s rule: segments_match.induct)
  case (2 c cs)
  let ?run = "takeWhile segment_char cs" and ?rest = "dropWhile segment_char cs"
  have cs: "cs = ?run @ ?rest" by simp
  have run: "list_all segment_char ?run" by (auto simp: list_all_iff dest: set_takeWhileD)
  then have nodot: "dot \<notin> set ?run" by (auto simp: list_all_iff)
  show ?case
  proof (cases ?rest)
    case Nil
    then have r: "?run = cs" using cs by simp
    have "split_on dot cs = [cs]" using nodot unfolding r by (rule split_on_no_sep)
    then show ?thesis using Nil run unfolding r by (simp add: r segment_ok_def)
  next
    case (Cons x xs)
    then have x: "\<not> segment_char x" by (simp add: dropWhile_eq_Cons_conv)
    have "list_all segment_ok (split_on dot cs) \<longleftrightarrow>
          ?run \<noteq> [] \<and> x = dot \<and> list_all segment_ok (split_on dot xs)"
    proof (cases "x = dot")
      case True
      have "split_on dot (?run @ dot # xs) = ?run # split_on dot xs"
        by (simp add: split_on_append_sep split_on_no_sep [OF nodot])
      then show ?thesis using cs Cons True run by (simp add: segment_ok_def)
    next
      case False
      with x have "\<not> list_all (\<lambda>c. segment_char c \<or> c = dot) cs"
        by (subst cs) (simp add: Cons)
      with split_ok_chars False show ?thesis by blast
    qed
    with 2 [OF refl refl] Cons show ?thesis by (auto simp: Let_def)
  qed
qed simp

lemma schemes_no_dot: "sch \<in> set schemes \<Longrightarrow> dot \<notin> set sch"
proof -
  have "list_all (\<lambda>s. dot \<notin> set s) schemes" by code_simp
  then show "sch \<in> set schemes \<Longrightarrow> ?thesis" by (simp add: list_all_iff)
qed

text \<open>
  The pattern accepts exactly the strings whose first dot-separated segment is a scheme and that
  have at least one more segment, none of them empty, all of the allowed characters.
\<close>

lemma ADDRESS_PATTERN_iff:
  "ADDRESS_PATTERN s \<longleftrightarrow>
     hd (split_on dot s) \<in> set schemes \<and> tl (split_on dot s) \<noteq> [] \<and>
     list_all segment_ok (tl (split_on dot s))"
proof
  assume "ADDRESS_PATTERN s"
  then obtain sch t where sch: "sch \<in> set schemes" and "take (length sch) s = sch"
      "drop (length sch) s = dot # t" and t: "list_all segment_ok (split_on dot t)"
    by (auto simp: ADDRESS_PATTERN_def list_ex_iff segments_match_iff)
  then have "s = sch @ dot # t" by (metis append_take_drop_id)
  then have "split_on dot s = sch # split_on dot t"
    by (simp add: split_on_append_sep split_on_no_sep [OF schemes_no_dot [OF sch]])
  with sch t show "hd (split_on dot s) \<in> set schemes \<and> tl (split_on dot s) \<noteq> [] \<and>
     list_all segment_ok (tl (split_on dot s))" by simp
next
  assume r: "hd (split_on dot s) \<in> set schemes \<and> tl (split_on dot s) \<noteq> [] \<and>
     list_all segment_ok (tl (split_on dot s))"
  obtain sch y zs where sp: "split_on dot s = sch # y # zs"
    using r by (metis hd_Cons_tl split_on_nonempty)
  let ?t = "join_on dot (y # zs)"
  have s: "s = sch @ dot # ?t" using join_split [of dot s] sp by simp
  then have "split_on dot s = split_on dot sch @ split_on dot ?t"
    by (simp only: split_on_append_sep)
  moreover have "split_on dot sch = [sch]"
    using r sp by (intro split_on_no_sep schemes_no_dot) simp
  ultimately have "split_on dot ?t = y # zs" using sp by simp
  then have "segments_match (dot # ?t)" using r sp by (simp only: segments_match_iff) auto
  then show "ADDRESS_PATTERN s"
    unfolding ADDRESS_PATTERN_def list_ex_iff
    using r sp s by (intro bexI [of _ sch]) auto
qed

lemma segment_char_ascii: "segment_char c \<Longrightarrow> c < 0x80"
proof -
  have "\<not> segment_char c \<or> c < 0x80" by (rule byte_exhaustive) code_simp
  then show "segment_char c \<Longrightarrow> c < 0x80" by blast
qed

lemma schemes_segment_ok: "sch \<in> set schemes \<Longrightarrow> segment_ok sch"
proof -
  have "list_all segment_ok schemes" by code_simp
  then show "sch \<in> set schemes \<Longrightarrow> ?thesis" by (simp add: list_all_iff)
qed

lemma wf_segments:
  assumes "address_wf a"
  shows "list_all segment_ok (segments a)" "hd (segments a) \<in> set schemes"
    "2 \<le> length (segments a)"
proof -
  have *: "hd (segments a) \<in> set schemes" "tl (segments a) \<noteq> []"
    "list_all segment_ok (tl (segments a))"
    using assms by (auto simp: address_wf_def ADDRESS_PATTERN_iff segments_def)
  have "segments a = hd (segments a) # tl (segments a)" by (simp add: segments_def)
  with * schemes_segment_ok show "list_all segment_ok (segments a)" by (metis list.pred_inject(2))
  show "hd (segments a) \<in> set schemes" by fact
  show "2 \<le> length (segments a)"
    using *(2) by (cases "segments a") (auto simp: Suc_le_eq)
qed

lemma wf_ascii: "address_wf a \<Longrightarrow> list_all (\<lambda>c. c < 0x80) (addr_bytes a)"
proof -
  assume "address_wf a"
  then have "list_all (\<lambda>c. segment_char c \<or> c = dot) (addr_bytes a)"
    using wf_segments(1) split_ok_chars by (simp add: segments_def)
  moreover have "dot < 0x80" by (simp add: dot_def)
  ultimately show ?thesis by (auto simp: list_all_iff dest: segment_char_ascii)
qed

lemma wf_min_length: "address_wf a \<Longrightarrow> 3 \<le> length (addr_bytes a)"
proof -
  assume wf: "address_wf a"
  obtain x y zs where sp: "segments a = x # y # zs"
    using wf_segments(3) [OF wf] by (metis Suc_le_length_iff numeral_2_eq_2)
  have "x \<noteq> []" "y \<noteq> []" using wf_segments(1) [OF wf] sp by (auto simp: segment_ok_def)
  moreover have "addr_bytes a = x @ dot # join_on dot (y # zs)"
    using join_split [of dot "addr_bytes a"] sp by (simp add: segments_def)
  moreover have "length y \<le> length (join_on dot (y # zs))" by (cases zs) auto
  ultimately show ?thesis
    by (cases x; cases y) auto
qed

text \<open>Suffixing appends segments, and fails exactly when a new segment or the length is bad.\<close>

lemma with_suffix_Ok:
  assumes "address_wf a"
  shows "with_suffix a sfx = Ok a' \<longleftrightarrow>
    a' = Address (addr_bytes a @ dot # sfx) \<and> list_all segment_ok (split_on dot sfx) \<and>
    address_len a + 1 + length sfx \<le> MAX_ADDRESS_LENGTH"
proof -
  obtain x xs where sp: "segments a = x # xs" by (cases "segments a") (auto simp: segments_def)
  then have "split_on dot (addr_bytes a @ dot # sfx) = x # xs @ split_on dot sfx"
    by (simp add: split_on_append_sep segments_def)
  then have "ADDRESS_PATTERN (addr_bytes a @ dot # sfx) \<longleftrightarrow>
      list_all segment_ok (split_on dot sfx)"
    using wf_segments [OF assms] sp by (auto simp: ADDRESS_PATTERN_iff)
  then show ?thesis
    by (auto simp: with_suffix_def address_try_from_Ok address_wf_def address_len_def)
qed

lemma with_suffix_segments:
  "with_suffix a sfx = Ok a' \<Longrightarrow> segments a' = segments a @ split_on dot sfx"
  by (auto simp: with_suffix_def address_try_from_Ok segments_def split_on_append_sep)

section \<open>Properties\<close>

text \<open>
  C19. \<^verbatim>\<open>Address::try_from\<close> accepts exactly the byte strings of at most 1023 bytes whose dot-separated
  segments are a known scheme followed by one or more non-empty segments of the allowed characters,
  and every accepted address is valid UTF-8, which the unchecked conversions of the source rely on.
\<close>

theorem address_validation:
  "(address_try_from bs = Ok a \<longleftrightarrow>
      a = Address bs \<and> length bs \<le> 1023 \<and> hd (split_on dot bs) \<in> set schemes \<and>
      2 \<le> length (split_on dot bs) \<and>
      list_all (\<lambda>s. s \<noteq> [] \<and> list_all segment_char s) (tl (split_on dot bs))) \<and>
   (address_try_from bs = Ok a \<longrightarrow> utf8_valid (addr_bytes a) \<and>
      list_all utf8_valid (segments a) \<and> scheme a = (Ok (hd (segments a)) :: (_, AddressError) result))"
proof
  have "tl (split_on dot bs) \<noteq> [] \<longleftrightarrow> 2 \<le> length (split_on dot bs)"
    by (cases "split_on dot bs" rule: list.exhaust [case_product list.exhaust]) (auto simp: Suc_le_eq)
  then show "address_try_from bs = Ok a \<longleftrightarrow>
      a = Address bs \<and> length bs \<le> 1023 \<and> hd (split_on dot bs) \<in> set schemes \<and>
      2 \<le> length (split_on dot bs) \<and>
      list_all (\<lambda>s. s \<noteq> [] \<and> list_all segment_char s) (tl (split_on dot bs))"
    by (auto simp: address_try_from_Ok address_wf_def ADDRESS_PATTERN_iff MAX_ADDRESS_LENGTH_def
        segment_ok_def [abs_def])
  show "address_try_from bs = Ok a \<longrightarrow> utf8_valid (addr_bytes a) \<and>
      list_all utf8_valid (segments a) \<and> scheme a = (Ok (hd (segments a)) :: (_, AddressError) result)"
  proof
    assume "address_try_from bs = Ok a"
    then have wf: "address_wf a" by (auto simp: address_try_from_Ok)
    have "list_all utf8_valid (segments a)"
      using wf_segments(1) [OF wf] segment_char_ascii
      by (auto simp: list_all_iff segment_ok_def intro!: ascii_utf8_valid)
    moreover have "scheme a = Ok (hd (segments a))"
      by (auto simp: scheme_def segments_def split: list.split)
    ultimately show "utf8_valid (addr_bytes a) \<and> list_all utf8_valid (segments a) \<and>
        scheme a = (Ok (hd (segments a)) :: (_, AddressError) result)"
      using wf_ascii [OF wf] ascii_utf8_valid by (auto simp: scheme_def segments_def split: list.split)
  qed
qed

theorem address_validation_witness:
  "address_try_from (bstr ''example.alice'') = Ok (Address (bstr ''example.alice'')) \<and>
   utf8_valid (bstr ''example.alice'')"
proof -
  have "address_try_from (bstr ''example.alice'') = Ok (Address (bstr ''example.alice''))"
    by code_simp
  with address_validation [of "bstr ''example.alice''" "Address (bstr ''example.alice'')"]
  show ?thesis by simp
qed

text \<open>
  \<^verbatim>\<open>with_suffix\<close> on a valid address succeeds exactly when every dot-separated part of the suffix is
  a well-formed segment and the result has at most 1023 bytes; the result is then valid and its
  segments are those of the address followed by those of the suffix.
\<close>

lemma with_suffix_spec:
  assumes "address_wf a"
  shows "((\<exists>a'. with_suffix a sfx = Ok a') \<longleftrightarrow>
      list_all segment_ok (split_on dot sfx) \<and> address_len a + 1 + length sfx \<le> 1023) \<and>
    (\<forall>a'. with_suffix a sfx = Ok a' \<longrightarrow>
      address_wf a' \<and> segments a' = segments a @ split_on dot sfx)"
proof -
  have "address_wf a'" if "with_suffix a sfx = Ok a'" for a'
    using that by (auto simp: with_suffix_def address_try_from_Ok)
  then show ?thesis
    using with_suffix_Ok [OF assms] with_suffix_segments
    by (auto simp: MAX_ADDRESS_LENGTH_def)
qed

lemma with_suffix_spec_example:
  "\<exists>a'. with_suffix (Address (bstr ''example.alice'')) (bstr ''bob.1'') = Ok a' \<and>
     segments a' = [bstr ''example'', bstr ''alice'', bstr ''bob'', bstr ''1'']"
proof -
  have wf: "address_wf (Address (bstr ''example.alice''))" by code_simp
  have "with_suffix (Address (bstr ''example.alice'')) (bstr ''bob.1'') =
      Ok (Address (bstr ''example.alice.bob.1''))" by code_simp
  moreover have "segments (Address (bstr ''example.alice'')) @ split_on dot (bstr ''bob.1'') =
      [bstr ''example'', bstr ''alice'', bstr ''bob'', bstr ''1'']" by code_simp
  ultimately show ?thesis using with_suffix_spec [OF wf, of "bstr ''bob.1''"] by auto
qed

end
