(* ===== verification/Ilp_Packet.thy ===== *)
theory Ilp_Packet
  imports Address
begin

text \<open>
  The ILP packets, \<^verbatim>\<open>crates/interledger-packet/src/packet.rs\<close>, with the error codes of
  \<^verbatim>\<open>error.rs\<close> and the parse errors of \<^verbatim>\<open>errors.rs\<close>. As in the source, a packet is its buffer
  together with offsets into it; builders write a buffer, \<^verbatim>\<open>try_from\<close> validates one, accessors
  slice it, and the two setters patch it in place.

  Dates are parameters: \<open>format_ts\<close> is \<^verbatim>\<open>DateTime::<Utc>::from(t).format("%Y%m%d%H%M%S%3f")\<close> and
  \<open>parse_ts\<close> is \<^verbatim>\<open>Utc.datetime_from_str\<close> at that format followed by \<^verbatim>\<open>SystemTime::from\<close>.

  The lemmas show that a built packet parses to itself, that parsing never panics, that the
  accessors of a parsed packet never panic, that patching commutes with parsing, and that under
  \<^verbatim>\<open>roundtrip-only\<close> a parsed buffer is the one the builder would have written.
\<close>

section \<open>Errors\<close>

datatype PacketTypeError = Eof | Unknown u8 | Unexpected u8 u8

datatype TrailingBytesError = Outer | Inner

datatype ParseError =
    OerErr OerError
  | ChronoErr
  | PacketTypeErr PacketTypeError
  | ErrorCodeConversion
  | TimestampConversion
  | InvalidAddress AddressError
  | TrailingBytes TrailingBytesError
  | NonRoundtrippableTimestamp

datatype ErrorCode = ErrorCode (code_bytes: bytes)

datatype ErrorClass = Final | Temporary | Relative | UnknownClass

definition error_code_new :: "bytes \<Rightarrow> ErrorCode option" where
  "error_code_new bs = (if list_all (\<lambda>c. c < 128) bs then Some (ErrorCode bs) else None)"

definition error_class :: "ErrorCode \<Rightarrow> ErrorClass" where
  "error_class c =
     (let c0 = code_bytes c ! 0 in
      if c0 = of_char (CHR ''F'') then Final
      else if c0 = of_char (CHR ''T'') then Temporary
      else if c0 = of_char (CHR ''R'') then Relative
      else UnknownClass)"

abbreviation F00_BAD_REQUEST :: ErrorCode where "F00_BAD_REQUEST \<equiv> ErrorCode (bstr ''F00'')"
abbreviation F01_INVALID_PACKET :: ErrorCode where "F01_INVALID_PACKET \<equiv> ErrorCode (bstr ''F01'')"
abbreviation F02_UNREACHABLE :: ErrorCode where "F02_UNREACHABLE \<equiv> ErrorCode (bstr ''F02'')"
abbreviation F03_INVALID_AMOUNT :: ErrorCode where "F03_INVALID_AMOUNT \<equiv> ErrorCode (bstr ''F03'')"
abbreviation F04_INSUFFICIENT_DESTINATION_AMOUNT :: ErrorCode where
  "F04_INSUFFICIENT_DESTINATION_AMOUNT \<equiv> ErrorCode (bstr ''F04'')"
abbreviation F05_WRONG_CONDITION :: ErrorCode where "F05_WRONG_CONDITION \<equiv> ErrorCode (bstr ''F05'')"
abbreviation F06_UNEXPECTED_PAYMENT :: ErrorCode where
  "F06_UNEXPECTED_PAYMENT \<equiv> ErrorCode (bstr ''F06'')"
abbreviation F07_CANNOT_RECEIVE :: ErrorCode where "F07_CANNOT_RECEIVE \<equiv> ErrorCode (bstr ''F07'')"
abbreviation F08_AMOUNT_TOO_LARGE :: ErrorCode where
  "F08_AMOUNT_TOO_LARGE \<equiv> ErrorCode (bstr ''F08'')"
abbreviation F09_INVALID_PEER_RESPONSE :: ErrorCode where
  "F09_INVALID_PEER_RESPONSE \<equiv> ErrorCode (bstr ''F09'')"
abbreviation F99_APPLICATION_ERROR :: ErrorCode where
  "F99_APPLICATION_ERROR \<equiv> ErrorCode (bstr ''F99'')"
abbreviation T00_INTERNAL_ERROR :: ErrorCode where "T00_INTERNAL_ERROR \<equiv> ErrorCode (bstr ''T00'')"
abbreviation T01_PEER_UNREACHABLE :: ErrorCode where
  "T01_PEER_UNREACHABLE \<equiv> ErrorCode (bstr ''T01'')"
abbreviation T02_PEER_BUSY :: ErrorCode where "T02_PEER_BUSY \<equiv> ErrorCode (bstr ''T02'')"
abbreviation T03_CONNECTOR_BUSY :: ErrorCode where "T03_CONNECTOR_BUSY \<equiv> ErrorCode (bstr ''T03'')"
abbreviation T04_INSUFFICIENT_LIQUIDITY :: ErrorCode where
  "T04_INSUFFICIENT_LIQUIDITY \<equiv> ErrorCode (bstr ''T04'')"
abbreviation T05_RATE_LIMITED :: ErrorCode where "T05_RATE_LIMITED \<equiv> ErrorCode (bstr ''T05'')"
abbreviation T99_APPLICATION_ERROR :: ErrorCode where
  "T99_APPLICATION_ERROR \<equiv> ErrorCode (bstr ''T99'')"
abbreviation R00_TRANSFER_TIMED_OUT :: ErrorCode where
  "R00_TRANSFER_TIMED_OUT \<equiv> ErrorCode (bstr ''R00'')"
abbreviation R01_INSUFFICIENT_SOURCE_AMOUNT :: ErrorCode where
  "R01_INSUFFICIENT_SOURCE_AMOUNT \<equiv> ErrorCode (bstr ''R01'')"
abbreviation R02_INSUFFICIENT_TIMEOUT :: ErrorCode where
  "R02_INSUFFICIENT_TIMEOUT \<equiv> ErrorCode (bstr ''R02'')"
abbreviation R99_APPLICATION_ERROR :: ErrorCode where
  "R99_APPLICATION_ERROR \<equiv> ErrorCode (bstr ''R99'')"

section \<open>Packet types and the envelope\<close>

definition AMOUNT_LEN :: nat where "AMOUNT_LEN = 8"
definition EXPIRY_LEN :: nat where "EXPIRY_LEN = 17"
definition CONDITION_LEN :: nat where "CONDITION_LEN = 32"
definition FULFILLMENT_LEN :: nat where "FULFILLMENT_LEN = 32"
definition ERROR_CODE_LEN :: nat where "ERROR_CODE_LEN = 3"

lemmas len_defs = AMOUNT_LEN_def EXPIRY_LEN_def CONDITION_LEN_def FULFILLMENT_LEN_def
  ERROR_CODE_LEN_def

datatype PacketType = PrepareType | FulfillType | RejectType

primrec packet_type_u8 :: "PacketType \<Rightarrow> u8" where
  "packet_type_u8 PrepareType = 12"
| "packet_type_u8 FulfillType = 13"
| "packet_type_u8 RejectType = 14"

definition packet_type_from_u8 :: "u8 \<Rightarrow> (PacketType, PacketTypeError) result" where
  "packet_type_from_u8 byte =
     (if byte = 12 then Ok PrepareType
      else if byte = 13 then Ok FulfillType
      else if byte = 14 then Ok RejectType
      else Err (Unknown byte))"

definition packet_type_try_from :: "bytes \<Rightarrow> (PacketType, PacketTypeError) result" where
  "packet_type_try_from bs =
     (case bs of [] \<Rightarrow> Err Eof | first # _ \<Rightarrow> packet_type_from_u8 first)"

definition PACKET_TYPE_LEN :: nat where "PACKET_TYPE_LEN = 1"

definition ensure_no_inner_trailing_bytes ::
  "features \<Rightarrow> bytes \<Rightarrow> (unit, TrailingBytesError) result" where
  "ensure_no_inner_trailing_bytes cfg content =
     (if content = [] \<or> \<not> strict cfg then Ok () else Err Inner)"

definition ensure_no_outer_trailing_bytes ::
  "features \<Rightarrow> bytes \<Rightarrow> (unit, TrailingBytesError) result" where
  "ensure_no_outer_trailing_bytes cfg reader =
     (if reader = [] \<or> \<not> strict cfg then Ok () else Err Outer)"

definition deserialize_envelope ::
  "features \<Rightarrow> PacketType \<Rightarrow> bytes \<Rightarrow> (nat \<times> bytes, ParseError) result" where
  "deserialize_envelope cfg packet_type reader0 =
     (if length reader0 < PACKET_TYPE_LEN then Err (OerErr UnexpectedEof)
      else and_then (get_u8 reader0) (\<lambda>(got_type, reader).
        if got_type \<noteq> packet_type_u8 packet_type
        then Err (PacketTypeErr (Unexpected got_type (packet_type_u8 packet_type)))
        else
          and_then (map_err OerErr (read_var_octet_string_length cfg reader)) (\<lambda>(_, peek).
          let content_offset = PACKET_TYPE_LEN + (length reader - length peek) in
          and_then (map_err OerErr (read_var_octet_string cfg reader)) (\<lambda>(content, reader').
          and_then (map_err TrailingBytes (ensure_no_outer_trailing_bytes cfg reader')) (\<lambda>_.
          Ok (content_offset, content))))))"

section \<open>Prepare\<close>

record 't Prepare =
  p_buffer :: bytes
  p_content_offset :: nat
  p_destination :: Address
  p_amount :: u64
  p_expires_at :: 't
  p_data_offset :: nat

record 't PrepareBuilder =
  pb_amount :: u64
  pb_expires_at :: 't
  pb_execution_condition :: bytes
  pb_destination :: Address
  pb_data :: bytes

definition PREPARE_MIN_LEN :: nat where
  "PREPARE_MIN_LEN =
     AMOUNT_LEN + EXPIRY_LEN + CONDITION_LEN + ADDRESS_MIN_LEN + EMPTY_VARLEN_OCTETS_LEN"

text \<open>
  Writing formatted text into a fixed-size slice: the bytes that fit are overwritten, and the
  \<^verbatim>\<open>unwrap\<close> of a write that does not fit panics.
\<close>

definition write_slice :: "bytes \<Rightarrow> bytes \<Rightarrow> (bytes, 'e) result" where
  "write_slice dst s = (if length s \<le> length dst then Ok (s @ drop (length s) dst) else Panic)"

definition prepare_try_from ::
  "features \<Rightarrow> (bytes \<Rightarrow> 't option) \<Rightarrow> ('t \<Rightarrow> bytes) \<Rightarrow> bytes \<Rightarrow> ('t Prepare, ParseError) result"
where
  "prepare_try_from cfg parse_ts format_ts buffer =
     and_then (deserialize_envelope cfg PrepareType buffer) (\<lambda>(content_offset, content0).
     let content_len = length content0 in
     if length content0 < PREPARE_MIN_LEN then Err (OerErr UnexpectedEof)
     else and_then (get_u64 content0) (\<lambda>(amount, content1).
     and_then (copy_to_slice 17 content1) (\<lambda>(read_expires_at, content2).
     if \<not> foldl (\<and>) True (map is_digit read_expires_at) then Err TimestampConversion
     else if \<not> utf8_valid read_expires_at then Panic
     else case parse_ts read_expires_at of
       None \<Rightarrow> Err ChronoErr
     | Some expires_at \<Rightarrow>
         and_then
           (if roundtrip_only cfg
            then and_then (write_slice (replicate 17 0) (format_ts expires_at)) (\<lambda>roundtripped.
                 if roundtripped \<noteq> read_expires_at then Err NonRoundtrippableTimestamp else Ok ())
            else Ok ()) (\<lambda>_.
         and_then (map_err OerErr (skip CONDITION_LEN content2)) (\<lambda>(_, content3).
         and_then (map_err OerErr (read_var_octet_string cfg content3)) (\<lambda>(dest, content4).
         and_then (map_err InvalidAddress (address_try_from dest)) (\<lambda>destination.
         let data_offset = content_offset + content_len - length content4 in
         and_then (map_err OerErr (skip_var_octet_string cfg content4)) (\<lambda>(_, content5).
         and_then (map_err TrailingBytes (ensure_no_inner_trailing_bytes cfg content5)) (\<lambda>_.
         Ok \<lparr>p_buffer = buffer, p_content_offset = content_offset,
             p_destination = destination, p_amount = amount,
             p_expires_at = expires_at, p_data_offset = data_offset\<rparr>)))))))))"

text \<open>\<open>slice lo hi\<close> is \<^verbatim>\<open>&buffer[lo..hi]\<close>; \<open>patch lo s\<close> overwrites the slice that starts at \<open>lo\<close>.\<close>

definition slice :: "nat \<Rightarrow> nat \<Rightarrow> bytes \<Rightarrow> (bytes, 'e) result" where
  "slice lo hi bs = (if lo \<le> hi \<and> hi \<le> length bs then Ok (take (hi - lo) (drop lo bs)) else Panic)"

definition patch :: "nat \<Rightarrow> bytes \<Rightarrow> bytes \<Rightarrow> bytes" where
  "patch lo s bs = take lo bs @ s @ drop (lo + length s) bs"

definition set_amount :: "u64 \<Rightarrow> 't Prepare \<Rightarrow> ('t Prepare, 'e) result" where
  "set_amount amount p =
     (let p1 = p\<lparr>p_amount := amount\<rparr> in
      and_then (slice (p_content_offset p1) (p_content_offset p1 + 8) (p_buffer p1)) (\<lambda>_.
      Ok (p1\<lparr>p_buffer := patch (p_content_offset p1) (put_u64 amount) (p_buffer p1)\<rparr>)))"

definition set_expires_at ::
  "('t \<Rightarrow> bytes) \<Rightarrow> 't \<Rightarrow> 't Prepare \<Rightarrow> ('t Prepare, 'e) result" where
  "set_expires_at format_ts expires_at p =
     (let p1 = p\<lparr>p_expires_at := expires_at\<rparr>;
          offset = p_content_offset p1 + AMOUNT_LEN in
      and_then (slice offset (offset + EXPIRY_LEN) (p_buffer p1)) (\<lambda>dst.
      and_then (write_slice dst (format_ts expires_at)) (\<lambda>written.
      Ok (p1\<lparr>p_buffer := patch offset written (p_buffer p1)\<rparr>))))"

definition execution_condition :: "'t Prepare \<Rightarrow> (bytes, 'e) result" where
  "execution_condition p =
     (let bgn = p_content_offset p + AMOUNT_LEN + EXPIRY_LEN;
          fin = bgn + CONDITION_LEN
      in slice bgn fin (p_buffer p))"

text \<open>The \<^verbatim>\<open>data\<close> and \<^verbatim>\<open>into_data\<close> accessors all slice at an offset and unwrap.\<close>

definition data_at :: "features \<Rightarrow> nat \<Rightarrow> bytes \<Rightarrow> (bytes, 'e) result" where
  "data_at cfg off buffer =
     and_then (slice off (length buffer) buffer) (\<lambda>s. unwrap (peek_var_octet_string cfg s))"

definition into_data_at :: "features \<Rightarrow> nat \<Rightarrow> bytes \<Rightarrow> (bytes, 'e) result" where
  "into_data_at cfg off buffer =
     and_then (split_at off buffer) (\<lambda>(_, s). unwrap (extract_var_octet_string cfg s))"

definition prepare_data :: "features \<Rightarrow> 't Prepare \<Rightarrow> (bytes, 'e) result" where
  "prepare_data cfg p = data_at cfg (p_data_offset p) (p_buffer p)"

definition prepare_into_data :: "features \<Rightarrow> 't Prepare \<Rightarrow> (bytes, 'e) result" where
  "prepare_into_data cfg p = into_data_at cfg (p_data_offset p) (p_buffer p)"

definition prepare_build :: "('t \<Rightarrow> bytes) \<Rightarrow> 't PrepareBuilder \<Rightarrow> 't Prepare" where
  "prepare_build format_ts pb =
     (let static_len = AMOUNT_LEN + EXPIRY_LEN + CONDITION_LEN;
          destination_size = predict_var_octet_string (address_len (pb_destination pb));
          data_size = predict_var_octet_string (length (pb_data pb));
          content_len = static_len + destination_size + data_size;
          buf_size = 1 + predict_var_octet_string content_len;
          header = [packet_type_u8 PrepareType] @ put_var_octet_string_length content_len;
          content_offset = length header;
          buffer = header @ put_u64 (pb_amount pb) @ format_ts (pb_expires_at pb)
            @ pb_execution_condition pb
            @ put_var_octet_string (addr_bytes (pb_destination pb))
            @ put_var_octet_string (pb_data pb)
      in \<lparr>p_buffer = buffer, p_content_offset = content_offset,
          p_destination = pb_destination pb, p_amount = pb_amount pb,
          p_expires_at = pb_expires_at pb, p_data_offset = buf_size - data_size\<rparr>)"

section \<open>Fulfill\<close>

record Fulfill =
  f_buffer :: bytes
  f_content_offset :: nat

record FulfillBuilder =
  fb_fulfillment :: bytes
  fb_data :: bytes

definition fulfill_try_from :: "features \<Rightarrow> bytes \<Rightarrow> (Fulfill, ParseError) result" where
  "fulfill_try_from cfg buffer =
     and_then (deserialize_envelope cfg FulfillType buffer) (\<lambda>(content_offset, content0).
     and_then (map_err OerErr (skip FULFILLMENT_LEN content0)) (\<lambda>(_, content1).
     and_then (map_err OerErr (skip_var_octet_string cfg content1)) (\<lambda>(_, content2).
     and_then (map_err TrailingBytes (ensure_no_inner_trailing_bytes cfg content2)) (\<lambda>_.
     Ok \<lparr>f_buffer = buffer, f_content_offset = content_offset\<rparr>))))"

definition fulfillment :: "Fulfill \<Rightarrow> (bytes, 'e) result" where
  "fulfillment f =
     slice (f_content_offset f) (f_content_offset f + FULFILLMENT_LEN) (f_buffer f)"

definition fulfill_data :: "features \<Rightarrow> Fulfill \<Rightarrow> (bytes, 'e) result" where
  "fulfill_data cfg f = data_at cfg (f_content_offset f + FULFILLMENT_LEN) (f_buffer f)"

definition fulfill_into_data :: "features \<Rightarrow> Fulfill \<Rightarrow> (bytes, 'e) result" where
  "fulfill_into_data cfg f = into_data_at cfg (f_content_offset f + FULFILLMENT_LEN) (f_buffer f)"

definition fulfill_build :: "FulfillBuilder \<Rightarrow> Fulfill" where
  "fulfill_build fb =
     (let data_size = predict_var_octet_string (length (fb_data fb));
          content_len = FULFILLMENT_LEN + data_size;
          header = [packet_type_u8 FulfillType] @ put_var_octet_string_length content_len;
          content_offset = length header;
          buffer = header @ fb_fulfillment fb @ put_var_octet_string (fb_data fb)
      in \<lparr>f_buffer = buffer, f_content_offset = content_offset\<rparr>)"

section \<open>Reject\<close>

record Reject =
  r_buffer :: bytes
  r_code :: ErrorCode
  r_message_offset :: nat
  r_triggered_by_offset :: nat
  r_data_offset :: nat

record RejectBuilder =
  rb_code :: ErrorCode
  rb_message :: bytes
  rb_triggered_by :: "Address option"
  rb_data :: bytes

definition REJECT_MIN_LEN :: nat where
  "REJECT_MIN_LEN = ERROR_CODE_LEN + EMPTY_VARLEN_OCTETS_LEN * 3"

definition reject_try_from :: "features \<Rightarrow> bytes \<Rightarrow> (Reject, ParseError) result" where
  "reject_try_from cfg buffer =
     and_then (deserialize_envelope cfg RejectType buffer) (\<lambda>(content_offset, content0).
     let content_len = length content0 in
     if length content0 < REJECT_MIN_LEN then Err (OerErr UnexpectedEof)
     else and_then (copy_to_slice 3 content0) (\<lambda>(code_bs, content1).
     case error_code_new code_bs of
       None \<Rightarrow> Err ErrorCodeConversion
     | Some code \<Rightarrow>
         let triggered_by_offset = content_offset + content_len - length content1 in
         and_then (map_err OerErr (read_var_octet_string cfg content1)) (\<lambda>(addr, content2).
         and_then (map_err InvalidAddress (address_try_from addr)) (\<lambda>_.
         let message_offset = content_offset + content_len - length content2 in
         and_then (map_err OerErr (skip_var_octet_string cfg content2)) (\<lambda>(_, content3).
         let data_offset = content_offset + content_len - length content3 in
         and_then (map_err OerErr (skip_var_octet_string cfg content3)) (\<lambda>(_, content4).
         and_then (map_err TrailingBytes (ensure_no_inner_trailing_bytes cfg content4)) (\<lambda>_.
         Ok \<lparr>r_buffer = buffer, r_code = code, r_message_offset = message_offset,
             r_triggered_by_offset = triggered_by_offset, r_data_offset = data_offset\<rparr>)))))))"

definition triggered_by :: "features \<Rightarrow> Reject \<Rightarrow> (Address option, 'e) result" where
  "triggered_by cfg r =
     and_then (slice (r_triggered_by_offset r) (length (r_buffer r)) (r_buffer r)) (\<lambda>s.
     case peek_var_octet_string cfg s of
       Ok bs \<Rightarrow> (case address_try_from bs of
           Ok a \<Rightarrow> Ok (Some a) | Err _ \<Rightarrow> Ok None | Panic \<Rightarrow> Panic)
     | Err _ \<Rightarrow> Ok None
     | Panic \<Rightarrow> Panic)"

definition reject_message :: "features \<Rightarrow> Reject \<Rightarrow> (bytes, 'e) result" where
  "reject_message cfg r = data_at cfg (r_message_offset r) (r_buffer r)"

definition reject_data :: "features \<Rightarrow> Reject \<Rightarrow> (bytes, 'e) result" where
  "reject_data cfg r = data_at cfg (r_data_offset r) (r_buffer r)"

definition reject_into_data :: "features \<Rightarrow> Reject \<Rightarrow> (bytes, 'e) result" where
  "reject_into_data cfg r = into_data_at cfg (r_data_offset r) (r_buffer r)"

definition reject_build :: "RejectBuilder \<Rightarrow> Reject" where
  "reject_build rb =
     (let (triggered_by_message, ln) =
            (case rb_triggered_by rb of
               Some msg \<Rightarrow> (addr_bytes msg, address_len msg) | None \<Rightarrow> ([], 0));
          triggered_by_size = predict_var_octet_string ln;
          message_size = predict_var_octet_string (length (rb_message rb));
          data_size = predict_var_octet_string (length (rb_data rb));
          content_len = ERROR_CODE_LEN + triggered_by_size + message_size + data_size;
          buf_size = 1 + predict_var_octet_string content_len;
          buffer = [packet_type_u8 RejectType] @ put_var_octet_string_length content_len
            @ code_bytes (rb_code rb)
            @ put_var_octet_string triggered_by_message
            @ put_var_octet_string (rb_message rb)
            @ put_var_octet_string (rb_data rb)
      in \<lparr>r_buffer = buffer, r_code = rb_code rb,
          r_message_offset = buf_size - data_size - message_size,
          r_triggered_by_offset = buf_size - data_size - message_size - triggered_by_size,
          r_data_offset = buf_size - data_size\<rparr>)"

section \<open>Any packet\<close>

datatype 't Packet =
    PreparePacket "'t Prepare" | FulfillPacket Fulfill | RejectPacket Reject

definition packet_try_from ::
  "features \<Rightarrow> (bytes \<Rightarrow> 't option) \<Rightarrow> ('t \<Rightarrow> bytes) \<Rightarrow> bytes \<Rightarrow> ('t Packet, ParseError) result"
where
  "packet_try_from cfg parse_ts format_ts buffer =
     and_then (map_err PacketTypeErr (packet_type_try_from buffer)) (\<lambda>ty.
     case ty of
       PrepareType \<Rightarrow> map_ok PreparePacket (prepare_try_from cfg parse_ts format_ts buffer)
     | FulfillType \<Rightarrow> map_ok FulfillPacket (fulfill_try_from cfg buffer)
     | RejectType \<Rightarrow> map_ok RejectPacket (reject_try_from cfg buffer))"

primrec packet_bytes :: "'t Packet \<Rightarrow> bytes" where
  "packet_bytes (PreparePacket p) = p_buffer p"
| "packet_bytes (FulfillPacket f) = f_buffer f"
| "packet_bytes (RejectPacket r) = r_buffer r"

section \<open>Details of an amount-too-large rejection\<close>

record MaxPacketAmountDetails =
  amount_received :: u64
  max_amount :: u64

datatype IoError = IoUnexpectedEof

definition max_packet_details_from_bytes :: "bytes \<Rightarrow> (MaxPacketAmountDetails, IoError) result" where
  "max_packet_details_from_bytes bs =
     (if length bs < 16 then Err IoUnexpectedEof
      else and_then (get_u64 bs) (\<lambda>(received, bs').
           and_then (get_u64 bs') (\<lambda>(maximum, _).
           Ok \<lparr>amount_received = received, max_amount = maximum\<rparr>)))"

definition max_packet_details_to_bytes :: "MaxPacketAmountDetails \<Rightarrow> bytes" where
  "max_packet_details_to_bytes d = put_u64 (amount_received d) @ put_u64 (max_amount d)"

section \<open>Builders write what the parsers accept\<close>

lemma envelope_put [codec_simps]:
  assumes "length content < 2 ^ 64"
  shows "deserialize_envelope cfg ty
      (packet_type_u8 ty # put_var_octet_string_length (length content) @ content) =
    Ok (1 + length (put_var_octet_string_length (length content)), content)"
proof -
  have "read_var_octet_string cfg (put_var_octet_string content @ []) = Ok (content, [])"
    using assms by (rule read_put_var_octet_string)
  then have "read_var_octet_string cfg
      (put_var_octet_string_length (length content) @ content) = Ok (content, [])"
    by (simp add: put_var_octet_string_def)
  moreover have "read_var_octet_string_length cfg
      (put_var_octet_string_length (length content) @ content) = Ok (length content, content)"
    using assms by (rule read_put_length)
  ultimately show ?thesis
    by (simp add: deserialize_envelope_def PACKET_TYPE_LEN_def get_u8_def
        ensure_no_outer_trailing_bytes_def)
qed

lemma length_put_var_octet_string:
  "length (put_var_octet_string buf) = predict_var_octet_string (length buf)"
  by (simp add: predict_var_octet_string_correct)

lemma predict_eq:
  "predict_var_octet_string n = length (put_var_octet_string_length n) + n"
  by (simp add: predict_var_octet_string_def length_put_var_octet_string_length Let_def)

lemma predict_ge: "n < predict_var_octet_string n"
  by (simp add: predict_var_octet_string_def Let_def)

lemma predict_mono_small: "n \<le> m \<Longrightarrow> m < 128 \<Longrightarrow> predict_var_octet_string n \<le> predict_var_octet_string m"
  by (simp add: predict_var_octet_string_def)

lemma foldl_conj: "foldl (\<and>) a xs \<longleftrightarrow> a \<and> list_all (\<lambda>x. x) xs"
  by (induction xs arbitrary: a) auto

lemma MIN_LEN_values:
  "ADDRESS_MIN_LEN = 4" "EMPTY_VARLEN_OCTETS_LEN = 1" "PREPARE_MIN_LEN = 62" "REJECT_MIN_LEN = 6"
  by (simp_all add: ADDRESS_MIN_LEN_def EMPTY_VARLEN_OCTETS_LEN_def PREPARE_MIN_LEN_def
      REJECT_MIN_LEN_def len_defs predict_var_octet_string_def bstr_def)

text \<open>
  A time that \<^verbatim>\<open>chrono\<close> formats as seventeen digits and parses back: a date with a four-digit
  year, at millisecond precision.
\<close>

definition ts_ok :: "(bytes \<Rightarrow> 't option) \<Rightarrow> ('t \<Rightarrow> bytes) \<Rightarrow> 't \<Rightarrow> bool" where
  "ts_ok parse_ts format_ts t \<longleftrightarrow>
     length (format_ts t) = EXPIRY_LEN \<and> list_all is_digit (format_ts t) \<and>
     parse_ts (format_ts t) = Some t"

definition prepare_builder_wf ::
  "(bytes \<Rightarrow> 't option) \<Rightarrow> ('t \<Rightarrow> bytes) \<Rightarrow> 't PrepareBuilder \<Rightarrow> bool" where
  "prepare_builder_wf parse_ts format_ts pb \<longleftrightarrow>
     ts_ok parse_ts format_ts (pb_expires_at pb) \<and>
     length (pb_execution_condition pb) = CONDITION_LEN \<and>
     address_wf (pb_destination pb) \<and> length (pb_data pb) < 2 ^ 63"

definition prepare_content :: "('t \<Rightarrow> bytes) \<Rightarrow> 't PrepareBuilder \<Rightarrow> bytes" where
  "prepare_content format_ts pb =
     put_u64 (pb_amount pb) @ format_ts (pb_expires_at pb) @ pb_execution_condition pb
     @ put_var_octet_string (addr_bytes (pb_destination pb)) @ put_var_octet_string (pb_data pb)"

lemma wf_address_short: "address_wf a \<Longrightarrow> length (addr_bytes a) \<le> 1023"
  by (simp add: address_wf_def MAX_ADDRESS_LENGTH_def)

lemma wf_address_size: "address_wf a \<Longrightarrow> 4 \<le> predict_var_octet_string (length (addr_bytes a))"
  using wf_min_length [of a] predict_ge [of "length (addr_bytes a)"] by linarith

lemma predict_le: "predict_var_octet_string n \<le> n + 9"
  using predict_var_uint_size_le_8 [of "of_nat n"]
  by (simp add: predict_var_octet_string_def Let_def)

lemma prepare_content_facts:
  assumes "prepare_builder_wf parse_ts format_ts pb"
  shows "length (prepare_content format_ts pb) =
      57 + predict_var_octet_string (address_len (pb_destination pb)) +
      predict_var_octet_string (length (pb_data pb))"
    and "length (prepare_content format_ts pb) < 2 ^ 64"
    and "PREPARE_MIN_LEN \<le> length (prepare_content format_ts pb)"
proof -
  show len: "length (prepare_content format_ts pb) =
      57 + predict_var_octet_string (address_len (pb_destination pb)) +
      predict_var_octet_string (length (pb_data pb))"
    using assms
    by (simp add: prepare_content_def length_put_var_octet_string prepare_builder_wf_def ts_ok_def
        len_defs address_len_def)
  have a: "address_wf (pb_destination pb)" and d: "length (pb_data pb) < 2 ^ 63"
    using assms by (simp_all add: prepare_builder_wf_def)
  show "length (prepare_content format_ts pb) < 2 ^ 64"
    unfolding len address_len_def
    using d wf_address_short [OF a] predict_le [of "length (addr_bytes (pb_destination pb))"]
      predict_le [of "length (pb_data pb)"] by simp
  show "PREPARE_MIN_LEN \<le> length (prepare_content format_ts pb)"
    unfolding len address_len_def MIN_LEN_values
    using wf_address_size [OF a] predict_ge [of "length (pb_data pb)"] by linarith
qed

lemma prepare_build_eq:
  assumes "prepare_builder_wf parse_ts format_ts pb"
  defines "content \<equiv> prepare_content format_ts pb"
  defines "hdr \<equiv> put_var_octet_string_length (length content)"
  shows "prepare_build format_ts pb =
    \<lparr>p_buffer = packet_type_u8 PrepareType # hdr @ content, p_content_offset = 1 + length hdr,
     p_destination = pb_destination pb, p_amount = pb_amount pb,
     p_expires_at = pb_expires_at pb,
     p_data_offset = 1 + length hdr + length content
       - predict_var_octet_string (length (pb_data pb))\<rparr>"
proof -
  have len: "AMOUNT_LEN + EXPIRY_LEN + CONDITION_LEN +
      predict_var_octet_string (address_len (pb_destination pb)) +
      predict_var_octet_string (length (pb_data pb)) = length content"
    using prepare_content_facts(1) [OF assms(1)] by (simp add: content_def len_defs)
  show ?thesis
    unfolding prepare_build_def Let_def len predict_eq [of "length content"]
    by (simp add: hdr_def) (simp add: content_def prepare_content_def)
qed

lemma prepare_build_parses:
  assumes wf: "prepare_builder_wf parse_ts format_ts pb"
  shows "prepare_try_from cfg parse_ts format_ts (p_buffer (prepare_build format_ts pb)) =
    Ok (prepare_build format_ts pb)"
proof -
  let ?c = "prepare_content format_ts pb"
  have a: "address_wf (pb_destination pb)" and d: "length (pb_data pb) < 2 ^ 63"
    and e: "length (pb_execution_condition pb) = 32"
    and t: "length (format_ts (pb_expires_at pb)) = 17"
      "list_all is_digit (format_ts (pb_expires_at pb))"
      "parse_ts (format_ts (pb_expires_at pb)) = Some (pb_expires_at pb)"
    using wf by (simp_all add: prepare_builder_wf_def ts_ok_def len_defs)
  have u: "utf8_valid (format_ts (pb_expires_at pb))"
    using t(2) by (intro ascii_utf8_valid digits_utf8)
  have dst: "read_var_octet_string cfg (put_var_octet_string (addr_bytes (pb_destination pb)) @ r) =
      Ok (addr_bytes (pb_destination pb), r)" for r
    using wf_address_short [OF a] by (intro read_put_var_octet_string) simp
  have dat: "skip_var_octet_string cfg (put_var_octet_string (pb_data pb)) = Ok ((), [])"
    using skip_put_var_octet_string [of "pb_data pb" cfg "[]"] d by simp
  note env = envelope_put [OF prepare_content_facts(2) [OF wf], of cfg PrepareType]
  show ?thesis
    unfolding prepare_build_eq [OF wf] prepare_try_from_def
    using prepare_content_facts(3) [OF wf]
    by (simp only: Prepare.simps env and_then.simps prod.case Let_def not_le [symmetric] if_False
        not_True_eq_False)
      (simp add: prepare_content_def get_u64_put copy_to_slice_append t u e skip_def foldl_conj
        list_all_iff [symmetric] dst dat CONDITION_LEN_def write_slice_def
        address_try_from_bytes [OF a] ensure_no_inner_trailing_bytes_def length_put_var_octet_string
        Let_def list.pred_map comp_def)
qed

definition fulfill_builder_wf :: "FulfillBuilder \<Rightarrow> bool" where
  "fulfill_builder_wf fb \<longleftrightarrow>
     length (fb_fulfillment fb) = FULFILLMENT_LEN \<and> length (fb_data fb) < 2 ^ 63"

lemma fulfill_build_parses:
  assumes "fulfill_builder_wf fb"
  shows "fulfill_try_from cfg (f_buffer (fulfill_build fb)) = Ok (fulfill_build fb)"
proof -
  let ?c = "fb_fulfillment fb @ put_var_octet_string (fb_data fb)"
  have f: "length (fb_fulfillment fb) = 32" and d: "length (fb_data fb) < 2 ^ 63"
    using assms by (simp_all add: fulfill_builder_wf_def len_defs)
  have len: "FULFILLMENT_LEN + predict_var_octet_string (length (fb_data fb)) = length ?c"
    using f by (simp add: len_defs length_put_var_octet_string)
  have "length ?c < 2 ^ 64"
    using f d predict_le [of "length (fb_data fb)"] by (simp add: length_put_var_octet_string)
  note env = envelope_put [OF this, of cfg FulfillType]
  have dat: "skip_var_octet_string cfg (put_var_octet_string (fb_data fb)) = Ok ((), [])"
    using skip_put_var_octet_string [of "fb_data fb" cfg "[]"] d by simp
  have build: "fulfill_build fb =
      \<lparr>f_buffer = packet_type_u8 FulfillType # put_var_octet_string_length (length ?c) @ ?c,
       f_content_offset = 1 + length (put_var_octet_string_length (length ?c))\<rparr>"
    unfolding fulfill_build_def Let_def len by simp
  show ?thesis
    unfolding build fulfill_try_from_def
    by (simp only: Fulfill.simps env and_then.simps prod.case)
      (simp add: skip_def f len_defs dat ensure_no_inner_trailing_bytes_def)
qed

definition reject_builder_wf :: "RejectBuilder \<Rightarrow> bool" where
  "reject_builder_wf rb \<longleftrightarrow>
     length (code_bytes (rb_code rb)) = ERROR_CODE_LEN \<and>
     list_all (\<lambda>c. c < 128) (code_bytes (rb_code rb)) \<and>
     (case rb_triggered_by rb of None \<Rightarrow> True | Some a \<Rightarrow> address_wf a) \<and>
     length (rb_message rb) < 2 ^ 62 \<and> length (rb_data rb) < 2 ^ 62"

definition reject_triggered_bytes :: "RejectBuilder \<Rightarrow> bytes" where
  "reject_triggered_bytes rb = (case rb_triggered_by rb of None \<Rightarrow> [] | Some a \<Rightarrow> addr_bytes a)"

definition reject_content :: "RejectBuilder \<Rightarrow> bytes" where
  "reject_content rb = code_bytes (rb_code rb) @ put_var_octet_string (reject_triggered_bytes rb)
     @ put_var_octet_string (rb_message rb) @ put_var_octet_string (rb_data rb)"

lemma reject_build_eq:
  assumes "reject_builder_wf rb"
  defines "content \<equiv> reject_content rb"
  defines "off \<equiv> 1 + length (put_var_octet_string_length (length content))"
  defines "t \<equiv> predict_var_octet_string (length (reject_triggered_bytes rb))"
    and "m \<equiv> predict_var_octet_string (length (rb_message rb))"
    and "d \<equiv> predict_var_octet_string (length (rb_data rb))"
  shows "length content = 3 + t + m + d"
    and "length content < 2 ^ 64"
    and "REJECT_MIN_LEN \<le> length content"
    and "reject_build rb =
      \<lparr>r_buffer = packet_type_u8 RejectType # put_var_octet_string_length (length content) @ content,
       r_code = rb_code rb, r_message_offset = off + 3 + t,
       r_triggered_by_offset = off + 3, r_data_offset = off + 3 + t + m\<rparr>"
proof -
  show len: "length content = 3 + t + m + d"
    using assms(1)
    by (simp add: content_def reject_content_def length_put_var_octet_string t_def m_def d_def
        reject_builder_wf_def len_defs)
  have "length (reject_triggered_bytes rb) \<le> 1023"
    using assms(1) wf_address_short
    by (auto simp: reject_triggered_bytes_def reject_builder_wf_def split: option.splits)
  then show "length content < 2 ^ 64"
    unfolding len t_def m_def d_def
    using assms(1) predict_le [of "length (reject_triggered_bytes rb)"]
      predict_le [of "length (rb_message rb)"] predict_le [of "length (rb_data rb)"]
    by (simp add: reject_builder_wf_def)
  show "REJECT_MIN_LEN \<le> length content"
    unfolding len t_def m_def d_def MIN_LEN_values
    using predict_ge [of "length (reject_triggered_bytes rb)"]
      predict_ge [of "length (rb_message rb)"] predict_ge [of "length (rb_data rb)"] by linarith
  have trig: "(case rb_triggered_by rb of None \<Rightarrow> ([], 0)
      | Some msg \<Rightarrow> (addr_bytes msg, address_len msg)) =
      (reject_triggered_bytes rb, length (reject_triggered_bytes rb))"
    by (simp add: reject_triggered_bytes_def address_len_def split: option.split)
  have len': "ERROR_CODE_LEN + t + m + d = length content" by (simp add: len len_defs)
  show "reject_build rb =
      \<lparr>r_buffer = packet_type_u8 RejectType # put_var_octet_string_length (length content) @ content,
       r_code = rb_code rb, r_message_offset = off + 3 + t,
       r_triggered_by_offset = off + 3, r_data_offset = off + 3 + t + m\<rparr>"
    unfolding reject_build_def trig Let_def prod.case t_def [symmetric] m_def [symmetric]
      d_def [symmetric] len' predict_eq [of "length content"]
    by (simp add: off_def len) (simp add: content_def reject_content_def)
qed

lemma reject_build_parses:
  assumes wf: "reject_builder_wf rb" and trig: "rb_triggered_by rb = Some a"
  shows "reject_try_from cfg (r_buffer (reject_build rb)) = Ok (reject_build rb)"
proof -
  have tb: "reject_triggered_bytes rb = addr_bytes a"
    by (simp add: reject_triggered_bytes_def trig)
  have a: "address_wf a" and c: "length (code_bytes (rb_code rb)) = 3"
      "error_code_new (code_bytes (rb_code rb)) = Some (rb_code rb)"
    and l: "length (rb_message rb) < 2 ^ 64" "length (rb_data rb) < 2 ^ 64"
    using wf trig by (simp_all add: reject_builder_wf_def len_defs error_code_new_def)
  have addr: "read_var_octet_string cfg (put_var_octet_string (addr_bytes a) @ r) =
      Ok (addr_bytes a, r)" for r
    using wf_address_short [OF a] by (intro read_put_var_octet_string) simp
  have msg: "skip_var_octet_string cfg (put_var_octet_string (rb_message rb) @ r) = Ok ((), r)" for r
    using l(1) by (rule skip_put_var_octet_string)
  have dat: "skip_var_octet_string cfg (put_var_octet_string (rb_data rb)) = Ok ((), [])"
    using skip_put_var_octet_string [of "rb_data rb" cfg "[]"] l by simp
  note env = envelope_put [OF reject_build_eq(2) [OF wf], of cfg RejectType]
  show ?thesis
    unfolding reject_build_eq(4) [OF wf] reject_try_from_def
    using reject_build_eq(3) [OF wf]
    by (simp only: Reject.simps env and_then.simps prod.case Let_def not_le [symmetric] if_False
        not_True_eq_False)
      (simp add: reject_content_def copy_to_slice_append c tb addr address_try_from_bytes [OF a]
        msg dat ensure_no_inner_trailing_bytes_def length_put_var_octet_string)
qed

text \<open>Without \<^verbatim>\<open>triggered_by\<close> the builder writes an empty address, which the parser refuses.\<close>

lemma ADDRESS_PATTERN_Nil: "\<not> ADDRESS_PATTERN []"
  by code_simp

lemma reject_build_none_fails:
  assumes wf: "reject_builder_wf rb" and trig: "rb_triggered_by rb = None"
  shows "reject_try_from cfg (r_buffer (reject_build rb)) =
    Err (InvalidAddress AddressError.InvalidFormat)"
proof -
  have tb: "reject_triggered_bytes rb = []"
    by (simp add: reject_triggered_bytes_def trig)
  have c: "length (code_bytes (rb_code rb)) = 3"
      "error_code_new (code_bytes (rb_code rb)) = Some (rb_code rb)"
    using wf by (simp_all add: reject_builder_wf_def len_defs error_code_new_def)
  have addr: "read_var_octet_string cfg (put_var_octet_string [] @ r) = Ok ([], r)" for r
    by (intro read_put_var_octet_string) simp
  note env = envelope_put [OF reject_build_eq(2) [OF wf], of cfg RejectType]
  show ?thesis
    unfolding reject_build_eq(4) [OF wf] reject_try_from_def
    using reject_build_eq(3) [OF wf]
    by (simp only: Reject.simps env and_then.simps prod.case Let_def not_le [symmetric] if_False
        not_True_eq_False)
      (simp add: reject_content_def copy_to_slice_append c tb addr address_try_from_eq
        ADDRESS_PATTERN_Nil)
qed

lemma max_packet_details_roundtrip:
  "max_packet_details_from_bytes (max_packet_details_to_bytes d @ rest) = Ok d"
  by (simp add: max_packet_details_from_bytes_def max_packet_details_to_bytes_def get_u64_put)

section \<open>Parsing never panics\<close>

lemma np_inner [np_intros]: "ensure_no_inner_trailing_bytes cfg bs \<noteq> Panic"
  by (simp add: ensure_no_inner_trailing_bytes_def)

lemma np_outer [np_intros]: "ensure_no_outer_trailing_bytes cfg bs \<noteq> Panic"
  by (simp add: ensure_no_outer_trailing_bytes_def)

lemma np_envelope [np_intros]: "deserialize_envelope cfg ty bs \<noteq> Panic"
  unfolding deserialize_envelope_def
  by (intro np_intros) (auto simp: PACKET_TYPE_LEN_def)

lemma get_u64_eq_Ok:
  "get_u64 bs = Ok (v, rest) \<longleftrightarrow> 8 \<le> length bs \<and> v = of_nat (be_decode (take 8 bs)) \<and> rest = drop 8 bs"
  by (auto simp: get_u64_def)

lemma copy_to_slice_eq_Ok:
  "copy_to_slice n bs = Ok (xs, rest) \<longleftrightarrow> n \<le> length bs \<and> xs = take n bs \<and> rest = drop n bs"
  by (auto simp: copy_to_slice_def)

lemma skip_eq_Ok: "skip n bs = Ok (u, rest) \<longleftrightarrow> n \<le> length bs \<and> rest = drop n bs"
  by (auto simp: skip_def)

lemma np_write_slice [np_intros]: "length s \<le> length dst \<Longrightarrow> write_slice dst s \<noteq> Panic"
  by (simp add: write_slice_def)

text \<open>
  With \<^verbatim>\<open>roundtrip-only\<close> the parser formats the time it just parsed into seventeen bytes; that write
  fits when no parsed time has a longer rendering.
\<close>

definition roundtrip_fits :: "features \<Rightarrow> (bytes \<Rightarrow> 't option) \<Rightarrow> ('t \<Rightarrow> bytes) \<Rightarrow> bool" where
  "roundtrip_fits cfg parse_ts format_ts \<longleftrightarrow>
     (roundtrip_only cfg \<longrightarrow> (\<forall>s t. parse_ts s = Some t \<longrightarrow> length (format_ts t) \<le> EXPIRY_LEN))"

lemma np_prepare_try_from [np_intros]:
  assumes "roundtrip_fits cfg parse_ts format_ts"
  shows "prepare_try_from cfg parse_ts format_ts bs \<noteq> Panic"
  unfolding prepare_try_from_def
proof (intro np_intros, goal_cases)
  case (3 p off content content_len amount content1 ts content2)
  then show ?case
    using ascii_utf8_valid digits_utf8 by (auto simp: foldl_conj list.pred_map comp_def)
qed (use assms in \<open>auto simp: MIN_LEN_values get_u64_eq_Ok roundtrip_fits_def len_defs\<close>)

lemma np_fulfill_try_from [np_intros]: "fulfill_try_from cfg bs \<noteq> Panic"
  unfolding fulfill_try_from_def by (intro np_intros)

lemma np_reject_try_from [np_intros]: "reject_try_from cfg bs \<noteq> Panic"
  unfolding reject_try_from_def
  by (intro np_intros) (auto simp: MIN_LEN_values)

lemma np_packet_type_try_from [np_intros]: "packet_type_try_from bs \<noteq> Panic"
  by (simp add: packet_type_try_from_def packet_type_from_u8_def split: list.split)

lemma np_packet_try_from:
  assumes "roundtrip_fits cfg parse_ts format_ts"
  shows "packet_try_from cfg parse_ts format_ts bs \<noteq> Panic"
  unfolding packet_try_from_def using assms
  by (intro np_and_then np_map_err np_packet_type_try_from)
    (simp split: PacketType.split add: np_map_ok np_prepare_try_from np_fulfill_try_from
      np_reject_try_from)

section \<open>Where things are in a parsed buffer\<close>

lemma envelope_layout:
  assumes "deserialize_envelope cfg ty buf = Ok (off, content)"
  obtains hdr outer where "buf = hdr @ content @ outer" "off = length hdr"
    "strict cfg \<Longrightarrow> outer = []"
    "strict cfg \<Longrightarrow> hdr = packet_type_u8 ty # put_var_octet_string_length (length content)"
    "\<And>content'. length content' = length content \<Longrightarrow>
       deserialize_envelope cfg ty (hdr @ content' @ outer) = Ok (off, content')"
proof -
  from assms obtain r n peek outer where buf: "buf = packet_type_u8 ty # r"
    and len: "read_var_octet_string_length cfg r = Ok (n, peek)"
    and off: "off = 1 + (length r - length peek)"
    and con: "read_var_octet_string cfg r = Ok (content, outer)"
    and trail: "outer = [] \<or> \<not> strict cfg"
    by (cases buf) (auto simp: deserialize_envelope_def PACKET_TYPE_LEN_def get_u8_def ok_simps
        ensure_no_outer_trailing_bytes_def Let_def split: if_splits)
  from len_safe.delimits [OF len] obtain pre where r: "r = pre @ peek"
    and pre: "\<And>r. read_var_octet_string_length cfg (pre @ r) = Ok (n, r)" by blast
  have n: "n \<le> length peek" "content = take n peek" "outer = drop n peek"
    using con len by (auto simp: read_var_octet_string_def split: if_splits)
  let ?hdr = "packet_type_u8 ty # pre"
  show thesis
  proof (rule that [of ?hdr outer])
    show "buf = ?hdr @ content @ outer" using buf r n by simp
    show "off = length ?hdr" using off r by simp
    show "outer = []" if "strict cfg" using trail that by blast
    show "?hdr = packet_type_u8 ty # put_var_octet_string_length (length content)" if "strict cfg"
      using read_length_canonical [OF that len] r n by simp
    show "deserialize_envelope cfg ty (?hdr @ content' @ outer) = Ok (off, content')"
      if "length content' = length content" for content'
      using that trail n off r
      by (auto simp: deserialize_envelope_def PACKET_TYPE_LEN_def get_u8_def pre
          read_var_octet_string_def ensure_no_outer_trailing_bytes_def)
  qed
qed

lemma skip_var_eq_Ok:
  "skip_var_octet_string cfg bs = Ok (u, rest) \<longleftrightarrow>
     (\<exists>buf. read_var_octet_string cfg bs = Ok (buf, rest))"
  by (auto simp: skip_var_octet_string_eq map_ok_eq_Ok)

text \<open>What the accessors find at an offset where a variable-length string starts.\<close>

lemma data_at_read:
  assumes "buffer = pre @ bs @ post" "read_var_octet_string cfg bs = Ok (d, rest)"
  shows "data_at cfg (length pre) buffer = Ok d" "into_data_at cfg (length pre) buffer = Ok d"
proof -
  from vos_safe.delimits [OF assms(2)] obtain q where "bs = q @ rest"
    and q: "\<And>r. read_var_octet_string cfg (q @ r) = Ok (d, r)" by blast
  then have "read_var_octet_string cfg (bs @ post) = Ok (d, rest @ post)" by simp
  then show "data_at cfg (length pre) buffer = Ok d" "into_data_at cfg (length pre) buffer = Ok d"
    by (simp_all add: data_at_def into_data_at_def slice_def split_at_def assms(1)
        peek_var_octet_string_eq extract_var_octet_string_eq)
qed

text \<open>The fields of a parsed \<^verbatim>\<open>Prepare\<close>, and that they determine the result of parsing.\<close>

lemma prepare_fields:
  assumes "prepare_try_from cfg parse_ts format_ts buf = Ok p"
  obtains am ts cond c3 c4 c5 data where
    "deserialize_envelope cfg PrepareType buf = Ok (p_content_offset p, am @ ts @ cond @ c3)"
    "length am = 8" "length ts = 17" "length cond = 32" "5 \<le> length c3"
    "p_amount p = of_nat (be_decode am)" "list_all is_digit ts" "parse_ts ts = Some (p_expires_at p)"
    "roundtrip_only cfg \<longrightarrow>
       write_slice (replicate 17 0) (format_ts (p_expires_at p)) = (Ok ts :: (_, ParseError) result)"
    "read_var_octet_string cfg c3 = Ok (addr_bytes (p_destination p), c4)"
    "address_wf (p_destination p)"
    "read_var_octet_string cfg c4 = Ok (data, c5)" "c5 = [] \<or> \<not> strict cfg" "p_buffer p = buf"
    "p_data_offset p = p_content_offset p + (57 + length c3) - length c4"
proof -
  from assms obtain content c4 c5 addr data where
    env: "deserialize_envelope cfg PrepareType buf = Ok (p_content_offset p, content)"
    and len: "62 \<le> length content"
    and am: "p_amount p = of_nat (be_decode (take 8 content))"
    and ts: "list_all is_digit (take 17 (drop 8 content))"
      "parse_ts (take 17 (drop 8 content)) = Some (p_expires_at p)"
    and rt: "roundtrip_only cfg \<longrightarrow> write_slice (replicate 17 0) (format_ts (p_expires_at p)) =
       (Ok (take 17 (drop 8 content)) :: (_, ParseError) result)"
    and rd: "read_var_octet_string cfg (drop 57 content) = Ok (addr, c4)"
    and ad: "address_try_from addr = Ok (p_destination p)"
    and sk: "read_var_octet_string cfg c4 = Ok (data, c5)"
    and tr: "c5 = [] \<or> \<not> strict cfg"
    and p: "p_buffer p = buf" "p_data_offset p = p_content_offset p + length content - length c4"
    by (auto simp: prepare_try_from_def Let_def ok_simps get_u64_eq_Ok copy_to_slice_eq_Ok
        skip_eq_Ok skip_var_eq_Ok MIN_LEN_values foldl_conj list.pred_map comp_def len_defs
        ensure_no_inner_trailing_bytes_def split: if_splits option.splits)
  have "content = take 8 content @ take 17 (drop 8 content) @ take 32 (drop 25 content)
      @ drop 57 content"
    using take_drop_step [of 17 8 content] take_drop_step [of 32 25 content] by simp
  moreover have "addr = addr_bytes (p_destination p)" "address_wf (p_destination p)"
    using ad by (auto simp: address_try_from_Ok)
  ultimately show thesis
    using env len am ts rt rd sk tr p
    by (intro that [of "take 8 content" "take 17 (drop 8 content)" "take 32 (drop 25 content)"
        "drop 57 content" c4 data c5]) simp_all
qed

lemma prepare_fields_intro:
  assumes "deserialize_envelope cfg PrepareType buf = Ok (off, am @ ts @ cond @ c3)"
    "length am = 8" "length ts = 17" "length cond = 32" "5 \<le> length c3"
    "list_all is_digit ts" "parse_ts ts = Some t"
    "roundtrip_only cfg \<longrightarrow>
       write_slice (replicate 17 0) (format_ts t) = (Ok ts :: (_, ParseError) result)"
    "read_var_octet_string cfg c3 = Ok (addr_bytes dst, c4)" "address_wf dst"
    "read_var_octet_string cfg c4 = Ok (data, c5)" "c5 = [] \<or> \<not> strict cfg"
  shows "prepare_try_from cfg parse_ts format_ts buf =
    Ok \<lparr>p_buffer = buf, p_content_offset = off, p_destination = dst,
        p_amount = of_nat (be_decode am), p_expires_at = t,
        p_data_offset = off + (57 + length c3) - length c4\<rparr>"
proof -
  have u: "utf8_valid ts" using assms(6) by (intro ascii_utf8_valid digits_utf8)
  have g: "get_u64 (am @ r) = (Ok (of_nat (be_decode am), r) :: (_, ParseError) result)" for r
    using assms(2) by (simp add: get_u64_def)
  have sk: "skip_var_octet_string cfg c4 = Ok ((), c5)"
    using assms(11) by (simp add: skip_var_octet_string_eq)
  show ?thesis
    unfolding prepare_try_from_def assms(1)
    using assms
    by (simp add: MIN_LEN_values g copy_to_slice_append foldl_conj list.pred_map comp_def u
        skip_def len_defs sk address_try_from_bytes ensure_no_inner_trailing_bytes_def)
qed

lemma prepare_layout:
  assumes "prepare_try_from cfg parse_ts format_ts buf = Ok p"
  obtains hdr am ts cond dst payload tail outer data where
    "buf = hdr @ am @ ts @ cond @ dst @ payload @ tail @ outer"
    "p_buffer p = buf" "p_content_offset p = length hdr"
    "length am = 8" "length ts = 17" "length cond = 32"
    "p_amount p = of_nat (be_decode am)" "list_all is_digit ts" "parse_ts ts = Some (p_expires_at p)"
    "address_wf (p_destination p)"
    "read_var_octet_string cfg dst = Ok (addr_bytes (p_destination p), [])"
    "read_var_octet_string cfg payload = Ok (data, [])"
    "p_data_offset p = length (hdr @ am @ ts @ cond @ dst)"
    "strict cfg \<Longrightarrow> tail = [] \<and> outer = [] \<and>
       hdr = packet_type_u8 PrepareType # put_var_octet_string_length
         (length (am @ ts @ cond @ dst @ payload))"
    "roundtrip_only cfg \<longrightarrow>
       write_slice (replicate 17 0) (format_ts (p_expires_at p)) = (Ok ts :: (_, ParseError) result)"
  using assms
proof (cases rule: prepare_fields)
  case (1 am ts cond c3 c4 c5 data)
  from 1(1) obtain hdr outer where buf: "buf = hdr @ (am @ ts @ cond @ c3) @ outer"
    and off: "p_content_offset p = length hdr"
    and st: "strict cfg \<Longrightarrow> outer = []"
      "strict cfg \<Longrightarrow> hdr = packet_type_u8 PrepareType #
         put_var_octet_string_length (length (am @ ts @ cond @ c3))"
    by (rule envelope_layout) blast
  from vos_safe.delimits [OF 1(10)] obtain dst where dst: "c3 = dst @ c4"
    "read_var_octet_string cfg (dst @ []) = Ok (addr_bytes (p_destination p), [])" by blast
  from vos_safe.delimits [OF 1(12)] obtain payload where pay: "c4 = payload @ c5"
    "read_var_octet_string cfg (payload @ []) = Ok (data, [])" by blast
  show thesis
  proof (rule that [of hdr am ts cond dst payload c5 outer data])
    show "p_data_offset p = length (hdr @ am @ ts @ cond @ dst)"
      using 1(2,3,4,15) off dst(1) by simp
    show "c5 = [] \<and> outer = [] \<and> hdr = packet_type_u8 PrepareType #
        put_var_octet_string_length (length (am @ ts @ cond @ dst @ payload))" if "strict cfg"
      using st [OF that] 1(13) that dst(1) pay(1) by simp
  qed (use 1 buf off dst pay in simp_all)
qed

text \<open>The accessors of a parsed packet return; none of their slices or unwraps can panic.\<close>

lemma parsed_prepare_accessors:
  assumes "prepare_try_from cfg parse_ts format_ts buf = Ok p"
  shows "\<exists>cond d. length cond = CONDITION_LEN \<and>
    execution_condition p = (Ok cond :: (bytes, 'e) result) \<and>
    prepare_data cfg p = (Ok d :: (bytes, 'e) result) \<and>
    prepare_into_data cfg p = (Ok d :: (bytes, 'e) result)"
  using assms
proof (cases rule: prepare_layout)
  case (1 hdr am ts cond dst payload tail outer data)
  have buf: "buf = (hdr @ am @ ts @ cond @ dst) @ payload @ (tail @ outer)" using 1(1) by simp
  have "execution_condition p = Ok cond"
    using 1(1-6) by (simp add: execution_condition_def slice_def len_defs)
  moreover have "prepare_data cfg p = Ok data" "prepare_into_data cfg p = Ok data"
    using data_at_read [OF buf 1(12)] 1(2,13)
    by (simp_all add: prepare_data_def prepare_into_data_def)
  ultimately show ?thesis using 1(6) by (auto simp: len_defs)
qed

section \<open>Patching in place\<close>

lemma patch_append:
  "lo = length a \<Longrightarrow> length s = length s' \<Longrightarrow> patch lo s (a @ s' @ c) = a @ s @ c"
  by (simp add: patch_def)

text \<open>
  The two setters rewrite the buffer in place; parsing the patched buffer gives the patched packet.
\<close>

lemma set_amount_commutes:
  assumes "prepare_try_from cfg parse_ts format_ts buf = Ok p"
  shows "\<exists>p'. set_amount a p = (Ok p' :: ('t Prepare, ParseError) result) \<and>
    prepare_try_from cfg parse_ts format_ts (p_buffer p') = Ok p' \<and>
    p' = p\<lparr>p_amount := a, p_buffer := p_buffer p'\<rparr>"
  using assms
proof (cases rule: prepare_fields)
  case (1 am ts cond c3 c4 c5 data)
  from 1(1) obtain hdr outer where buf: "buf = hdr @ (am @ ts @ cond @ c3) @ outer"
    and off: "p_content_offset p = length hdr"
    and swap: "\<And>content'. length content' = length (am @ ts @ cond @ c3) \<Longrightarrow>
       deserialize_envelope cfg PrepareType (hdr @ content' @ outer) =
       Ok (p_content_offset p, content')"
    by (rule envelope_layout) blast
  let ?buf' = "hdr @ (put_u64 a @ ts @ cond @ c3) @ outer"
  have "set_amount a p = (Ok (p\<lparr>p_amount := a, p_buffer := ?buf'\<rparr>) :: (_, ParseError) result)"
    using 1(2,14) off buf by (simp add: set_amount_def slice_def patch_append)
  moreover have "of_nat (be_decode (put_u64 a)) = a"
    using unat_bound [of a] by (simp add: put_u64_def)
  then have "prepare_try_from cfg parse_ts format_ts ?buf' = Ok (p\<lparr>p_amount := a, p_buffer := ?buf'\<rparr>)"
    using 1 swap [of "put_u64 a @ ts @ cond @ c3"]
    by (subst prepare_fields_intro [of cfg ?buf' "p_content_offset p" "put_u64 a" ts cond c3
          parse_ts "p_expires_at p" format_ts "p_destination p" c4 data c5]) simp_all
  ultimately show ?thesis by (intro exI [of _ "p\<lparr>p_amount := a, p_buffer := ?buf'\<rparr>"]) simp
qed

lemma set_expires_at_commutes:
  assumes "prepare_try_from cfg parse_ts format_ts buf = Ok p" and t: "ts_ok parse_ts format_ts t"
  shows "\<exists>p'. set_expires_at format_ts t p = (Ok p' :: ('t Prepare, ParseError) result) \<and>
    prepare_try_from cfg parse_ts format_ts (p_buffer p') = Ok p' \<and>
    p' = p\<lparr>p_expires_at := t, p_buffer := p_buffer p'\<rparr>"
  using assms(1)
proof (cases rule: prepare_fields)
  case (1 am ts cond c3 c4 c5 data)
  from 1(1) obtain hdr outer where buf: "buf = hdr @ (am @ ts @ cond @ c3) @ outer"
    and off: "p_content_offset p = length hdr"
    and swap: "\<And>content'. length content' = length (am @ ts @ cond @ c3) \<Longrightarrow>
       deserialize_envelope cfg PrepareType (hdr @ content' @ outer) =
       Ok (p_content_offset p, content')"
    by (rule envelope_layout) blast
  let ?buf' = "hdr @ (am @ format_ts t @ cond @ c3) @ outer"
  have t': "length (format_ts t) = 17" "list_all is_digit (format_ts t)"
      "parse_ts (format_ts t) = Some t"
    using t by (simp_all add: ts_ok_def len_defs)
  have "buf = (hdr @ am) @ ts @ (cond @ c3 @ outer)" using buf by simp
  then have "patch (length hdr + 8) (format_ts t) buf = ?buf'"
    using 1(2,3) t'(1) by (simp only:) (subst patch_append, simp_all)
  then have "set_expires_at format_ts t p =
      (Ok (p\<lparr>p_expires_at := t, p_buffer := ?buf'\<rparr>) :: (_, ParseError) result)"
    using 1(2,3,14) off buf t'(1) by (simp add: set_expires_at_def slice_def write_slice_def len_defs)
  moreover have "prepare_try_from cfg parse_ts format_ts ?buf' =
      Ok (p\<lparr>p_expires_at := t, p_buffer := ?buf'\<rparr>)"
    using 1 swap [of "am @ format_ts t @ cond @ c3"] t'
    by (subst prepare_fields_intro [of cfg ?buf' "p_content_offset p" am "format_ts t" cond c3
          parse_ts t format_ts "p_destination p" c4 data c5]) (simp_all add: write_slice_def)
  ultimately show ?thesis by (intro exI [of _ "p\<lparr>p_expires_at := t, p_buffer := ?buf'\<rparr>"]) simp
qed

section \<open>Accepted buffers are the built ones\<close>

lemma write_slice_digits:
  assumes "write_slice (replicate 17 0) s = Ok ts" "list_all is_digit ts"
  shows "s = ts" "length s = 17"
proof -
  have s: "length s \<le> 17" "ts = s @ replicate (17 - length s) 0"
    using assms(1) by (auto simp: write_slice_def split: if_splits)
  have "\<not> is_digit 0" by (simp add: is_digit_def word_le_nat_alt)
  then have "17 - length s = 0"
    using assms(2) s(2) by (auto simp: list_all_iff)
  with s show "s = ts" "length s = 17" by simp_all
qed

lemma read_all_canonical:
  assumes "strict cfg" "read_var_octet_string cfg bs = Ok (d, [])"
  shows "bs = put_var_octet_string d"
  using read_var_octet_string_canonical [OF assms] by simp

lemma prepare_rebuild:
  assumes cfg: "features_ok cfg" "roundtrip_only cfg" and len: "length buf < 2 ^ 63"
    and ok: "prepare_try_from cfg parse_ts format_ts buf = Ok p"
  shows "\<exists>cond d. execution_condition p = (Ok cond :: (_, ParseError) result) \<and>
    prepare_data cfg p = (Ok d :: (_, ParseError) result) \<and>
    p = prepare_build format_ts \<lparr>pb_amount = p_amount p, pb_expires_at = p_expires_at p,
      pb_execution_condition = cond, pb_destination = p_destination p, pb_data = d\<rparr>"
  using ok
proof (cases rule: prepare_layout)
  case (1 hdr am ts cond dst payload tail outer data)
  have st: "strict cfg" using cfg by (simp add: features_ok_def)
  let ?pb = "\<lparr>pb_amount = p_amount p, pb_expires_at = p_expires_at p,
    pb_execution_condition = cond, pb_destination = p_destination p, pb_data = data\<rparr>"
  have ts: "format_ts (p_expires_at p) = ts"
    using 1(8,15) cfg(2) write_slice_digits by blast
  have dst: "dst = put_var_octet_string (addr_bytes (p_destination p))"
    using 1(11) by (rule read_all_canonical [OF st])
  have pay: "payload = put_var_octet_string data"
    using 1(12) by (rule read_all_canonical [OF st])
  have am: "put_u64 (p_amount p) = am"
    using 1(4,7) be_decode_less [of am] by (simp add: put_u64_def be_encode_decode unat_of_nat)
  have "length data < length payload"
    using pay predict_ge [of "length data"] by (simp add: length_put_var_octet_string)
  then have wf: "prepare_builder_wf parse_ts format_ts ?pb"
    using 1 ts len by (simp add: prepare_builder_wf_def ts_ok_def len_defs)
  have content: "prepare_content format_ts ?pb = am @ ts @ cond @ dst @ payload"
    by (simp add: prepare_content_def am ts dst pay)
  have h: "tail = []" "outer = []" "hdr = packet_type_u8 PrepareType #
      put_var_octet_string_length (length (am @ ts @ cond @ dst @ payload))"
    using 1(14) st by blast+
  have "p = prepare_build format_ts ?pb"
    unfolding prepare_build_eq [OF wf] content
    using 1(1-6,13) h pay
    by (intro Prepare.equality) (simp_all add: length_put_var_octet_string)
  moreover have "execution_condition p = (Ok cond :: (_, ParseError) result)"
    using 1(1-6) by (simp add: execution_condition_def slice_def len_defs)
  moreover have "prepare_data cfg p = (Ok data :: (_, ParseError) result)"
    using data_at_read(1) [of buf "hdr @ am @ ts @ cond @ dst" payload "tail @ outer" cfg data "[]"]
      1(1,2,12,13)
    by (simp add: prepare_data_def)
  ultimately show ?thesis by blast
qed

lemma fulfill_layout:
  assumes "fulfill_try_from cfg buf = Ok f"
  obtains hdr x payload tail outer data where
    "buf = hdr @ x @ payload @ tail @ outer" "f_buffer f = buf" "f_content_offset f = length hdr"
    "length x = 32" "read_var_octet_string cfg payload = Ok (data, [])"
    "strict cfg \<Longrightarrow> tail = [] \<and> outer = [] \<and> hdr = packet_type_u8 FulfillType #
       put_var_octet_string_length (length (x @ payload))"
proof -
  from assms obtain content data c2 where
    env: "deserialize_envelope cfg FulfillType buf = Ok (f_content_offset f, content)"
    and len: "32 \<le> length content"
    and rd: "read_var_octet_string cfg (drop 32 content) = Ok (data, c2)"
    and tr: "c2 = [] \<or> \<not> strict cfg" and f: "f_buffer f = buf"
    by (auto simp: fulfill_try_from_def ok_simps skip_eq_Ok skip_var_eq_Ok len_defs
        ensure_no_inner_trailing_bytes_def split: if_splits)
  from env obtain hdr outer where buf: "buf = hdr @ content @ outer"
    and off: "f_content_offset f = length hdr" and st: "strict cfg \<Longrightarrow> outer = []"
      "strict cfg \<Longrightarrow> hdr = packet_type_u8 FulfillType # put_var_octet_string_length (length content)"
    by (rule envelope_layout) blast
  from vos_safe.delimits [OF rd] obtain payload where pay: "drop 32 content = payload @ c2"
    "read_var_octet_string cfg (payload @ []) = Ok (data, [])" by blast
  have content: "content = take 32 content @ payload @ c2"
    using pay(1) by (metis append_take_drop_id)
  show thesis
  proof (rule that [of hdr "take 32 content" payload c2 outer data])
    show "buf = hdr @ take 32 content @ payload @ c2 @ outer"
      unfolding buf by (subst content) simp
    show "c2 = [] \<and> outer = [] \<and> hdr = packet_type_u8 FulfillType #
       put_var_octet_string_length (length (take 32 content @ payload))" if "strict cfg"
      using st [OF that] tr that pay(1) len by auto
  qed (use f off len pay in simp_all)
qed

lemma parsed_fulfill_accessors:
  assumes "fulfill_try_from cfg buf = Ok f"
  shows "\<exists>x d. length x = FULFILLMENT_LEN \<and> fulfillment f = (Ok x :: (bytes, 'e) result) \<and>
    fulfill_data cfg f = (Ok d :: (bytes, 'e) result) \<and>
    fulfill_into_data cfg f = (Ok d :: (bytes, 'e) result)"
  using assms
proof (cases rule: fulfill_layout)
  case (1 hdr x payload tail outer data)
  have buf: "buf = (hdr @ x) @ payload @ (tail @ outer)" using 1(1) by simp
  have "fulfillment f = Ok x" using 1(1-4) by (simp add: fulfillment_def slice_def len_defs)
  moreover have "fulfill_data cfg f = Ok data" "fulfill_into_data cfg f = Ok data"
    using data_at_read [OF buf 1(5)] 1(2,3,4)
    by (simp_all add: fulfill_data_def fulfill_into_data_def len_defs)
  ultimately show ?thesis using 1(4) by (auto simp: len_defs)
qed

lemma fulfill_rebuild:
  assumes st: "strict cfg" and ok: "fulfill_try_from cfg buf = Ok f"
  shows "\<exists>fb. length (fb_fulfillment fb) = FULFILLMENT_LEN \<and> f = fulfill_build fb"
  using ok
proof (cases rule: fulfill_layout)
  case (1 hdr x payload tail outer data)
  have pay: "payload = put_var_octet_string data" using 1(5) by (rule read_all_canonical [OF st])
  have h: "tail = []" "outer = []" "hdr = packet_type_u8 FulfillType #
      put_var_octet_string_length (length (x @ payload))" using 1(6) st by blast+
  have "f = fulfill_build \<lparr>fb_fulfillment = x, fb_data = data\<rparr>"
    using 1(1-4) h pay
    by (intro Fulfill.equality)
      (simp_all add: fulfill_build_def Let_def len_defs length_put_var_octet_string)
  then show ?thesis
    using 1(4) by (intro exI [of _ "\<lparr>fb_fulfillment = x, fb_data = data\<rparr>"]) (simp add: len_defs)
qed

lemma reject_layout:
  assumes "reject_try_from cfg buf = Ok r"
  obtains hdr cd trig msg payload tail outer a m d where
    "buf = hdr @ cd @ trig @ msg @ payload @ tail @ outer" "r_buffer r = buf"
    "length cd = 3" "r_code r = ErrorCode cd" "list_all (\<lambda>c. c < 128) cd"
    "read_var_octet_string cfg trig = Ok (addr_bytes a, [])" "address_wf a"
    "read_var_octet_string cfg msg = Ok (m, [])" "read_var_octet_string cfg payload = Ok (d, [])"
    "r_triggered_by_offset r = length (hdr @ cd)" "r_message_offset r = length (hdr @ cd @ trig)"
    "r_data_offset r = length (hdr @ cd @ trig @ msg)"
    "strict cfg \<Longrightarrow> tail = [] \<and> outer = [] \<and> hdr = packet_type_u8 RejectType #
       put_var_octet_string_length (length (cd @ trig @ msg @ payload))"
proof -
  from assms obtain off content addr a m d c2 c3 c4 where
    env: "deserialize_envelope cfg RejectType buf = Ok (off, content)"
    and len: "6 \<le> length content"
    and code: "r_code r = ErrorCode (take 3 content)" "list_all (\<lambda>c. c < 128) (take 3 content)"
    and r1: "read_var_octet_string cfg (drop 3 content) = Ok (addr, c2)"
    and a: "address_try_from addr = Ok a"
    and r2: "read_var_octet_string cfg c2 = Ok (m, c3)"
    and r3: "read_var_octet_string cfg c3 = Ok (d, c4)"
    and tr: "c4 = [] \<or> \<not> strict cfg"
    and r: "r_buffer r = buf" "r_triggered_by_offset r = off + length content - (length content - 3)"
      "r_message_offset r = off + length content - length c2"
      "r_data_offset r = off + length content - length c3"
    by (auto simp: reject_try_from_def Let_def ok_simps copy_to_slice_eq_Ok skip_var_eq_Ok
        MIN_LEN_values error_code_new_def ensure_no_inner_trailing_bytes_def
        split: if_splits option.splits)
  from env obtain hdr outer where buf: "buf = hdr @ content @ outer"
    and off: "off = length hdr" and st: "strict cfg \<Longrightarrow> outer = []"
      "strict cfg \<Longrightarrow> hdr = packet_type_u8 RejectType # put_var_octet_string_length (length content)"
    by (rule envelope_layout) blast
  from vos_safe.delimits [OF r1] obtain trig where t: "drop 3 content = trig @ c2"
    "read_var_octet_string cfg (trig @ []) = Ok (addr, [])" by blast
  from vos_safe.delimits [OF r2] obtain msg where mm: "c2 = msg @ c3"
    "read_var_octet_string cfg (msg @ []) = Ok (m, [])" by blast
  from vos_safe.delimits [OF r3] obtain payload where pay: "c3 = payload @ c4"
    "read_var_octet_string cfg (payload @ []) = Ok (d, [])" by blast
  have content: "content = take 3 content @ trig @ msg @ payload @ c4"
    using t(1) mm(1) pay(1) by (metis append_take_drop_id)
  have clen: "length content = 3 + length (trig @ msg @ payload @ c4)"
    using arg_cong [OF t(1), of length] mm(1) pay(1) len by simp
  have ad: "addr = addr_bytes a" "address_wf a" using a by (auto simp: address_try_from_Ok)
  show thesis
  proof (rule that [of hdr "take 3 content" trig msg payload c4 outer a m d])
    show "buf = hdr @ take 3 content @ trig @ msg @ payload @ c4 @ outer"
      unfolding buf by (subst content) simp
    show "c4 = [] \<and> outer = [] \<and> hdr = packet_type_u8 RejectType #
       put_var_octet_string_length (length (take 3 content @ trig @ msg @ payload))" if "strict cfg"
      using st [OF that] tr that clen len by auto
  qed (use r off code t mm pay ad clen in simp_all)
qed

lemma parsed_reject_accessors:
  assumes "reject_try_from cfg buf = Ok r"
  shows "\<exists>a m d. address_wf a \<and> triggered_by cfg r = (Ok (Some a) :: (_, 'e) result) \<and>
    reject_message cfg r = (Ok m :: (_, 'e) result) \<and>
    reject_data cfg r = (Ok d :: (_, 'e) result) \<and>
    reject_into_data cfg r = (Ok d :: (_, 'e) result)"
  using assms
proof (cases rule: reject_layout)
  case (1 hdr cd trig msg payload tail outer a m d)
  have b1: "buf = (hdr @ cd) @ trig @ (msg @ payload @ tail @ outer)" using 1(1) by simp
  have b2: "buf = (hdr @ cd @ trig) @ msg @ (payload @ tail @ outer)" using 1(1) by simp
  have b3: "buf = (hdr @ cd @ trig @ msg) @ payload @ (tail @ outer)" using 1(1) by simp
  have "data_at cfg (r_triggered_by_offset r) buf = (Ok (addr_bytes a) :: (_, OerError) result)"
    using data_at_read(1) [OF b1 1(6)] 1(10) by simp
  then have "peek_var_octet_string cfg (drop (r_triggered_by_offset r) buf) = Ok (addr_bytes a)"
    by (cases "peek_var_octet_string cfg (drop (r_triggered_by_offset r) buf)")
      (auto simp: data_at_def slice_def split: if_splits)
  then have "triggered_by cfg r = Ok (Some a)"
    using 1(1,2,3,10) address_try_from_bytes [OF 1(7)] by (simp add: triggered_by_def slice_def)
  then show ?thesis
    using data_at_read [OF b2 1(8)] data_at_read [OF b3 1(9)] 1(2,7,11,12)
    by (auto simp: reject_message_def reject_data_def reject_into_data_def)
qed

lemma reject_rebuild:
  assumes st: "strict cfg" and ok: "reject_try_from cfg buf = Ok r" and len: "length buf < 2 ^ 62"
  shows "\<exists>rb. reject_builder_wf rb \<and> r = reject_build rb"
  using ok
proof (cases rule: reject_layout)
  case (1 hdr cd trig msg payload tail outer a m d)
  have t: "trig = put_var_octet_string (addr_bytes a)" and mm: "msg = put_var_octet_string m"
    and pay: "payload = put_var_octet_string d"
    using 1(6,8,9) read_all_canonical [OF st] by blast+
  let ?rb = "\<lparr>rb_code = r_code r, rb_message = m, rb_triggered_by = Some a, rb_data = d\<rparr>"
  have "length m < length msg" "length d < length payload"
    using mm pay predict_ge by (simp_all add: length_put_var_octet_string)
  then have wf: "reject_builder_wf ?rb"
    using 1(1,3,4,5,7) len by (simp add: reject_builder_wf_def len_defs)
  have content: "reject_content ?rb = cd @ trig @ msg @ payload"
    by (simp add: reject_content_def reject_triggered_bytes_def t mm pay 1(4))
  have h: "tail = []" "outer = []" "hdr = packet_type_u8 RejectType #
      put_var_octet_string_length (length (cd @ trig @ msg @ payload))" using 1(13) st by blast+
  have "r = reject_build ?rb"
    unfolding reject_build_eq(4) [OF wf] content
    using 1(1-4,10-12) h t mm
    by (intro Reject.equality)
      (simp_all add: length_put_var_octet_string reject_triggered_bytes_def)
  with wf show ?thesis by blast
qed

section \<open>Properties\<close>

lemma build_packet_type:
  "packet_type_try_from (packet_type_u8 ty # bs) = Ok ty"
  by (cases ty) (simp_all add: packet_type_try_from_def packet_type_from_u8_def)

lemma prepare_build_packet:
  assumes "prepare_builder_wf parse_ts format_ts pb"
  shows "packet_try_from cfg parse_ts format_ts (p_buffer (prepare_build format_ts pb)) =
    Ok (PreparePacket (prepare_build format_ts pb))"
proof -
  have "packet_type_try_from (p_buffer (prepare_build format_ts pb)) = Ok PrepareType"
    unfolding prepare_build_eq [OF assms(1)]
    by (simp only: Prepare.simps build_packet_type)
  then show ?thesis
    using prepare_build_parses [OF assms(1)] by (simp add: packet_try_from_def)
qed

lemma slice_append:
  "buf = a @ x @ c \<Longrightarrow> slice (length a) (length a + length x) buf = Ok x"
  by (simp add: slice_def)

lemma prepare_build_accessors:
  assumes wf: "prepare_builder_wf parse_ts format_ts pb"
  shows "execution_condition (prepare_build format_ts pb) = Ok (pb_execution_condition pb)"
    and "prepare_data cfg (prepare_build format_ts pb) = Ok (pb_data pb)"
proof -
  let ?c = "prepare_content format_ts pb"
  let ?hdr = "packet_type_u8 PrepareType # put_var_octet_string_length (length ?c)"
  have l: "length (format_ts (pb_expires_at pb)) = 17" "length (pb_execution_condition pb) = 32"
    using wf by (simp_all add: prepare_builder_wf_def ts_ok_def len_defs)
  have "slice (length (?hdr @ put_u64 (pb_amount pb) @ format_ts (pb_expires_at pb)))
      (length (?hdr @ put_u64 (pb_amount pb) @ format_ts (pb_expires_at pb)) +
       length (pb_execution_condition pb)) (p_buffer (prepare_build format_ts pb)) =
      Ok (pb_execution_condition pb)"
    unfolding prepare_build_eq [OF wf]
    by (subst prepare_content_def) (rule slice_append, simp)
  then show "execution_condition (prepare_build format_ts pb) = Ok (pb_execution_condition pb)"
    using l prepare_build_eq [OF wf] by (simp add: execution_condition_def len_defs)
  let ?pre = "?hdr @ put_u64 (pb_amount pb) @ format_ts (pb_expires_at pb)
    @ pb_execution_condition pb @ put_var_octet_string (addr_bytes (pb_destination pb))"
  have "read_var_octet_string cfg (put_var_octet_string (pb_data pb) @ []) = Ok (pb_data pb, [])"
    using wf by (intro read_put_var_octet_string) (simp add: prepare_builder_wf_def)
  then have rd: "read_var_octet_string cfg (put_var_octet_string (pb_data pb)) = Ok (pb_data pb, [])"
    by simp
  have "p_buffer (prepare_build format_ts pb) = ?pre @ put_var_octet_string (pb_data pb) @ []"
    unfolding prepare_build_eq [OF wf] by (simp add: prepare_content_def)
  moreover have "p_data_offset (prepare_build format_ts pb) = length ?pre"
    unfolding prepare_build_eq [OF wf]
    by (simp add: length_put_var_octet_string) (simp add: prepare_content_def
        length_put_var_octet_string)
  ultimately show "prepare_data cfg (prepare_build format_ts pb) = Ok (pb_data pb)"
    using data_at_read(1) [OF _ rd] unfolding prepare_data_def by metis
qed


text \<open>Concrete values for the examples: a time is its seventeen digits.\<close>

definition example_prepare :: "bytes PrepareBuilder" where
  "example_prepare =
     \<lparr>pb_amount = 107, pb_expires_at = bstr ''20171223012151549'',
      pb_execution_condition = replicate 32 7, pb_destination = Address (bstr ''example.alice''),
      pb_data = bstr ''payload''\<rparr>"

lemma example_digits: "list_all is_digit (bstr ''20171223012151549'')"
  by code_simp

lemma example_address_wf: "address_wf (Address (bstr ''example.alice''))"
  by code_simp

lemma example_prepare_wf: "prepare_builder_wf Some (\<lambda>t. t) example_prepare"
  by (simp add: prepare_builder_wf_def example_prepare_def ts_ok_def len_defs example_digits
      example_address_wf) (simp add: bstr_def)


lemma parsed_packet_accessors:
  assumes "packet_try_from cfg parse_ts format_ts buf = Ok pkt"
  shows "case pkt of
      PreparePacket p \<Rightarrow> (\<exists>c d. length c = 32 \<and> address_wf (p_destination p) \<and>
        execution_condition p = (Ok c :: (_, ParseError) result) \<and>
        prepare_data cfg p = (Ok d :: (_, ParseError) result) \<and>
        prepare_into_data cfg p = (Ok d :: (_, ParseError) result))
    | FulfillPacket f \<Rightarrow> (\<exists>x d. length x = 32 \<and>
        fulfillment f = (Ok x :: (_, ParseError) result) \<and>
        fulfill_data cfg f = (Ok d :: (_, ParseError) result) \<and>
        fulfill_into_data cfg f = (Ok d :: (_, ParseError) result))
    | RejectPacket r \<Rightarrow> (\<exists>a m d. address_wf a \<and>
        triggered_by cfg r = (Ok (Some a) :: (_, ParseError) result) \<and>
        reject_message cfg r = (Ok m :: (_, ParseError) result) \<and>
        reject_data cfg r = (Ok d :: (_, ParseError) result) \<and>
        reject_into_data cfg r = (Ok d :: (_, ParseError) result))"
proof -
  from assms consider
      (p) p where "pkt = PreparePacket p" "prepare_try_from cfg parse_ts format_ts buf = Ok p"
    | (f) f where "pkt = FulfillPacket f" "fulfill_try_from cfg buf = Ok f"
    | (r) r where "pkt = RejectPacket r" "reject_try_from cfg buf = Ok r"
    by (auto simp: packet_try_from_def ok_simps split: PacketType.splits)
      (metis PacketType.exhaust)
  then show ?thesis
  proof cases
    case p
    moreover have "address_wf (p_destination p)" using p(2) by (rule prepare_fields)
    ultimately show ?thesis
      using parsed_prepare_accessors [OF p(2), where ?'e = ParseError] by (auto simp: len_defs)
  next
    case f
    then show ?thesis
      using parsed_fulfill_accessors [OF f(2), where ?'e = ParseError] by (auto simp: len_defs)
  next
    case r
    then show ?thesis
      using parsed_reject_accessors [OF r(2), where ?'e = ParseError] by auto
  qed
qed



text \<open>
  Changing a parsed \<^verbatim>\<open>Prepare\<close> in place, its amount or (to a time that formats as seventeen digits) its
  expiry, never panics, and parsing the patched buffer gives exactly the packet with the new amount or
  expiry: every other field, offset and byte position is unaffected.
\<close>

lemma setters_parse_back:
  assumes p: "prepare_try_from cfg parse_ts format_ts buf = Ok p" and t: "ts_ok parse_ts format_ts t"
  shows "(\<exists>p'. set_amount a p = (Ok p' :: (_, ParseError) result) \<and>
      prepare_try_from cfg parse_ts format_ts (p_buffer p') = Ok p' \<and>
      p' = p\<lparr>p_amount := a, p_buffer := p_buffer p'\<rparr> \<and> length (p_buffer p') = length buf) \<and>
    (\<exists>p'. set_expires_at format_ts t p = (Ok p' :: (_, ParseError) result) \<and>
      prepare_try_from cfg parse_ts format_ts (p_buffer p') = Ok p' \<and>
      p' = p\<lparr>p_expires_at := t, p_buffer := p_buffer p'\<rparr>)"
proof
  from set_amount_commutes [OF p] obtain p' where
    p': "set_amount a p = (Ok p' :: (_, ParseError) result)"
      "prepare_try_from cfg parse_ts format_ts (p_buffer p') = Ok p'"
      "p' = p\<lparr>p_amount := a, p_buffer := p_buffer p'\<rparr>" by blast
  moreover have "p_buffer p = buf" using p by (rule prepare_fields)
  then have "length (p_buffer p') = length buf"
    using p'(1) by (auto simp: set_amount_def slice_def patch_def Let_def split: if_splits)
  ultimately show "\<exists>p'. set_amount a p = (Ok p' :: (_, ParseError) result) \<and>
      prepare_try_from cfg parse_ts format_ts (p_buffer p') = Ok p' \<and>
      p' = p\<lparr>p_amount := a, p_buffer := p_buffer p'\<rparr> \<and> length (p_buffer p') = length buf" by blast
next
  show "\<exists>p'. set_expires_at format_ts t p = (Ok p' :: (_, ParseError) result) \<and>
      prepare_try_from cfg parse_ts format_ts (p_buffer p') = Ok p' \<and>
      p' = p\<lparr>p_expires_at := t, p_buffer := p_buffer p'\<rparr>"
    using set_expires_at_commutes [OF p t] by blast
qed

lemma setters_parse_back_example:
  "(\<exists>p'. set_amount 42 (prepare_build (\<lambda>t. t) example_prepare) = (Ok p' :: (_, ParseError) result) \<and>
      prepare_try_from strict_features Some (\<lambda>t. t) (p_buffer p') = Ok p' \<and> p_amount p' = 42) \<and>
   (\<exists>p'. set_expires_at (\<lambda>t. t) (bstr ''20171223012151550'') (prepare_build (\<lambda>t. t) example_prepare) =
      (Ok p' :: (_, ParseError) result) \<and>
    prepare_try_from strict_features Some (\<lambda>t. t) (p_buffer p') = Ok p')"
proof -
  have "list_all is_digit (bstr ''20171223012151550'')" by code_simp
  then have "ts_ok Some (\<lambda>t. t) (bstr ''20171223012151550'')"
    by (simp add: ts_ok_def len_defs) (simp add: bstr_def)
  note w = setters_parse_back [OF prepare_build_parses [OF example_prepare_wf, of strict_features] this]
  show ?thesis
    using w(1) [THEN conjunct1, of 42] w(1) [THEN conjunct2]
    by (metis Prepare.ext_inject Prepare.surjective Prepare.update_convs(1,4))
qed

text \<open>
  With the \<^verbatim>\<open>roundtrip-only\<close> feature the accepted \<^verbatim>\<open>Prepare\<close> buffers are exactly the built ones:
  rebuilding a parsed packet from its accessors gives the same packet, buffer included. With
  \<^verbatim>\<open>strict\<close> the same holds of \<^verbatim>\<open>Fulfill\<close> and \<^verbatim>\<open>Reject\<close>.
\<close>

lemma parsed_packets_rebuild:
  assumes "features_ok cfg" "roundtrip_only cfg" "length buf < 2 ^ 62"
    and "packet_try_from cfg parse_ts format_ts buf = Ok pkt"
  shows "case pkt of
      PreparePacket p \<Rightarrow> (\<exists>cond d. execution_condition p = (Ok cond :: (_, ParseError) result) \<and>
        prepare_data cfg p = (Ok d :: (_, ParseError) result) \<and>
        p = prepare_build format_ts \<lparr>pb_amount = p_amount p, pb_expires_at = p_expires_at p,
          pb_execution_condition = cond, pb_destination = p_destination p, pb_data = d\<rparr>)
    | FulfillPacket f \<Rightarrow> (\<exists>fb. length (fb_fulfillment fb) = 32 \<and> f = fulfill_build fb)
    | RejectPacket r \<Rightarrow> (\<exists>rb. reject_builder_wf rb \<and> r = reject_build rb)"
proof -
  have st: "strict cfg" and len: "length buf < 2 ^ 63"
    using assms by (simp_all add: features_ok_def)
  from assms(4) show ?thesis
    using prepare_rebuild [OF assms(1,2) len] fulfill_rebuild [OF st] reject_rebuild [OF st _ assms(3)]
    by (auto simp: packet_try_from_def ok_simps len_defs split: PacketType.splits)
      (metis PacketType.exhaust)
qed

lemma parsed_packets_rebuild_example:
  "\<exists>cond d. execution_condition (prepare_build (\<lambda>t. t) example_prepare) =
      (Ok cond :: (_, ParseError) result) \<and>
    prepare_build (\<lambda>t. t) example_prepare = prepare_build (\<lambda>t. t)
      \<lparr>pb_amount = 107, pb_expires_at = bstr ''20171223012151549'', pb_execution_condition = cond,
       pb_destination = Address (bstr ''example.alice''), pb_data = d\<rparr>"
proof -
  let ?cfg = "\<lparr>strict = True, roundtrip_only = True\<rparr>"
  let ?p = "prepare_build (\<lambda>t. t) example_prepare"
  have "length (p_buffer ?p) = 81" by code_simp
  then have len: "length (p_buffer ?p) < 2 ^ 62" by simp
  have f: "features_ok ?cfg" "roundtrip_only ?cfg" by (simp_all add: features_ok_def)
  have "p_amount ?p = 107" "p_expires_at ?p = bstr ''20171223012151549''"
      "p_destination ?p = Address (bstr ''example.alice'')"
    unfolding prepare_build_eq [OF example_prepare_wf] by (simp_all add: example_prepare_def)
  with parsed_packets_rebuild [OF f len prepare_build_packet [OF example_prepare_wf]]
  show ?thesis by auto
qed

text \<open>
  C17. A \<^verbatim>\<open>Reject\<close> built with a \<^verbatim>\<open>triggered_by\<close> address parses to the packet that was built. One built
  with \<^verbatim>\<open>triggered_by: None\<close>, which the builder allows, is refused by the parser: the empty address
  that was written is not a valid ILP address.
\<close>

theorem reject_roundtrip_iff_triggered_by:
  assumes "reject_builder_wf rb"
  shows "reject_try_from cfg (r_buffer (reject_build rb)) =
    (case rb_triggered_by rb of
       Some _ \<Rightarrow> Ok (reject_build rb)
     | None \<Rightarrow> Err (InvalidAddress AddressError.InvalidFormat))"
  using reject_build_parses [OF assms] reject_build_none_fails [OF assms]
  by (cases "rb_triggered_by rb") auto

definition example_reject :: "Address option \<Rightarrow> RejectBuilder" where
  "example_reject a = \<lparr>rb_code = F99_APPLICATION_ERROR, rb_message = bstr ''Some error'',
     rb_triggered_by = a, rb_data = []\<rparr>"

theorem reject_roundtrip_iff_triggered_by_witness:
  "reject_try_from default_features (r_buffer (reject_build (example_reject None))) =
     Err (InvalidAddress AddressError.InvalidFormat) \<and>
   reject_try_from default_features
     (r_buffer (reject_build (example_reject (Some (Address (bstr ''example.alice'')))))) =
   Ok (reject_build (example_reject (Some (Address (bstr ''example.alice'')))))"
proof -
  have c: "list_all (\<lambda>c. c < 128) (bstr ''F99'')" by code_simp
  have "reject_builder_wf (example_reject None)"
    "reject_builder_wf (example_reject (Some (Address (bstr ''example.alice''))))"
    by (simp_all add: reject_builder_wf_def example_reject_def c
        example_address_wf) (simp_all add: bstr_def len_defs)
  from this [THEN reject_roundtrip_iff_triggered_by, of default_features] show ?thesis
    by (simp add: example_reject_def)
qed

end
