(* ===== verification/Ccp_Packet.thy ===== *)
theory Ccp_Packet
  imports Ilp_Packet
begin

text \<open>
  The messages of the Connector-to-Connector Protocol, \<^verbatim>\<open>crates/interledger-ccp/src/packet.rs\<close>:
  route control and route update requests, carried in the data of a \<^verbatim>\<open>Prepare\<close> with a fixed
  destination and condition. Rust strings are their bytes, valid UTF-8. A \<^verbatim>\<open>SystemTime\<close> is a number
  of nanoseconds since the epoch.

  The lemmas interpret the codec locales for strings, route properties and routes, and show that
  both requests survive the trip through the bytes of a packet and that no data makes their parsers
  panic.
\<close>

section \<open>Constants and errors\<close>

type_synonym SystemTime = nat

definition add_millis :: "SystemTime \<Rightarrow> nat \<Rightarrow> SystemTime" where
  "add_millis t ms = t + ms * 1000000"

definition PEER_PROTOCOL_FULFILLMENT :: bytes where
  "PEER_PROTOCOL_FULFILLMENT = replicate 32 0"

definition PEER_PROTOCOL_CONDITION :: bytes where
  "PEER_PROTOCOL_CONDITION =
     [102, 104, 122, 173, 248, 98, 189, 119, 108, 143, 193, 139, 142, 159, 142, 32, 8, 151, 20, 133,
      110, 226, 51, 179, 144, 42, 89, 29, 13, 95, 41, 37]"

definition PEER_PROTOCOL_EXPIRY_DURATION :: nat where "PEER_PROTOCOL_EXPIRY_DURATION = 60000"
abbreviation FLAG_OPTIONAL :: u8 where "FLAG_OPTIONAL \<equiv> 0x80"
abbreviation FLAG_TRANSITIVE :: u8 where "FLAG_TRANSITIVE \<equiv> 0x40"
abbreviation FLAG_PARTIAL :: u8 where "FLAG_PARTIAL \<equiv> 0x20"
abbreviation FLAG_UTF8 :: u8 where "FLAG_UTF8 \<equiv> 0x10"
abbreviation ROUTING_TABLE_ID_LEN :: nat where "ROUTING_TABLE_ID_LEN \<equiv> 16"
abbreviation EPOCH_LEN :: nat where "EPOCH_LEN \<equiv> 4"
abbreviation AUTH_LEN :: nat where "AUTH_LEN \<equiv> 32"

definition CCP_RESPONSE :: Fulfill where
  "CCP_RESPONSE = fulfill_build \<lparr>fb_fulfillment = PEER_PROTOCOL_FULFILLMENT, fb_data = []\<rparr>"

definition CCP_CONTROL_DESTINATION :: Address where
  "CCP_CONTROL_DESTINATION = Address (bstr ''peer.route.control'')"

definition CCP_UPDATE_DESTINATION :: Address where
  "CCP_UPDATE_DESTINATION = Address (bstr ''peer.route.update'')"

datatype CcpPacketError =
    UnexpectedMode u8
  | PacketExpired
  | UnexpectedDestination Address
  | UnexpectedCondition bytes
  | CcpOer OerError
  | Utf8Conversion
  | AddresssInvalid AddressError

datatype Mode = Idle | Sync

primrec mode_u8 :: "Mode \<Rightarrow> u8" where
  "mode_u8 Idle = 0"
| "mode_u8 Sync = 1"

abbreviation MODE_LEN :: nat where "MODE_LEN \<equiv> 1"

definition mode_try_from :: "u8 \<Rightarrow> (Mode, CcpPacketError) result" where
  "mode_try_from val = (if val = 0 then Ok Idle else if val = 1 then Ok Sync
                        else Err (UnexpectedMode val))"

text \<open>The repeated \<^verbatim>\<open>str::from_utf8(data.read_var_octet_string()?)?\<close>.\<close>

definition read_utf8 :: "features \<Rightarrow> bytes \<Rightarrow> (bytes \<times> bytes, CcpPacketError) result" where
  "read_utf8 cfg data =
     and_then (map_err CcpOer (read_var_octet_string cfg data)) (\<lambda>(s, rest).
     if utf8_valid s then Ok (s, rest) else Err Utf8Conversion)"

section \<open>Route control\<close>

record RouteControlRequest =
  rc_mode :: Mode
  rc_last_known_routing_table_id :: bytes
  rc_last_known_epoch :: u32
  rc_features :: "bytes list"

definition ROUTE_CONTROL_MIN_LEN :: nat where
  "ROUTE_CONTROL_MIN_LEN = MODE_LEN + ROUTING_TABLE_ID_LEN + EPOCH_LEN + MIN_VARUINT_LEN"

definition route_control_try_from_data ::
  "features \<Rightarrow> bytes \<Rightarrow> (RouteControlRequest, CcpPacketError) result" where
  "route_control_try_from_data cfg data =
     (if length data < ROUTE_CONTROL_MIN_LEN then Err (CcpOer UnexpectedEof)
      else and_then (get_u8 data) (\<lambda>(m, data1).
      and_then (mode_try_from m) (\<lambda>mode.
      and_then (copy_to_slice ROUTING_TABLE_ID_LEN data1) (\<lambda>(table_id, data2).
      and_then (get_u32 data2) (\<lambda>(epoch, data3).
      and_then (map_err CcpOer (read_var_uint cfg data3)) (\<lambda>(num_features, data4).
      and_then (read_many (read_utf8 cfg) (unat num_features) data4) (\<lambda>(feats, _).
      Ok \<lparr>rc_mode = mode, rc_last_known_routing_table_id = table_id,
          rc_last_known_epoch = epoch, rc_features = feats\<rparr>)))))))"

text \<open>
  The checks both requests make on the enclosing packet: destination, condition, and then the data.
\<close>

definition try_from_without_expiry ::
  "features \<Rightarrow> Address \<Rightarrow> (bytes \<Rightarrow> ('r, CcpPacketError) result) \<Rightarrow> 't Prepare \<Rightarrow>
   ('r, CcpPacketError) result" where
  "try_from_without_expiry cfg ccp_destination try_from_data prepare =
     (let destination = p_destination prepare in
      if destination \<noteq> ccp_destination then Err (UnexpectedDestination destination)
      else and_then (execution_condition prepare) (\<lambda>condition.
      if condition \<noteq> PEER_PROTOCOL_CONDITION then Err (UnexpectedCondition condition)
      else and_then (prepare_data cfg prepare) try_from_data))"

definition route_control_try_from_without_expiry ::
  "features \<Rightarrow> SystemTime Prepare \<Rightarrow> (RouteControlRequest, CcpPacketError) result" where
  "route_control_try_from_without_expiry cfg prepare =
     try_from_without_expiry cfg CCP_CONTROL_DESTINATION (route_control_try_from_data cfg) prepare"

definition route_control_try_from ::
  "features \<Rightarrow> SystemTime \<Rightarrow> SystemTime Prepare \<Rightarrow> (RouteControlRequest, CcpPacketError) result" where
  "route_control_try_from cfg now prepare =
     (if p_expires_at prepare < now then Err PacketExpired
      else route_control_try_from_without_expiry cfg prepare)"

definition route_control_data :: "RouteControlRequest \<Rightarrow> bytes" where
  "route_control_data r =
     [mode_u8 (rc_mode r)] @ rc_last_known_routing_table_id r @ put_u32 (rc_last_known_epoch r)
     @ put_var_uint (of_nat (length (rc_features r)))
     @ concat (map put_var_octet_string (rc_features r))"

definition ccp_prepare ::
  "(SystemTime \<Rightarrow> bytes) \<Rightarrow> SystemTime \<Rightarrow> Address \<Rightarrow> bytes \<Rightarrow> SystemTime Prepare" where
  "ccp_prepare format_ts now destination data =
     prepare_build format_ts
       \<lparr>pb_amount = 0, pb_expires_at = add_millis now PEER_PROTOCOL_EXPIRY_DURATION,
        pb_execution_condition = PEER_PROTOCOL_CONDITION, pb_destination = destination,
        pb_data = data\<rparr>"

definition route_control_to_prepare ::
  "(SystemTime \<Rightarrow> bytes) \<Rightarrow> SystemTime \<Rightarrow> RouteControlRequest \<Rightarrow> SystemTime Prepare" where
  "route_control_to_prepare format_ts now r =
     ccp_prepare format_ts now CCP_CONTROL_DESTINATION (route_control_data r)"

section \<open>Routes\<close>

record RouteProp =
  is_optional :: bool
  is_transitive :: bool
  is_partial :: bool
  prop_id :: u16
  is_utf8 :: bool
  prop_value :: bytes

definition ROUTE_PROP_MIN_LEN :: nat where
  "ROUTE_PROP_MIN_LEN = 1 + 2 + EMPTY_VARLEN_OCTETS_LEN"

definition route_prop_try_from ::
  "features \<Rightarrow> bytes \<Rightarrow> (RouteProp \<times> bytes, CcpPacketError) result" where
  "route_prop_try_from cfg data =
     (if length data < ROUTE_PROP_MIN_LEN then Err (CcpOer UnexpectedEof)
      else and_then (get_u8 data) (\<lambda>(meta, data1).
      and_then (get_u16 data1) (\<lambda>(i, data2).
      and_then (map_err CcpOer (read_var_octet_string cfg data2)) (\<lambda>(v, data3).
      Ok (\<lparr>is_optional = (meta AND FLAG_OPTIONAL \<noteq> 0),
           is_transitive = (meta AND FLAG_TRANSITIVE \<noteq> 0),
           is_partial = (meta AND FLAG_PARTIAL \<noteq> 0), prop_id = i,
           is_utf8 = (meta AND FLAG_UTF8 \<noteq> 0), prop_value = v\<rparr>, data3)))))"

definition route_prop_meta :: "RouteProp \<Rightarrow> u8" where
  "route_prop_meta p =
     (let m0 = 0;
          m1 = (if is_optional p then m0 OR FLAG_OPTIONAL else m0);
          m2 = (if is_partial p then m1 OR FLAG_PARTIAL else m1);
          m3 = (if is_transitive p then m2 OR FLAG_TRANSITIVE else m2)
      in if is_utf8 p then m3 OR FLAG_UTF8 else m3)"

definition route_prop_write_to :: "RouteProp \<Rightarrow> bytes" where
  "route_prop_write_to p =
     [route_prop_meta p] @ put_u16 (prop_id p) @ put_var_octet_string (prop_value p)"

record Route =
  rt_prefix :: bytes
  rt_path :: "bytes list"
  rt_auth :: bytes
  rt_props :: "RouteProp list"

definition route_try_from ::
  "features \<Rightarrow> bytes \<Rightarrow> (Route \<times> bytes, CcpPacketError) result" where
  "route_try_from cfg data =
     and_then (read_utf8 cfg data) (\<lambda>(pfx, data1).
     and_then (map_err CcpOer (read_var_uint cfg data1)) (\<lambda>(path_len, data2).
     and_then (read_many (read_utf8 cfg) (unat path_len) data2) (\<lambda>(path, data3).
     if length data3 < AUTH_LEN then Err (CcpOer UnexpectedEof)
     else and_then (copy_to_slice AUTH_LEN data3) (\<lambda>(auth, data4).
     and_then (map_err CcpOer (read_var_uint cfg data4)) (\<lambda>(prop_len, data5).
     and_then (read_many (route_prop_try_from cfg) (unat prop_len) data5) (\<lambda>(props, data6).
     Ok (\<lparr>rt_prefix = pfx, rt_path = path, rt_auth = auth, rt_props = props\<rparr>, data6)))))))"

definition route_write_to :: "Route \<Rightarrow> bytes" where
  "route_write_to r =
     put_var_octet_string (rt_prefix r) @ put_var_uint (of_nat (length (rt_path r)))
     @ concat (map put_var_octet_string (rt_path r)) @ rt_auth r
     @ put_var_uint (of_nat (length (rt_props r)))
     @ concat (map route_prop_write_to (rt_props r))"

section \<open>Route updates\<close>

record RouteUpdateRequest =
  ru_routing_table_id :: bytes
  ru_current_epoch_index :: u32
  ru_from_epoch_index :: u32
  ru_to_epoch_index :: u32
  ru_hold_down_time :: u32
  ru_speaker :: Address
  ru_new_routes :: "Route list"
  ru_withdrawn_routes :: "bytes list"

definition ROUTE_UPDATE_MIN_LEN :: nat where
  "ROUTE_UPDATE_MIN_LEN = ROUTING_TABLE_ID_LEN + EPOCH_LEN * 3 + 4 + ADDRESS_MIN_LEN
     + MIN_VARUINT_LEN + MIN_VARUINT_LEN"

definition route_update_try_from_data ::
  "features \<Rightarrow> bytes \<Rightarrow> (RouteUpdateRequest, CcpPacketError) result" where
  "route_update_try_from_data cfg data =
     (if length data < ROUTE_UPDATE_MIN_LEN then Err (CcpOer UnexpectedEof)
      else and_then (copy_to_slice ROUTING_TABLE_ID_LEN data) (\<lambda>(table_id, data1).
      and_then (get_u32 data1) (\<lambda>(current, data2).
      and_then (get_u32 data2) (\<lambda>(from_epoch, data3).
      and_then (get_u32 data3) (\<lambda>(to_epoch, data4).
      and_then (get_u32 data4) (\<lambda>(hold_down, data5).
      and_then (map_err CcpOer (read_var_octet_string cfg data5)) (\<lambda>(addr, data6).
      and_then (map_err AddresssInvalid (address_try_from addr)) (\<lambda>speaker.
      and_then (map_err CcpOer (read_var_uint cfg data6)) (\<lambda>(new_routes_len, data7).
      and_then (read_many (route_try_from cfg) (unat new_routes_len) data7) (\<lambda>(new_routes, data8).
      and_then (map_err CcpOer (read_var_uint cfg data8)) (\<lambda>(withdrawn_len, data9).
      and_then (read_many (read_utf8 cfg) (unat withdrawn_len) data9) (\<lambda>(withdrawn, _).
      Ok \<lparr>ru_routing_table_id = table_id, ru_current_epoch_index = current,
          ru_from_epoch_index = from_epoch, ru_to_epoch_index = to_epoch,
          ru_hold_down_time = hold_down, ru_speaker = speaker,
          ru_new_routes = new_routes, ru_withdrawn_routes = withdrawn\<rparr>))))))))))))"

definition route_update_try_from_without_expiry ::
  "features \<Rightarrow> SystemTime Prepare \<Rightarrow> (RouteUpdateRequest, CcpPacketError) result" where
  "route_update_try_from_without_expiry cfg prepare =
     try_from_without_expiry cfg CCP_UPDATE_DESTINATION (route_update_try_from_data cfg) prepare"

definition route_update_try_from ::
  "features \<Rightarrow> SystemTime \<Rightarrow> SystemTime Prepare \<Rightarrow> (RouteUpdateRequest, CcpPacketError) result" where
  "route_update_try_from cfg now prepare =
     (if p_expires_at prepare < now then Err PacketExpired
      else route_update_try_from_without_expiry cfg prepare)"

definition route_update_data :: "RouteUpdateRequest \<Rightarrow> bytes" where
  "route_update_data r =
     ru_routing_table_id r @ put_u32 (ru_current_epoch_index r) @ put_u32 (ru_from_epoch_index r)
     @ put_u32 (ru_to_epoch_index r) @ put_u32 (ru_hold_down_time r)
     @ put_var_octet_string (addr_bytes (ru_speaker r))
     @ put_var_uint (of_nat (length (ru_new_routes r)))
     @ concat (map route_write_to (ru_new_routes r))
     @ put_var_uint (of_nat (length (ru_withdrawn_routes r)))
     @ concat (map put_var_octet_string (ru_withdrawn_routes r))"

definition route_update_to_prepare ::
  "(SystemTime \<Rightarrow> bytes) \<Rightarrow> SystemTime \<Rightarrow> RouteUpdateRequest \<Rightarrow> SystemTime Prepare" where
  "route_update_to_prepare format_ts now r =
     ccp_prepare format_ts now CCP_UPDATE_DESTINATION (route_update_data r)"

section \<open>Codecs\<close>

lemmas ccp_lens =
  MIN_VARUINT_LEN_def ROUTE_CONTROL_MIN_LEN_def ROUTE_PROP_MIN_LEN_def ROUTE_UPDATE_MIN_LEN_def
  MIN_LEN_values

definition string_wf :: "bytes \<Rightarrow> bool" where
  "string_wf s \<longleftrightarrow> utf8_valid s \<and> length s < 2 ^ 64"

lemma read_utf8_put [codec_simps]:
  "string_wf s \<Longrightarrow> read_utf8 cfg (put_var_octet_string s @ rest) = Ok (s, rest)"
  unfolding read_utf8_def string_wf_def by (subst read_put_var_octet_string) simp_all

interpretation utf8: wire_codec put_var_octet_string "read_utf8 cfg" string_wf for cfg
  by unfold_locales (rule read_utf8_put)

lemma np_read_utf8 [np_intros]: "read_utf8 cfg bs \<noteq> Panic"
  unfolding read_utf8_def by (intro np_intros)

lemma read_utf8_delimits:
  assumes "read_utf8 cfg bs = Ok (s, rest)"
  shows "\<exists>pre. bs = pre @ rest \<and> (\<forall>r. read_utf8 cfg (pre @ r) = Ok (s, r))"
proof -
  have s: "read_var_octet_string cfg bs = Ok (s, rest)" "utf8_valid s"
    using assms by (auto simp: read_utf8_def ok_simps split: if_splits)
  from vos_safe.delimits [OF s(1)] s(2) show ?thesis by (auto simp: read_utf8_def)
qed

interpretation utf8_safe: safe_reader "read_utf8 cfg" for cfg
  by unfold_locales (rule np_read_utf8, rule read_utf8_delimits)

definition route_prop_wf :: "RouteProp \<Rightarrow> bool" where
  "route_prop_wf p \<longleftrightarrow> length (prop_value p) < 2 ^ 64"

lemma route_prop_meta_bits:
  "(route_prop_meta p AND FLAG_OPTIONAL \<noteq> 0) = is_optional p"
  "(route_prop_meta p AND FLAG_TRANSITIVE \<noteq> 0) = is_transitive p"
  "(route_prop_meta p AND FLAG_PARTIAL \<noteq> 0) = is_partial p"
  "(route_prop_meta p AND FLAG_UTF8 \<noteq> 0) = is_utf8 p"
  by (simp_all add: route_prop_meta_def
     )

lemma route_prop_read_write:
  assumes "route_prop_wf p"
  shows "route_prop_try_from cfg (route_prop_write_to p @ rest) = Ok (p, rest)"
proof -
  have "read_var_octet_string cfg (put_var_octet_string (prop_value p) @ rest) =
      Ok (prop_value p, rest)"
    using assms by (intro read_put_var_octet_string) (simp add: route_prop_wf_def)
  then show ?thesis
    using predict_ge [of "length (prop_value p)"]
    by (simp add: route_prop_try_from_def route_prop_write_to_def ccp_lens get_u8_def get_u16_put
        route_prop_meta_bits length_put_var_octet_string)
qed

interpretation rprop: wire_codec route_prop_write_to "route_prop_try_from cfg" route_prop_wf for cfg
  by unfold_locales (rule route_prop_read_write)

lemma get_u16_eq_Ok:
  "get_u16 bs = Ok (v, rest) \<longleftrightarrow> 2 \<le> length bs \<and> v = of_nat (be_decode (take 2 bs)) \<and> rest = drop 2 bs"
  by (auto simp: get_u16_def)

lemma get_u32_eq_Ok:
  "get_u32 bs = Ok (v, rest) \<longleftrightarrow> 4 \<le> length bs \<and> v = of_nat (be_decode (take 4 bs)) \<and> rest = drop 4 bs"
  by (auto simp: get_u32_def)

lemma np_route_prop [np_intros]: "route_prop_try_from cfg bs \<noteq> Panic"
  unfolding route_prop_try_from_def
  by (intro np_intros) (auto simp: ccp_lens get_u8_eq_Ok)

lemma route_prop_delimits:
  assumes "route_prop_try_from cfg bs = Ok (p, rest)"
  shows "\<exists>pre. bs = pre @ rest \<and> (\<forall>r. route_prop_try_from cfg (pre @ r) = Ok (p, r))"
proof -
  from assms obtain m d2 v where bs: "bs = m # d2"
    and d2: "2 \<le> length d2"
    and v: "read_var_octet_string cfg (drop 2 d2) = Ok (v, rest)"
    and p: "p = \<lparr>is_optional = (m AND FLAG_OPTIONAL \<noteq> 0),
       is_transitive = (m AND FLAG_TRANSITIVE \<noteq> 0), is_partial = (m AND FLAG_PARTIAL \<noteq> 0),
       prop_id = of_nat (be_decode (take 2 d2)), is_utf8 = (m AND FLAG_UTF8 \<noteq> 0), prop_value = v\<rparr>"
    by (auto simp: route_prop_try_from_def ok_simps get_u8_eq_Ok get_u16_eq_Ok split: if_splits)
  from vos_safe.delimits [OF v] obtain q where q: "drop 2 d2 = q @ rest"
    "\<And>r. read_var_octet_string cfg (q @ r) = Ok (v, r)" by blast
  have "0 < length q" using q(2) [of "[]"] read_var_octet_string_shrinks [of cfg q v "[]"] by (cases q) auto
  then have "route_prop_try_from cfg ((m # take 2 d2 @ q) @ r) = Ok (p, r)" for r
    using d2 q(2) [of r]
    by (simp add: route_prop_try_from_def ccp_lens get_u8_def get_u16_def p)
  moreover have "bs = (m # take 2 d2 @ q) @ rest" using bs q(1) by (metis append_Cons append.assoc append_take_drop_id)
  ultimately show ?thesis by blast
qed

interpretation prop_safe: safe_reader "route_prop_try_from cfg" for cfg
  by unfold_locales (rule np_route_prop, rule route_prop_delimits)

definition route_wf :: "Route \<Rightarrow> bool" where
  "route_wf r \<longleftrightarrow> string_wf (rt_prefix r) \<and> list_all string_wf (rt_path r) \<and>
     length (rt_path r) < 2 ^ 64 \<and> length (rt_auth r) = AUTH_LEN \<and>
     list_all route_prop_wf (rt_props r) \<and> length (rt_props r) < 2 ^ 64"

lemma route_read_write:
  assumes "route_wf r"
  shows "route_try_from cfg (route_write_to r @ rest) = Ok (r, rest)"
proof -
  have len: "unat (of_nat (length (rt_path r)) :: u64) = length (rt_path r)"
    "unat (of_nat (length (rt_props r)) :: u64) = length (rt_props r)"
    using assms by (auto simp: route_wf_def intro!: unat_of_nat_u64)
  have auth: "length (rt_auth r) = 32" using assms by (simp add: route_wf_def ccp_lens)
  show ?thesis
    using assms unfolding route_wf_def
    by (simp add: route_try_from_def route_write_to_def read_utf8_put read_put_var_uint len
        utf8.read_many_puts rprop.read_many_puts ccp_lens copy_to_slice_append auth)
qed

interpretation route: wire_codec route_write_to "route_try_from cfg" route_wf for cfg
  by unfold_locales (rule route_read_write)

lemma np_route [np_intros]: "route_try_from cfg bs \<noteq> Panic"
  unfolding route_try_from_def
  by (intro np_intros utf8_safe.read_many_no_panic prop_safe.read_many_no_panic) auto

lemma route_delimits:
  assumes "route_try_from cfg bs = Ok (r, rest)"
  shows "\<exists>pre. bs = pre @ rest \<and> (\<forall>s. route_try_from cfg (pre @ s) = Ok (r, s))"
proof -
  from assms obtain pfx d1 n d2 path d3 k d5 props where
    1: "read_utf8 cfg bs = Ok (pfx, d1)" and 2: "read_var_uint cfg d1 = Ok (n, d2)"
    and 3: "read_many (read_utf8 cfg) (unat n) d2 = Ok (path, d3)"
    and 4: "AUTH_LEN \<le> length d3" and 5: "read_var_uint cfg (drop AUTH_LEN d3) = Ok (k, d5)"
    and 6: "read_many (route_prop_try_from cfg) (unat k) d5 = Ok (props, rest)"
    and r: "r = \<lparr>rt_prefix = pfx, rt_path = path, rt_auth = take AUTH_LEN d3, rt_props = props\<rparr>"
    by (auto simp: route_try_from_def ok_simps copy_to_slice_eq_Ok split: if_splits)
  from utf8_safe.delimits [OF 1] vuint_safe.delimits [OF 2] utf8_safe.read_many_delimits [OF 3]
    vuint_safe.delimits [OF 5] prop_safe.read_many_delimits [OF 6]
  obtain p1 p2 p3 p5 p6 where
    d: "bs = p1 @ d1" "d1 = p2 @ d2" "d2 = p3 @ d3" "drop AUTH_LEN d3 = p5 @ d5" "d5 = p6 @ rest"
    and reads: "\<And>s. read_utf8 cfg (p1 @ s) = Ok (pfx, s)" "\<And>s. read_var_uint cfg (p2 @ s) = Ok (n, s)"
      "\<And>s. read_many (read_utf8 cfg) (unat n) (p3 @ s) = Ok (path, s)"
      "\<And>s. read_var_uint cfg (p5 @ s) = Ok (k, s)"
      "\<And>s. read_many (route_prop_try_from cfg) (unat k) (p6 @ s) = Ok (props, s)" by blast
  have "d3 = take AUTH_LEN d3 @ p5 @ p6 @ rest" using d(4,5) by (metis append_take_drop_id)
  then have "bs = (p1 @ p2 @ p3 @ take AUTH_LEN d3 @ p5 @ p6) @ rest" using d(1-3) by simp
  moreover have "route_try_from cfg ((p1 @ p2 @ p3 @ take AUTH_LEN d3 @ p5 @ p6) @ s) = Ok (r, s)" for s
    using 4 by (simp add: route_try_from_def reads copy_to_slice_append r)
  ultimately show ?thesis by blast
qed

interpretation route_safe: safe_reader "route_try_from cfg" for cfg
  by unfold_locales (rule np_route, rule route_delimits)

section \<open>Requests\<close>

definition route_control_wf :: "RouteControlRequest \<Rightarrow> bool" where
  "route_control_wf r \<longleftrightarrow> length (rc_last_known_routing_table_id r) = ROUTING_TABLE_ID_LEN \<and>
     list_all string_wf (rc_features r) \<and> length (rc_features r) < 2 ^ 64"

definition route_update_wf :: "RouteUpdateRequest \<Rightarrow> bool" where
  "route_update_wf r \<longleftrightarrow> length (ru_routing_table_id r) = ROUTING_TABLE_ID_LEN \<and>
     address_wf (ru_speaker r) \<and>
     list_all route_wf (ru_new_routes r) \<and> length (ru_new_routes r) < 2 ^ 64 \<and>
     list_all string_wf (ru_withdrawn_routes r) \<and> length (ru_withdrawn_routes r) < 2 ^ 64"

lemma mode_roundtrip: "mode_try_from (mode_u8 m) = Ok m"
  by (cases m) (simp_all add: mode_try_from_def)

lemma route_control_data_parses:
  assumes "route_control_wf r"
  shows "route_control_try_from_data cfg (route_control_data r) = Ok r"
proof -
  have n: "unat (of_nat (length (rc_features r)) :: u64) = length (rc_features r)"
    and i: "length (rc_last_known_routing_table_id r) = 16"
    and f: "list_all string_wf (rc_features r)"
    using assms by (auto simp: route_control_wf_def ccp_lens intro!: unat_of_nat_u64)
  have "read_many (read_utf8 cfg) (length (rc_features r))
      (concat (map put_var_octet_string (rc_features r))) = Ok (rc_features r, [])"
    using utf8.read_many_puts [OF f, of cfg "[]"] by simp
  then show ?thesis
    using length_put_var_uint [of "of_nat (length (rc_features r))"]
    by (simp add: route_control_try_from_data_def route_control_data_def ccp_lens get_u8_def
        mode_roundtrip copy_to_slice_append i get_u32_put read_put_var_uint n)
qed

lemma route_update_data_parses:
  assumes "route_update_wf r"
  shows "route_update_try_from_data cfg (route_update_data r) = Ok r"
proof -
  have n: "unat (of_nat (length (ru_new_routes r)) :: u64) = length (ru_new_routes r)"
      "unat (of_nat (length (ru_withdrawn_routes r)) :: u64) = length (ru_withdrawn_routes r)"
    and i: "length (ru_routing_table_id r) = 16" and a: "address_wf (ru_speaker r)"
    and w: "list_all route_wf (ru_new_routes r)" "list_all string_wf (ru_withdrawn_routes r)"
    using assms by (auto simp: route_update_wf_def ccp_lens intro!: unat_of_nat_u64)
  have sp: "read_var_octet_string cfg (put_var_octet_string (addr_bytes (ru_speaker r)) @ rest) =
      Ok (addr_bytes (ru_speaker r), rest)" for rest
    using wf_address_short [OF a] by (intro read_put_var_octet_string) simp
  have wd: "read_many (read_utf8 cfg) (length (ru_withdrawn_routes r))
      (concat (map put_var_octet_string (ru_withdrawn_routes r))) = Ok (ru_withdrawn_routes r, [])"
    using utf8.read_many_puts [OF w(2), of cfg "[]"] by simp
  have "ROUTE_UPDATE_MIN_LEN \<le> length (route_update_data r)"
    using length_put_var_uint [of "of_nat (length (ru_new_routes r))"]
      length_put_var_uint [of "of_nat (length (ru_withdrawn_routes r))"] wf_address_size [OF a] i
    by (simp add: route_update_data_def ccp_lens length_put_var_octet_string)
  then show ?thesis
    by (simp add: route_update_try_from_data_def)
      (simp add: route_update_data_def ccp_lens copy_to_slice_append i get_u32_put sp
        address_try_from_bytes [OF a] read_put_var_uint n route.read_many_puts [OF w(1)] wd)
qed

lemma ccp_destinations_wf:
  "address_wf CCP_CONTROL_DESTINATION" "address_wf CCP_UPDATE_DESTINATION"
  by code_simp+

lemma ccp_prepare_parses:
  assumes "ts_ok parse_ts format_ts (add_millis now PEER_PROTOCOL_EXPIRY_DURATION)"
    and "length data < 2 ^ 63" and "address_wf dest"
  shows "prepare_try_from cfg parse_ts format_ts (p_buffer (ccp_prepare format_ts now dest data)) =
      Ok (ccp_prepare format_ts now dest data)"
    and "try_from_without_expiry cfg' dest f (ccp_prepare format_ts now dest data) = f data"
    and "\<not> p_expires_at (ccp_prepare format_ts now dest data) < now"
proof -
  let ?pb = "\<lparr>pb_amount = 0, pb_expires_at = add_millis now PEER_PROTOCOL_EXPIRY_DURATION,
    pb_execution_condition = PEER_PROTOCOL_CONDITION, pb_destination = dest, pb_data = data\<rparr>"
  have wf: "prepare_builder_wf parse_ts format_ts ?pb"
    using assms by (simp add: prepare_builder_wf_def PEER_PROTOCOL_CONDITION_def len_defs)
  show "prepare_try_from cfg parse_ts format_ts (p_buffer (ccp_prepare format_ts now dest data)) =
      Ok (ccp_prepare format_ts now dest data)"
    unfolding ccp_prepare_def by (rule prepare_build_parses [OF wf])
  have "p_destination (prepare_build format_ts ?pb) = dest"
    and "p_expires_at (prepare_build format_ts ?pb) = add_millis now PEER_PROTOCOL_EXPIRY_DURATION"
    unfolding prepare_build_eq [OF wf] by simp_all
  then show "try_from_without_expiry cfg' dest f (ccp_prepare format_ts now dest data) = f data"
    and "\<not> p_expires_at (ccp_prepare format_ts now dest data) < now"
    by (simp_all only: try_from_without_expiry_def ccp_prepare_def prepare_build_accessors [OF wf])
      (simp_all add: add_millis_def)
qed

section \<open>No panics\<close>

lemma np_mode [np_intros]: "mode_try_from m \<noteq> Panic"
  by (simp add: mode_try_from_def)

lemma np_route_control_data: "route_control_try_from_data cfg data \<noteq> Panic"
  unfolding route_control_try_from_data_def
  by (intro np_intros utf8_safe.read_many_no_panic)
    (auto simp: ccp_lens get_u8_eq_Ok copy_to_slice_eq_Ok)

lemma np_route_update_data: "route_update_try_from_data cfg data \<noteq> Panic"
  unfolding route_update_try_from_data_def
  by (intro np_intros utf8_safe.read_many_no_panic route_safe.read_many_no_panic)
    (auto simp: ccp_lens get_u32_eq_Ok copy_to_slice_eq_Ok)

lemma route_update_parses_back:
  assumes "route_update_wf r" "length (route_update_data r) < 2 ^ 63"
    and "ts_ok parse_ts format_ts (add_millis now PEER_PROTOCOL_EXPIRY_DURATION)"
  shows "\<exists>p. prepare_try_from cfg parse_ts format_ts
        (p_buffer (route_update_to_prepare format_ts now r)) = Ok p \<and>
      route_update_try_from cfg now p = Ok r"
  by (simp add: ccp_prepare_parses [OF assms(3,2) ccp_destinations_wf(2)]
      route_update_to_prepare_def route_update_try_from_def
      route_update_try_from_without_expiry_def route_update_data_parses [OF assms(1)])

lemma route_control_parses_back:
  assumes "route_control_wf r" "length (route_control_data r) < 2 ^ 63"
    and "ts_ok parse_ts format_ts (add_millis now PEER_PROTOCOL_EXPIRY_DURATION)"
  shows "\<exists>p. prepare_try_from cfg parse_ts format_ts
        (p_buffer (route_control_to_prepare format_ts now r)) = Ok p \<and>
      route_control_try_from cfg now p = Ok r"
  by (simp add: ccp_prepare_parses [OF assms(3,2) ccp_destinations_wf(1)]
      route_control_to_prepare_def route_control_try_from_def
      route_control_try_from_without_expiry_def route_control_data_parses [OF assms(1)])

section \<open>Properties\<close>


text \<open>In the examples a time is printed as its milliseconds, in seventeen digits.\<close>

definition example_format :: "SystemTime \<Rightarrow> bytes" where
  "example_format t = fmt_dec 17 (t div 1000000)"

definition example_parse_ms :: "bytes \<Rightarrow> SystemTime option" where
  "example_parse_ms s = Some (dec_value s * 1000000)"

lemma example_ts_ok: "ms < 10 ^ 17 \<Longrightarrow> ts_ok example_parse_ms example_format (ms * 1000000)"
  using fmt_dec_shape [of 17 ms]
  by (simp add: ts_ok_def example_parse_ms_def example_format_def dec_value_fmt len_defs)

definition example_update :: RouteUpdateRequest where
  "example_update = \<lparr>ru_routing_table_id = replicate 16 3, ru_current_epoch_index = 52,
     ru_from_epoch_index = 50, ru_to_epoch_index = 52, ru_hold_down_time = 30000,
     ru_speaker = Address (bstr ''example.alice''),
     ru_new_routes = [\<lparr>rt_prefix = bstr ''example.prefix1'', rt_path = [bstr ''example.prefix1''],
       rt_auth = replicate 32 9, rt_props = [\<lparr>is_optional = False, is_transitive = True,
         is_partial = False, prop_id = 1, is_utf8 = True, prop_value = bstr ''hello''\<rparr>]\<rparr>],
     ru_withdrawn_routes = [bstr ''example.prefix3'']\<rparr>"

lemma example_update_wf: "route_update_wf example_update"
proof -
  have "utf8_valid (bstr ''example.prefix1'')" "utf8_valid (bstr ''example.prefix3'')"
    by (simp_all add: bstr_def)
  then show ?thesis
    by (simp add: route_update_wf_def example_update_def route_wf_def string_wf_def route_prop_wf_def
        ccp_lens example_address_wf) (simp add: bstr_def)
qed

definition example_control :: RouteControlRequest where
  "example_control = \<lparr>rc_mode = Sync, rc_last_known_routing_table_id = replicate 16 1,
     rc_last_known_epoch = 32, rc_features = [bstr ''foo'', bstr ''bar'']\<rparr>"

lemma example_control_wf: "route_control_wf example_control"
proof -
  have "utf8_valid (bstr ''foo'')" "utf8_valid (bstr ''bar'')" by (simp_all add: bstr_def)
  then show ?thesis
    by (simp add: example_control_def route_control_wf_def string_wf_def ccp_lens) (simp add: bstr_def)
qed


text \<open>
  No packet that parses can make the CCP request parsers panic, whatever its data: every count,
  string and property is bounds-checked before it is read.
\<close>

lemma ccp_requests_never_panic:
  assumes "prepare_try_from cfg parse_ts format_ts buf = Ok p"
  shows "route_update_try_from cfg now p \<noteq> Panic \<and> route_control_try_from cfg now p \<noteq> Panic"
proof -
  from parsed_prepare_accessors [OF assms, where ?'e = CcpPacketError] obtain c d where
    "execution_condition p = (Ok c :: (_, CcpPacketError) result)"
    "prepare_data cfg p = (Ok d :: (_, CcpPacketError) result)" by blast
  then show ?thesis
    by (simp add: route_update_try_from_def route_control_try_from_def
        route_update_try_from_without_expiry_def route_control_try_from_without_expiry_def
        try_from_without_expiry_def np_route_control_data np_route_update_data Let_def)
qed

lemma ccp_requests_never_panic_example:
  "\<exists>p. prepare_try_from default_features example_parse_ms example_format
      (p_buffer (ccp_prepare example_format 0 CCP_UPDATE_DESTINATION (replicate 40 1))) = Ok p \<and>
    route_update_try_from default_features 0 p \<noteq> Panic"
proof -
  have "ts_ok example_parse_ms example_format (add_millis 0 PEER_PROTOCOL_EXPIRY_DURATION)"
    using example_ts_ok [of PEER_PROTOCOL_EXPIRY_DURATION]
    by (simp add: add_millis_def PEER_PROTOCOL_EXPIRY_DURATION_def)
  from ccp_prepare_parses(1) [OF this _ ccp_destinations_wf(2), of "replicate 40 1" default_features]
  have ok: "prepare_try_from default_features example_parse_ms example_format
      (p_buffer (ccp_prepare example_format 0 CCP_UPDATE_DESTINATION (replicate 40 1))) =
      Ok (ccp_prepare example_format 0 CCP_UPDATE_DESTINATION (replicate 40 1))" by simp
  with ccp_requests_never_panic [OF ok, of 0] show ?thesis by blast
qed

end
