(* ===== verification/Service.thy ===== *)
theory Service
  imports Ccp_Packet "HOL-Library.AList"
begin

text \<open>
  The vocabulary the services share: accounts (\<^verbatim>\<open>crates/interledger-store/src/account.rs\<close>), routing
  relations (\<^verbatim>\<open>crates/interledger-ccp/src/lib.rs\<close>), and the requests passed down the service stack
  (\<^verbatim>\<open>crates/interledger-service/src/lib.rs\<close>). A service is a function of the request and of the state of
  everything behind it; it returns a \<^verbatim>\<open>Fulfill\<close>, a \<^verbatim>\<open>Reject\<close> or a panic, and the new state.
  A hash map is an association list with distinct keys whose order is the iteration order.
\<close>

section \<open>Hash maps\<close>

type_synonym ('k, 'v) hashmap = "('k \<times> 'v) list"

abbreviation hm_get :: "('k, 'v) hashmap \<Rightarrow> 'k \<Rightarrow> 'v option" where
  "hm_get \<equiv> map_of"

abbreviation hm_insert :: "'k \<Rightarrow> 'v \<Rightarrow> ('k, 'v) hashmap \<Rightarrow> ('k, 'v) hashmap" where
  "hm_insert \<equiv> AList.update"

abbreviation hm_remove :: "'k \<Rightarrow> ('k, 'v) hashmap \<Rightarrow> ('k, 'v) hashmap" where
  "hm_remove \<equiv> AList.delete"

definition hm_wf :: "('k, 'v) hashmap \<Rightarrow> bool" where
  "hm_wf m \<longleftrightarrow> distinct (map fst m)"

lemma hm_wf_Nil [simp]: "hm_wf []"
  by (simp add: hm_wf_def)

lemma hm_wf_insert [simp]: "hm_wf m \<Longrightarrow> hm_wf (hm_insert k v m)"
  by (simp add: hm_wf_def distinct_update)

lemma hm_wf_remove [simp]: "hm_wf m \<Longrightarrow> hm_wf (hm_remove k m)"
  by (simp add: hm_wf_def distinct_delete)

lemma hm_get_insert: "hm_get (hm_insert k v m) = (hm_get m)(k \<mapsto> v)"
  by (rule update_conv')

lemma hm_get_remove: "hm_get (hm_remove k m) = (hm_get m)(k := None)"
  by (rule delete_conv')

lemma hm_get_iff: "hm_wf m \<Longrightarrow> hm_get m k = Some v \<longleftrightarrow> (k, v) \<in> set m"
  by (simp add: hm_wf_def map_of_eq_Some_iff)

section \<open>Strings\<close>

definition starts_with :: "bytes \<Rightarrow> bytes \<Rightarrow> bool" where
  "starts_with s p \<longleftrightarrow> take (length p) s = p"

lemma starts_with_iff: "starts_with s p \<longleftrightarrow> (\<exists>t. s = p @ t)"
  by (metis append_eq_conv_conj append_take_drop_id starts_with_def)

lemma starts_with_length: "starts_with s p \<Longrightarrow> length p \<le> length s"
  by (auto simp: starts_with_iff)

lemma starts_with_same_length:
  "starts_with s p \<Longrightarrow> starts_with s q \<Longrightarrow> length p = length q \<Longrightarrow> p = q"
  by (auto simp: starts_with_def)

lemma starts_with_Nil [simp]: "starts_with s []"
  by (simp add: starts_with_def)

lemma starts_with_refl [simp]: "starts_with s s"
  by (simp add: starts_with_def)

section \<open>Routing relations\<close>

datatype RoutingRelation = NonRoutingAccount | Parent | Peer | Child

primrec routing_relation_u8 :: "RoutingRelation \<Rightarrow> nat" where
  "routing_relation_u8 NonRoutingAccount = 0"
| "routing_relation_u8 Parent = 1"
| "routing_relation_u8 Peer = 2"
| "routing_relation_u8 Child = 3"

text \<open>The derived \<^verbatim>\<open>Ord\<close> follows the declaration order.\<close>

instantiation RoutingRelation :: linorder
begin

definition less_eq_RoutingRelation :: "RoutingRelation \<Rightarrow> RoutingRelation \<Rightarrow> bool" where
  "a \<le> c \<longleftrightarrow> routing_relation_u8 a \<le> routing_relation_u8 c"

definition less_RoutingRelation :: "RoutingRelation \<Rightarrow> RoutingRelation \<Rightarrow> bool" where
  "a < c \<longleftrightarrow> routing_relation_u8 a < routing_relation_u8 c"

instance
proof
  fix x y :: RoutingRelation
  assume "x \<le> y" "y \<le> x"
  then show "x = y" by (cases x; cases y) (simp_all add: less_eq_RoutingRelation_def)
qed (auto simp: less_eq_RoutingRelation_def less_RoutingRelation_def)

end

text \<open>
  \<^verbatim>\<open>str::to_lowercase\<close> against four ASCII literals: no character outside ASCII has a lower case made
  of letters of these literals only, so folding the ASCII letters decides the comparison.
\<close>

definition to_lower :: "u8 \<Rightarrow> u8" where
  "to_lower c = (if 65 \<le> c \<and> c \<le> 90 then c + 32 else c)"

definition routing_relation_from_str :: "bytes \<Rightarrow> RoutingRelation option" where
  "routing_relation_from_str s =
     (let l = map to_lower s in
      if l = bstr ''nonroutingaccount'' then Some NonRoutingAccount
      else if l = bstr ''parent'' then Some Parent
      else if l = bstr ''peer'' then Some Peer
      else if l = bstr ''child'' then Some Child
      else None)"

primrec routing_relation_as_ref :: "RoutingRelation \<Rightarrow> bytes" where
  "routing_relation_as_ref NonRoutingAccount = bstr ''NonRoutingAccount''"
| "routing_relation_as_ref Parent = bstr ''Parent''"
| "routing_relation_as_ref Peer = bstr ''Peer''"
| "routing_relation_as_ref Child = bstr ''Child''"

lemma routing_relation_roundtrip:
  "routing_relation_from_str (routing_relation_as_ref r) = Some r"
  by (cases r) (simp; code_simp)+

section \<open>Accounts\<close>

type_synonym Uuid = nat

text \<open>
  The fields of \<^verbatim>\<open>Account\<close>; signed balances are \<^verbatim>\<open>i64\<close>, written as integers, and URLs are their text.
\<close>

record Account =
  acc_id :: Uuid
  acc_username :: bytes
  acc_ilp_address :: Address
  acc_asset_code :: bytes
  acc_asset_scale :: u8
  acc_max_packet_amount :: u64
  acc_min_balance :: "int option"
  acc_ilp_over_http_url :: "bytes option"
  acc_ilp_over_http_incoming_token :: "bytes option"
  acc_ilp_over_http_outgoing_token :: "bytes option"
  acc_ilp_over_btp_url :: "bytes option"
  acc_ilp_over_btp_incoming_token :: "bytes option"
  acc_ilp_over_btp_outgoing_token :: "bytes option"
  acc_settle_threshold :: "int option"
  acc_settle_to :: "int option"
  acc_routing_relation :: RoutingRelation
  acc_round_trip_time :: u32
  acc_packets_per_minute_limit :: "u32 option"
  acc_amount_per_minute_limit :: "u64 option"
  acc_settlement_engine_url :: "bytes option"

definition should_send_routes :: "Account \<Rightarrow> bool" where
  "should_send_routes a \<longleftrightarrow> acc_routing_relation a = Child \<or> acc_routing_relation a = Peer"

definition should_receive_routes :: "Account \<Rightarrow> bool" where
  "should_receive_routes a \<longleftrightarrow> acc_routing_relation a = Parent \<or> acc_routing_relation a = Peer"

text \<open>
  Token encryption is that of \<^verbatim>\<open>ring\<close>: \<open>encrypt_token\<close> and \<open>decrypt_token\<close> are parameters, at a
  given key.
\<close>

definition encrypt_tokens :: "(bytes \<Rightarrow> bytes) \<Rightarrow> Account \<Rightarrow> Account" where
  "encrypt_tokens encrypt_token a =
     a\<lparr>acc_ilp_over_btp_outgoing_token := map_option encrypt_token (acc_ilp_over_btp_outgoing_token a),
       acc_ilp_over_http_outgoing_token :=
         map_option encrypt_token (acc_ilp_over_http_outgoing_token a),
       acc_ilp_over_btp_incoming_token := map_option encrypt_token (acc_ilp_over_btp_incoming_token a),
       acc_ilp_over_http_incoming_token :=
         map_option encrypt_token (acc_ilp_over_http_incoming_token a)\<rparr>"

definition decrypt_tokens :: "(bytes \<Rightarrow> bytes option) \<Rightarrow> Account \<Rightarrow> Account" where
  "decrypt_tokens decrypt_token a =
     a\<lparr>acc_ilp_over_btp_outgoing_token :=
         Option.bind (acc_ilp_over_btp_outgoing_token a) decrypt_token,
       acc_ilp_over_http_outgoing_token :=
         Option.bind (acc_ilp_over_http_outgoing_token a) decrypt_token,
       acc_ilp_over_btp_incoming_token :=
         Option.bind (acc_ilp_over_btp_incoming_token a) decrypt_token,
       acc_ilp_over_http_incoming_token :=
         Option.bind (acc_ilp_over_http_incoming_token a) decrypt_token\<rparr>"

lemma decrypt_encrypt_tokens:
  assumes "\<And>t. dec (enc t) = Some t"
  shows "decrypt_tokens dec (encrypt_tokens enc a) = a"
proof -
  have "Option.bind (map_option enc x) dec = x" for x by (cases x) (simp_all add: assms)
  then show ?thesis by (simp add: decrypt_tokens_def encrypt_tokens_def)
qed

section \<open>Requests\<close>

record IncomingRequest =
  in_from :: Account
  in_prepare :: "SystemTime Prepare"

record OutgoingRequest =
  out_from :: Account
  out_to :: Account
  out_original_amount :: u64
  out_prepare :: "SystemTime Prepare"

definition into_outgoing :: "IncomingRequest \<Rightarrow> Account \<Rightarrow> OutgoingRequest" where
  "into_outgoing req to =
     \<lparr>out_from = in_from req, out_to = to, out_original_amount = p_amount (in_prepare req),
      out_prepare = in_prepare req\<rparr>"

type_synonym IlpResult = "(Fulfill, Reject) result"

type_synonym 's incoming_service = "IncomingRequest \<Rightarrow> 's \<Rightarrow> IlpResult \<times> 's"
type_synonym 's outgoing_service = "OutgoingRequest \<Rightarrow> 's \<Rightarrow> IlpResult \<times> 's"

text \<open>An account for the concrete examples.\<close>

definition example_account :: "Uuid \<Rightarrow> bytes \<Rightarrow> RoutingRelation \<Rightarrow> Account" where
  "example_account i address relation =
     \<lparr>acc_id = i, acc_username = [], acc_ilp_address = Address address, acc_asset_code = [],
      acc_asset_scale = 9, acc_max_packet_amount = 1000, acc_min_balance = None,
      acc_ilp_over_http_url = None, acc_ilp_over_http_incoming_token = None,
      acc_ilp_over_http_outgoing_token = None, acc_ilp_over_btp_url = None,
      acc_ilp_over_btp_incoming_token = None, acc_ilp_over_btp_outgoing_token = None,
      acc_settle_threshold = None, acc_settle_to = None, acc_routing_relation = relation,
      acc_round_trip_time = 500, acc_packets_per_minute_limit = None,
      acc_amount_per_minute_limit = None, acc_settlement_engine_url = None\<rparr>"

end
