(* ===== verification/Routing_Table.thy ===== *)
theory Routing_Table
  imports Service
begin

text \<open>
  Routing tables: \<^verbatim>\<open>crates/interledger-ccp/src/routing_table.rs\<close> (\<^verbatim>\<open>PrefixMap\<close>, \<^verbatim>\<open>RoutingTable\<close> and the
  handling of a peer's route update) and the next-hop search of
  \<^verbatim>\<open>crates/interledger-router/src/router.rs\<close>.

  The contract of both lookups is the locale \<open>longest_prefix\<close>: the result is the value of the longest
  key that is a prefix of the address. Both loops are shown to satisfy it, whatever the iteration
  order of the hash map, so they agree with each other; the effect of an update on every prefix is
  stated exactly.
\<close>

section \<open>Prefix maps\<close>

text \<open>\<^verbatim>\<open>Iterator::max_by_key\<close>: the last of the maximal elements.\<close>

fun max_by_key :: "('a \<Rightarrow> nat) \<Rightarrow> 'a list \<Rightarrow> 'a option" where
  "max_by_key f [] = None"
| "max_by_key f (x # xs) = Some (foldl (\<lambda>a y. if f a \<le> f y then y else a) x xs)"

type_synonym 'v PrefixMap = "(bytes, 'v) hashmap"

definition pm_new :: "'v PrefixMap" where
  "pm_new = []"

definition pm_insert :: "bytes \<Rightarrow> 'v \<Rightarrow> 'v PrefixMap \<Rightarrow> bool \<times> 'v PrefixMap" where
  "pm_insert prefix item m = (hm_get m prefix = None, hm_insert prefix item m)"

definition pm_remove :: "bytes \<Rightarrow> 'v PrefixMap \<Rightarrow> bool \<times> 'v PrefixMap" where
  "pm_remove prefix m = (hm_get m prefix \<noteq> None, hm_remove prefix m)"

definition pm_resolve :: "'v PrefixMap \<Rightarrow> bytes \<Rightarrow> 'v option" where
  "pm_resolve m prefix =
     map_option snd
       (max_by_key (\<lambda>(p, _). length p) (filter (\<lambda>(p, _). starts_with prefix p) m))"

section \<open>Routing tables\<close>

record 'a RoutingTable =
  tbl_id :: bytes
  tbl_epoch :: u32
  tbl_prefix_map :: "('a \<times> Route) PrefixMap"

definition routing_table_new :: "bytes \<Rightarrow> 'a RoutingTable" where
  "routing_table_new i = \<lparr>tbl_id = i, tbl_epoch = 0, tbl_prefix_map = pm_new\<rparr>"

definition increment_epoch :: "'a RoutingTable \<Rightarrow> (u32 \<times> 'a RoutingTable, 'e) result" where
  "increment_epoch t =
     and_then (checked_add (tbl_epoch t) 1) (\<lambda>e. Ok (tbl_epoch t, t\<lparr>tbl_epoch := e\<rparr>))"

definition set_route :: "bytes \<Rightarrow> 'a \<Rightarrow> Route \<Rightarrow> 'a RoutingTable \<Rightarrow> 'a RoutingTable" where
  "set_route prefix account route t =
     (let (_, m1) = pm_remove prefix (tbl_prefix_map t);
          (_, m2) = pm_insert prefix (account, route) m1
      in t\<lparr>tbl_prefix_map := m2\<rparr>)"

definition delete_route :: "bytes \<Rightarrow> 'a RoutingTable \<Rightarrow> bool \<times> 'a RoutingTable" where
  "delete_route prefix t =
     (let (existed, m) = pm_remove prefix (tbl_prefix_map t) in (existed, t\<lparr>tbl_prefix_map := m\<rparr>))"

definition add_route :: "'a \<Rightarrow> Route \<Rightarrow> 'a RoutingTable \<Rightarrow> bool \<times> 'a RoutingTable" where
  "add_route account route t =
     (let (is_new, m) = pm_insert (rt_prefix route) (account, route) (tbl_prefix_map t)
      in (is_new, t\<lparr>tbl_prefix_map := m\<rparr>))"

definition get_route :: "'a RoutingTable \<Rightarrow> bytes \<Rightarrow> ('a \<times> Route) option" where
  "get_route t prefix = pm_resolve (tbl_prefix_map t) prefix"

definition get_simplified_table :: "'a RoutingTable \<Rightarrow> (bytes, 'a) hashmap" where
  "get_simplified_table t = map (\<lambda>(address, (account, _)). (address, account)) (tbl_prefix_map t)"

text \<open>The error carries what the message names: the table, the expected and the received epoch.\<close>

datatype TableUpdateError = GapInRoutingTable bytes u32 u32

primrec withdraw_routes ::
  "bytes list \<Rightarrow> 'a RoutingTable \<Rightarrow> bytes list \<Rightarrow> bytes list \<times> 'a RoutingTable" where
  "withdraw_routes [] t changed = (changed, t)"
| "withdraw_routes (p # ps) t changed =
     (let (existed, t1) = delete_route p t
      in withdraw_routes ps t1 (if existed then changed @ [p] else changed))"

primrec add_routes ::
  "'a \<Rightarrow> Route list \<Rightarrow> 'a RoutingTable \<Rightarrow> bytes list \<Rightarrow> bytes list \<times> 'a RoutingTable" where
  "add_routes account [] t changed = (changed, t)"
| "add_routes account (r # rs) t changed =
     (let (is_new, t1) = add_route account r t
      in add_routes account rs t1 (if is_new then changed @ [rt_prefix r] else changed))"

definition handle_update_request ::
  "'a \<Rightarrow> RouteUpdateRequest \<Rightarrow> 'a RoutingTable \<Rightarrow>
   (bytes list, TableUpdateError) result \<times> 'a RoutingTable" where
  "handle_update_request account req t0 =
     (let t = (if tbl_id t0 \<noteq> ru_routing_table_id req
               then t0\<lparr>tbl_id := ru_routing_table_id req, tbl_epoch := 0\<rparr> else t0) in
      if ru_from_epoch_index req > tbl_epoch t then
        (Err (GapInRoutingTable (tbl_id t) (tbl_epoch t) (ru_from_epoch_index req)), t)
      else if ru_to_epoch_index req < tbl_epoch t then (Ok [], t)
      else
        let t1 = t\<lparr>tbl_epoch := ru_to_epoch_index req\<rparr>;
            (changed1, t2) = withdraw_routes (ru_withdrawn_routes req) t1 [];
            (changed2, t3) = add_routes account (ru_new_routes req) t2 changed1
        in (Ok changed2, t3))"

section \<open>The router\<close>

text \<open>
  The scan of \<^verbatim>\<open>Router::handle_request\<close>: the state is \<^verbatim>\<open>next_hop\<close> and \<^verbatim>\<open>matching_prefix\<close>.
\<close>

definition router_scan_step ::
  "bytes \<Rightarrow> 'v option \<times> bytes \<Rightarrow> bytes \<times> 'v \<Rightarrow> 'v option \<times> bytes" where
  "router_scan_step dest s e =
     (let (next_hop, matching_prefix) = s; (prefix, account) = e in
      if (prefix = [] \<or> starts_with dest prefix) \<and> length prefix \<ge> length matching_prefix
      then (Some account, prefix) else (next_hop, matching_prefix))"

definition find_next_hop :: "(bytes, 'v) hashmap \<Rightarrow> bytes \<Rightarrow> 'v option" where
  "find_next_hop routing_table dest =
     (case hm_get routing_table dest of
        Some account_id \<Rightarrow> Some account_id
      | None \<Rightarrow>
          if routing_table \<noteq> [] then fst (foldl (router_scan_step dest) (None, []) routing_table)
          else None)"

definition unreachable :: "Address \<Rightarrow> Reject" where
  "unreachable ilp_address =
     reject_build \<lparr>rb_code = F02_UNREACHABLE, rb_message = [], rb_triggered_by = Some ilp_address,
       rb_data = []\<rparr>"

definition router_handle_request ::
  "(bytes, Uuid) hashmap \<Rightarrow> Address \<Rightarrow> (Uuid list \<Rightarrow> Account list option) \<Rightarrow> 's outgoing_service \<Rightarrow>
   's incoming_service" where
  "router_handle_request routing_table ilp_address get_accounts next request s =
     (let destination = p_destination (in_prepare request) in
      case find_next_hop routing_table (addr_bytes destination) of
        Some account_id \<Rightarrow>
          (case get_accounts [account_id] of
             Some accounts \<Rightarrow>
               (case accounts of
                  [] \<Rightarrow> (Panic, s)
                | account # _ \<Rightarrow> next (into_outgoing request account) s)
           | None \<Rightarrow> (Err (unreachable ilp_address), s))
      | None \<Rightarrow> (Err (unreachable ilp_address), s))"

section \<open>Longest-prefix lookup\<close>

locale longest_prefix =
  fixes lookup :: "'m \<Rightarrow> bytes \<Rightarrow> 'v option"
    and resolve :: "'m \<Rightarrow> bytes \<Rightarrow> 'v option"
    and inv :: "'m \<Rightarrow> bool"
  assumes resolve_Some: "inv m \<Longrightarrow> resolve m p = Some v \<Longrightarrow>
      \<exists>k. lookup m k = Some v \<and> starts_with p k \<and>
        (\<forall>k'. lookup m k' \<noteq> None \<and> starts_with p k' \<longrightarrow> length k' \<le> length k)"
    and resolve_None: "inv m \<Longrightarrow> resolve m p = None \<Longrightarrow>
      lookup m k = None \<or> \<not> starts_with p k"
begin

lemma resolve_iff:
  assumes "inv m"
  shows "resolve m p = Some v \<longleftrightarrow>
    (\<exists>k. lookup m k = Some v \<and> starts_with p k \<and>
       (\<forall>k'. lookup m k' \<noteq> None \<and> starts_with p k' \<longrightarrow> length k' \<le> length k))"
    (is "_ \<longleftrightarrow> (\<exists>k. ?best k v)")
proof
  assume "\<exists>k. ?best k v"
  then obtain k where k: "?best k v" by blast
  show "resolve m p = Some v"
  proof (cases "resolve m p")
    case None
    then show ?thesis using resolve_None [OF assms None, of k] k by auto
  next
    case (Some w)
    then obtain k' where k': "?best k' w" using resolve_Some [OF assms] by blast
    then have "length k = length k'" using k by (metis le_antisym option.distinct(1))
    then have "k = k'" using k k' starts_with_same_length by blast
    with k k' Some show ?thesis by simp
  qed
qed (use resolve_Some [OF assms] in blast)

lemma resolve_exact: "inv m \<Longrightarrow> lookup m p = Some v \<Longrightarrow> resolve m p = Some v"
  by (auto simp: resolve_iff intro!: exI [of _ p] starts_with_length)

lemma resolve_none_iff:
  "inv m \<Longrightarrow> resolve m p = None \<longleftrightarrow> (\<forall>k. starts_with p k \<longrightarrow> lookup m k = None)"
  by (metis not_Some_eq resolve_None resolve_Some)

end

text \<open>Two lookups that meet the contract on the same keys give the same answer.\<close>

lemma longest_prefix_agree:
  assumes "longest_prefix l1 r1 i1" "longest_prefix l2 r2 i2" "i1 m1" "i2 m2"
    and "\<And>k. map_option f (l1 m1 k) = l2 m2 k"
  shows "map_option f (r1 m1 p) = r2 m2 p"
proof (cases "r1 m1 p")
  case None
  then have "\<forall>k. starts_with p k \<longrightarrow> l2 m2 k = None"
    using longest_prefix.resolve_none_iff [OF assms(1,3)] assms(5) by (metis option.simps(8))
  then have "r2 m2 p = None" using longest_prefix.resolve_none_iff [OF assms(2,4)] by blast
  with None show ?thesis by simp
next
  case (Some v)
  then obtain k where "l1 m1 k = Some v" "starts_with p k"
      "\<forall>k'. l1 m1 k' \<noteq> None \<and> starts_with p k' \<longrightarrow> length k' \<le> length k"
    using longest_prefix.resolve_iff [OF assms(1,3)] by blast
  then have "r2 m2 p = Some (f v)"
    unfolding longest_prefix.resolve_iff [OF assms(2,4)]
    by (intro exI [of _ k]) (metis assms(5) map_option_is_None option.simps(9))
  with Some show ?thesis by simp
qed

section \<open>Both loops meet the contract\<close>

lemma max_by_key_None: "max_by_key f xs = None \<longleftrightarrow> xs = []"
  by (cases xs) simp_all

lemma max_by_key_Some:
  "max_by_key f xs = Some x \<Longrightarrow> x \<in> set xs \<and> (\<forall>y \<in> set xs. f y \<le> f x)"
proof -
  have fold: "foldl (\<lambda>a y. if f a \<le> f y then y else a) z ys \<in> insert z (set ys) \<and>
      (\<forall>y \<in> insert z (set ys). f y \<le> f (foldl (\<lambda>a y. if f a \<le> f y then y else a) z ys))" for z ys
    by (induction ys rule: rev_induct) auto
  assume "max_by_key f xs = Some x"
  then show ?thesis using fold by (cases xs) auto
qed

interpretation pm: longest_prefix hm_get pm_resolve hm_wf
proof
  fix m :: "(bytes \<times> 'v) list" and p v
  assume wf: "hm_wf m" and "pm_resolve m p = Some v"
  then obtain k where "max_by_key (\<lambda>(k, _). length k) (filter (\<lambda>(k, _). starts_with p k) m) = Some (k, v)"
    by (auto simp: pm_resolve_def)
  from max_by_key_Some [OF this] wf show "\<exists>k. hm_get m k = Some v \<and> starts_with p k \<and>
      (\<forall>k'. hm_get m k' \<noteq> None \<and> starts_with p k' \<longrightarrow> length k' \<le> length k)"
    by (intro exI [of _ k]) (auto simp: hm_get_iff)
next
  fix m :: "(bytes \<times> 'v) list" and p k
  assume wf: "hm_wf m" and "pm_resolve m p = None"
  then have "filter (\<lambda>(k, _). starts_with p k) m = []"
    by (simp add: pm_resolve_def max_by_key_None)
  then show "hm_get m k = None \<or> \<not> starts_with p k"
    by (auto simp: filter_empty_conv dest!: map_of_SomeD)
qed

lemma router_scan_invariant:
  assumes "foldl (router_scan_step dest) (None, []) m = (nh, mp)"
  shows "(nh = None \<longrightarrow> mp = [] \<and> (\<forall>(k, v) \<in> set m. \<not> starts_with dest k)) \<and>
    (\<forall>v. nh = Some v \<longrightarrow> (mp, v) \<in> set m \<and> starts_with dest mp \<and>
      (\<forall>(k, w) \<in> set m. starts_with dest k \<longrightarrow> length k \<le> length mp))"
  using assms
proof (induction m arbitrary: nh mp rule: rev_induct)
  case (snoc e m)
  obtain nh0 mp0 where s: "foldl (router_scan_step dest) (None, []) m = (nh0, mp0)"
    by (cases "foldl (router_scan_step dest) (None, []) m")
  obtain k v where e: "e = (k, v)" by (cases e)
  have r: "router_scan_step dest (nh0, mp0) (k, v) = (nh, mp)" using snoc.prems s e by simp
  note IH = snoc.IH [OF s]
  show ?case
  proof (cases "starts_with dest k \<and> length mp0 \<le> length k")
    case True
    then have "nh = Some v" "mp = k" using r by (auto simp: router_scan_step_def)
    then show ?thesis using IH True e by (cases nh0) fastforce+
  next
    case False
    then have "nh = nh0" "mp = mp0"
      using r starts_with_Nil by (auto simp: router_scan_step_def split: if_splits)
    then show ?thesis using IH False e by (cases nh0) auto
  qed
qed simp

interpretation router: longest_prefix hm_get find_next_hop hm_wf
proof
  fix m :: "(bytes \<times> 'v) list" and p v
  assume wf: "hm_wf m" and r: "find_next_hop m p = Some v"
  show "\<exists>k. hm_get m k = Some v \<and> starts_with p k \<and>
      (\<forall>k'. hm_get m k' \<noteq> None \<and> starts_with p k' \<longrightarrow> length k' \<le> length k)"
  proof (cases "hm_get m p")
    case (Some w)
    then show ?thesis
      using r by (intro exI [of _ p]) (auto simp: find_next_hop_def dest: starts_with_length)
  next
    case None
    then obtain mp where "foldl (router_scan_step p) (None, []) m = (Some v, mp)"
      using r by (cases "foldl (router_scan_step p) (None, []) m")
        (auto simp: find_next_hop_def split: if_splits)
    from router_scan_invariant [OF this] wf show ?thesis
      by (intro exI [of _ mp]) (auto simp: hm_get_iff)
  qed
next
  fix m :: "(bytes \<times> 'v) list" and p k
  assume wf: "hm_wf m" and r: "find_next_hop m p = None"
  then have "hm_get m p = None" by (auto simp: find_next_hop_def split: option.splits)
  then have "m = [] \<or> (\<exists>mp. foldl (router_scan_step p) (None, []) m = (None, mp))"
    using r by (cases "foldl (router_scan_step p) (None, []) m")
      (auto simp: find_next_hop_def split: if_splits)
  then show "hm_get m k = None \<or> \<not> starts_with p k"
    using router_scan_invariant [of p m None] by (auto dest!: map_of_SomeD)
qed

section \<open>The effect of updates\<close>

definition table_wf :: "'a RoutingTable \<Rightarrow> bool" where
  "table_wf t \<longleftrightarrow> hm_wf (tbl_prefix_map t)"

abbreviation routes :: "'a RoutingTable \<Rightarrow> bytes \<Rightarrow> ('a \<times> Route) option" where
  "routes t \<equiv> hm_get (tbl_prefix_map t)"

lemma delete_route_eq:
  "delete_route p t = (routes t p \<noteq> None, t\<lparr>tbl_prefix_map := hm_remove p (tbl_prefix_map t)\<rparr>)"
  by (simp add: delete_route_def pm_remove_def)

lemma add_route_eq:
  "add_route a r t = (routes t (rt_prefix r) = None,
     t\<lparr>tbl_prefix_map := hm_insert (rt_prefix r) (a, r) (tbl_prefix_map t)\<rparr>)"
  by (simp add: add_route_def pm_insert_def)

lemma set_route_routes: "routes (set_route p a r t) = (routes t)(p \<mapsto> (a, r))"
  by (simp add: set_route_def pm_remove_def pm_insert_def hm_get_insert hm_get_remove)

lemma table_wf_ops [simp]:
  "table_wf (routing_table_new i)"
  "table_wf t \<Longrightarrow> table_wf (set_route p a r t)"
  "table_wf t \<Longrightarrow> table_wf (snd (delete_route p t))"
  "table_wf t \<Longrightarrow> table_wf (snd (add_route a r t))"
  "table_wf (t\<lparr>tbl_epoch := e\<rparr>) = table_wf t"
  "table_wf (t\<lparr>tbl_id := i, tbl_epoch := e\<rparr>) = table_wf t"
  by (simp_all add: table_wf_def routing_table_new_def pm_new_def set_route_def pm_remove_def
      pm_insert_def delete_route_eq add_route_eq)

lemma withdraw_routes_spec:
  assumes "withdraw_routes ps t ch = (ch', t')"
  shows "routes t' = (\<lambda>k. if k \<in> set ps then None else routes t k)"
    and "set ch' = set ch \<union> {p \<in> set ps. routes t p \<noteq> None}"
    and "table_wf t \<Longrightarrow> table_wf t'"
    and "tbl_id t' = tbl_id t" "tbl_epoch t' = tbl_epoch t"
proof -
  have "routes t' = (\<lambda>k. if k \<in> set ps then None else routes t k) \<and>
      set ch' = set ch \<union> {p \<in> set ps. routes t p \<noteq> None} \<and>
      (table_wf t \<longrightarrow> table_wf t') \<and> tbl_id t' = tbl_id t \<and> tbl_epoch t' = tbl_epoch t"
    using assms
  proof (induction ps arbitrary: t ch)
    case (Cons p ps)
    let ?t1 = "t\<lparr>tbl_prefix_map := hm_remove p (tbl_prefix_map t)\<rparr>"
    have "withdraw_routes ps ?t1 (if routes t p \<noteq> None then ch @ [p] else ch) = (ch', t')"
      using Cons.prems by (simp add: delete_route_eq)
    from Cons.IH [OF this] show ?case
      by (auto simp: hm_get_remove fun_eq_iff table_wf_def split: if_splits)
  qed simp
  then show "routes t' = (\<lambda>k. if k \<in> set ps then None else routes t k)"
    and "set ch' = set ch \<union> {p \<in> set ps. routes t p \<noteq> None}"
    and "table_wf t \<Longrightarrow> table_wf t'"
    and "tbl_id t' = tbl_id t" "tbl_epoch t' = tbl_epoch t" by blast+
qed

text \<open>The last route an update offers for a prefix.\<close>

definition offered :: "Route list \<Rightarrow> bytes \<Rightarrow> Route option" where
  "offered rs = map_of (rev (map (\<lambda>r. (rt_prefix r, r)) rs))"

lemma offered_Cons:
  "offered (r # rs) k = (case offered rs k of Some x \<Rightarrow> Some x
     | None \<Rightarrow> if k = rt_prefix r then Some r else None)"
  by (simp add: offered_def map_add_def split: option.split)

lemma offered_None: "offered rs k = None \<longleftrightarrow> k \<notin> rt_prefix ` set rs"
  by (force simp: offered_def map_of_eq_None_iff image_iff)

lemma add_routes_spec:
  assumes "add_routes a rs t ch = (ch', t')"
  shows "routes t' = (\<lambda>k. case offered rs k of Some r \<Rightarrow> Some (a, r) | None \<Rightarrow> routes t k)"
    and "set ch' = set ch \<union> {p \<in> rt_prefix ` set rs. routes t p = None}"
    and "table_wf t \<Longrightarrow> table_wf t'"
    and "tbl_id t' = tbl_id t" "tbl_epoch t' = tbl_epoch t"
proof -
  have "routes t' = (\<lambda>k. case offered rs k of Some r \<Rightarrow> Some (a, r) | None \<Rightarrow> routes t k) \<and>
      set ch' = set ch \<union> {p \<in> rt_prefix ` set rs. routes t p = None} \<and>
      (table_wf t \<longrightarrow> table_wf t') \<and> tbl_id t' = tbl_id t \<and> tbl_epoch t' = tbl_epoch t"
    using assms
  proof (induction rs arbitrary: t ch)
    case Nil
    then show ?case by (simp add: offered_def)
  next
    case (Cons r rs)
    let ?t1 = "t\<lparr>tbl_prefix_map := hm_insert (rt_prefix r) (a, r) (tbl_prefix_map t)\<rparr>"
    have "add_routes a rs ?t1 (if routes t (rt_prefix r) = None then ch @ [rt_prefix r] else ch) =
        (ch', t')"
      using Cons.prems by (simp add: add_route_eq)
    from Cons.IH [OF this] show ?case
      by (auto simp: hm_get_insert fun_eq_iff table_wf_def offered_Cons split: if_splits option.splits)
  qed
  then show "routes t' = (\<lambda>k. case offered rs k of Some r \<Rightarrow> Some (a, r) | None \<Rightarrow> routes t k)"
    and "set ch' = set ch \<union> {p \<in> rt_prefix ` set rs. routes t p = None}"
    and "table_wf t \<Longrightarrow> table_wf t'"
    and "tbl_id t' = tbl_id t" "tbl_epoch t' = tbl_epoch t" by blast+
qed

lemma handle_update_applied:
  fixes t0 :: "'a RoutingTable"
  defines "t \<equiv> \<lambda>req. if tbl_id t0 \<noteq> ru_routing_table_id req
      then t0\<lparr>tbl_id := ru_routing_table_id req, tbl_epoch := 0\<rparr> else t0"
  assumes h: "handle_update_request a req t0 = (res, t')"
    and "\<not> ru_from_epoch_index req > tbl_epoch (t req)"
    and "\<not> ru_to_epoch_index req < tbl_epoch (t req)"
  shows "\<exists>ch. res = Ok ch \<and> tbl_id t' = ru_routing_table_id req \<and>
    tbl_epoch t' = ru_to_epoch_index req \<and>
    routes t' = (\<lambda>k. case offered (ru_new_routes req) k of
        Some r \<Rightarrow> Some (a, r)
      | None \<Rightarrow> if k \<in> set (ru_withdrawn_routes req) then None else routes t0 k) \<and>
    set ch = {p \<in> set (ru_withdrawn_routes req). routes t0 p \<noteq> None} \<union>
      {p \<in> rt_prefix ` set (ru_new_routes req).
         p \<in> set (ru_withdrawn_routes req) \<or> routes t0 p = None} \<and>
    (table_wf t0 \<longrightarrow> table_wf t')"
proof -
  let ?t1 = "(t req)\<lparr>tbl_epoch := ru_to_epoch_index req\<rparr>"
  obtain ch1 t2 where w: "withdraw_routes (ru_withdrawn_routes req) ?t1 [] = (ch1, t2)"
    by (cases "withdraw_routes (ru_withdrawn_routes req) ?t1 []")
  obtain ch2 t3 where n: "add_routes a (ru_new_routes req) t2 ch1 = (ch2, t3)"
    by (cases "add_routes a (ru_new_routes req) t2 ch1")
  have res: "res = Ok ch2" "t' = t3"
    using h assms(3,4) w n unfolding handle_update_request_def t_def [symmetric] Let_def
    by (auto simp: Let_def t_def)
  have t: "tbl_prefix_map (t req) = tbl_prefix_map t0" "tbl_id (t req) = ru_routing_table_id req"
    "table_wf (t req) = table_wf t0" by (auto simp: t_def table_wf_def)
  show ?thesis
    using withdraw_routes_spec [OF w] add_routes_spec [OF n] t
    by (intro exI [of _ ch2]) (auto simp: res fun_eq_iff split: option.split)
qed

lemma handle_update_effect:
  assumes "handle_update_request a req t0 = (res, t')"
  defines "epoch \<equiv> if tbl_id t0 \<noteq> ru_routing_table_id req then 0 else tbl_epoch t0"
  shows "tbl_id t' = ru_routing_table_id req \<and> (table_wf t0 \<longrightarrow> table_wf t') \<and>
    (if ru_from_epoch_index req > epoch then
       res = Err (GapInRoutingTable (ru_routing_table_id req) epoch (ru_from_epoch_index req)) \<and>
       tbl_epoch t' = epoch \<and> routes t' = routes t0
     else if ru_to_epoch_index req < epoch then
       res = Ok [] \<and> tbl_epoch t' = epoch \<and> routes t' = routes t0
     else (\<exists>changed. res = Ok changed \<and>
         set changed = {p \<in> set (ru_withdrawn_routes req). routes t0 p \<noteq> None} \<union>
           {p \<in> rt_prefix ` set (ru_new_routes req). p \<in> set (ru_withdrawn_routes req) \<or> routes t0 p = None}) \<and>
       tbl_epoch t' = ru_to_epoch_index req \<and>
       routes t' = (\<lambda>k. case offered (ru_new_routes req) k of
           Some r \<Rightarrow> Some (a, r)
         | None \<Rightarrow> if k \<in> set (ru_withdrawn_routes req) then None else routes t0 k))"
proof -
  let ?t = "if tbl_id t0 \<noteq> ru_routing_table_id req
      then t0\<lparr>tbl_id := ru_routing_table_id req, tbl_epoch := 0\<rparr> else t0"
  have t: "tbl_epoch ?t = epoch" "tbl_id ?t = ru_routing_table_id req"
      "tbl_prefix_map ?t = tbl_prefix_map t0"
    by (simp_all add: epoch_def)
  show ?thesis
  proof (cases "ru_from_epoch_index req > epoch \<or> ru_to_epoch_index req < epoch")
    case True
    then show ?thesis
      using assms(1) t unfolding handle_update_request_def Let_def
      by (auto simp: table_wf_def split: if_splits)
  next
    case False
    then show ?thesis
      using handle_update_applied [OF assms(1)] t(1) by auto
  qed
qed

section \<open>Properties\<close>

text \<open>
  C23. The router's scan returns the account of the longest prefix of the destination in the routing
  table (the empty prefix catches all), or nothing when no prefix matches; the iteration order of
  the hash map is irrelevant. It is the account that the CCP routing table's own lookup finds in
  the table whose simplified form was stored.
\<close>

theorem router_finds_longest_prefix:
  assumes "hm_wf routing_table"
  shows "(find_next_hop routing_table dest = Some a \<longleftrightarrow>
      (\<exists>k. hm_get routing_table k = Some a \<and> starts_with dest k \<and>
        (\<forall>k'. hm_get routing_table k' \<noteq> None \<and> starts_with dest k' \<longrightarrow> length k' \<le> length k))) \<and>
    (\<forall>t. table_wf t \<and> routing_table = get_simplified_table t \<longrightarrow>
      find_next_hop routing_table dest = map_option fst (get_route t dest))"
proof (intro conjI allI impI)
  show "find_next_hop routing_table dest = Some a \<longleftrightarrow>
      (\<exists>k. hm_get routing_table k = Some a \<and> starts_with dest k \<and>
        (\<forall>k'. hm_get routing_table k' \<noteq> None \<and> starts_with dest k' \<longrightarrow> length k' \<le> length k))"
    by (rule router.resolve_iff [OF assms])
next
  fix t assume t: "table_wf t \<and> routing_table = get_simplified_table t"
  have "map_of (map (\<lambda>(k, x, _). (k, x)) m) k = map_option fst (map_of m k)"
    for m :: "(bytes \<times> 'a \<times> Route) list" and k
    by (induction m) auto
  then have "map_option fst (pm_resolve (tbl_prefix_map t) dest) = find_next_hop routing_table dest"
    using t assms
    by (intro longest_prefix_agree [OF pm.longest_prefix_axioms router.longest_prefix_axioms])
      (simp_all add: table_wf_def get_simplified_table_def)
  then show "find_next_hop routing_table dest = map_option fst (get_route t dest)"
    by (simp add: get_route_def)
qed

theorem router_finds_longest_prefix_witness:
  "find_next_hop [(bstr ''example.'', 1), (bstr ''example.a.b'', 2), ([], 3)] (bstr ''example.a.bc'') =
     Some (2 :: nat) \<and>
   (\<exists>k. hm_get [(bstr ''example.'', 1 :: nat), (bstr ''example.a.b'', 2), ([], 3)] k = Some 2 \<and>
      starts_with (bstr ''example.a.bc'') k)"
proof -
  let ?m = "[(bstr ''example.'', 1 :: nat), (bstr ''example.a.b'', 2), ([], 3)]"
  have "hm_wf ?m" by code_simp
  moreover have "find_next_hop ?m (bstr ''example.a.bc'') = Some 2" by code_simp
  ultimately show ?thesis
    using router_finds_longest_prefix [of ?m "bstr ''example.a.bc''" 2] by blast
qed

text \<open>
  C24. Applying a route update. A gap in the epochs is an error and changes no route; an update that
  ends before the current epoch is ignored; otherwise the table takes the epoch of the update, each
  offered prefix gets its last offered route, each other withdrawn prefix disappears, and every other
  prefix keeps its route. The prefixes reported for recalculation are the withdrawn ones that existed and
  the offered ones that did not: a route that replaces one for a known prefix is installed but not
  reported, so the best route for that prefix is not recomputed.
\<close>

theorem handle_update_request_spec:
  assumes "handle_update_request a req t0 = (res, t')"
  defines "epoch \<equiv> if tbl_id t0 \<noteq> ru_routing_table_id req then 0 else tbl_epoch t0"
  shows "tbl_id t' = ru_routing_table_id req \<and> (table_wf t0 \<longrightarrow> table_wf t') \<and>
    (if ru_from_epoch_index req > epoch then
       res = Err (GapInRoutingTable (ru_routing_table_id req) epoch (ru_from_epoch_index req)) \<and>
       tbl_epoch t' = epoch \<and> routes t' = routes t0
     else if ru_to_epoch_index req < epoch then
       res = Ok [] \<and> tbl_epoch t' = epoch \<and> routes t' = routes t0
     else (\<exists>changed. res = Ok changed \<and>
         set changed = {p \<in> set (ru_withdrawn_routes req). routes t0 p \<noteq> None} \<union>
           {p \<in> rt_prefix ` set (ru_new_routes req). p \<in> set (ru_withdrawn_routes req) \<or> routes t0 p = None}) \<and>
       tbl_epoch t' = ru_to_epoch_index req \<and>
       routes t' = (\<lambda>k. case offered (ru_new_routes req) k of
           Some r \<Rightarrow> Some (a, r)
         | None \<Rightarrow> if k \<in> set (ru_withdrawn_routes req) then None else routes t0 k))"
  using handle_update_effect [OF assms(1)] unfolding epoch_def by blast

definition example_route :: "bytes list \<Rightarrow> Route" where
  "example_route path = \<lparr>rt_prefix = bstr ''example.a'', rt_path = path, rt_auth = replicate 32 0,
     rt_props = []\<rparr>"

definition example_table :: "nat RoutingTable" where
  "example_table = \<lparr>tbl_id = replicate 16 1, tbl_epoch = 3,
     tbl_prefix_map = [(bstr ''example.a'', (5, example_route [bstr ''example.x'', bstr ''example.y''])),
       (bstr ''example.b'', (5, (example_route [])\<lparr>rt_prefix := bstr ''example.b''\<rparr>))]\<rparr>"

definition example_request :: RouteUpdateRequest where
  "example_request = \<lparr>ru_routing_table_id = replicate 16 1, ru_current_epoch_index = 4,
     ru_from_epoch_index = 3, ru_to_epoch_index = 4, ru_hold_down_time = 30000,
     ru_speaker = Address (bstr ''example.alice''), ru_new_routes = [example_route []],
     ru_withdrawn_routes = [bstr ''example.b'']\<rparr>"

lemma example_handled:
  "\<exists>t'. handle_update_request 5 example_request example_table = (Ok [bstr ''example.b''], t')"
  by (simp add: handle_update_request_def example_request_def example_table_def delete_route_eq
      add_route_eq example_route_def Let_def) (simp add: bstr_def)

lemma example_request_facts:
  "tbl_id example_table = ru_routing_table_id example_request"
  "ru_from_epoch_index example_request = 3" "ru_to_epoch_index example_request = 4"
  "tbl_epoch example_table = 3" "ru_withdrawn_routes example_request = [bstr ''example.b'']"
  "offered (ru_new_routes example_request) (bstr ''example.a'') = Some (example_route [])"
  "offered (ru_new_routes example_request) (bstr ''example.b'') = None"
  "routes example_table (bstr ''example.a'') =
     Some (5, example_route [bstr ''example.x'', bstr ''example.y''])"
  by (simp_all add: example_table_def example_request_def offered_def example_route_def)
    (simp add: bstr_def)

theorem handle_update_request_spec_witness:
  "\<exists>t'. handle_update_request 5 example_request example_table = (Ok [bstr ''example.b''], t') \<and>
     tbl_epoch t' = 4 \<and> routes t' (bstr ''example.a'') = Some (5, example_route []) \<and>
     routes t' (bstr ''example.b'') = None"
proof -
  obtain t' where h: "handle_update_request 5 example_request example_table =
      (Ok [bstr ''example.b''], t')" using example_handled by blast
  from handle_update_request_spec [OF h] have "tbl_epoch t' = 4"
    "routes t' = (\<lambda>k. case offered (ru_new_routes example_request) k of Some r \<Rightarrow> Some (5, r)
       | None \<Rightarrow> if k \<in> set (ru_withdrawn_routes example_request) then None else routes example_table k)"
    by (simp_all add: example_request_facts(1-4))
  with h show ?thesis by (intro exI [of _ t']) (simp add: example_request_facts)
qed

end
