(* ===== verification/Ccp_Manager.thy ===== *)
theory Ccp_Manager
  imports Routing_Table
begin

text \<open>
  The route manager, \<^verbatim>\<open>crates/interledger-ccp/src/server.rs\<close>: filtering and applying the updates of
  peers, choosing the best route for a prefix, updating the local and forwarding tables epoch by
  epoch, merging epochs into an update for a peer, and the backoff of unreachable children.

  The fields behind locks form one record; a handler takes the manager and returns the new one.
  Work that the source hands to \<^verbatim>\<open>tokio::spawn\<close> is returned as a list of tasks. SHA-256 and the text
  form of a UUID are parameters, and so is what the store answers.
\<close>

section \<open>State\<close>

definition DEFAULT_ROUTE_EXPIRY_TIME :: u32 where "DEFAULT_ROUTE_EXPIRY_TIME = 30000"
definition DUMMY_ROUTING_TABLE_ID :: bytes where "DUMMY_ROUTING_TABLE_ID = replicate 16 0"

record BackoffParams =
  bo_max :: u8
  bo_skip_intervals :: u8

type_synonym NewAndWithdrawnRoutes = "Route list \<times> bytes list"

record CcpRouteManager =
  mgr_ilp_address :: Address
  mgr_forwarding_table :: "Account RoutingTable"
  mgr_last_epoch_updates_sent_for :: u32
  mgr_forwarding_table_updates :: "NewAndWithdrawnRoutes list"
  mgr_local_table :: "Account RoutingTable"
  mgr_incoming_tables :: "(Uuid, Account RoutingTable) hashmap"
  mgr_unavailable_accounts :: "(Uuid, BackoffParams) hashmap"

definition manager_new :: "Address \<Rightarrow> bytes \<Rightarrow> bytes \<Rightarrow> CcpRouteManager" where
  "manager_new ilp_address forwarding_id local_id =
     \<lparr>mgr_ilp_address = ilp_address, mgr_forwarding_table = routing_table_new forwarding_id,
      mgr_last_epoch_updates_sent_for = 0, mgr_forwarding_table_updates = [],
      mgr_local_table = routing_table_new local_id, mgr_incoming_tables = [],
      mgr_unavailable_accounts = []\<rparr>"

datatype Task =
    SendRouteUpdate Account u32 u32
  | UpdateBestRoutes "bytes list"
  | SendRouteControl Account bytes u32

definition update_ilp_address :: "Address \<Rightarrow> CcpRouteManager \<Rightarrow> CcpRouteManager" where
  "update_ilp_address store_address m =
     (if store_address \<noteq> mgr_ilp_address m then m\<lparr>mgr_ilp_address := store_address\<rparr> else m)"

definition bad_request :: "bytes \<Rightarrow> CcpRouteManager \<Rightarrow> Reject" where
  "bad_request message m =
     reject_build \<lparr>rb_code = F00_BAD_REQUEST, rb_message = message,
       rb_triggered_by = Some (mgr_ilp_address m), rb_data = []\<rparr>"

section \<open>Route control requests\<close>

definition handle_route_control_request ::
  "features \<Rightarrow> SystemTime \<Rightarrow> IncomingRequest \<Rightarrow> CcpRouteManager \<Rightarrow>
   IlpResult \<times> CcpRouteManager \<times> Task list" where
  "handle_route_control_request cfg now request m =
     (if \<not> should_send_routes (in_from request) then
        (Err (bad_request (bstr ''We are not configured to send routes to you, sorry'') m), m, [])
      else
        case route_control_try_from cfg now (in_prepare request) of
          Panic \<Rightarrow> (Panic, m, [])
        | Err _ \<Rightarrow> (Err (bad_request (bstr ''Invalid route control request'') m), m, [])
        | Ok control \<Rightarrow>
            if rc_mode control = Sync then
              (let m1 = m\<lparr>mgr_unavailable_accounts :=
                     hm_remove (acc_id (in_from request)) (mgr_unavailable_accounts m)\<rparr>;
                   to_epoch_index = tbl_epoch (mgr_forwarding_table m1);
                   from_epoch_index =
                     (if rc_last_known_routing_table_id control \<noteq> tbl_id (mgr_forwarding_table m1)
                      then 0 else min (rc_last_known_epoch control) to_epoch_index)
               in (Ok CCP_RESPONSE, m1,
                   [SendRouteUpdate (in_from request) from_epoch_index to_epoch_index]))
            else (Ok CCP_RESPONSE, m, []))"

section \<open>Route update requests\<close>

definition acceptable_route :: "Address \<Rightarrow> Route \<Rightarrow> bool" where
  "acceptable_route ilp_address route =
     (let address_scheme = hd (segments ilp_address) in
      if \<not> starts_with (rt_prefix route) address_scheme then False
      else if length (rt_prefix route) \<le> length address_scheme + 1 then False
      else if starts_with (rt_prefix route) (addr_bytes ilp_address) then False
      else if list_ex (\<lambda>p. p = addr_bytes ilp_address) (rt_path route) then False
      else True)"

definition filter_routes :: "CcpRouteManager \<Rightarrow> RouteUpdateRequest \<Rightarrow> RouteUpdateRequest" where
  "filter_routes m update =
     update\<lparr>ru_new_routes := filter (acceptable_route (mgr_ilp_address m)) (ru_new_routes update)\<rparr>"

definition hex_digit :: "nat \<Rightarrow> u8" where
  "hex_digit n = (if n < 10 then of_nat (48 + n) else of_nat (87 + n))"

definition hex_string :: "bytes \<Rightarrow> bytes" where
  "hex_string bs = concat (map (\<lambda>c. [hex_digit (unat c div 16), hex_digit (unat c mod 16)]) bs)"

primrec gap_message :: "TableUpdateError \<Rightarrow> bytes" where
  "gap_message (GapInRoutingTable i expected got) =
     bstr ''Gap in routing table '' @ hex_string i @ bstr ''. Expected epoch: ''
     @ dec_digits (unat expected) @ bstr '', got from_epoch: '' @ dec_digits (unat got)"

definition handle_route_update_request ::
  "features \<Rightarrow> SystemTime \<Rightarrow> IncomingRequest \<Rightarrow> CcpRouteManager \<Rightarrow>
   IlpResult \<times> CcpRouteManager \<times> Task list" where
  "handle_route_update_request cfg now request m =
     (if \<not> should_receive_routes (in_from request) then
        (Err (bad_request (bstr ''Your route broadcasts are not accepted here'') m), m, [])
      else
        case route_update_try_from cfg now (in_prepare request) of
          Panic \<Rightarrow> (Panic, m, [])
        | Err _ \<Rightarrow> (Err (bad_request (bstr ''Invalid route update request'') m), m, [])
        | Ok update0 \<Rightarrow>
            let update = filter_routes m update0;
                from_id = acc_id (in_from request);
                tables = (if hm_get (mgr_incoming_tables m) from_id = None
                          then hm_insert from_id (routing_table_new (ru_routing_table_id update))
                                 (mgr_incoming_tables m)
                          else mgr_incoming_tables m)
            in case hm_get tables from_id of
                 None \<Rightarrow> (Panic, m, [])
               | Some table \<Rightarrow>
                   let (res, table') = handle_update_request (in_from request) update table;
                       m1 = m\<lparr>mgr_incoming_tables := hm_insert from_id table' tables\<rparr>
                   in case res of
                        Ok prefixes_updated \<Rightarrow>
                          if prefixes_updated = [] then (Ok CCP_RESPONSE, m1, [])
                          else (Ok CCP_RESPONSE, m1, [UpdateBestRoutes prefixes_updated])
                      | Err message \<Rightarrow>
                          (Err (bad_request (gap_message message) m1), m1,
                           [SendRouteControl (in_from request) (tbl_id table') (tbl_epoch table')])
                      | Panic \<Rightarrow> (Panic, m1, []))"

definition ccp_handle_request ::
  "features \<Rightarrow> SystemTime \<Rightarrow> (IncomingRequest \<Rightarrow> IlpResult) \<Rightarrow> IncomingRequest \<Rightarrow>
   CcpRouteManager \<Rightarrow> IlpResult \<times> CcpRouteManager \<times> Task list" where
  "ccp_handle_request cfg now next_incoming request m =
     (let destination = p_destination (in_prepare request) in
      if destination = CCP_CONTROL_DESTINATION then handle_route_control_request cfg now request m
      else if destination = CCP_UPDATE_DESTINATION then handle_route_update_request cfg now request m
      else (next_incoming request, m, []))"

definition send_route_control_message ::
  "(SystemTime \<Rightarrow> bytes) \<Rightarrow> SystemTime \<Rightarrow> Account \<Rightarrow> bytes \<Rightarrow> u32 \<Rightarrow> OutgoingRequest" where
  "send_route_control_message format_ts now account last_known_routing_table_id last_known_epoch =
     (let control = \<lparr>rc_mode = Sync,
            rc_last_known_routing_table_id = last_known_routing_table_id,
            rc_last_known_epoch = last_known_epoch, rc_features = []\<rparr>;
          prepare = route_control_to_prepare format_ts now control
      in \<lparr>out_from = account, out_to = account, out_original_amount = p_amount prepare,
          out_prepare = prepare\<rparr>)"

section \<open>The best route for a prefix\<close>

definition join_dots :: "bytes list \<Rightarrow> bytes" where
  "join_dots ss = join_on dot ss"

definition account_route :: "Account \<Rightarrow> Account \<times> Route" where
  "account_route account =
     (account, \<lparr>rt_prefix = addr_bytes (acc_ilp_address account), rt_path = [],
        rt_auth = replicate 32 0, rt_props = []\<rparr>)"

text \<open>\<open>find_configured n\<close> tries the first \<open>n\<close> segments, then \<open>n - 1\<close>, down to one.\<close>

primrec find_configured :: "(bytes, Account) hashmap \<Rightarrow> bytes list \<Rightarrow> nat \<Rightarrow> Account option" where
  "find_configured configured segs 0 = None"
| "find_configured configured segs (Suc n) =
     (case hm_get configured (join_dots (take (Suc n) segs)) of
        Some account \<Rightarrow> Some account
      | None \<Rightarrow> find_configured configured segs n)"

text \<open>The derived order of strings compares bytes lexicographically.\<close>

fun str_less :: "bytes \<Rightarrow> bytes \<Rightarrow> bool" where
  "str_less [] [] = False"
| "str_less [] (_ # _) = True"
| "str_less (_ # _) [] = False"
| "str_less (x # xs) (y # ys) = (x < y \<or> x = y \<and> str_less xs ys)"

definition better_candidate ::
  "(Uuid \<Rightarrow> bytes) \<Rightarrow> Account \<times> Route \<Rightarrow> Account \<times> Route \<Rightarrow> Account \<times> Route" where
  "better_candidate uuid_string best cand =
     (let (best_account, best_route) = best; (account, route) = cand in
      if acc_routing_relation best_account > acc_routing_relation account then best
      else if acc_routing_relation best_account < acc_routing_relation account then cand
      else if length (rt_path best_route) < length (rt_path route) then best
      else if length (rt_path best_route) > length (rt_path route) then cand
      else if str_less (uuid_string (acc_id best_account)) (uuid_string (acc_id account)) then best
      else cand)"

definition candidate_routes ::
  "(Uuid, Account RoutingTable) hashmap \<Rightarrow> bytes \<Rightarrow> (Account \<times> Route) list" where
  "candidate_routes incoming_tables prefix =
     List.map_filter (\<lambda>(_, table). get_route table prefix) incoming_tables"

definition get_best_route_for_prefix ::
  "(Uuid \<Rightarrow> bytes) \<Rightarrow> (bytes, Account) hashmap \<Rightarrow> (bytes, Account) hashmap \<Rightarrow>
   (Uuid, Account RoutingTable) hashmap \<Rightarrow> bytes \<Rightarrow> (Account \<times> Route) option" where
  "get_best_route_for_prefix uuid_string local_routes configured_routes incoming_tables prefix =
     (let segs = split_on dot prefix in
      case find_configured configured_routes segs (length segs) of
        Some account \<Rightarrow> Some (account_route account)
      | None \<Rightarrow>
          (case hm_get local_routes prefix of
             Some account \<Rightarrow> Some (account_route account)
           | None \<Rightarrow>
               (case candidate_routes incoming_tables prefix of
                  [] \<Rightarrow> None
                | c # cs \<Rightarrow> Some (foldl (better_candidate uuid_string) c cs))))"

section \<open>Updating the local and forwarding tables\<close>

primrec check_prefixes ::
  "(bytes \<Rightarrow> (Account \<times> Route) option) \<Rightarrow> Account RoutingTable \<Rightarrow> bytes list \<Rightarrow>
   (bytes \<times> Account \<times> Route) list \<times> bytes list" where
  "check_prefixes best local_table [] = ([], [])"
| "check_prefixes best local_table (prefix # rest) =
     (let (better, withdrawn) = check_prefixes best local_table rest in
      case best prefix of
        Some (best_next_account, best_route) \<Rightarrow>
          (case get_route local_table prefix of
             Some (next_account, _) \<Rightarrow>
               if acc_id next_account = acc_id best_next_account then (better, withdrawn)
               else ((prefix, best_next_account, best_route) # better, withdrawn)
           | None \<Rightarrow> ((prefix, best_next_account, best_route) # better, withdrawn))
      | None \<Rightarrow> (better, prefix # withdrawn))"

definition advertise :: "Address \<Rightarrow> bytes list \<Rightarrow> bytes \<Rightarrow> Route \<Rightarrow> bool" where
  "advertise ilp_address withdrawn_routes prefix route =
     (let address_scheme = hd (segments ilp_address);
          correct_address_scheme =
            (starts_with (rt_prefix route) address_scheme \<and> rt_prefix route \<noteq> address_scheme);
          is_our_address = (rt_prefix route = addr_bytes ilp_address);
          is_local_route =
            (starts_with (rt_prefix route) (addr_bytes ilp_address) \<and> rt_path route = []);
          not_local_route = (is_our_address \<or> \<not> is_local_route);
          not_withdrawn_route = (prefix \<notin> set withdrawn_routes)
      in correct_address_scheme \<and> not_local_route \<and> not_withdrawn_route)"

primrec install_routes ::
  "(bytes \<Rightarrow> bytes) \<Rightarrow> Address \<Rightarrow> bytes list \<Rightarrow> (bytes \<times> Account \<times> Route) list \<Rightarrow>
   Account RoutingTable \<Rightarrow> Account RoutingTable \<Rightarrow>
   Account RoutingTable \<times> Account RoutingTable \<times> Route list" where
  "install_routes sha256 ilp_address withdrawn_routes [] lt ft = (lt, ft, [])"
| "install_routes sha256 ilp_address withdrawn_routes (x # xs) lt ft =
     (let (prefix, account, route) = x;
          lt1 = set_route prefix account route lt;
          old_route = get_route ft prefix in
      if advertise ilp_address withdrawn_routes prefix route \<and>
         (case old_route of None \<Rightarrow> True | Some (old, _) \<Rightarrow> acc_id old \<noteq> acc_id account)
      then let route1 = route\<lparr>rt_path := addr_bytes ilp_address # rt_path route,
                              rt_auth := sha256 (rt_auth route)\<rparr>;
               ft1 = set_route prefix account route1 ft;
               (lt2, ft2, new) = install_routes sha256 ilp_address withdrawn_routes xs lt1 ft1
           in (lt2, ft2, route1 # new)
      else install_routes sha256 ilp_address withdrawn_routes xs lt1 ft)"

datatype CcpRoutingStoreError = StoreError

text \<open>
  \<^verbatim>\<open>update_best_routes\<close>: prefixes are those of the update, or every configured and local one.
  \<open>store_routes\<close> is the store's answer to the request for the local and configured routes, \<open>set_routes\<close>
  its answer to writing the new table; when the latter fails the tables have already changed.
\<close>

definition update_best_routes ::
  "(bytes \<Rightarrow> bytes) \<Rightarrow> (Uuid \<Rightarrow> bytes) \<Rightarrow>
   ((bytes, Account) hashmap \<times> (bytes, Account) hashmap, CcpRoutingStoreError) result \<Rightarrow>
   ((bytes, Account) hashmap \<Rightarrow> (unit, CcpRoutingStoreError) result) \<Rightarrow>
   bytes list option \<Rightarrow> CcpRouteManager \<Rightarrow> (unit, CcpRoutingStoreError) result \<times> CcpRouteManager" where
  "update_best_routes sha256 uuid_string store_routes set_routes prefixes m =
     (case store_routes of
        Panic \<Rightarrow> (Panic, m)
      | Err e \<Rightarrow> (Err e, m)
      | Ok (local_routes, configured_routes) \<Rightarrow>
          (let prefixes_to_check =
                 (case prefixes of Some ps \<Rightarrow> ps
                  | None \<Rightarrow> map fst configured_routes @ map fst local_routes);
               best = get_best_route_for_prefix uuid_string local_routes configured_routes
                        (mgr_incoming_tables m);
               (better_routes, withdrawn_routes) =
                 check_prefixes best (mgr_local_table m) prefixes_to_check
           in if better_routes \<noteq> [] \<or> withdrawn_routes \<noteq> [] then
                (let (lt1, ft1, new_routes) =
                       install_routes sha256 (mgr_ilp_address m) withdrawn_routes better_routes
                         (mgr_local_table m) (mgr_forwarding_table m);
                     lt2 = foldl (\<lambda>t p. snd (delete_route p t)) lt1 withdrawn_routes;
                     ft2 = foldl (\<lambda>t p. snd (delete_route p t)) ft1 withdrawn_routes
                 in case increment_epoch ft2 of
                      Ok (_, ft3) \<Rightarrow>
                        (set_routes (get_simplified_table lt2),
                         m\<lparr>mgr_local_table := lt2, mgr_forwarding_table := ft3,
                           mgr_forwarding_table_updates :=
                             mgr_forwarding_table_updates m @ [(new_routes, withdrawn_routes)]\<rparr>)
                    | Err e \<Rightarrow> (Err e, m\<lparr>mgr_local_table := lt2, mgr_forwarding_table := ft2\<rparr>)
                    | Panic \<Rightarrow> (Panic, m\<lparr>mgr_local_table := lt2, mgr_forwarding_table := ft2\<rparr>))
              else (Ok (), m)))"

section \<open>Merging epochs into an update\<close>

primrec merge_new :: "Route list \<Rightarrow> Route list \<times> bytes list \<Rightarrow> Route list \<times> bytes list" where
  "merge_new [] acc = acc"
| "merge_new (r # rs) acc =
     (let (new_routes, withdrawn_routes) = acc;
          new1 = new_routes @ [r];
          withdrawn1 = (if rt_prefix r \<in> set withdrawn_routes
                        then filter (\<lambda>p. p \<noteq> rt_prefix r) withdrawn_routes else withdrawn_routes)
      in merge_new rs (new1, withdrawn1))"

primrec merge_withdrawn :: "bytes list \<Rightarrow> Route list \<times> bytes list \<Rightarrow> Route list \<times> bytes list" where
  "merge_withdrawn [] acc = acc"
| "merge_withdrawn (w # ws) acc =
     (let (new_routes, withdrawn_routes) = acc;
          withdrawn1 = withdrawn_routes @ [w];
          new1 = (if list_ex (\<lambda>r. rt_prefix r = w) new_routes
                  then filter (\<lambda>r. rt_prefix r \<noteq> w) new_routes else new_routes)
      in merge_withdrawn ws (new1, withdrawn1))"

primrec merge_epochs ::
  "NewAndWithdrawnRoutes list \<Rightarrow> Route list \<times> bytes list \<Rightarrow> Route list \<times> bytes list" where
  "merge_epochs [] acc = acc"
| "merge_epochs (e # es) acc =
     (let (new, withdrawn) = e in merge_epochs es (merge_withdrawn withdrawn (merge_new new acc)))"

definition create_route_update :: "u32 \<Rightarrow> u32 \<Rightarrow> CcpRouteManager \<Rightarrow> RouteUpdateRequest" where
  "create_route_update from_epoch_index to_epoch_index m =
     (let start = unat from_epoch_index; fin = unat to_epoch_index;
          epochs_to_take = fin - start;
          own = (if start = 0
                 then [\<lparr>rt_prefix = addr_bytes (mgr_ilp_address m), rt_path = [],
                        rt_auth = replicate 32 0, rt_props = []\<rparr>] else []);
          (new_routes, withdrawn_routes) =
            merge_epochs (take epochs_to_take (drop start (mgr_forwarding_table_updates m))) (own, [])
      in \<lparr>ru_routing_table_id = tbl_id (mgr_forwarding_table m),
          ru_current_epoch_index = tbl_epoch (mgr_forwarding_table m),
          ru_from_epoch_index = from_epoch_index, ru_to_epoch_index = to_epoch_index,
          ru_hold_down_time = DEFAULT_ROUTE_EXPIRY_TIME, ru_speaker = mgr_ilp_address m,
          ru_new_routes = new_routes, ru_withdrawn_routes = withdrawn_routes\<rparr>)"

definition send_route_update_message ::
  "(SystemTime \<Rightarrow> bytes) \<Rightarrow> SystemTime \<Rightarrow> Account \<Rightarrow> u32 \<Rightarrow> u32 \<Rightarrow> CcpRouteManager \<Rightarrow> OutgoingRequest"
where
  "send_route_update_message format_ts now account from_epoch_index to_epoch_index m =
     (let prepare = route_update_to_prepare format_ts now
            (create_route_update from_epoch_index to_epoch_index m)
      in \<lparr>out_from = account, out_to = account, out_original_amount = p_amount prepare,
          out_prepare = prepare\<rparr>)"

section \<open>Broadcasting and backoff\<close>

definition tick_backoff :: "BackoffParams \<Rightarrow> BackoffParams" where
  "tick_backoff bo = bo\<lparr>bo_skip_intervals := saturating_sub (bo_skip_intervals bo) 1\<rparr>"

definition accounts_to_skip :: "(Uuid, BackoffParams) hashmap \<Rightarrow> Uuid list" where
  "accounts_to_skip unavailable =
     map fst (filter (\<lambda>(_, bo). bo_skip_intervals bo > 0) unavailable)"

definition tick_all :: "(Uuid, BackoffParams) hashmap \<Rightarrow> (Uuid, BackoffParams) hashmap" where
  "tick_all unavailable = map (\<lambda>(i, bo). (i, tick_backoff bo)) unavailable"

definition record_send_result ::
  "Account \<Rightarrow> IlpResult \<Rightarrow> (Uuid, BackoffParams) hashmap \<Rightarrow> (Uuid, BackoffParams) hashmap" where
  "record_send_result account res unavailable =
     (case res of
        Panic \<Rightarrow> unavailable
      | Ok _ \<Rightarrow> hm_remove (acc_id account) unavailable
      | Err _ \<Rightarrow>
          if acc_routing_relation account = Child then
            (case hm_get unavailable (acc_id account) of
               Some bo \<Rightarrow>
                 (let mx = saturating_add (bo_max bo) 1
                  in hm_insert (acc_id account) \<lparr>bo_max = mx, bo_skip_intervals = mx\<rparr> unavailable)
             | None \<Rightarrow>
                 hm_insert (acc_id account) \<lparr>bo_max = 1, bo_skip_intervals = 1\<rparr> unavailable)
          else unavailable)"

text \<open>\<^verbatim>\<open>dedup_by_key\<close> drops consecutive repetitions, after the sort by identifier.\<close>

fun dedup_by_id :: "Account list \<Rightarrow> Account list" where
  "dedup_by_id [] = []"
| "dedup_by_id [a] = [a]"
| "dedup_by_id (a # c # cs) =
     (if acc_id a = acc_id c then dedup_by_id (a # cs) else a # dedup_by_id (c # cs))"

primrec insort_by_id :: "(Uuid \<Rightarrow> bytes) \<Rightarrow> Account \<Rightarrow> Account list \<Rightarrow> Account list" where
  "insort_by_id uuid_string a [] = [a]"
| "insort_by_id uuid_string a (c # cs) =
     (if str_less (uuid_string (acc_id c)) (uuid_string (acc_id a))
      then c # insort_by_id uuid_string a cs else a # c # cs)"

definition sort_by_id :: "(Uuid \<Rightarrow> bytes) \<Rightarrow> Account list \<Rightarrow> Account list" where
  "sort_by_id uuid_string as = foldr (insort_by_id uuid_string) as []"

primrec send_all ::
  "'s outgoing_service \<Rightarrow> SystemTime Prepare \<Rightarrow> Account list \<Rightarrow> 's \<Rightarrow>
   (Account \<times> IlpResult) list \<times> 's" where
  "send_all outgoing prepare [] s = ([], s)"
| "send_all outgoing prepare (a # as) s =
     (let (res, s1) = outgoing \<lparr>out_from = a, out_to = a, out_original_amount = p_amount prepare,
                                out_prepare = prepare\<rparr> s;
          (rest, s2) = send_all outgoing prepare as s1
      in ((a, res) # rest, s2))"

text \<open>
  The backoff counters tick and the epoch is recorded as sent before anything is sent, whatever the
  store and the peers answer.
\<close>

definition send_route_updates ::
  "(SystemTime \<Rightarrow> bytes) \<Rightarrow> SystemTime \<Rightarrow> (Uuid \<Rightarrow> bytes) \<Rightarrow>
   (Uuid list \<Rightarrow> (Account list, CcpRoutingStoreError) result) \<Rightarrow> 's outgoing_service \<Rightarrow>
   CcpRouteManager \<Rightarrow> 's \<Rightarrow> (Account list, CcpRoutingStoreError) result \<times> CcpRouteManager \<times> 's" where
  "send_route_updates format_ts now uuid_string get_accounts_to_send_routes_to outgoing m s =
     (let skip = accounts_to_skip (mgr_unavailable_accounts m);
          m1 = m\<lparr>mgr_unavailable_accounts := tick_all (mgr_unavailable_accounts m)\<rparr>
      in case get_accounts_to_send_routes_to skip of
           Panic \<Rightarrow> (Panic, m1, s)
         | Err e \<Rightarrow> (Err e, m1, s)
         | Ok accounts0 \<Rightarrow>
             (let to_epoch_index = tbl_epoch (mgr_forwarding_table m1);
                  from_epoch_index = mgr_last_epoch_updates_sent_for m1;
                  m2 = m1\<lparr>mgr_last_epoch_updates_sent_for := to_epoch_index\<rparr>;
                  prepare = route_update_to_prepare format_ts now
                    (create_route_update from_epoch_index to_epoch_index m2);
                  accounts = dedup_by_id (sort_by_id uuid_string accounts0);
                  (results, s1) = send_all outgoing prepare accounts s
              in if list_ex (\<lambda>(_, r). r = Panic) results then (Panic, m2, s1)
                 else (Ok accounts,
                       m2\<lparr>mgr_unavailable_accounts :=
                         foldl (\<lambda>u (a, r). record_send_result a r u) (mgr_unavailable_accounts m2)
                           results\<rparr>, s1)))"

definition broadcast_routes ::
  "(bytes \<Rightarrow> bytes) \<Rightarrow> (SystemTime \<Rightarrow> bytes) \<Rightarrow> SystemTime \<Rightarrow> (Uuid \<Rightarrow> bytes) \<Rightarrow>
   ((bytes, Account) hashmap \<times> (bytes, Account) hashmap, CcpRoutingStoreError) result \<Rightarrow>
   ((bytes, Account) hashmap \<Rightarrow> (unit, CcpRoutingStoreError) result) \<Rightarrow>
   (Uuid list \<Rightarrow> (Account list, CcpRoutingStoreError) result) \<Rightarrow> 's outgoing_service \<Rightarrow>
   CcpRouteManager \<Rightarrow> 's \<Rightarrow> (Account list, CcpRoutingStoreError) result \<times> CcpRouteManager \<times> 's" where
  "broadcast_routes sha256 format_ts now uuid_string store_routes set_routes get_accounts outgoing m s =
     (case update_best_routes sha256 uuid_string store_routes set_routes None m of
        (Ok _, m1) \<Rightarrow> send_route_updates format_ts now uuid_string get_accounts outgoing m1 s
      | (Err e, m1) \<Rightarrow> (Err e, m1, s)
      | (Panic, m1) \<Rightarrow> (Panic, m1, s))"

text \<open>At startup every account we accept routes from is asked for its whole table.\<close>

definition request_all_routes ::
  "(SystemTime \<Rightarrow> bytes) \<Rightarrow> SystemTime \<Rightarrow> (Account list, CcpRoutingStoreError) result \<Rightarrow>
   OutgoingRequest list" where
  "request_all_routes format_ts now accounts_to_receive_routes_from =
     (let accounts = (case accounts_to_receive_routes_from of Ok accounts \<Rightarrow> accounts | _ \<Rightarrow> [])
      in map (\<lambda>account. send_route_control_message format_ts now account DUMMY_ROUTING_TABLE_ID 0)
           accounts)"

section \<open>Filtering\<close>

lemma filter_routes_new:
  "ru_new_routes (filter_routes m u) = filter (acceptable_route (mgr_ilp_address m)) (ru_new_routes u)"
  by (simp add: filter_routes_def)

lemma acceptable_routeD:
  assumes "acceptable_route a r"
  shows "starts_with (rt_prefix r) (hd (segments a))" "\<not> starts_with (rt_prefix r) (addr_bytes a)"
    "addr_bytes a \<notin> set (rt_path r)" "length (hd (segments a)) + 1 < length (rt_prefix r)"
  using assms by (auto simp: acceptable_route_def Let_def list_ex_iff split: if_splits)

text \<open>Every route a peer's table holds was acceptable under the current address.\<close>

definition table_acceptable :: "Address \<Rightarrow> 'a RoutingTable \<Rightarrow> bool" where
  "table_acceptable addr t \<longleftrightarrow>
     (\<forall>k a r. routes t k = Some (a, r) \<longrightarrow> rt_prefix r = k \<and> acceptable_route addr r)"

definition incoming_wf :: "CcpRouteManager \<Rightarrow> bool" where
  "incoming_wf m \<longleftrightarrow> hm_wf (mgr_incoming_tables m) \<and>
     (\<forall>i t. hm_get (mgr_incoming_tables m) i = Some t \<longrightarrow>
        table_wf t \<and> table_acceptable (mgr_ilp_address m) t \<and>
        (\<forall>k a r. routes t k = Some (a, r) \<longrightarrow> acc_id a = i \<and> should_receive_routes a))"

lemma offered_in: "offered rs k = Some r \<Longrightarrow> r \<in> set rs \<and> rt_prefix r = k"
  by (auto simp: offered_def dest!: map_of_SomeD)

lemma handle_update_routes:
  assumes "handle_update_request a req t0 = (res, t')" "routes t' k = Some x"
  shows "routes t0 k = Some x \<or> (\<exists>r. offered (ru_new_routes req) k = Some r \<and> x = (a, r))"
  using handle_update_effect [OF assms(1)] assms(2)
  by (auto split: if_splits option.splits)

lemma handle_update_no_panic: "fst (handle_update_request a req t) \<noteq> Panic"
proof -
  obtain r t' where "handle_update_request a req t = (r, t')"
    by (cases "handle_update_request a req t")
  from handle_update_effect [OF this] this show ?thesis by (auto split: if_splits)
qed

lemma handle_update_wf:
  "handle_update_request a req t = (res, t') \<Longrightarrow> table_wf t \<Longrightarrow> table_wf t'"
  by (drule handle_update_effect) simp

text \<open>The state after a route update request, with the table it was applied to.\<close>

lemma update_request_cases:
  assumes "handle_route_update_request cfg now req m = (res, m', tasks)"
  obtains (unchanged) "m' = m"
  | (applied) u table r t' where "should_receive_routes (in_from req)"
      "table = (case hm_get (mgr_incoming_tables m) (acc_id (in_from req)) of
          None \<Rightarrow> routing_table_new (ru_routing_table_id u) | Some t \<Rightarrow> t)"
      "handle_update_request (in_from req) (filter_routes m u) table = (r, t')"
      "hm_get (mgr_incoming_tables m') = (hm_get (mgr_incoming_tables m))(acc_id (in_from req) \<mapsto> t')"
      "m' = m\<lparr>mgr_incoming_tables := mgr_incoming_tables m'\<rparr>"
      "hm_wf (mgr_incoming_tables m) \<Longrightarrow> hm_wf (mgr_incoming_tables m')"
proof (cases "should_receive_routes (in_from req)")
  case False
  then show thesis using assms unchanged by (simp add: handle_route_update_request_def)
next
  case recv: True
  show thesis
  proof (cases "route_update_try_from cfg now (in_prepare req)")
    case (Ok u)
    let ?i = "acc_id (in_from req)"
    let ?new = "routing_table_new (ru_routing_table_id (filter_routes m u))"
    let ?tables = "if hm_get (mgr_incoming_tables m) ?i = None
      then hm_insert ?i ?new (mgr_incoming_tables m) else mgr_incoming_tables m"
    define table where "table = (case hm_get (mgr_incoming_tables m) ?i of None \<Rightarrow> ?new | Some t \<Rightarrow> t)"
    have tab: "hm_get ?tables ?i = Some table"
      by (auto simp: table_def hm_get_insert split: option.split)
    obtain r t' where h: "handle_update_request (in_from req) (filter_routes m u) table = (r, t')"
      by (cases "handle_update_request (in_from req) (filter_routes m u) table")
    have "m' = m\<lparr>mgr_incoming_tables := hm_insert ?i t' ?tables\<rparr>"
      using assms recv Ok tab h unfolding handle_route_update_request_def
      by (auto simp: Let_def split: result.splits if_splits)
    moreover have "ru_routing_table_id (filter_routes m u) = ru_routing_table_id u"
      by (simp add: filter_routes_def)
    ultimately show thesis
      by (intro applied [OF recv _ h]) (auto simp: table_def hm_get_insert split: option.split)
  qed (use assms recv unchanged in \<open>auto simp: handle_route_update_request_def\<close>)
qed

lemma incoming_wf_update:
  assumes "handle_route_update_request cfg now req m = (res, m', tasks)" "incoming_wf m"
  shows "incoming_wf m'"
  using assms(1)
proof (cases rule: update_request_cases)
  case unchanged
  then show ?thesis using assms(2) by simp
next
  case (applied u table r t')
  have addr: "mgr_ilp_address m' = mgr_ilp_address m" by (subst applied(5)) simp
  have old: "table_wf table" "table_acceptable (mgr_ilp_address m) table"
    "\<And>k a r. routes table k = Some (a, r) \<Longrightarrow> acc_id a = acc_id (in_from req) \<and> should_receive_routes a"
    using assms(2) unfolding applied(2)
    by (auto simp: incoming_wf_def table_acceptable_def routing_table_new_def pm_new_def
        table_wf_def split: option.splits) blast+
  have "acceptable_route (mgr_ilp_address m) x" "rt_prefix x = k"
    if "offered (ru_new_routes (filter_routes m u)) k = Some x" for k x
    using offered_in [OF that] by (auto simp: filter_routes_new)
  then have "table_acceptable (mgr_ilp_address m) t' \<and>
      (\<forall>k a x. routes t' k = Some (a, x) \<longrightarrow> acc_id a = acc_id (in_from req) \<and> should_receive_routes a)"
    using handle_update_routes [OF applied(3)] old(2,3) applied(1)
    unfolding table_acceptable_def by blast
  then show ?thesis
    using assms(2) handle_update_wf [OF applied(3) old(1)] applied(4,6)
    by (auto simp: incoming_wf_def addr)
qed

section \<open>Merged epochs replay the epochs\<close>

text \<open>
  What a peer's table becomes under an update (withdrawals first, then the offered routes), and what
  one epoch did to the forwarding table (routes set first, then the withdrawals).
\<close>

definition apply_update :: "Route list \<times> bytes list \<Rightarrow> (bytes \<Rightarrow> Route option) \<Rightarrow> bytes \<Rightarrow> Route option" where
  "apply_update u f k =
     (case offered (fst u) k of Some r \<Rightarrow> Some r
      | None \<Rightarrow> if k \<in> set (snd u) then None else f k)"

definition apply_epoch ::
  "(bytes \<Rightarrow> Route option) \<Rightarrow> NewAndWithdrawnRoutes \<Rightarrow> bytes \<Rightarrow> Route option" where
  "apply_epoch f e k =
     (if k \<in> set (snd e) then None
      else case offered (fst e) k of Some r \<Rightarrow> Some r | None \<Rightarrow> f k)"

lemma offered_Nil [simp]: "offered [] = Map.empty"
  by (simp add: offered_def)

lemma offered_snoc: "offered (rs @ [r]) = (offered rs)(rt_prefix r \<mapsto> r)"
  by (simp add: offered_def)

lemma offered_append: "offered (rs @ qs) = offered rs ++ offered qs"
  by (simp add: offered_def)

lemma offered_filter:
  "offered (filter (\<lambda>r. rt_prefix r \<noteq> w) rs) = (offered rs)(w := None)"
  by (induction rs rule: rev_induct) (auto simp: offered_snoc)

lemma apply_merge_new:
  "apply_update (merge_new rs acc) f =
     (\<lambda>k. case offered rs k of Some r \<Rightarrow> Some r | None \<Rightarrow> apply_update acc f k)"
proof (induction rs arbitrary: acc)
  case Nil
  then show ?case by (simp add: offered_def)
next
  case (Cons r rs)
  obtain new wd where acc: "acc = (new, wd)" by (cases acc)
  let ?acc = "(new @ [r], if rt_prefix r \<in> set wd then filter (\<lambda>p. p \<noteq> rt_prefix r) wd else wd)"
  have "apply_update ?acc f = (apply_update acc f)(rt_prefix r \<mapsto> r)"
    by (auto simp: apply_update_def acc offered_snoc fun_eq_iff)
  with Cons.IH [of ?acc] show ?case
    by (auto simp: acc offered_Cons fun_eq_iff Let_def split: option.split)
qed

lemma apply_merge_withdrawn:
  "apply_update (merge_withdrawn ws acc) f = (\<lambda>k. if k \<in> set ws then None else apply_update acc f k)"
proof (induction ws arbitrary: acc)
  case (Cons w ws)
  obtain new wd where acc: "acc = (new, wd)" by (cases acc)
  let ?acc = "(if list_ex (\<lambda>r. rt_prefix r = w) new then filter (\<lambda>r. rt_prefix r \<noteq> w) new else new,
      wd @ [w])"
  have "\<not> list_ex (\<lambda>r. rt_prefix r = w) new \<Longrightarrow> filter (\<lambda>r. rt_prefix r \<noteq> w) new = new"
    by (simp add: list_ex_iff filter_id_conv)
  moreover have "\<not> list_ex (\<lambda>r. rt_prefix r = w) new \<Longrightarrow> offered new w = None"
    by (auto simp: list_ex_iff offered_None)
  ultimately have "apply_update ?acc f = (apply_update acc f)(w := None)"
    by (auto simp: apply_update_def acc offered_filter fun_eq_iff)
  with Cons.IH [of ?acc] show ?case by (auto simp: acc fun_eq_iff Let_def)
qed simp

lemma apply_merge_epochs:
  "apply_update (merge_epochs es acc) f = foldl apply_epoch (apply_update acc f) es"
proof (induction es arbitrary: acc)
  case (Cons e es)
  obtain new wd where e: "e = (new, wd)" by (cases e)
  have "apply_update (merge_withdrawn wd (merge_new new acc)) f = apply_epoch (apply_update acc f) e"
    by (auto simp: apply_merge_withdrawn apply_merge_new apply_epoch_def e fun_eq_iff)
  with Cons.IH show ?case by (simp add: e)
qed simp

text \<open>The routes announced up to an epoch: our own address, then one epoch after the other.\<close>

definition own_route :: "CcpRouteManager \<Rightarrow> Route" where
  "own_route m = \<lparr>rt_prefix = addr_bytes (mgr_ilp_address m), rt_path = [],
     rt_auth = replicate 32 0, rt_props = []\<rparr>"

definition announced :: "CcpRouteManager \<Rightarrow> nat \<Rightarrow> bytes \<Rightarrow> Route option" where
  "announced m n =
     foldl apply_epoch [addr_bytes (mgr_ilp_address m) \<mapsto> own_route m]
       (take n (mgr_forwarding_table_updates m))"

lemma create_route_update_applies:
  fixes m :: CcpRouteManager
  assumes "unat e0 \<le> unat e1" and "unat e0 = 0 \<Longrightarrow> f = Map.empty"
    and "unat e0 \<noteq> 0 \<Longrightarrow> f = announced m (unat e0)"
  defines "u \<equiv> create_route_update e0 e1 m"
  shows "apply_update (ru_new_routes u, ru_withdrawn_routes u) f = announced m (unat e1)"
proof -
  let ?own = "if unat e0 = 0 then [own_route m] else []"
  let ?es = "take (unat e1 - unat e0) (drop (unat e0) (mgr_forwarding_table_updates m))"
  have "(ru_new_routes u, ru_withdrawn_routes u) = merge_epochs ?es (?own, [])"
    by (simp add: u_def create_route_update_def own_route_def Let_def split: prod.split)
  then have "apply_update (ru_new_routes u, ru_withdrawn_routes u) f =
      foldl apply_epoch (apply_update (?own, []) f) ?es" by (simp add: apply_merge_epochs)
  also have "apply_update (?own, []) f =
      foldl apply_epoch [addr_bytes (mgr_ilp_address m) \<mapsto> own_route m]
        (take (unat e0) (mgr_forwarding_table_updates m))"
    using assms(2,3)
    by (auto simp: apply_update_def offered_def own_route_def fun_eq_iff announced_def)
  also have "foldl apply_epoch (foldl apply_epoch [addr_bytes (mgr_ilp_address m) \<mapsto> own_route m]
        (take (unat e0) (mgr_forwarding_table_updates m))) ?es = announced m (unat e1)"
    using assms(1) unfolding announced_def foldl_append [symmetric]
    by (metis le_add_diff_inverse take_add)
  finally show ?thesis .
qed

lemma routes_apply_update:
  assumes "handle_update_request a req t0 = (res, t')"
    and "tbl_id t0 = ru_routing_table_id req" "ru_from_epoch_index req \<le> tbl_epoch t0"
      "tbl_epoch t0 \<le> ru_to_epoch_index req"
  shows "(\<lambda>k. map_option snd (routes t' k)) =
      apply_update (ru_new_routes req, ru_withdrawn_routes req) (\<lambda>k. map_option snd (routes t0 k))"
    and "tbl_epoch t' = ru_to_epoch_index req" "tbl_id t' = tbl_id t0"
  using handle_update_effect [OF assms(1)] assms(2-)
  by (auto simp: apply_update_def fun_eq_iff split: option.split)

section \<open>The chosen route is the best\<close>

lemma str_less_irrefl [simp]: "\<not> str_less x x"
  by (induction x) auto

lemma str_less_total: "x \<noteq> y \<Longrightarrow> str_less x y \<or> str_less y x"
  by (induction x y rule: str_less.induct) auto

lemma str_less_trans: "str_less x y \<Longrightarrow> str_less y z \<Longrightarrow> str_less x z"
proof (induction x y arbitrary: z rule: str_less.induct)
  case (4 x xs y ys)
  then show ?case by (cases z) (auto intro: less_trans)
qed (auto elim: str_less.elims)

lemma str_less_asym: "str_less x y \<Longrightarrow> \<not> str_less y x"
  using str_less_trans str_less_irrefl by blast

text \<open>\<open>dominates best c\<close>: no reason to prefer \<open>c\<close> to \<open>best\<close>.\<close>

definition dominates :: "(Uuid \<Rightarrow> bytes) \<Rightarrow> Account \<times> Route \<Rightarrow> Account \<times> Route \<Rightarrow> bool" where
  "dominates us best c \<longleftrightarrow>
     acc_routing_relation (fst best) > acc_routing_relation (fst c) \<or>
     acc_routing_relation (fst best) = acc_routing_relation (fst c) \<and>
     (length (rt_path (snd best)) < length (rt_path (snd c)) \<or>
      length (rt_path (snd best)) = length (rt_path (snd c)) \<and>
      \<not> str_less (us (acc_id (fst c))) (us (acc_id (fst best))))"

lemma dominates_refl [simp]: "dominates us c c"
  by (simp add: dominates_def)

lemma not_str_less_trans:
  assumes "\<not> str_less y x" "\<not> str_less z y"
  shows "\<not> str_less z x"
proof
  assume zx: "str_less z x"
  show False
  proof (cases "x = y")
    case True
    with zx assms(2) show ?thesis by simp
  next
    case False
    with assms(1) have "str_less x y" using str_less_total by blast
    with zx have "str_less z y" by (rule str_less_trans)
    with assms(2) show ?thesis by simp
  qed
qed

lemma dominates_trans:
  assumes "dominates us x y" "dominates us y z"
  shows "dominates us x z"
proof -
  have "acc_routing_relation (fst x) \<ge> acc_routing_relation (fst y)"
    "acc_routing_relation (fst y) \<ge> acc_routing_relation (fst z)"
    using assms by (auto simp: dominates_def)
  moreover have "\<not> str_less (us (acc_id (fst z))) (us (acc_id (fst x)))"
    if "\<not> str_less (us (acc_id (fst y))) (us (acc_id (fst x)))"
      "\<not> str_less (us (acc_id (fst z))) (us (acc_id (fst y)))"
    using not_str_less_trans that .
  ultimately show ?thesis using assms unfolding dominates_def
    by (elim disjE conjE) (simp_all add: less_le_trans le_less_trans)
qed

lemma better_candidate_dominates:
  "better_candidate us p c \<in> {p, c} \<and> dominates us (better_candidate us p c) p \<and>
   dominates us (better_candidate us p c) c"
proof -
  let ?p = "us (acc_id (fst p))" and ?c = "us (acc_id (fst c))"
  have "str_less ?p ?c \<Longrightarrow> \<not> str_less ?c ?p" by (rule str_less_asym)
  then show ?thesis
    by (simp add: better_candidate_def dominates_def Let_def case_prod_unfold)
qed

lemma fold_better_dominates:
  "foldl (better_candidate us) c cs \<in> set (c # cs) \<and>
   (\<forall>d \<in> set (c # cs). dominates us (foldl (better_candidate us) c cs) d)"
proof (induction cs rule: rev_induct)
  case (snoc d cs)
  let ?b = "foldl (better_candidate us) c cs"
  have b: "better_candidate us ?b d \<in> {?b, d}" "dominates us (better_candidate us ?b d) ?b"
      "dominates us (better_candidate us ?b d) d"
    using better_candidate_dominates by blast+
  have "dominates us (better_candidate us ?b d) e" if "e \<in> set (c # cs)" for e
    using dominates_trans [OF b(2)] snoc that by blast
  then show ?case using b(1,3) snoc by auto
qed simp

end
