(* ===== verification/Ccp_Protocol.thy ===== *)
theory Ccp_Protocol
  imports Ccp_Manager
begin

text \<open>
  The route manager over time: the requests of peers, the recalculation of best routes and the
  broadcasts as a step relation, the invariants of every reachable state, the synchronisation of a
  peer with our announcements, and the choice of routes.
\<close>

section \<open>What a recalculation changes\<close>

lemma check_prefixes_better:
  "check_prefixes best lt ps = (better, wd) \<Longrightarrow> (p, a, r) \<in> set better \<Longrightarrow>
   best p = Some (a, r) \<and> p \<in> set ps"
proof (induction ps arbitrary: better wd)
  case (Cons q ps)
  obtain b0 w0 where b0: "check_prefixes best lt ps = (b0, w0)" by (cases "check_prefixes best lt ps")
  with Cons.prems have "(p, a, r) \<in> set b0 \<or> p = q \<and> best q = Some (a, r)"
    by (auto split: option.splits prod.splits if_splits)
  with Cons.IH [OF b0] show ?case by auto
qed simp

lemma check_prefixes_withdrawn:
  "check_prefixes best lt ps = (better, wd) \<Longrightarrow> set wd = {p \<in> set ps. best p = None}"
proof (induction ps arbitrary: better wd)
  case (Cons q ps)
  obtain b0 w0 where b0: "check_prefixes best lt ps = (b0, w0)" by (cases "check_prefixes best lt ps")
  with Cons.prems have "wd = (if best q = None then q # w0 else w0)"
    by (auto split: option.splits prod.splits if_splits)
  with Cons.IH [OF b0] show ?case by auto
qed simp

text \<open>The route we forward: our address in front of the path, the authentication hashed once more.\<close>

definition hop :: "(bytes \<Rightarrow> bytes) \<Rightarrow> Address \<Rightarrow> Route \<Rightarrow> Route" where
  "hop sha addr r = r\<lparr>rt_path := addr_bytes addr # rt_path r, rt_auth := sha (rt_auth r)\<rparr>"

lemma hop_sel [simp]:
  "rt_prefix (hop sha addr r) = rt_prefix r" "rt_path (hop sha addr r) = addr_bytes addr # rt_path r"
  by (simp_all add: hop_def)

lemma install_routes_ConsE:
  assumes "install_routes sha addr wd ((p, a, r) # xs) lt ft = (lt', ft', new)"
  obtains (kept) "install_routes sha addr wd xs (set_route p a r lt) ft = (lt', ft', new)"
  | (advertised) new1 where "advertise addr wd p r" "new = hop sha addr r # new1"
      "install_routes sha addr wd xs (set_route p a r lt) (set_route p a (hop sha addr r) ft) =
        (lt', ft', new1)"
  using assms unfolding install_routes.simps Let_def hop_def
  by (auto split: prod.splits if_splits)

lemma install_routes_new:
  assumes "install_routes sha addr wd xs lt ft = (lt', ft', new)" "r \<in> set new"
  shows "\<exists>(p, a, route) \<in> set xs. advertise addr wd p route \<and> r = hop sha addr route"
  using assms
proof (induction xs arbitrary: lt ft new)
  case (Cons x xs)
  obtain p a route where x: "x = (p, a, route)" by (cases x)
  from Cons.prems(1) [unfolded x] show ?case
  proof (cases rule: install_routes_ConsE)
    case kept
    from Cons.IH [OF this Cons.prems(2)] show ?thesis by auto
  next
    case (advertised new1)
    then show ?thesis using Cons.prems(2) Cons.IH [OF advertised(3)] by (auto simp: x)
  qed
qed simp

lemma set_route_fields [simp]:
  "tbl_id (set_route p a r t) = tbl_id t" "tbl_epoch (set_route p a r t) = tbl_epoch t"
  by (simp_all add: set_route_def pm_remove_def pm_insert_def)

lemma install_routes_wf:
  "install_routes sha addr wd xs lt ft = (lt', ft', new) \<Longrightarrow>
   (table_wf lt \<longrightarrow> table_wf lt') \<and> (table_wf ft \<longrightarrow> table_wf ft') \<and>
   tbl_id ft' = tbl_id ft \<and> tbl_epoch ft' = tbl_epoch ft"
proof (induction xs arbitrary: lt ft new)
  case (Cons x xs)
  obtain p a route where x: "x = (p, a, route)" by (cases x)
  from Cons.prems [unfolded x] show ?case
    by (cases rule: install_routes_ConsE) (auto dest: Cons.IH)
qed simp

lemma delete_all_wf:
  "(table_wf t \<longrightarrow> table_wf (foldl (\<lambda>t p. snd (delete_route p t)) t ps)) \<and>
   tbl_id (foldl (\<lambda>t p. snd (delete_route p t)) t ps) = tbl_id t \<and>
   tbl_epoch (foldl (\<lambda>t p. snd (delete_route p t)) t ps) = tbl_epoch t"
proof (induction ps arbitrary: t)
  case (Cons p ps)
  have "tbl_id (snd (delete_route p t)) = tbl_id t" "tbl_epoch (snd (delete_route p t)) = tbl_epoch t"
    by (simp_all add: delete_route_eq)
  then show ?case using Cons.IH [of "snd (delete_route p t)"] by simp
qed simp

lemma get_route_origin:
  assumes "table_wf t" "get_route t p = Some x"
  obtains k where "routes t k = Some x" "starts_with p k"
  using pm.resolve_Some [OF assms(1) [unfolded table_wf_def] assms(2) [unfolded get_route_def]] that
  by metis

text \<open>A best route has an empty path (configured or local) or comes from a peer's table.\<close>

lemma best_route_cases:
  assumes "get_best_route_for_prefix us local configured tables p = Some (a, r)"
  obtains (ours) "(a, r) = account_route a"
  | (peer) i t where "(i, t) \<in> set tables" "get_route t p = Some (a, r)"
proof -
  consider c where "account_route c = (a, r)"
    | c cs where "candidate_routes tables p = c # cs"
      "foldl (better_candidate us) c cs = (a, r)"
    using assms unfolding get_best_route_for_prefix_def Let_def
    by (auto split: option.splits list.splits simp del: better_candidate_def)
  then show thesis
  proof cases
    case 1
    then show ?thesis by (intro ours) (auto simp: account_route_def)
  next
    case 2
    then have "(a, r) \<in> set (candidate_routes tables p)"
      using fold_better_dominates [of us c cs] by (metis list.set_intros)
    then show ?thesis
      by (auto simp: candidate_routes_def map_filter_def intro!: peer)
  qed
qed

section \<open>The invariant\<close>

definition loop_free :: "Address \<Rightarrow> Route \<Rightarrow> bool" where
  "loop_free addr r \<longleftrightarrow> (\<exists>p. rt_path r = addr_bytes addr # p \<and> addr_bytes addr \<notin> set p)"

definition updates_wf :: "CcpRouteManager \<Rightarrow> bool" where
  "updates_wf m \<longleftrightarrow>
     unat (tbl_epoch (mgr_forwarding_table m)) = length (mgr_forwarding_table_updates m) \<and>
     mgr_last_epoch_updates_sent_for m \<le> tbl_epoch (mgr_forwarding_table m) \<and>
     (\<forall>(new, _) \<in> set (mgr_forwarding_table_updates m). \<forall>r \<in> set new. loop_free (mgr_ilp_address m) r)"

definition manager_wf :: "CcpRouteManager \<Rightarrow> bool" where
  "manager_wf m \<longleftrightarrow> incoming_wf m \<and> updates_wf m \<and>
     table_wf (mgr_forwarding_table m) \<and> table_wf (mgr_local_table m)"

lemma best_route_avoids_us:
  assumes "incoming_wf m"
    and "get_best_route_for_prefix us local configured (mgr_incoming_tables m) p = Some (a, r)"
  shows "addr_bytes (mgr_ilp_address m) \<notin> set (rt_path r)"
  using assms(2)
proof (cases rule: best_route_cases)
  case ours
  then show ?thesis by (simp add: account_route_def)
next
  case (peer i t)
  then have t: "table_wf t" "table_acceptable (mgr_ilp_address m) t"
    using assms(1) by (auto simp: incoming_wf_def hm_get_iff)
  from t(1) peer(2) obtain k where "routes t k = Some (a, r)" by (rule get_route_origin)
  then show ?thesis using t(2) acceptable_routeD(3) by (auto simp: table_acceptable_def)
qed

lemma update_best_routes_cases:
  assumes "update_best_routes sha us store_routes set_routes prefixes m = (res, m')"
  obtains (same) "m' = m"
  | (failed) lt ft where "m' = m\<lparr>mgr_local_table := lt, mgr_forwarding_table := ft\<rparr>"
      "tbl_epoch ft = tbl_epoch (mgr_forwarding_table m)"
      "table_wf (mgr_local_table m) \<longrightarrow> table_wf lt" "table_wf (mgr_forwarding_table m) \<longrightarrow> table_wf ft"
  | (applied) local configured better wd lt1 ft1 lt ft new where
      "store_routes = Ok (local, configured)"
      "check_prefixes (get_best_route_for_prefix us local configured (mgr_incoming_tables m))
         (mgr_local_table m)
         (case prefixes of Some ps \<Rightarrow> ps | None \<Rightarrow> map fst configured @ map fst local) = (better, wd)"
      "install_routes sha (mgr_ilp_address m) wd better (mgr_local_table m) (mgr_forwarding_table m)
         = (lt1, ft1, new)"
      "m' = m\<lparr>mgr_local_table := lt, mgr_forwarding_table := ft,
         mgr_forwarding_table_updates := mgr_forwarding_table_updates m @ [(new, wd)]\<rparr>"
      "unat (tbl_epoch ft) = unat (tbl_epoch (mgr_forwarding_table m)) + 1"
      "table_wf (mgr_local_table m) \<longrightarrow> table_wf lt" "table_wf (mgr_forwarding_table m) \<longrightarrow> table_wf ft"
proof (cases store_routes)
  case (Ok lc)
  obtain local configured where lc: "lc = (local, configured)" by (cases lc)
  let ?best = "get_best_route_for_prefix us local configured (mgr_incoming_tables m)"
  let ?ps = "case prefixes of Some ps \<Rightarrow> ps | None \<Rightarrow> map fst configured @ map fst local"
  obtain better wd where bw: "check_prefixes ?best (mgr_local_table m) ?ps = (better, wd)"
    by (cases "check_prefixes ?best (mgr_local_table m) ?ps")
  obtain lt1 ft1 new where ins: "install_routes sha (mgr_ilp_address m) wd better
      (mgr_local_table m) (mgr_forwarding_table m) = (lt1, ft1, new)"
    by (rule prod_cases3)
  define lt where "lt = foldl (\<lambda>t p. snd (delete_route p t)) lt1 wd"
  define ft2 where "ft2 = foldl (\<lambda>t p. snd (delete_route p t)) ft1 wd"
  have wf: "table_wf (mgr_local_table m) \<longrightarrow> table_wf lt" "table_wf (mgr_forwarding_table m) \<longrightarrow> table_wf ft2"
    and epoch: "tbl_epoch ft2 = tbl_epoch (mgr_forwarding_table m)"
    using install_routes_wf [OF ins] by (simp_all add: lt_def ft2_def delete_all_wf)
  show thesis
  proof (cases "better = [] \<and> wd = []")
    case True
    then show ?thesis using assms bw by (intro same) (simp add: update_best_routes_def Ok lc Let_def)
  next
    case False
    show ?thesis
    proof (cases "increment_epoch ft2 :: (u32 \<times> Account RoutingTable, CcpRoutingStoreError) result")
      case inc: (Ok eft)
      obtain e ft where eft: "eft = (e, ft)" by (cases eft)
      have m': "m' = m\<lparr>mgr_local_table := lt, mgr_forwarding_table := ft,
         mgr_forwarding_table_updates := mgr_forwarding_table_updates m @ [(new, wd)]\<rparr>"
        using assms False bw ins inc
        by (auto simp: update_best_routes_def Ok lc Let_def lt_def ft2_def eft)
      have ft: "unat (tbl_epoch ft) = unat (tbl_epoch ft2) + 1" "table_wf ft = table_wf ft2"
        using inc by (auto simp: increment_epoch_def eft and_then_eq_Ok dest: unat_checked_add)
      show ?thesis
        by (rule applied [OF Ok [unfolded lc] bw ins m']) (use wf epoch ft in simp_all)
    next
      case Panic
      then have "m' = m\<lparr>mgr_local_table := lt, mgr_forwarding_table := ft2\<rparr>"
        using assms False bw ins by (auto simp: update_best_routes_def Ok lc Let_def lt_def ft2_def)
      then show ?thesis using wf epoch by (intro failed) auto
    next
      case (Err e)
      then have "m' = m\<lparr>mgr_local_table := lt, mgr_forwarding_table := ft2\<rparr>"
        using assms False bw ins by (auto simp: update_best_routes_def Ok lc Let_def lt_def ft2_def)
      then show ?thesis using wf epoch by (intro failed) auto
    qed
  qed
qed (use assms same in \<open>auto simp: update_best_routes_def\<close>)

lemma manager_wf_update_best_routes:
  assumes "update_best_routes sha us store_routes set_routes prefixes m = (res, m')" "manager_wf m"
  shows "manager_wf m' \<and> mgr_ilp_address m' = mgr_ilp_address m"
  using assms(1)
proof (cases rule: update_best_routes_cases)
  case (applied local configured better wd lt1 ft1 lt ft new)
  let ?addr = "mgr_ilp_address m"
  have "loop_free ?addr r" if "r \<in> set new" for r
  proof -
    from install_routes_new [OF applied(3) that] obtain p a route where
      route: "(p, a, route) \<in> set better" "r = hop sha ?addr route" by auto
    from check_prefixes_better [OF applied(2) route(1)] have "addr_bytes ?addr \<notin> set (rt_path route)"
      using best_route_avoids_us assms(2) by (auto simp: manager_wf_def)
    then show ?thesis by (simp add: loop_free_def route(2))
  qed
  moreover have "tbl_epoch (mgr_forwarding_table m) \<le> tbl_epoch ft"
    using applied(5) by (simp add: word_le_nat_alt)
  ultimately show ?thesis
    using assms(2) applied(4-7)
    by (auto simp: manager_wf_def updates_wf_def incoming_wf_def intro: order_trans)
qed (use assms(2) in \<open>auto simp: manager_wf_def updates_wf_def incoming_wf_def\<close>)

lemma manager_wf_send_route_updates:
  assumes "send_route_updates format_ts now us get_accounts outgoing m s = (res, m', s')" "manager_wf m"
  shows "manager_wf m' \<and> mgr_ilp_address m' = mgr_ilp_address m"
proof -
  have "mgr_ilp_address m' = mgr_ilp_address m" "mgr_incoming_tables m' = mgr_incoming_tables m"
    "mgr_forwarding_table m' = mgr_forwarding_table m" "mgr_local_table m' = mgr_local_table m"
    "mgr_forwarding_table_updates m' = mgr_forwarding_table_updates m"
    "mgr_last_epoch_updates_sent_for m' = mgr_last_epoch_updates_sent_for m \<or>
     mgr_last_epoch_updates_sent_for m' = tbl_epoch (mgr_forwarding_table m)"
    using assms(1) unfolding send_route_updates_def Let_def
    by (auto split: result.splits prod.splits if_splits)
  then show ?thesis using assms(2) by (auto simp: manager_wf_def updates_wf_def incoming_wf_def)
qed

lemma manager_wf_request:
  assumes "ccp_handle_request cfg now next_incoming req m = (res, m', tasks)" "manager_wf m"
  shows "manager_wf m' \<and> mgr_ilp_address m' = mgr_ilp_address m"
proof -
  consider (same) "m' = m" | (control) u where "m' = m\<lparr>mgr_unavailable_accounts := u\<rparr>"
    | (update) "handle_route_update_request cfg now req m = (res, m', tasks)"
    using assms(1) unfolding ccp_handle_request_def handle_route_control_request_def Let_def
    by (auto split: if_splits result.splits)
  then show ?thesis
  proof cases
    case same
    then show ?thesis using assms(2) by simp
  next
    case control
    then show ?thesis using assms(2) by (auto simp: manager_wf_def updates_wf_def incoming_wf_def)
  next
    case update
    then obtain tables where m': "m' = m\<lparr>mgr_incoming_tables := tables\<rparr>"
    proof (cases rule: update_request_cases)
      case unchanged
      show thesis by (rule that [of "mgr_incoming_tables m"]) (simp add: unchanged)
    next
      case applied
      show thesis by (rule that [OF applied(5)])
    qed
    then show ?thesis
      using incoming_wf_update [OF update] assms(2) by (auto simp: manager_wf_def updates_wf_def)
  qed
qed

section \<open>Reachable states\<close>

text \<open>
  One step of the manager, paired with the state of the outgoing service: a request of a peer, a
  recalculation of best routes, whatever the store answers, or a broadcast. The address is that the
  manager was built with: after \<^verbatim>\<open>update_ilp_address\<close> the tables have been filtered against the old one.
\<close>

inductive ccp_step ::
  "features \<Rightarrow> (bytes \<Rightarrow> bytes) \<Rightarrow> (Uuid \<Rightarrow> bytes) \<Rightarrow> 's outgoing_service \<Rightarrow>
   CcpRouteManager \<times> 's \<Rightarrow> CcpRouteManager \<times> 's \<Rightarrow> bool"
  for cfg :: features and sha256 :: "bytes \<Rightarrow> bytes" and uuid_string :: "Uuid \<Rightarrow> bytes"
    and outgoing :: "'s outgoing_service"
where
  request: "ccp_handle_request cfg now next_incoming req m = (res, m', tasks) \<Longrightarrow>
    ccp_step cfg sha256 uuid_string outgoing (m, s) (m', s)"
| recalculate: "update_best_routes sha256 uuid_string store_routes set_routes prefixes m = (res, m') \<Longrightarrow>
    ccp_step cfg sha256 uuid_string outgoing (m, s) (m', s)"
| broadcast: "send_route_updates format_ts now uuid_string get_accounts outgoing m s = (res, m', s') \<Longrightarrow>
    ccp_step cfg sha256 uuid_string outgoing (m, s) (m', s')"

lemma ccp_step_wf:
  assumes "ccp_step cfg sha us outgoing c c'" "manager_wf (fst c)"
  shows "manager_wf (fst c') \<and> mgr_ilp_address (fst c') = mgr_ilp_address (fst c)"
  using assms
proof cases
  case request
  then show ?thesis using assms(2) manager_wf_request by fastforce
next
  case recalculate
  then show ?thesis using assms(2) manager_wf_update_best_routes by fastforce
next
  case broadcast
  then show ?thesis using assms(2) manager_wf_send_route_updates by fastforce
qed

lemma manager_wf_new: "manager_wf (manager_new addr i j)"
  by (simp add: manager_wf_def manager_new_def incoming_wf_def updates_wf_def routing_table_new_def
      table_wf_def pm_new_def)

lemma ccp_reachable_wf:
  assumes "(ccp_step cfg sha us outgoing)\<^sup>*\<^sup>* (manager_new addr i j, s) c"
  shows "manager_wf (fst c) \<and> mgr_ilp_address (fst c) = addr"
  using assms
proof (induction rule: rtranclp_induct)
  case base
  then show ?case by (simp add: manager_wf_new) (simp add: manager_new_def)
next
  case (step c c')
  then show ?case using ccp_step_wf [OF step(2)] by simp
qed

section \<open>Properties\<close>


text \<open>
  C6. A peer that holds what we announced up to one epoch and applies the update we create for the
  epochs up to another one ends with exactly what we announced up to that epoch, and at that epoch.
  The merge of the epochs loses nothing and adds nothing, whatever routes were set, withdrawn and
  set again in between; starting from the empty table gives the whole announcement.
\<close>

theorem peer_synchronises:
  assumes "unat e0 \<le> unat e1" and "tbl_id t = tbl_id (mgr_forwarding_table m)" "tbl_epoch t = e0"
    and "unat e0 = 0 \<Longrightarrow> tbl_prefix_map t = []"
    and "unat e0 \<noteq> 0 \<Longrightarrow> (\<lambda>k. map_option snd (routes t k)) = announced m (unat e0)"
  shows "case handle_update_request a (create_route_update e0 e1 m) t of (res, t') \<Rightarrow>
    is_ok res \<and> (\<lambda>k. map_option snd (routes t' k)) = announced m (unat e1) \<and> tbl_epoch t' = e1 \<and>
    tbl_id t' = tbl_id (mgr_forwarding_table m)"
proof -
  let ?u = "create_route_update e0 e1 m"
  have u: "ru_routing_table_id ?u = tbl_id (mgr_forwarding_table m)" "ru_from_epoch_index ?u = e0"
      "ru_to_epoch_index ?u = e1"
    by (simp_all add: create_route_update_def Let_def split: prod.split)
  obtain res t' where h: "handle_update_request a ?u t = (res, t')" by (rule prod.exhaust)
  have le: "e0 \<le> e1" using assms(1) by (simp add: word_le_nat_alt)
  from h have t': "(\<lambda>k. map_option snd (routes t' k)) =
      apply_update (ru_new_routes ?u, ru_withdrawn_routes ?u) (\<lambda>k. map_option snd (routes t k))"
    "tbl_epoch t' = e1" "tbl_id t' = tbl_id t"
    using routes_apply_update [OF h] u le assms(2,3) by simp_all
  have "apply_update (ru_new_routes ?u, ru_withdrawn_routes ?u) (\<lambda>k. map_option snd (routes t k)) =
      announced m (unat e1)"
    by (rule create_route_update_applies [OF assms(1)]) (use assms(4,5) in auto)
  moreover have "is_ok res"
    using handle_update_effect [OF h] u le [unfolded not_less [symmetric]] assms(2,3)
    by (auto simp: is_ok_def)
  ultimately show ?thesis using h t' assms(2) by simp
qed

section \<open>Choosing routes\<close>

lemma find_configured_iff:
  "find_configured configured segs n = Some a \<longleftrightarrow>
     (\<exists>k. 1 \<le> k \<and> k \<le> n \<and> hm_get configured (join_dots (take k segs)) = Some a \<and>
        (\<forall>j. k < j \<and> j \<le> n \<longrightarrow> hm_get configured (join_dots (take j segs)) = None))"
proof (induction n)
  case (Suc n)
  show ?case
  proof (cases "hm_get configured (join_dots (take (Suc n) segs))")
    case None
    have "(\<exists>k. 1 \<le> k \<and> k \<le> Suc n \<and> hm_get configured (join_dots (take k segs)) = Some a \<and>
        (\<forall>j. k < j \<and> j \<le> Suc n \<longrightarrow> hm_get configured (join_dots (take j segs)) = None)) \<longleftrightarrow>
      (\<exists>k. 1 \<le> k \<and> k \<le> n \<and> hm_get configured (join_dots (take k segs)) = Some a \<and>
        (\<forall>j. k < j \<and> j \<le> n \<longrightarrow> hm_get configured (join_dots (take j segs)) = None))"
      by (metis None le_Suc_eq option.distinct(1))
    then show ?thesis using Suc.IH None by simp
  next
    case (Some c)
    have "k = Suc n" if "k \<le> Suc n"
      "\<forall>j. k < j \<and> j \<le> Suc n \<longrightarrow> hm_get configured (join_dots (take j segs)) = None" for k
      using that Some by (metis le_neq_implies_less le_refl option.distinct(1))
    note last = this
    show ?thesis
    proof
      assume "find_configured configured segs (Suc n) = Some a"
      then show "\<exists>k. 1 \<le> k \<and> k \<le> Suc n \<and> hm_get configured (join_dots (take k segs)) = Some a \<and>
          (\<forall>j. k < j \<and> j \<le> Suc n \<longrightarrow> hm_get configured (join_dots (take j segs)) = None)"
        using Some by (intro exI [of _ "Suc n"]) auto
    qed (use Some last in fastforce)
  qed
qed auto

lemma find_configured_None:
  "find_configured configured segs n = None \<longleftrightarrow>
     (\<forall>k. 1 \<le> k \<and> k \<le> n \<longrightarrow> hm_get configured (join_dots (take k segs)) = None)"
  by (induction n) (auto simp: le_Suc_eq split: option.split)

lemma best_candidate_spec:
  assumes "find_configured configured (split_on dot p) (length (split_on dot p)) = None"
    and "hm_get local p = None"
  shows "case get_best_route_for_prefix us local configured tables p of
      None \<Rightarrow> candidate_routes tables p = []
    | Some b \<Rightarrow> b \<in> set (candidate_routes tables p) \<and>
        (\<forall>c \<in> set (candidate_routes tables p). dominates us b c)"
proof (cases "candidate_routes tables p")
  case Nil
  then show ?thesis using assms by (simp add: get_best_route_for_prefix_def Let_def)
next
  case (Cons c cs)
  then have "get_best_route_for_prefix us local configured tables p =
      Some (foldl (better_candidate us) c cs)"
    using assms by (simp add: get_best_route_for_prefix_def Let_def)
  then show ?thesis using fold_better_dominates [of us c cs] Cons by simp
qed

lemma dominates_antisym:
  assumes "dominates us b c" "dominates us c b" "inj us"
  shows "acc_id (fst b) = acc_id (fst c)"
proof (rule ccontr)
  assume "acc_id (fst b) \<noteq> acc_id (fst c)"
  then have "us (acc_id (fst b)) \<noteq> us (acc_id (fst c))" using assms(3) by (auto dest: injD)
  then show False using assms(1,2) str_less_total unfolding dominates_def by fastforce
qed

text \<open>
  C25. The best route for a prefix. A configured route for the prefix or a shorter run of its segments
  wins, the longest such; otherwise a local route for exactly the prefix; otherwise one of the peers'
  routes that no other peer's route beats, by relation (child over peer over parent), then by the
  length of the path, then by the account's identifier. No route is returned only when no peer has one.
\<close>

theorem best_route_is_optimal:
  fixes p :: bytes
  defines "segs \<equiv> split_on dot p"
  shows "(\<forall>k a. 1 \<le> k \<and> k \<le> length segs \<and> hm_get configured (join_dots (take k segs)) = Some a \<and>
        (\<forall>j. k < j \<and> j \<le> length segs \<longrightarrow> hm_get configured (join_dots (take j segs)) = None) \<longrightarrow>
        get_best_route_for_prefix us local configured tables p = Some (account_route a)) \<and>
     ((\<forall>k. 1 \<le> k \<and> k \<le> length segs \<longrightarrow> hm_get configured (join_dots (take k segs)) = None) \<longrightarrow>
        (case hm_get local p of
           Some a \<Rightarrow> get_best_route_for_prefix us local configured tables p = Some (account_route a)
         | None \<Rightarrow>
             (case get_best_route_for_prefix us local configured tables p of
                None \<Rightarrow> candidate_routes tables p = []
              | Some b \<Rightarrow> b \<in> set (candidate_routes tables p) \<and>
                  (\<forall>c \<in> set (candidate_routes tables p). dominates us b c))))"
proof (intro conjI allI impI)
  fix k a
  assume "1 \<le> k \<and> k \<le> length segs \<and> hm_get configured (join_dots (take k segs)) = Some a \<and>
        (\<forall>j. k < j \<and> j \<le> length segs \<longrightarrow> hm_get configured (join_dots (take j segs)) = None)"
  then have "find_configured configured segs (length segs) = Some a"
    unfolding find_configured_iff by blast
  then show "get_best_route_for_prefix us local configured tables p = Some (account_route a)"
    by (simp add: get_best_route_for_prefix_def segs_def)
next
  assume "\<forall>k. 1 \<le> k \<and> k \<le> length segs \<longrightarrow> hm_get configured (join_dots (take k segs)) = None"
  then have none: "find_configured configured (split_on dot p) (length (split_on dot p)) = None"
    unfolding find_configured_None segs_def .
  show "case hm_get local p of
      Some a \<Rightarrow> get_best_route_for_prefix us local configured tables p = Some (account_route a)
    | None \<Rightarrow>
        (case get_best_route_for_prefix us local configured tables p of
           None \<Rightarrow> candidate_routes tables p = []
         | Some b \<Rightarrow> b \<in> set (candidate_routes tables p) \<and>
             (\<forall>c \<in> set (candidate_routes tables p). dominates us b c))"
  proof (cases "hm_get local p")
    case None
    then show ?thesis using best_candidate_spec [OF none None] by simp
  next
    case (Some a)
    then show ?thesis using none by (simp add: get_best_route_for_prefix_def Let_def)
  qed
qed

text \<open>
  The choice does not depend on the iteration order of the hash map of peers' tables: under the
  manager's invariant, with distinct text forms of identifiers, any ordering of the same tables
  gives the same best route.
\<close>

lemma best_route_independent_of_order:
  assumes "incoming_wf m" "set tables = set (mgr_incoming_tables m)" "inj uuid_string"
  shows "get_best_route_for_prefix uuid_string local configured tables p =
    get_best_route_for_prefix uuid_string local configured (mgr_incoming_tables m) p"
proof (cases "find_configured configured (split_on dot p) (length (split_on dot p)) = None \<and>
    hm_get local p = None")
  case False
  then show ?thesis by (auto simp: get_best_route_for_prefix_def Let_def split: option.split)
next
  case True
  let ?best = "\<lambda>ts. get_best_route_for_prefix uuid_string local configured ts p"
  have cands: "set (candidate_routes tables p) = set (candidate_routes (mgr_incoming_tables m) p)"
    using assms(2) by (auto simp: candidate_routes_def map_filter_def)
  note spec = best_candidate_spec [OF conjunct1 [OF True] conjunct2 [OF True], where us = uuid_string]
  have uniq: "b = c" if "b \<in> set (candidate_routes tables p)" "c \<in> set (candidate_routes tables p)"
    "dominates uuid_string b c" "dominates uuid_string c b" for b c
  proof -
    have "acc_id (fst b) = acc_id (fst c)" by (rule dominates_antisym [OF that(3,4) assms(3)])
    moreover have "\<exists>t. hm_get (mgr_incoming_tables m) (acc_id (fst x)) = Some t \<and> get_route t p = Some x"
      if x: "x \<in> set (candidate_routes tables p)" for x
    proof -
      from x obtain i t where it: "(i, t) \<in> set (mgr_incoming_tables m)" "get_route t p = Some x"
        using assms(2) by (auto simp: candidate_routes_def map_filter_def)
      then have t: "hm_get (mgr_incoming_tables m) i = Some t" "table_wf t"
        "\<forall>k a r. routes t k = Some (a, r) \<longrightarrow> acc_id a = i"
        using assms(1) by (auto simp: incoming_wf_def hm_get_iff)
      obtain k where "routes t k = Some x" using get_route_origin [OF t(2) it(2)] by blast
      then have "acc_id (fst x) = i" using t(3) by (cases x) auto
      then show ?thesis using t(1) it(2) by blast
    qed
    ultimately show ?thesis using that(1,2) by (metis option.inject)
  qed
  show ?thesis
    using spec [where tables = tables] spec [where tables = "mgr_incoming_tables m"] cands uniq
    by (cases "?best tables"; cases "?best (mgr_incoming_tables m)") auto
qed

section \<open>Backoff\<close>

lemma hm_get_tick_all: "hm_get (tick_all u) i = map_option tick_backoff (hm_get u i)"
  by (induction u) (auto simp: tick_all_def)

lemma hm_wf_tick_all [simp]: "hm_wf (tick_all u) = hm_wf u"
  by (simp add: hm_wf_def tick_all_def comp_def case_prod_unfold)

lemma hm_wf_tick_all_pow [simp]: "hm_wf ((tick_all ^^ n) u) = hm_wf u"
  by (induction n) simp_all

lemma hm_get_tick_all_pow:
  "hm_get ((tick_all ^^ n) u) i = map_option (tick_backoff ^^ n) (hm_get u i)"
  by (induction n) (simp_all add: hm_get_tick_all option.map_comp comp_def option.map_id [unfolded id_def])

lemma skip_intervals_after:
  "unat (bo_skip_intervals ((tick_backoff ^^ n) bo)) = unat (bo_skip_intervals bo) - n"
  by (induction n) (simp_all add: tick_backoff_def unat_saturating_sub)

lemma accounts_to_skip_iff:
  assumes "hm_wf u"
  shows "i \<in> set (accounts_to_skip u) \<longleftrightarrow>
    (case hm_get u i of None \<Rightarrow> False | Some bo \<Rightarrow> 0 < unat (bo_skip_intervals bo))"
proof -
  have "i \<in> set (accounts_to_skip u) \<longleftrightarrow> (\<exists>bo. (i, bo) \<in> set u \<and> 0 < unat (bo_skip_intervals bo))"
    by (force simp: accounts_to_skip_def word_less_nat_alt)
  also have "\<dots> \<longleftrightarrow> (\<exists>bo. hm_get u i = Some bo \<and> 0 < unat (bo_skip_intervals bo))"
    by (simp add: hm_get_iff [OF assms])
  finally show ?thesis by (simp split: option.split)
qed

text \<open>
  C26. Backoff of an unavailable child: after its first failure it is left out of exactly one broadcast,
  after each further failure of one more than before, up to 255, and is then tried again. A success
  makes it available at once, and a failure of an account that is not a child is not held against it.
\<close>

theorem child_backoff:
  assumes "hm_wf u" "acc_routing_relation a = Child"
  defines "skips \<equiv> case hm_get u (acc_id a) of None \<Rightarrow> 1 | Some bo \<Rightarrow> min (unat (bo_max bo) + 1) 255"
  shows "(\<forall>n. acc_id a \<in> set (accounts_to_skip ((tick_all ^^ n) (record_send_result a (Err r) u)))
            \<longleftrightarrow> n < skips) \<and>
    map_option (\<lambda>bo. unat (bo_max bo)) (hm_get (record_send_result a (Err r) u) (acc_id a)) = Some skips \<and>
    (\<forall>n. acc_id a \<notin> set (accounts_to_skip ((tick_all ^^ n) (record_send_result a (Ok f) u)))) \<and>
    (acc_routing_relation c \<noteq> Child \<longrightarrow> record_send_result c (Err r) u = u)"
proof -
  obtain bo where bo: "hm_get (record_send_result a (Err r) u) (acc_id a) = Some bo"
      "unat (bo_skip_intervals bo) = skips" "unat (bo_max bo) = skips"
    using assms(2)
    by (cases "hm_get u (acc_id a)")
      (simp_all add: record_send_result_def hm_get_insert Let_def skips_def unat_saturating_add)
  have wf: "hm_wf (record_send_result a res u)" for res
    using assms(1) by (auto simp: record_send_result_def Let_def split: result.split option.split)
  have "hm_get (record_send_result a (Ok f) u) (acc_id a) = None"
    by (simp add: record_send_result_def hm_get_remove)
  then show ?thesis
    using bo by (simp add: accounts_to_skip_iff wf hm_get_tick_all_pow skip_intervals_after)
      (simp add: record_send_result_def)
qed

section \<open>Static routes\<close>

lemma find_configured_exact:
  assumes "hm_get configured p = Some a"
  shows "find_configured configured (split_on dot p) (length (split_on dot p)) = Some a"
proof -
  obtain n where n: "length (split_on dot p) = Suc n"
    by (cases "length (split_on dot p)") simp_all
  have "join_dots (take (Suc n) (split_on dot p)) = p"
    by (simp add: n [symmetric] join_dots_def join_split)
  then show ?thesis using assms by (simp add: n)
qed

text \<open>
  C27. A static route is announced under the address of its account, not under the configured prefix:
  when the route for a configured prefix is installed and advertised, the local table gets it under
  the prefix, while the update that peers receive offers the address of the account.
\<close>

theorem static_route_announced_as_account_address:
  assumes "hm_get configured p = Some a"
    and "get_route (mgr_local_table m) p = None" "get_route (mgr_forwarding_table m) p = None"
    and "advertise (mgr_ilp_address m) [] p (snd (account_route a))"
    and "unat (tbl_epoch (mgr_forwarding_table m)) + 1 < 2 ^ 32"
    and "update_best_routes sha256 uuid_string (Ok (local, configured)) set_routes (Some [p]) m = (res, m')"
  shows "routes (mgr_local_table m') p = Some (account_route a) \<and>
    (\<exists>r. mgr_forwarding_table_updates m' = mgr_forwarding_table_updates m @ [([r], [])] \<and>
       rt_prefix r = addr_bytes (acc_ilp_address a) \<and> rt_path r = [addr_bytes (mgr_ilp_address m)])"
proof -
  let ?best = "get_best_route_for_prefix uuid_string local configured (mgr_incoming_tables m)"
  obtain r where r: "account_route a = (a, r)" by (simp add: account_route_def)
  have best: "?best p = Some (a, r)"
    by (simp add: get_best_route_for_prefix_def find_configured_exact [OF assms(1)] r)
  then have check: "check_prefixes ?best (mgr_local_table m) [p] = ([(p, a, r)], [])"
    using assms(2) by simp
  let ?lt = "set_route p a r (mgr_local_table m)"
  let ?ft = "set_route p a (hop sha256 (mgr_ilp_address m) r) (mgr_forwarding_table m)"
  have install: "install_routes sha256 (mgr_ilp_address m) [] [(p, a, r)] (mgr_local_table m)
      (mgr_forwarding_table m) = (?lt, ?ft, [hop sha256 (mgr_ilp_address m) r])"
    using assms(3,4) by (simp add: r hop_def Let_def)
  have "(increment_epoch ?ft :: (_, CcpRoutingStoreError) result) =
      Ok (tbl_epoch ?ft, ?ft\<lparr>tbl_epoch := tbl_epoch ?ft + 1\<rparr>)"
    using assms(5) by (simp add: increment_epoch_def checked_add_def)
  then have m': "m' = m\<lparr>mgr_local_table := ?lt,
      mgr_forwarding_table := ?ft\<lparr>tbl_epoch := tbl_epoch ?ft + 1\<rparr>,
      mgr_forwarding_table_updates :=
        mgr_forwarding_table_updates m @ [([hop sha256 (mgr_ilp_address m) r], [])]\<rparr>"
    using assms(6)
    by (simp add: update_best_routes_def check install del: check_prefixes.simps install_routes.simps)
  have "rt_prefix r = addr_bytes (acc_ilp_address a)" "rt_path r = []"
    using r by (auto simp: account_route_def)
  then show ?thesis by (simp add: m' set_route_routes r)
qed

section \<open>Examples\<close>

text \<open>A fresh manager with one static route, to an account whose address differs from the prefix.\<close>

definition example_us :: Address where
  "example_us = Address (bstr ''test.us'')"

definition example_manager :: CcpRouteManager where
  "example_manager = manager_new example_us (replicate 16 1) (replicate 16 2)"

definition example_static :: "(bytes, Account) hashmap" where
  "example_static = [(bstr ''test.far'', example_account 7 (bstr ''test.peer'') Peer)]"

definition example_manager2 :: CcpRouteManager where
  "example_manager2 = snd (update_best_routes (\<lambda>x. x) (\<lambda>_. []) (Ok ([], example_static)) (\<lambda>_. Ok ())
     (Some [bstr ''test.far'']) example_manager)"

theorem static_route_announced_as_account_address_witness:
  "routes (mgr_local_table example_manager2) (bstr ''test.far'') =
     Some (account_route (example_account 7 (bstr ''test.peer'') Peer)) \<and>
   (\<exists>r. mgr_forwarding_table_updates example_manager2 = [([r], [])] \<and>
      rt_prefix r = bstr ''test.peer'' \<and> rt_path r = [bstr ''test.us''])"
proof -
  have "hm_get example_static (bstr ''test.far'') = Some (example_account 7 (bstr ''test.peer'') Peer)"
    by (simp add: example_static_def)
  moreover have "get_route (mgr_local_table example_manager) (bstr ''test.far'') = None"
    "get_route (mgr_forwarding_table example_manager) (bstr ''test.far'') = None"
    "advertise (mgr_ilp_address example_manager) [] (bstr ''test.far'')
       (snd (account_route (example_account 7 (bstr ''test.peer'') Peer)))"
    by code_simp+
  moreover have "unat (tbl_epoch (mgr_forwarding_table example_manager)) + 1 < 2 ^ 32"
    by (simp add: example_manager_def manager_new_def routing_table_new_def)
  ultimately show ?thesis
    using static_route_announced_as_account_address [OF _ _ _ _ _
        surjective_pairing, of example_static "bstr ''test.far''"
        "example_account 7 (bstr ''test.peer'') Peer" example_manager "\<lambda>x. x" "\<lambda>_. []" "[]" "\<lambda>_. Ok ()"]
    by (simp add: example_manager2_def [symmetric]) (simp add: example_account_def example_manager_def example_us_def manager_new_def)
qed


theorem peer_synchronises_witness:
  "case handle_update_request (example_account 3 (bstr ''test.us'') Peer) (create_route_update 0 1 example_manager2)
      (routing_table_new (tbl_id (mgr_forwarding_table example_manager2))) of (res, t') \<Rightarrow>
    is_ok res \<and> (\<lambda>k. map_option snd (routes t' k)) = announced example_manager2 1 \<and> tbl_epoch t' = 1"
  using peer_synchronises [of 0 1 "routing_table_new (tbl_id (mgr_forwarding_table example_manager2))"
      example_manager2 "example_account 3 (bstr ''test.us'') Peer"]
  by (simp add: routing_table_new_def pm_new_def split: prod.splits)

theorem best_route_is_optimal_witness:
  "get_best_route_for_prefix (\<lambda>_. []) [] example_static [] (bstr ''test.far'') =
     Some (account_route (example_account 7 (bstr ''test.peer'') Peer))"
proof -
  have "length (split_on dot (bstr ''test.far'')) = 2"
    "hm_get example_static (join_dots (take 2 (split_on dot (bstr ''test.far'')))) =
       Some (example_account 7 (bstr ''test.peer'') Peer)" by code_simp+
  then show ?thesis
    using best_route_is_optimal [of "bstr ''test.far''" example_static "\<lambda>_. []" "[]" "[]",
        THEN conjunct1, rule_format, of 2] by simp
qed

text \<open>Two peers offering the same prefix.\<close>

definition example_offer :: "Uuid \<Rightarrow> bytes list \<Rightarrow> Account RoutingTable" where
  "example_offer i path = (routing_table_new [])\<lparr>tbl_prefix_map :=
     [(bstr ''test.far'', example_account i (bstr ''test.peer'') Peer,
       \<lparr>rt_prefix = bstr ''test.far'', rt_path = path, rt_auth = [], rt_props = []\<rparr>)]\<rparr>"

definition example_peers :: CcpRouteManager where
  "example_peers = example_manager\<lparr>mgr_incoming_tables :=
     [(1, example_offer 1 [bstr ''test.x'']), (2, example_offer 2 [bstr ''test.x''])]\<rparr>"

lemma example_peers_wf: "incoming_wf example_peers"
proof -
  have "acceptable_route (Address (bstr ''test.us''))
      \<lparr>rt_prefix = bstr ''test.far'', rt_path = [bstr ''test.x''], rt_auth = [], rt_props = []\<rparr>"
    by code_simp
  then show ?thesis
    by (auto simp: incoming_wf_def example_peers_def example_offer_def example_manager_def example_us_def
        manager_new_def routing_table_new_def table_wf_def table_acceptable_def hm_wf_def
        example_account_def should_receive_routes_def split: if_splits)
qed

lemma best_route_independent_of_order_example:
  "get_best_route_for_prefix (\<lambda>i. replicate i 0) [] [] (rev (mgr_incoming_tables example_peers)) (bstr ''test.far'') =
     get_best_route_for_prefix (\<lambda>i. replicate i 0) [] [] (mgr_incoming_tables example_peers) (bstr ''test.far'') \<and>
   length (candidate_routes (mgr_incoming_tables example_peers) (bstr ''test.far'')) = 2"
proof
  have "inj (\<lambda>i. replicate i (0 :: u8))" by (rule injI) (metis length_replicate)
  then show "get_best_route_for_prefix (\<lambda>i. replicate i 0) [] [] (rev (mgr_incoming_tables example_peers))
      (bstr ''test.far'') =
     get_best_route_for_prefix (\<lambda>i. replicate i 0) [] [] (mgr_incoming_tables example_peers) (bstr ''test.far'')"
    by (intro best_route_independent_of_order [OF example_peers_wf]) simp_all
  show "length (candidate_routes (mgr_incoming_tables example_peers) (bstr ''test.far'')) = 2"
    by code_simp
qed

theorem child_backoff_witness:
  "3 \<in> set (accounts_to_skip (record_send_result (example_account 3 [] Child) (Err (bad_request [] example_manager)) [])) \<and>
   3 \<notin> set (accounts_to_skip (tick_all
     (record_send_result (example_account 3 [] Child) (Err (bad_request [] example_manager)) []))) \<and>
   3 \<notin> set (accounts_to_skip (record_send_result (example_account 3 [] Child) (Ok CCP_RESPONSE) []))"
proof -
  have child: "acc_routing_relation (example_account 3 [] Child) = Child" "acc_id (example_account 3 [] Child) = 3"
    by (simp_all add: example_account_def)
  note W = child_backoff [OF hm_wf_Nil child(1), of "bad_request [] example_manager" CCP_RESPONSE
      "example_account 4 [] Peer", unfolded child(2), simplified]
  show ?thesis
    using W [THEN conjunct1, rule_format, of 0] W [THEN conjunct1, rule_format, of 1]
      W [THEN conjunct2, THEN conjunct2, THEN conjunct1, rule_format, of 0] by simp
qed

end
