(* ===== verification/Balance_Store.thy ===== *)
theory Balance_Store
  imports Service
begin

text \<open>
  Balances: the Lua scripts of \<^verbatim>\<open>crates/interledger-store/src/redis/lua\<close>, which Redis runs atomically, and
  the \<^verbatim>\<open>BalanceStore\<close> and \<^verbatim>\<open>SettlementStore\<close> operations of \<^verbatim>\<open>redis/mod.rs\<close> that call them.

  An account's hash is a record of optional fields: a missing field reads as \<^verbatim>\<open>nil\<close>, on which Lua
  arithmetic raises an error, and \<^verbatim>\<open>HINCRBY\<close> takes it as zero. Writes made before an error stay, so an
  operation returns its result and the hash. Lua numbers are doubles; they are written as integers, which
  is exact for magnitudes up to \<open>2 ^ 53\<close>; the theorems that give the result of a script take amounts
  below \<open>2 ^ 51\<close>, so that every sum stays in that range. \<^verbatim>\<open>HINCRBY\<close> refuses to leave the range of
  \<^verbatim>\<open>i64\<close>.
\<close>

section \<open>The scripts\<close>

datatype BalanceStoreError = UnderMinimumBalance | LuaError | RedisError

record BalanceHash =
  bh_balance :: "int option"
  bh_prepaid_amount :: "int option"
  bh_min_balance :: "int option"
  bh_settle_threshold :: "int option"
  bh_settle_to :: "int option"

definition i64_range :: "int \<Rightarrow> bool" where
  "i64_range v \<longleftrightarrow> - (2 ^ 63) \<le> v \<and> v < 2 ^ 63"

definition hincrby :: "int option \<Rightarrow> int \<Rightarrow> int option" where
  "hincrby field amount =
     (let v = (case field of None \<Rightarrow> 0 | Some v \<Rightarrow> v) + amount
      in if i64_range amount \<and> i64_range v then Some v else None)"

text \<open>The last expression of a script, the sum of two fields.\<close>

definition lua_add :: "int option \<Rightarrow> int option \<Rightarrow> (int, BalanceStoreError) result" where
  "lua_add x y = (case (x, y) of (Some v, Some w) \<Rightarrow> Ok (v + w) | _ \<Rightarrow> Err LuaError)"

definition deduct :: "int \<Rightarrow> int \<Rightarrow> BalanceHash \<Rightarrow> (int, BalanceStoreError) result \<times> BalanceHash" where
  "deduct from_amount prepaid h =
     (if prepaid \<ge> from_amount then
        (case hincrby (bh_prepaid_amount h) (0 - from_amount) of
           None \<Rightarrow> (Err RedisError, h)
         | Some p \<Rightarrow> (lua_add (bh_balance h) (Some p), h\<lparr>bh_prepaid_amount := Some p\<rparr>))
      else if prepaid > 0 then
        (let sub_from_balance = from_amount - prepaid;
             h1 = h\<lparr>bh_prepaid_amount := Some 0\<rparr>
         in case hincrby (bh_balance h1) (0 - sub_from_balance) of
              None \<Rightarrow> (Err RedisError, h1)
            | Some v \<Rightarrow> (Ok (v + 0), h1\<lparr>bh_balance := Some v\<rparr>))
      else
        (case hincrby (bh_balance h) (0 - from_amount) of
           None \<Rightarrow> (Err RedisError, h)
         | Some v \<Rightarrow> (Ok (v + prepaid), h\<lparr>bh_balance := Some v\<rparr>)))"

definition process_prepare :: "int \<Rightarrow> BalanceHash \<Rightarrow> (int, BalanceStoreError) result \<times> BalanceHash" where
  "process_prepare from_amount h =
     (case bh_min_balance h of
        Some min_balance \<Rightarrow>
          (case lua_add (bh_balance h) (bh_prepaid_amount h) of
             Ok available \<Rightarrow>
               if available - from_amount < min_balance then (Err UnderMinimumBalance, h)
               else (case bh_prepaid_amount h of
                       Some prepaid \<Rightarrow> deduct from_amount prepaid h | None \<Rightarrow> (Err LuaError, h))
           | _ \<Rightarrow> (Err LuaError, h))
      | None \<Rightarrow> (case bh_prepaid_amount h of
                   Some prepaid \<Rightarrow> deduct from_amount prepaid h | None \<Rightarrow> (Err LuaError, h)))"

definition settle_reply ::
  "int option \<Rightarrow> int option \<Rightarrow> int \<Rightarrow> (int \<times> int, BalanceStoreError) result" where
  "settle_reply balance prepaid settle_amount =
     and_then (lua_add balance prepaid) (\<lambda>reply. Ok (reply, settle_amount))"

definition process_fulfill ::
  "int \<Rightarrow> BalanceHash \<Rightarrow> (int \<times> int, BalanceStoreError) result \<times> BalanceHash" where
  "process_fulfill to_amount h =
     (case hincrby (bh_balance h) to_amount of
        None \<Rightarrow> (Err RedisError, h)
      | Some balance \<Rightarrow>
          (let h1 = h\<lparr>bh_balance := Some balance\<rparr> in
           case (bh_settle_threshold h1, bh_settle_to h1) of
             (Some settle_threshold, Some settle_to) \<Rightarrow>
               if balance \<ge> settle_threshold \<and> settle_threshold > settle_to then
                 (settle_reply (Some settle_to) (bh_prepaid_amount h1) (balance - settle_to),
                  h1\<lparr>bh_balance := Some settle_to\<rparr>)
               else (settle_reply (Some balance) (bh_prepaid_amount h1) 0, h1)
           | _ \<Rightarrow> (settle_reply (Some balance) (bh_prepaid_amount h1) 0, h1)))"

definition process_reject :: "int \<Rightarrow> BalanceHash \<Rightarrow> (int, BalanceStoreError) result \<times> BalanceHash" where
  "process_reject from_amount h =
     (let prepaid_amount = bh_prepaid_amount h in
      case hincrby (bh_balance h) from_amount of
        None \<Rightarrow> (Err RedisError, h)
      | Some balance \<Rightarrow> (lua_add (Some balance) prepaid_amount, h\<lparr>bh_balance := Some balance\<rparr>))"

definition process_settle :: "BalanceHash \<Rightarrow> (int \<times> int, BalanceStoreError) result \<times> BalanceHash" where
  "process_settle h =
     (case (bh_settle_threshold h, bh_settle_to h) of
        (Some settle_threshold, Some settle_to) \<Rightarrow>
          if settle_threshold > settle_to then
            (case bh_balance h of
               None \<Rightarrow> (Err LuaError, h)
             | Some balance \<Rightarrow>
                 if balance \<ge> settle_to then
                   (settle_reply (Some settle_to) (bh_prepaid_amount h) (balance - settle_to),
                    h\<lparr>bh_balance := Some settle_to\<rparr>)
                 else (settle_reply (Some balance) (bh_prepaid_amount h) 0, h))
          else (settle_reply (bh_balance h) (bh_prepaid_amount h) 0, h)
      | _ \<Rightarrow> (settle_reply (bh_balance h) (bh_prepaid_amount h) 0, h))"

text \<open>
  \<^verbatim>\<open>process_incoming_settlement\<close> also reads and sets the idempotency key: the Boolean says whether it
  exists. The key is set before the amount is credited.
\<close>

definition process_incoming_settlement ::
  "int \<Rightarrow> bool \<Rightarrow> BalanceHash \<Rightarrow> (int, BalanceStoreError) result \<times> bool \<times> BalanceHash" where
  "process_incoming_settlement amount key_exists h =
     (if key_exists then (lua_add (bh_balance h) (bh_prepaid_amount h), True, h)
      else case bh_balance h of
        None \<Rightarrow> (Err LuaError, True, h)
      | Some balance \<Rightarrow>
          if balance \<ge> 0 then
            (case hincrby (bh_prepaid_amount h) amount of
               None \<Rightarrow> (Err RedisError, True, h)
             | Some p \<Rightarrow> (Ok (balance + p), True, h\<lparr>bh_prepaid_amount := Some p\<rparr>))
          else if \<bar>balance\<bar> \<ge> amount then
            (case hincrby (bh_balance h) amount of
               None \<Rightarrow> (Err RedisError, True, h)
             | Some v \<Rightarrow> (lua_add (Some v) (bh_prepaid_amount h), True, h\<lparr>bh_balance := Some v\<rparr>))
          else
            (case hincrby (bh_prepaid_amount h) (amount + balance) of
               None \<Rightarrow> (Err RedisError, True, h)
             | Some p \<Rightarrow> (Ok (0 + p), True, h\<lparr>bh_prepaid_amount := Some p, bh_balance := Some 0\<rparr>)))"

definition process_refund_settlement ::
  "int \<Rightarrow> BalanceHash \<Rightarrow> (int, BalanceStoreError) result \<times> BalanceHash" where
  "process_refund_settlement settle_amount h =
     (case hincrby (bh_balance h) settle_amount of
        None \<Rightarrow> (Err RedisError, h)
      | Some balance \<Rightarrow> (Ok balance, h\<lparr>bh_balance := Some balance\<rparr>))"

section \<open>The store\<close>

record RedisDb =
  db_accounts :: "Uuid \<Rightarrow> BalanceHash"
  db_settlement_keys :: "bytes list"

definition on_account ::
  "(BalanceHash \<Rightarrow> ('a, BalanceStoreError) result \<times> BalanceHash) \<Rightarrow> Uuid \<Rightarrow> RedisDb \<Rightarrow>
   ('a, BalanceStoreError) result \<times> RedisDb" where
  "on_account script i db =
     (let (res, h) = script (db_accounts db i)
      in (res, db\<lparr>db_accounts := (db_accounts db)(i := h)\<rparr>))"

definition get_balance :: "Uuid \<Rightarrow> RedisDb \<Rightarrow> (int, BalanceStoreError) result" where
  "get_balance i db = lua_add (bh_balance (db_accounts db i)) (bh_prepaid_amount (db_accounts db i))"

definition update_balances_for_prepare ::
  "Uuid \<Rightarrow> u64 \<Rightarrow> RedisDb \<Rightarrow> (unit, BalanceStoreError) result \<times> RedisDb" where
  "update_balances_for_prepare from_account_id incoming_amount db =
     (if incoming_amount = 0 then (Ok (), db)
      else let (res, db1) = on_account (process_prepare (uint incoming_amount)) from_account_id db
           in (map_ok (\<lambda>_. ()) res, db1))"

text \<open>The reply is read as a pair of an \<^verbatim>\<open>i64\<close> and a \<^verbatim>\<open>u64\<close>: a negative amount would be an error.\<close>

definition as_settlement :: "int \<times> int \<Rightarrow> (int \<times> u64, BalanceStoreError) result" where
  "as_settlement r =
     (if i64_range (fst r) \<and> 0 \<le> snd r \<and> snd r < 2 ^ 63 then Ok (fst r, word_of_int (snd r))
      else Err RedisError)"

definition update_balances_for_fulfill ::
  "Uuid \<Rightarrow> u64 \<Rightarrow> RedisDb \<Rightarrow> (int \<times> u64, BalanceStoreError) result \<times> RedisDb" where
  "update_balances_for_fulfill to_account_id outgoing_amount db =
     (let (res, db1) = on_account (process_fulfill (uint outgoing_amount)) to_account_id db
      in (and_then res as_settlement, db1))"

definition update_balances_for_reject ::
  "Uuid \<Rightarrow> u64 \<Rightarrow> RedisDb \<Rightarrow> (unit, BalanceStoreError) result \<times> RedisDb" where
  "update_balances_for_reject from_account_id incoming_amount db =
     (if incoming_amount = 0 then (Ok (), db)
      else let (res, db1) = on_account (process_reject (uint incoming_amount)) from_account_id db
           in (map_ok (\<lambda>_. ()) res, db1))"

definition update_balances_for_delayed_settlement ::
  "Uuid \<Rightarrow> RedisDb \<Rightarrow> (int \<times> u64, BalanceStoreError) result \<times> RedisDb" where
  "update_balances_for_delayed_settlement to_account_id db =
     (let (res, db1) = on_account process_settle to_account_id db
      in (and_then res as_settlement, db1))"

definition refund_settlement ::
  "Uuid \<Rightarrow> u64 \<Rightarrow> RedisDb \<Rightarrow> (unit, BalanceStoreError) result \<times> RedisDb" where
  "refund_settlement account_id settle_amount db =
     (let (res, db1) = on_account (process_refund_settlement (uint settle_amount)) account_id db
      in (map_ok (\<lambda>_. ()) res, db1))"

definition update_balance_for_incoming_settlement ::
  "Uuid \<Rightarrow> u64 \<Rightarrow> bytes option \<Rightarrow> RedisDb \<Rightarrow> (unit, BalanceStoreError) result \<times> RedisDb" where
  "update_balance_for_incoming_settlement account_id amount idempotency_key db =
     (case idempotency_key of
        None \<Rightarrow> (Panic, db)
      | Some key \<Rightarrow>
          (let (res, used, h) = process_incoming_settlement (uint amount)
                 (key \<in> set (db_settlement_keys db)) (db_accounts db account_id)
           in (map_ok (\<lambda>_. ()) res,
               \<lparr>db_accounts = (db_accounts db)(account_id := h),
                db_settlement_keys = (if used then List.insert key (db_settlement_keys db)
                                      else db_settlement_keys db)\<rparr>)))"

section \<open>The net position of an account\<close>

text \<open>Balance and prepaid amount together: what \<^verbatim>\<open>get_balance\<close> reports.\<close>

definition hash_net :: "BalanceHash \<Rightarrow> int" where
  "hash_net h = (case bh_balance h of None \<Rightarrow> 0 | Some v \<Rightarrow> v) +
     (case bh_prepaid_amount h of None \<Rightarrow> 0 | Some v \<Rightarrow> v)"

definition redis_net :: "RedisDb \<Rightarrow> Uuid \<Rightarrow> int" where
  "redis_net db i = hash_net (db_accounts db i)"

lemma hincrby_Some: "hincrby x a = Some v \<Longrightarrow> v = (case x of None \<Rightarrow> 0 | Some w \<Rightarrow> w) + a"
  by (auto simp: hincrby_def Let_def split: if_splits)

lemma lua_add_Ok: "lua_add x y = Ok v \<longleftrightarrow> (\<exists>a c. x = Some a \<and> y = Some c \<and> v = a + c)"
  by (auto simp: lua_add_def split: option.split)

lemma deduct_net:
  assumes "deduct a p h = (Ok v, h')" "bh_prepaid_amount h = Some p"
  shows "hash_net h' = hash_net h - a"
  using assms
  by (auto simp: deduct_def hash_net_def Let_def lua_add_Ok dest!: hincrby_Some split: if_splits option.splits)

lemma process_prepare_net: "process_prepare a h = (Ok v, h') \<Longrightarrow> hash_net h' = hash_net h - a"
  by (auto simp: process_prepare_def deduct_net split: option.splits result.splits if_splits)

lemma process_prepare_refused: "process_prepare a h = (Err UnderMinimumBalance, h') \<Longrightarrow> h' = h"
  by (auto simp: process_prepare_def deduct_def lua_add_def Let_def
      split: option.splits result.splits if_splits)

lemma settle_reply_Ok:
  "settle_reply b p n = Ok (v, k) \<longleftrightarrow> (\<exists>x y. b = Some x \<and> p = Some y \<and> v = x + y \<and> k = n)"
  by (auto simp: settle_reply_def and_then_eq_Ok lua_add_Ok)

lemma process_fulfill_net:
  "process_fulfill a h = (Ok (v, n), h') \<Longrightarrow> hash_net h' = hash_net h + a - n \<and> v = hash_net h' \<and> 0 \<le> n"
  by (auto simp: process_fulfill_def hash_net_def Let_def settle_reply_Ok dest!: hincrby_Some
      split: option.splits if_splits)

lemma process_settle_net:
  "process_settle h = (Ok (v, n), h') \<Longrightarrow> hash_net h' = hash_net h - n \<and> v = hash_net h' \<and> 0 \<le> n"
  by (auto simp: process_settle_def hash_net_def settle_reply_Ok split: option.splits if_splits)

lemma process_reject_net: "process_reject a h = (Ok v, h') \<Longrightarrow> hash_net h' = hash_net h + a"
  by (auto simp: process_reject_def hash_net_def Let_def lua_add_Ok dest!: hincrby_Some split: option.splits)

lemma process_refund_net: "process_refund_settlement a h = (Ok v, h') \<Longrightarrow> hash_net h' = hash_net h + a"
  by (auto simp: process_refund_settlement_def hash_net_def dest!: hincrby_Some split: option.splits)

lemma on_account_net:
  assumes "on_account script i db = (res, db')"
  shows "res = fst (script (db_accounts db i)) \<and>
    redis_net db' = (redis_net db)(i := hash_net (snd (script (db_accounts db i)))) \<and>
    db_settlement_keys db' = db_settlement_keys db"
  using assms by (auto simp: on_account_def redis_net_def fun_eq_iff split: prod.splits)

section \<open>Properties\<close>

text \<open>Amounts and balances for which no script leaves the range of \<^verbatim>\<open>i64\<close>.\<close>

definition hash_small :: "BalanceHash \<Rightarrow> bool" where
  "hash_small h \<longleftrightarrow> (\<exists>v p. bh_balance h = Some v \<and> bh_prepaid_amount h = Some p \<and>
     \<bar>v\<bar> < 2 ^ 51 \<and> 0 \<le> p \<and> p < 2 ^ 51)"

text \<open>
  An incoming prepare either leaves the account as it is, exactly when it would bring balance and
  prepaid amount together below the minimum balance, or takes the amount from the prepaid amount
  first and the rest from the balance; the reply is the new sum, never below the minimum.
\<close>

lemma process_prepare_spec:
  assumes "hash_small h" "0 \<le> a" "a < 2 ^ 51"
    and "bh_balance h = Some v" "bh_prepaid_amount h = Some p"
  shows "process_prepare a h =
    (if \<exists>lim. bh_min_balance h = Some lim \<and> v + p - a < lim then (Err UnderMinimumBalance, h)
     else (Ok (v + p - a),
           h\<lparr>bh_balance := Some (v - max 0 (a - p)), bh_prepaid_amount := Some (max 0 (p - a))\<rparr>))"
proof -
  have small: "\<bar>v\<bar> < 2 ^ 51" "0 \<le> p" "p < 2 ^ 51" using assms by (auto simp: hash_small_def)
  have range: "hincrby (Some x) y = Some (x + y)" if "\<bar>x\<bar> < 2 ^ 51" "\<bar>y\<bar> < 2 ^ 51" for x y :: int
    using that by (auto simp: hincrby_def i64_range_def Let_def)
  have h: "h\<lparr>bh_balance := Some v\<rparr> = h" "h\<lparr>bh_prepaid_amount := Some p\<rparr> = h"
    using assms(4,5) by (metis (full_types) BalanceHash.surjective BalanceHash.update_convs(1,2))+
  have "deduct a p h = (Ok (v + p - a),
      h\<lparr>bh_balance := Some (v - max 0 (a - p)), bh_prepaid_amount := Some (max 0 (p - a))\<rparr>)"
  proof -
    consider "a \<le> p" | "p < a" "0 < p" | "p < a" "p = 0" using small by linarith
    then show ?thesis
      using small assms(2-5) h
      by cases (simp_all add: deduct_def range lua_add_def Let_def max_def)
  qed
  then show ?thesis
    using assms(4,5) by (auto simp: process_prepare_def lua_add_def split: option.split)
qed

definition example_hash :: BalanceHash where
  "example_hash = \<lparr>bh_balance = Some 100, bh_prepaid_amount = Some 30, bh_min_balance = Some 0,
     bh_settle_threshold = Some 90, bh_settle_to = Some 10\<rparr>"

lemma process_prepare_spec_example:
  "process_prepare 50 example_hash =
     (Ok 80, example_hash\<lparr>bh_balance := Some 80, bh_prepaid_amount := Some 0\<rparr>) \<and>
   process_prepare 131 example_hash = (Err UnderMinimumBalance, example_hash)"
proof -
  have h: "hash_small example_hash" "bh_balance example_hash = Some 100"
    "bh_prepaid_amount example_hash = Some 30" "bh_min_balance example_hash = Some 0"
    by (simp_all add: hash_small_def example_hash_def)
  show ?thesis
    using process_prepare_spec [OF h(1) _ _ h(2,3), of 50] process_prepare_spec [OF h(1) _ _ h(2,3), of 131]
      h(4) by simp
qed

definition settled_hash :: "int \<Rightarrow> int \<Rightarrow> int \<Rightarrow> BalanceHash \<Rightarrow> BalanceHash" where
  "settled_hash v p a h = h
     \<lparr>bh_balance := Some (if 0 \<le> v then v else min 0 (v + a)),
      bh_prepaid_amount := Some (p + (if 0 \<le> v then a else max 0 (v + a)))\<rparr>"

lemma process_incoming_settlement_fresh:
  assumes "hash_small h" "0 \<le> a" "a < 2 ^ 51" "bh_balance h = Some v" "bh_prepaid_amount h = Some p"
  shows "process_incoming_settlement a False h = (Ok (v + p + a), True, settled_hash v p a h)"
proof -
  have small: "\<bar>v\<bar> < 2 ^ 51" "0 \<le> p" "p < 2 ^ 51"
    using assms(1,4,5) by (auto simp: hash_small_def)
  have range: "hincrby (Some x) y = Some (x + y)" if "\<bar>x\<bar> < 2 ^ 51" "\<bar>y\<bar> < 2 ^ 51" for x y :: int
    using that by (auto simp: hincrby_def i64_range_def Let_def)
  have h: "h\<lparr>bh_balance := Some v\<rparr> = h" "h\<lparr>bh_prepaid_amount := Some p\<rparr> = h"
    using assms(4,5) by (metis (full_types) BalanceHash.surjective BalanceHash.update_convs(1,2))+
  consider "0 \<le> v" | "v < 0" "a \<le> - v" | "v < 0" "- v < a" by linarith
  then show ?thesis
    using small assms(2-5) h
    by cases (simp_all add: process_incoming_settlement_def settled_hash_def range lua_add_def min_def
        max_def abs_if)
qed

lemma update_balance_for_incoming_settlement_fresh:
  assumes "hash_small (db_accounts db i)" "uint a < 2 ^ 51" "key \<notin> set (db_settlement_keys db)"
    and "bh_balance (db_accounts db i) = Some v" "bh_prepaid_amount (db_accounts db i) = Some p"
  shows "update_balance_for_incoming_settlement i a (Some key) db =
    (Ok (), \<lparr>db_accounts = (db_accounts db)(i := settled_hash v p (uint a) (db_accounts db i)),
            db_settlement_keys = key # db_settlement_keys db\<rparr>)"
  using process_incoming_settlement_fresh [OF assms(1) _ assms(2,4,5)] assms(3)
  by (simp add: update_balance_for_incoming_settlement_def List.insert_def)

lemma hash_net_settled:
  "bh_balance h = Some v \<Longrightarrow> bh_prepaid_amount h = Some p \<Longrightarrow>
   hash_net (settled_hash v p a h) = hash_net h + a"
  by (simp add: hash_net_def settled_hash_def min_def max_def)


definition example_db :: RedisDb where
  "example_db = \<lparr>db_accounts = (\<lambda>_. example_hash\<lparr>bh_balance := Some (- 40)\<rparr>), db_settlement_keys = []\<rparr>"


end
