(* ===== verification/Service_Util.thy ===== *)
theory Service_Util
  imports Balance_Store
begin

text \<open>
  The services every packet of a node passes, \<^verbatim>\<open>crates/interledger-service-util/src\<close>: the limit on the amount
  of a packet, the validator of expiries and fulfillments, the expiry shortener, the rate limiter with its
  Redis store, the echo service, and the settlement message service of \<^verbatim>\<open>interledger-settlement\<close>.

  A service takes the next service as an argument. The clock, the Redis command \<^verbatim>\<open>CL.THROTTLE\<close> and the HTTP
  client of the settlement engine are parameters; whether a response arrives before a deadline is the
  answer of the timed next service. Times before 1970 are not represented.
\<close>

section \<open>Maximum packet amount\<close>

definition service_reject :: "Address \<Rightarrow> ErrorCode \<Rightarrow> bytes \<Rightarrow> bytes \<Rightarrow> Reject" where
  "service_reject ilp_address code message data =
     reject_build \<lparr>rb_code = code, rb_message = message, rb_triggered_by = Some ilp_address, rb_data = data\<rparr>"

definition max_packet_amount_handle_request :: "Address \<Rightarrow> 's incoming_service \<Rightarrow> 's incoming_service" where
  "max_packet_amount_handle_request ilp_address nxt request s =
     (let max_packet_amount = acc_max_packet_amount (in_from request) in
      if p_amount (in_prepare request) \<le> max_packet_amount then nxt request s
      else (Err (service_reject ilp_address F08_AMOUNT_TOO_LARGE []
              (max_packet_details_to_bytes
                \<lparr>amount_received = p_amount (in_prepare request), max_amount = max_packet_amount\<rparr>)), s))"

section \<open>Validator\<close>

definition timed_out_reject :: "Address \<Rightarrow> Reject" where
  "timed_out_reject ilp_address = service_reject ilp_address R00_TRANSFER_TIMED_OUT [] []"

definition validator_handle_request :: "Address \<Rightarrow> SystemTime \<Rightarrow> 's incoming_service \<Rightarrow> 's incoming_service" where
  "validator_handle_request ilp_address now nxt request s =
     (if p_expires_at (in_prepare request) \<ge> now then nxt request s
      else (Err (timed_out_reject ilp_address), s))"

text \<open>The next service is given the time left; it answers \<open>None\<close> when no response arrived within it.\<close>

type_synonym 's timed_service = "nat \<Rightarrow> OutgoingRequest \<Rightarrow> 's \<Rightarrow> IlpResult option \<times> 's"

definition validate_fulfill :: "(bytes \<Rightarrow> bytes) \<Rightarrow> Address \<Rightarrow> bytes \<Rightarrow> Fulfill \<Rightarrow> IlpResult" where
  "validate_fulfill sha256 ilp_address condition fulfill =
     and_then (fulfillment fulfill) (\<lambda>x.
       if sha256 x = condition then Ok fulfill
       else Err (service_reject ilp_address F09_INVALID_PEER_RESPONSE
              (bstr ''Fulfillment did not match condition'') []))"

definition validator_send_request ::
  "(bytes \<Rightarrow> bytes) \<Rightarrow> Address \<Rightarrow> SystemTime \<Rightarrow> 's timed_service \<Rightarrow> 's outgoing_service" where
  "validator_send_request sha256 ilp_address now nxt request s =
     (case execution_condition (out_prepare request) of
        Panic \<Rightarrow> (Panic, s)
      | Err e \<Rightarrow> (Err e, s)
      | Ok condition \<Rightarrow>
          let expires_at = p_expires_at (out_prepare request) in
          if expires_at > now then
            (case nxt (expires_at - now) request s of
               (Some packet, s') \<Rightarrow> (and_then packet (validate_fulfill sha256 ilp_address condition), s')
             | (None, s') \<Rightarrow> (Err (timed_out_reject ilp_address), s'))
          else (Err (timed_out_reject ilp_address), s))"

section \<open>Expiry shortener\<close>

abbreviation DEFAULT_MAX_EXPIRY_DURATION :: u32 where "DEFAULT_MAX_EXPIRY_DURATION \<equiv> 30000"

definition sub_millis :: "SystemTime \<Rightarrow> nat \<Rightarrow> SystemTime" where
  "sub_millis t ms = t - ms * 1000000"

definition shortened_expiry :: "SystemTime \<Rightarrow> u32 \<Rightarrow> OutgoingRequest \<Rightarrow> (SystemTime, Reject) result" where
  "shortened_expiry now max_expiry_duration request =
     and_then (checked_add (acc_round_trip_time (out_from request)) (acc_round_trip_time (out_to request)))
       (\<lambda>time_to_subtract.
         let new_expiry = sub_millis (p_expires_at (out_prepare request)) (unat time_to_subtract);
             latest_allowable_expiry = add_millis now (unat max_expiry_duration)
         in Ok (if new_expiry > latest_allowable_expiry then latest_allowable_expiry else new_expiry))"

definition expiry_shortener_send_request ::
  "(SystemTime \<Rightarrow> bytes) \<Rightarrow> SystemTime \<Rightarrow> u32 \<Rightarrow> 's outgoing_service \<Rightarrow> 's outgoing_service" where
  "expiry_shortener_send_request format_ts now max_expiry_duration nxt request s =
     (case and_then (shortened_expiry now max_expiry_duration request)
             (\<lambda>new_expiry. set_expires_at format_ts new_expiry (out_prepare request)) of
        Ok prepare \<Rightarrow> nxt (request\<lparr>out_prepare := prepare\<rparr>) s
      | Err e \<Rightarrow> (Err e, s)
      | Panic \<Rightarrow> (Panic, s))"

section \<open>Rate limits\<close>

datatype RateLimitError = PacketLimitExceeded | ThroughputLimitExceeded | RateLimitStoreError

record 's RateLimitStore =
  rl_apply :: "Account \<Rightarrow> u64 \<Rightarrow> 's \<Rightarrow> (unit, RateLimitError) result \<times> 's"
  rl_refund :: "Account \<Rightarrow> u64 \<Rightarrow> 's \<Rightarrow> (unit, RateLimitError) result \<times> 's"

definition rate_limit_code :: "RateLimitError \<Rightarrow> ErrorCode" where
  "rate_limit_code e =
     (case e of
        PacketLimitExceeded \<Rightarrow> T05_RATE_LIMITED
      | ThroughputLimitExceeded \<Rightarrow> T04_INSUFFICIENT_LIQUIDITY
      | RateLimitStoreError \<Rightarrow> T00_INTERNAL_ERROR)"

definition rate_limit_handle_request ::
  "'s RateLimitStore \<Rightarrow> Address \<Rightarrow> 's incoming_service \<Rightarrow> 's incoming_service" where
  "rate_limit_handle_request store ilp_address nxt request s =
     (let account = in_from request;
          prepare_amount = p_amount (in_prepare request);
          has_throughput_limit = (acc_amount_per_minute_limit account \<noteq> None)
      in case rl_apply store account prepare_amount s of
           (Ok _, s1) \<Rightarrow>
             (case nxt request s1 of
                (Err reject, s2) \<Rightarrow>
                  if has_throughput_limit then
                    (case rl_refund store account prepare_amount s2 of
                       (Panic, s3) \<Rightarrow> (Panic, s3)
                     | (_, s3) \<Rightarrow> (Err reject, s3))
                  else (Err reject, s2)
              | (packet, s2) \<Rightarrow> (packet, s2))
         | (Err e, s1) \<Rightarrow> (Err (service_reject ilp_address (rate_limit_code e) [] []), s1)
         | (Panic, s1) \<Rightarrow> (Panic, s1))"

text \<open>
  The Redis store. \<open>throttle\<close> is \<^verbatim>\<open>CL.THROTTLE key limit limit 60 quantity\<close>: it answers whether the limit was
  hit, or fails. A limit of zero overflows in \<^verbatim>\<open>limit - 1\<close>.
\<close>

datatype LimitKey = PacketsKey Uuid | ThroughputKey Uuid

type_synonym 's throttle = "LimitKey \<Rightarrow> nat \<Rightarrow> int \<Rightarrow> 's \<Rightarrow> bool option \<times> 's"

definition throttle_by ::
  "'s throttle \<Rightarrow> LimitKey \<Rightarrow> nat option \<Rightarrow> int \<Rightarrow> 's \<Rightarrow> bool option \<times> 's" where
  "throttle_by throttle key limit quantity s =
     (case limit of None \<Rightarrow> (Some False, s) | Some limit \<Rightarrow> throttle key (limit - 1) quantity s)"

definition redis_apply_rate_limits ::
  "'s throttle \<Rightarrow> Account \<Rightarrow> u64 \<Rightarrow> 's \<Rightarrow> (unit, RateLimitError) result \<times> 's" where
  "redis_apply_rate_limits throttle account prepare_amount s =
     (let packets = map_option unat (acc_packets_per_minute_limit account);
          amount = map_option unat (acc_amount_per_minute_limit account)
      in if packets = Some 0 \<or> amount = Some 0 then (Panic, s)
         else
           let (packets_hit, s1) = throttle_by throttle (PacketsKey (acc_id account)) packets 1 s;
               (amount_hit, s2) =
                 throttle_by throttle (ThroughputKey (acc_id account)) amount (int (unat prepare_amount)) s1
           in (case (packets_hit, amount_hit) of
                 (Some True, Some _) \<Rightarrow> Err PacketLimitExceeded
               | (Some False, Some True) \<Rightarrow> Err ThroughputLimitExceeded
               | (Some False, Some False) \<Rightarrow> Ok ()
               | _ \<Rightarrow> Err RateLimitStoreError, s2))"

text \<open>\<^verbatim>\<open>0i64 - (prepare_amount as i64)\<close>: the cast wraps, and the negation of the least \<^verbatim>\<open>i64\<close> overflows.\<close>

definition redis_refund_throughput_limit ::
  "'s throttle \<Rightarrow> Account \<Rightarrow> u64 \<Rightarrow> 's \<Rightarrow> (unit, RateLimitError) result \<times> 's" where
  "redis_refund_throughput_limit throttle account prepare_amount s =
     (case acc_amount_per_minute_limit account of
        None \<Rightarrow> (Ok (), s)
      | Some limit \<Rightarrow>
          if limit = 0 \<or> sint prepare_amount = - (2 ^ 63) then (Panic, s)
          else (case throttle (ThroughputKey (acc_id account)) (unat limit - 1) (- sint prepare_amount) s of
                  (Some _, s') \<Rightarrow> (Ok (), s')
                | (None, s') \<Rightarrow> (Err RateLimitStoreError, s')))"

section \<open>Echo\<close>

definition ECHO_PREFIX :: bytes where "ECHO_PREFIX = bstr ''ECHOECHOECHOECHO''"
abbreviation ECHO_PREFIX_LEN :: nat where "ECHO_PREFIX_LEN \<equiv> 16"

datatype EchoPacketType = EchoRequest | EchoResponse

primrec echo_packet_type_u8 :: "EchoPacketType \<Rightarrow> u8" where
  "echo_packet_type_u8 EchoRequest = 0"
| "echo_packet_type_u8 EchoResponse = 1"

definition echo_response_build ::
  "(SystemTime \<Rightarrow> bytes) \<Rightarrow> u64 \<Rightarrow> SystemTime \<Rightarrow> bytes \<Rightarrow> Address \<Rightarrow> SystemTime Prepare" where
  "echo_response_build format_ts amount expires_at condition destination =
     prepare_build format_ts
       \<lparr>pb_amount = amount, pb_expires_at = expires_at, pb_execution_condition = condition,
        pb_destination = destination, pb_data = ECHO_PREFIX @ [echo_packet_type_u8 EchoResponse]\<rparr>"

text \<open>What an echo packet asks for, from the data after the prefix: to pass it on, or to answer it.\<close>

definition echo_source :: "features \<Rightarrow> Address \<Rightarrow> bytes \<Rightarrow> (Address option, Reject) result" where
  "echo_source cfg ilp_address data =
     and_then (unwrap (skip ECHO_PREFIX_LEN data)) (\<lambda>(_, reader).
     if length reader < 1 then
       Err (service_reject ilp_address F01_INVALID_PACKET (bstr ''Could not read echo packet type.'') [])
     else and_then (get_u8 reader) (\<lambda>(echo_packet_type, reader).
     if echo_packet_type = echo_packet_type_u8 EchoResponse then Ok None
     else if echo_packet_type \<noteq> echo_packet_type_u8 EchoRequest then
       Err (service_reject ilp_address F01_INVALID_PACKET
         (bstr ''The echo packet type: '' @ dec_digits (unat echo_packet_type) @ bstr '' is not acceptable.'') [])
     else case read_var_octet_string cfg reader of
       Ok (octets, _) \<Rightarrow>
         (case address_try_from octets of
            Ok source_address \<Rightarrow> Ok (Some source_address)
          | Err _ \<Rightarrow> Err (service_reject ilp_address F01_INVALID_PACKET
              (bstr ''Could not parse source address from Echo packet'') [])
          | Panic \<Rightarrow> Panic)
     | Err _ \<Rightarrow> Err (service_reject ilp_address F01_INVALID_PACKET (bstr ''Could not read source address.'') [])
     | Panic \<Rightarrow> Panic))"

definition echo_handle_request ::
  "features \<Rightarrow> (SystemTime \<Rightarrow> bytes) \<Rightarrow> Address \<Rightarrow> 's incoming_service \<Rightarrow> 's incoming_service" where
  "echo_handle_request cfg format_ts ilp_address nxt request s =
     (let prepare = in_prepare request in
      if p_destination prepare \<noteq> ilp_address then nxt request s
      else case prepare_data cfg prepare of
        Panic \<Rightarrow> (Panic, s)
      | Err e \<Rightarrow> (Err e, s)
      | Ok data \<Rightarrow>
          if \<not> starts_with data ECHO_PREFIX then nxt request s
          else case echo_source cfg ilp_address data of
            Panic \<Rightarrow> (Panic, s)
          | Err reject \<Rightarrow> (Err reject, s)
          | Ok None \<Rightarrow> nxt request s
          | Ok (Some source_address) \<Rightarrow>
              (case execution_condition prepare of
                 Panic \<Rightarrow> (Panic, s)
               | Err e \<Rightarrow> (Err e, s)
               | Ok condition \<Rightarrow>
                   nxt (request\<lparr>in_prepare := echo_response_build format_ts (p_amount prepare) (p_expires_at prepare)
                     condition source_address\<rparr>) s))"

section \<open>Messages of settlement engines\<close>

definition SE_ILP_ADDRESS :: Address where "SE_ILP_ADDRESS = Address (bstr ''peer.settle'')"
abbreviation PEER_FULFILLMENT :: bytes where "PEER_FULFILLMENT \<equiv> replicate 32 0"

text \<open>
  \<open>send_message\<close> posts the message, with retries, and answers the status and what reading the body gives;
  \<open>show_status\<close> prints a status.
\<close>

type_synonym 's engine_client = "Uuid \<Rightarrow> bytes \<Rightarrow> bytes \<Rightarrow> 's \<Rightarrow> (nat \<times> bytes option) option \<times> 's"

definition engine_response :: "(nat \<Rightarrow> bytes) \<Rightarrow> (nat \<times> bytes option) option \<Rightarrow> IlpResult" where
  "engine_response show_status response =
     (case response of
        None \<Rightarrow> Err (service_reject SE_ILP_ADDRESS T00_INTERNAL_ERROR
          (bstr ''Error sending message to settlement engine'') [])
      | Some (status, body) \<Rightarrow>
          if 200 \<le> status \<and> status < 300 then
            (case body of
               None \<Rightarrow> Err (service_reject SE_ILP_ADDRESS T00_INTERNAL_ERROR
                 (bstr ''Error getting settlement engine response'') [])
             | Some body \<Rightarrow> Ok (fulfill_build \<lparr>fb_fulfillment = PEER_FULFILLMENT, fb_data = body\<rparr>))
          else Err (service_reject SE_ILP_ADDRESS
            (if 400 \<le> status \<and> status < 500 then F00_BAD_REQUEST else T00_INTERNAL_ERROR)
            (bstr ''Settlement engine rejected request with error code: '' @ show_status status) []))"

definition settlement_message_handle_request ::
  "features \<Rightarrow> (nat \<Rightarrow> bytes) \<Rightarrow> 's engine_client \<Rightarrow> 's incoming_service \<Rightarrow> 's incoming_service" where
  "settlement_message_handle_request cfg show_status send_message nxt request s =
     (case acc_settlement_engine_url (in_from request) of
        Some url \<Rightarrow>
          if p_destination (in_prepare request) = SE_ILP_ADDRESS then
            (case prepare_data cfg (in_prepare request) of
               Panic \<Rightarrow> (Panic, s)
             | Err e \<Rightarrow> (Err e, s)
             | Ok data \<Rightarrow>
                 (case send_message (acc_id (in_from request)) url data s of
                    (response, s') \<Rightarrow> (engine_response show_status response, s')))
          else nxt request s
      | None \<Rightarrow> nxt request s)"

section \<open>What the services keep of a packet\<close>

lemma slice_patch:
  assumes "lo + length x \<le> a" "lo + length x \<le> length bs"
  shows "slice a b (patch lo x bs) = slice a b bs"
proof -
  have "length (patch lo x bs) = length bs" using assms(2) by (simp add: patch_def)
  moreover have "drop a (patch lo x bs) = drop a bs" using assms by (simp add: patch_def)
  ultimately show ?thesis by (simp add: slice_def)
qed

lemma set_amount_keeps:
  assumes "set_amount a p = (Ok p' :: (_, Reject) result)"
  shows "execution_condition p' = execution_condition p" "p_amount p' = a" "p_expires_at p' = p_expires_at p"
    "p_destination p' = p_destination p"
  using assms by (auto simp: set_amount_def execution_condition_def slice_patch slice_def [of "p_content_offset p"]
      len_defs Let_def split: if_splits)

lemma set_expires_at_keeps:
  assumes "set_expires_at format_ts t p = (Ok p' :: (_, Reject) result)"
  shows "execution_condition p' = execution_condition p" "p_amount p' = p_amount p" "p_expires_at p' = t"
    "p_destination p' = p_destination p"
proof -
  let ?off = "p_content_offset p + AMOUNT_LEN"
  define w where "w = format_ts t @ drop (length (format_ts t)) (take EXPIRY_LEN (drop ?off (p_buffer p)))"
  from assms have w: "?off + EXPIRY_LEN \<le> length (p_buffer p)" "length (format_ts t) \<le> EXPIRY_LEN"
    "p' = p\<lparr>p_expires_at := t, p_buffer := patch ?off w (p_buffer p)\<rparr>"
    unfolding w_def by (auto simp: set_expires_at_def slice_def write_slice_def Let_def split: if_splits)
  then have "length w = EXPIRY_LEN" by (simp add: w_def)
  show "execution_condition p' = execution_condition p"
    unfolding execution_condition_def w(3) Let_def by (simp, rule slice_patch) (use w(1) \<open>length w = EXPIRY_LEN\<close> in simp_all)
  show "p_amount p' = p_amount p" "p_expires_at p' = t" "p_destination p' = p_destination p" by (simp_all add: w(3))
qed

lemma prepare_build_condition:
  assumes "length (format_ts (pb_expires_at pb)) = EXPIRY_LEN" "length (pb_execution_condition pb) = CONDITION_LEN"
  shows "execution_condition (prepare_build format_ts pb) = Ok (pb_execution_condition pb)"
proof -
  let ?hdr = "[packet_type_u8 PrepareType] @ put_var_octet_string_length (AMOUNT_LEN + EXPIRY_LEN + CONDITION_LEN +
    predict_var_octet_string (address_len (pb_destination pb)) + predict_var_octet_string (length (pb_data pb)))"
  let ?pre = "?hdr @ put_u64 (pb_amount pb) @ format_ts (pb_expires_at pb)"
  have buf: "p_buffer (prepare_build format_ts pb) = ?pre @ pb_execution_condition pb @
      put_var_octet_string (addr_bytes (pb_destination pb)) @ put_var_octet_string (pb_data pb)"
    by (simp add: prepare_build_def Let_def)
  have off: "p_content_offset (prepare_build format_ts pb) + AMOUNT_LEN + EXPIRY_LEN = length ?pre"
    using assms(1) by (simp add: prepare_build_def AMOUNT_LEN_def Let_def)
  show ?thesis
    using slice_append [OF buf] unfolding execution_condition_def Let_def off assms(2) .
qed

lemma fulfill_build_fulfillment:
  "length (fb_fulfillment fb) = FULFILLMENT_LEN \<Longrightarrow> fulfillment (fulfill_build fb) = Ok (fb_fulfillment fb)"
  by (simp add: fulfillment_def fulfill_build_def slice_def Let_def)

section \<open>Fulfillments that prove the condition\<close>

definition proves_condition :: "(bytes \<Rightarrow> bytes) \<Rightarrow> SystemTime Prepare \<Rightarrow> Fulfill \<Rightarrow> bool" where
  "proves_condition sha256 p f \<longleftrightarrow> (\<exists>x. fulfillment f = (Ok x :: (_, Reject) result) \<and>
     execution_condition p = (Ok (sha256 x) :: (_, Reject) result))"

lemma proves_condition_same:
  "proves_condition sha256 p' f \<Longrightarrow>
   execution_condition p' = (execution_condition p :: (_, Reject) result) \<Longrightarrow> proves_condition sha256 p f"
  by (simp add: proves_condition_def)

text \<open>
  The contract of an outgoing service: in an environment \<open>env\<close> whatever it fulfills a packet with hashes to the
  packet's condition. A service in front of it that keeps the condition has the contract too.
\<close>

locale outgoing_prover =
  fixes sha256 :: "bytes \<Rightarrow> bytes" and env :: bool and svc :: "'s outgoing_service"
  assumes proves: "env \<Longrightarrow> svc r s = (Ok f, s') \<Longrightarrow> proves_condition sha256 (out_prepare r) f"
begin

lemma shortened_proves:
  assumes env and "expiry_shortener_send_request format_ts now mx svc r s = (Ok f, s')"
  shows "proves_condition sha256 (out_prepare r) f"
proof -
  from assms(2) obtain t p where "set_expires_at format_ts t (out_prepare r) = (Ok p :: (_, Reject) result)"
    "svc (r\<lparr>out_prepare := p\<rparr>) s = (Ok f, s')"
    by (auto simp: expiry_shortener_send_request_def ok_simps split: result.splits)
  then show ?thesis
    using proves [OF assms(1)] set_expires_at_keeps(1) by (fastforce intro: proves_condition_same)
qed

end

text \<open>
  The contract of an incoming service, for the packets that are \<open>covered\<close>.
\<close>

locale incoming_prover =
  fixes sha256 :: "bytes \<Rightarrow> bytes" and env :: bool and covered :: "IncomingRequest \<Rightarrow> bool"
    and svc :: "'s incoming_service"
  assumes proves: "env \<Longrightarrow> covered r \<Longrightarrow> svc r s = (Ok f, s') \<Longrightarrow> proves_condition sha256 (in_prepare r) f"
begin

lemma max_packet_amount_proves:
  "env \<Longrightarrow> covered r \<Longrightarrow> max_packet_amount_handle_request ilp_address svc r s = (Ok f, s') \<Longrightarrow>
   proves_condition sha256 (in_prepare r) f"
  by (auto simp: max_packet_amount_handle_request_def Let_def intro: proves split: if_splits)

lemma validator_proves:
  "env \<Longrightarrow> covered r \<Longrightarrow> validator_handle_request ilp_address now svc r s = (Ok f, s') \<Longrightarrow>
   proves_condition sha256 (in_prepare r) f"
  by (auto simp: validator_handle_request_def intro: proves split: if_splits)

lemma rate_limit_proves:
  "env \<Longrightarrow> covered r \<Longrightarrow> rate_limit_handle_request store ilp_address svc r s = (Ok f, s') \<Longrightarrow>
   proves_condition sha256 (in_prepare r) f"
  by (auto simp: rate_limit_handle_request_def Let_def intro: proves split: result.splits prod.splits if_splits)

lemma settlement_message_proves:
  assumes env "covered r" "settlement_message_handle_request cfg show_status client svc r s = (Ok f, s')"
    and "acc_settlement_engine_url (in_from r) = None \<or> p_destination (in_prepare r) \<noteq> SE_ILP_ADDRESS"
  shows "proves_condition sha256 (in_prepare r) f"
  using assms by (auto simp: settlement_message_handle_request_def intro: proves split: option.splits)

end

lemma execution_condition_length:
  "execution_condition p = Ok c \<Longrightarrow> length c = CONDITION_LEN"
  by (auto simp: execution_condition_def slice_def Let_def split: if_splits)

text \<open>
  The echo service rewrites the packet: a covered request stays covered, for one whose expiry formats as
  seventeen bytes.
\<close>

lemma echo_forwards:
  assumes "echo_handle_request cfg format_ts ilp_address svc r s = (res, s')" "res \<noteq> Panic" "\<forall>e. res \<noteq> Err e"
    and "length (format_ts (p_expires_at (in_prepare r))) = EXPIRY_LEN"
  shows "\<exists>p. svc (r\<lparr>in_prepare := p\<rparr>) s = (res, s') \<and>
    execution_condition p = (execution_condition (in_prepare r) :: (_, Reject) result) \<and>
    p_expires_at p = p_expires_at (in_prepare r)"
proof -
  let ?p = "in_prepare r"
  have same: "r\<lparr>in_prepare := ?p\<rparr> = r" by simp
  from assms(1-3) consider "svc r s = (res, s')"
    | c a where "execution_condition ?p = (Ok c :: (_, Reject) result)"
      "svc (r\<lparr>in_prepare := echo_response_build format_ts (p_amount ?p) (p_expires_at ?p) c a\<rparr>) s = (res, s')"
    by (auto simp: echo_handle_request_def Let_def split: if_splits result.splits option.splits)
  then show ?thesis
  proof cases
    case 1
    then show ?thesis by (intro exI [of _ ?p]) simp
  next
    case (2 c a)
    have "execution_condition (echo_response_build format_ts (p_amount ?p) (p_expires_at ?p) c a) =
        (Ok c :: (_, Reject) result)"
      unfolding echo_response_build_def
      by (subst prepare_build_condition) (simp_all add: assms(4) execution_condition_length [OF 2(1)])
    moreover have "p_expires_at (echo_response_build format_ts (p_amount ?p) (p_expires_at ?p) c a) = p_expires_at ?p"
      by (simp add: echo_response_build_def prepare_build_def Let_def)
    ultimately show ?thesis using 2 by auto
  qed
qed

lemma validator_outgoing_proves:
  assumes "validator_send_request sha256 ilp_address now nxt r s = (Ok f, s')"
  shows "proves_condition sha256 (out_prepare r) f"
  using assms
  by (auto simp: validator_send_request_def validate_fulfill_def proves_condition_def ok_simps Let_def
      split: result.splits if_splits prod.splits option.splits)

interpretation validated: outgoing_prover sha256 True "validator_send_request sha256 ilp_address now nxt"
  for sha256 ilp_address now nxt
  by unfold_locales (rule validator_outgoing_proves)

interpretation shortened: outgoing_prover sha256 True
  "expiry_shortener_send_request format_ts now mx (validator_send_request sha256 ilp_address now' nxt)"
  for sha256 format_ts now mx ilp_address now' nxt
  by unfold_locales (rule validated.shortened_proves)

end
