(* ===== verification/Float64.thy ===== *)
theory Float64
  imports Complex_Main Oer
begin

text \<open>
  Double-precision arithmetic, for the code that computes with \<^verbatim>\<open>f64\<close>: a finite value is a sign and a rational
  magnitude, and every operation rounds the exact result to 53 significant bits, ties to even, with the
  subnormal range below and infinity above. The lemmas bound the relative error of a rounding and of
  products of rounded values.
\<close>

section \<open>Rounding\<close>

definition floor_log2 :: "rat \<Rightarrow> int" where
  "floor_log2 q =
     (let (a, b) = quotient_of q; d = int (bit_len (nat a)) - int (bit_len (nat b))
      in if 2 powi d \<le> q then d else d - 1)"

definition round_even :: "rat \<Rightarrow> int" where
  "round_even x =
     (let f = \<lfloor>x\<rfloor>; d = x - of_int f in if d > 1 / 2 \<or> d = 1 / 2 \<and> odd f then f + 1 else f)"

definition rnd :: "rat \<Rightarrow> rat" where
  "rnd q =
     (if q = 0 then 0
      else let e = max (floor_log2 q - 52) (- 1074) in of_int (round_even (q / 2 powi e)) * 2 powi e)"

section \<open>Values and operations\<close>

datatype f64 = NaN | Inf bool | Fin bool rat

definition f64_fin :: "bool \<Rightarrow> rat \<Rightarrow> f64" where
  "f64_fin negative q = (let r = rnd q in if r < 2 ^ 1024 then Fin negative r else Inf negative)"

fun f64_mul :: "f64 \<Rightarrow> f64 \<Rightarrow> f64" where
  "f64_mul (Fin s m) (Fin t n) = f64_fin (s \<noteq> t) (m * n)"
| "f64_mul (Inf s) (Fin t n) = (if n = 0 then NaN else Inf (s \<noteq> t))"
| "f64_mul (Fin s m) (Inf t) = (if m = 0 then NaN else Inf (s \<noteq> t))"
| "f64_mul (Inf s) (Inf t) = Inf (s \<noteq> t)"
| "f64_mul NaN _ = NaN"
| "f64_mul _ NaN = NaN"

fun f64_div :: "f64 \<Rightarrow> f64 \<Rightarrow> f64" where
  "f64_div (Fin s m) (Fin t n) =
     (if n = 0 then (if m = 0 then NaN else Inf (s \<noteq> t)) else f64_fin (s \<noteq> t) (m / n))"
| "f64_div (Inf s) (Fin t n) = Inf (s \<noteq> t)"
| "f64_div (Fin s m) (Inf t) = Fin (s \<noteq> t) 0"
| "f64_div (Inf s) (Inf t) = NaN"
| "f64_div NaN _ = NaN"
| "f64_div _ NaN = NaN"

definition f64_value :: "bool \<Rightarrow> rat \<Rightarrow> rat" where
  "f64_value s m = (if s then - m else m)"

text \<open>A difference of zero is \<^verbatim>\<open>-0.0\<close> only for \<^verbatim>\<open>-0.0 - 0.0\<close>.\<close>

fun f64_sub :: "f64 \<Rightarrow> f64 \<Rightarrow> f64" where
  "f64_sub (Fin s m) (Fin t n) =
     (let v = f64_value s m - f64_value t n
      in if v = 0 then Fin (s \<and> \<not> t) 0 else f64_fin (v < 0) \<bar>v\<bar>)"
| "f64_sub (Inf s) (Fin t n) = Inf s"
| "f64_sub (Fin s m) (Inf t) = Inf (\<not> t)"
| "f64_sub (Inf s) (Inf t) = (if s = t then NaN else Inf s)"
| "f64_sub NaN _ = NaN"
| "f64_sub _ NaN = NaN"

fun f64_is_finite :: "f64 \<Rightarrow> bool" where
  "f64_is_finite (Fin _ _) \<longleftrightarrow> True"
| "f64_is_finite _ \<longleftrightarrow> False"

fun f64_is_sign_positive :: "f64 \<Rightarrow> bool" where
  "f64_is_sign_positive (Fin s _) \<longleftrightarrow> \<not> s"
| "f64_is_sign_positive (Inf s) \<longleftrightarrow> \<not> s"
| "f64_is_sign_positive NaN \<longleftrightarrow> True"

fun f64_less :: "f64 \<Rightarrow> f64 \<Rightarrow> bool" where
  "f64_less (Fin s m) (Fin t n) \<longleftrightarrow> f64_value s m < f64_value t n"
| "f64_less (Inf s) (Fin t n) \<longleftrightarrow> s"
| "f64_less (Fin s m) (Inf t) \<longleftrightarrow> \<not> t"
| "f64_less (Inf s) (Inf t) \<longleftrightarrow> s \<and> \<not> t"
| "f64_less NaN _ \<longleftrightarrow> False"
| "f64_less _ NaN \<longleftrightarrow> False"

fun f64_eq :: "f64 \<Rightarrow> f64 \<Rightarrow> bool" where
  "f64_eq (Fin s m) (Fin t n) \<longleftrightarrow> f64_value s m = f64_value t n"
| "f64_eq (Inf s) (Inf t) \<longleftrightarrow> s = t"
| "f64_eq _ _ \<longleftrightarrow> False"

definition u64_as_f64 :: "u64 \<Rightarrow> f64" where
  "u64_as_f64 x = Fin False (rnd (of_nat (unat x)))"

text \<open>The cast to \<^verbatim>\<open>u64\<close> truncates and saturates; a NaN becomes zero.\<close>

fun f64_as_u64 :: "f64 \<Rightarrow> u64" where
  "f64_as_u64 (Fin s m) = (if s then 0 else if m < 2 ^ 64 then word_of_int \<lfloor>m\<rfloor> else u64_max)"
| "f64_as_u64 (Inf s) = (if s then 0 else u64_max)"
| "f64_as_u64 NaN = 0"

section \<open>The error of a rounding\<close>

lemma bit_len_bounds:
  assumes "0 < i"
  shows "2 powi (int (bit_len (nat i)) - 1) \<le> (of_int i :: rat)" "(of_int i :: rat) < 2 powi int (bit_len (nat i))"
proof -
  let ?n = "nat i"
  have i: "(of_int i :: rat) = of_nat ?n" using assms by simp
  have "bit_len ?n \<noteq> 0" using bit_len_le_iff [of ?n 0] assms by auto
  then obtain k where k: "bit_len ?n = Suc k" using not0_implies_Suc by blast
  then have "2 ^ k \<le> ?n" using bit_len_le_iff [of ?n k] by auto
  then have "(2 :: rat) ^ k \<le> of_nat ?n" using of_nat_le_iff [of "2 ^ k" ?n, where 'a = rat] by simp
  then show "2 powi (int (bit_len ?n) - 1) \<le> (of_int i :: rat)" by (simp add: i k)
  have "(of_nat ?n :: rat) < of_nat (2 ^ bit_len ?n)" using bit_len_less [of ?n] by (simp only: of_nat_less_iff)
  then show "(of_int i :: rat) < 2 powi int (bit_len ?n)" by (simp add: i)
qed

lemma powi2_diff: "(2 :: rat) powi (m - n) = 2 powi m / 2 powi n"
  by (rule power_int_diff) simp

lemma powi2_less: "(2 :: rat) powi i < 2 powi j \<Longrightarrow> i < j"
  using power_int_increasing [of j i "2 :: rat"] by (cases "j \<le> i") auto

lemma floor_log2_bounds:
  assumes "0 < q"
  shows "2 powi floor_log2 q \<le> q" "q < 2 powi (floor_log2 q + 1)"
proof -
  obtain a b where ab: "quotient_of q = (a, b)" by (rule prod.exhaust)
  then have q: "q = of_int a / of_int b" and b: "0 < b" by (rule quotient_of_div, rule quotient_of_denom_pos)
  then have a: "0 < a" using assms by (simp add: zero_less_divide_iff)
  let ?l = "\<lambda>i. int (bit_len (nat i))"
  let ?d = "?l a - ?l b"
  have "(2 :: rat) powi (?l a - 1) / 2 powi ?l b \<le> q"
    unfolding q using bit_len_bounds [OF a] bit_len_bounds [OF b] a b by (intro frac_le) auto
  then have "2 powi (?d - 1) \<le> q" using powi2_diff [of "?l a - 1" "?l b"] by (simp add: algebra_simps)
  moreover have "q < 2 powi ?l a / 2 powi (?l b - 1)"
    unfolding q using bit_len_bounds [OF a] bit_len_bounds [OF b] a b by (intro frac_less) auto
  then have "q < 2 powi (?d + 1)" using powi2_diff [of "?l a" "?l b - 1"] by (simp add: algebra_simps)
  ultimately show "2 powi floor_log2 q \<le> q" "q < 2 powi (floor_log2 q + 1)"
    by (auto simp: floor_log2_def ab Let_def)
qed

lemma floor_log2_unique:
  assumes "2 powi k \<le> q" "q < 2 powi (k + 1)"
  shows "floor_log2 q = k"
proof -
  have q: "0 < q" by (rule less_le_trans [OF _ assms(1)]) simp
  have "floor_log2 q < k + 1" by (rule powi2_less, rule le_less_trans [OF floor_log2_bounds(1) [OF q] assms(2)])
  moreover have "k < floor_log2 q + 1" by (rule powi2_less, rule le_less_trans [OF assms(1) floor_log2_bounds(2) [OF q]])
  ultimately show ?thesis by simp
qed

lemma floor_log2_ge: "2 powi k \<le> q \<Longrightarrow> k \<le> floor_log2 q"
proof (rule ccontr)
  assume k: "2 powi k \<le> q" "\<not> k \<le> floor_log2 q"
  then have "0 < q" by (meson less_le_trans zero_less_numeral zero_less_power_int)
  then have "q < 2 powi (floor_log2 q + 1)" by (rule floor_log2_bounds)
  also have "\<dots> \<le> 2 powi k" using k(2) by (intro power_int_increasing) auto
  finally show False using k(1) by simp
qed

lemma round_even_error: "\<bar>of_int (round_even x) - x\<bar> \<le> 1 / 2"
proof -
  have f: "of_int \<lfloor>x\<rfloor> \<le> x" "x < of_int \<lfloor>x\<rfloor> + 1" by linarith+
  show ?thesis
  proof (cases "x - of_int \<lfloor>x\<rfloor> > 1 / 2 \<or> x - of_int \<lfloor>x\<rfloor> = 1 / 2 \<and> odd \<lfloor>x\<rfloor>")
    case True
    then have "round_even x = \<lfloor>x\<rfloor> + 1" by (simp add: round_even_def)
    then show ?thesis using f True by (auto simp: abs_le_iff)
  next
    case False
    then have "round_even x = \<lfloor>x\<rfloor>" by (auto simp: round_even_def)
    moreover have "x - of_int \<lfloor>x\<rfloor> \<le> 1 / 2" using False by linarith
    ultimately show ?thesis using f by (simp add: abs_le_iff)
  qed
qed

lemma round_even_int [simp]: "round_even (of_int i) = i"
  by (simp add: round_even_def Let_def)

lemma rnd_error:
  assumes "2 powi (- 1022) \<le> q"
  shows "\<bar>rnd q - q\<bar> \<le> q / 2 ^ 53"
proof -
  let ?k = "floor_log2 q"
  let ?e = "?k - 52"
  have q: "0 < q" by (rule less_le_trans [OF _ assms]) simp
  have "- 1022 \<le> ?k" by (rule floor_log2_ge [OF assms])
  then have e: "max ?e (- 1074) = ?e" by simp
  have rnd: "rnd q = of_int (round_even (q / 2 powi ?e)) * 2 powi ?e"
    unfolding rnd_def e Let_def using q by simp
  have "rnd q - q = (of_int (round_even (q / 2 powi ?e)) - q / 2 powi ?e) * 2 powi ?e"
    by (simp add: rnd algebra_simps)
  then have "\<bar>rnd q - q\<bar> = \<bar>of_int (round_even (q / 2 powi ?e)) - q / 2 powi ?e\<bar> * 2 powi ?e"
    by (simp add: abs_mult)
  also have "\<dots> \<le> 1 / 2 * 2 powi ?e"
    by (intro mult_right_mono round_even_error) simp
  also have "\<dots> = 2 powi ?k / 2 ^ 53"
    by (simp add: power_int_diff)
  also have "\<dots> \<le> q / 2 ^ 53"
    using floor_log2_bounds(1) [OF q] by (simp add: divide_right_mono)
  finally show ?thesis .
qed

lemma rnd_exact:
  assumes "0 < q" "q = of_int i * 2 powi max (floor_log2 q - 52) (- 1074)"
  shows "rnd q = q"
proof -
  let ?e = "max (floor_log2 q - 52) (- 1074)"
  have "q / 2 powi ?e = of_int i" by (subst assms(2)) simp
  then have "rnd q = of_int i * 2 powi ?e" unfolding rnd_def Let_def using assms(1) by simp
  then show ?thesis using assms(2) by simp
qed

lemma rnd_nat: "n \<le> 2 ^ 53 \<Longrightarrow> rnd (of_nat n) = of_nat n"
proof (cases "n = 0 \<or> n = 2 ^ 53")
  case True
  moreover have "floor_log2 (2 ^ 53) = 53" by (rule floor_log2_unique) simp_all
  then have "rnd (2 ^ 53) = 2 ^ 53" by (intro rnd_exact [of _ "2 ^ 52"]) simp_all
  ultimately show ?thesis by (auto simp: rnd_def)
next
  case False
  moreover assume "n \<le> 2 ^ 53"
  ultimately have n: "0 < n" "n < 2 ^ 53" by simp_all
  let ?q = "of_nat n :: rat"
  let ?e = "max (floor_log2 ?q - 52) (- 1074)"
  have q: "0 < ?q" using n by simp
  have "2 powi floor_log2 ?q \<le> ?q" by (rule floor_log2_bounds [OF q])
  also have "?q < of_nat (2 ^ 53)" using n(2) by (simp only: of_nat_less_iff)
  finally have "2 powi floor_log2 ?q < (2 :: rat) powi 53" by simp
  then have "floor_log2 ?q < 53" by (rule powi2_less)
  then have e: "?e \<le> 0" by simp
  then have "2 powi ?e = 1 / (2 :: rat) ^ nat (- ?e)" by (simp add: power_int_def power_one_over)
  then have "?q = of_int (int n * 2 ^ nat (- ?e)) * 2 powi ?e" by simp
  then show ?thesis by (rule rnd_exact [OF q])
qed

section \<open>Products of rounded values\<close>

text \<open>\<open>near k x y\<close>: \<open>x\<close> is \<open>y\<close> up to the relative error of \<open>k\<close> roundings.\<close>

definition near :: "nat \<Rightarrow> rat \<Rightarrow> rat \<Rightarrow> bool" where
  "near k x y \<longleftrightarrow> y * (1 - 1 / 2 ^ 53) ^ k \<le> x \<and> x \<le> y * (1 + 1 / 2 ^ 53) ^ k"

lemma near_refl: "near 0 x x"
  by (simp add: near_def)

lemma near_mult:
  assumes "near j x y" "near k x' y'" "0 \<le> y" "0 \<le> y'"
  shows "near (j + k) (x * x') (y * y')"
proof -
  let ?lo = "1 - 1 / 2 ^ 53 :: rat" and ?hi = "1 + 1 / 2 ^ 53 :: rat"
  have pos: "0 \<le> ?lo" "0 \<le> ?hi" by simp_all
  have x: "0 \<le> y * ?lo ^ j" "0 \<le> y' * ?lo ^ k" using assms(3,4) pos by (simp_all add: zero_le_mult_iff del: one_add_one)
  have "(y * ?lo ^ j) * (y' * ?lo ^ k) \<le> x * x'"
    using assms(1,2) x unfolding near_def by (intro mult_mono) auto
  moreover have "0 \<le> x'" "0 \<le> y * ?hi ^ j"
    using assms(2,3) order_trans [OF x(2)] unfolding near_def by simp_all
  then have "x * x' \<le> (y * ?hi ^ j) * (y' * ?hi ^ k)"
    using assms(1,2) unfolding near_def by (intro mult_mono) auto
  ultimately show ?thesis by (simp add: near_def power_add mult_ac)
qed

lemma near_rnd:
  assumes "near k x y" "2 powi (- 1022) \<le> x"
  shows "near (Suc k) (rnd x) y"
proof -
  let ?lo = "1 - 1 / 2 ^ 53 :: rat" and ?hi = "1 + 1 / 2 ^ 53 :: rat"
  have "x * ?lo \<le> rnd x" "rnd x \<le> x * ?hi"
    using rnd_error [OF assms(2)] unfolding abs_le_iff by (simp_all add: algebra_simps)
  moreover have "y * ?lo ^ k * ?lo \<le> x * ?lo" "x * ?hi \<le> y * ?hi ^ k * ?hi"
    using assms(1) unfolding near_def by (intro mult_right_mono; simp)+
  ultimately show ?thesis unfolding near_def power_Suc2 mult.assoc [symmetric] by linarith
qed

lemma near_within_two:
  assumes "near k x y" "k \<le> 7" "0 \<le> y"
  shows "y / 2 \<le> x" "x \<le> 2 * y"
proof -
  let ?lo = "1 - 1 / 2 ^ 53 :: rat" and ?hi = "1 + 1 / 2 ^ 53 :: rat"
  have "1 / 2 \<le> ?lo ^ 7" "?hi ^ 7 \<le> 2" by (simp_all add: power_def)
  moreover have "?lo ^ 7 \<le> ?lo ^ k" "?hi ^ k \<le> ?hi ^ 7"
    using assms(2) by (intro power_decreasing power_increasing; simp)+
  ultimately have "1 / 2 \<le> ?lo ^ k" "?hi ^ k \<le> 2" by linarith+
  then have "y * (1 / 2) \<le> y * ?lo ^ k" "y * ?hi ^ k \<le> y * 2"
    using assms(3) by (intro mult_left_mono; simp)+
  then show "y / 2 \<le> x" "x \<le> 2 * y" using assms(1) unfolding near_def by simp_all
qed

end
