(* ===== verification/Settlement.thy ===== *)
theory Settlement
  imports Balance_Store
begin

text \<open>
  Incoming settlements, \<^verbatim>\<open>crates/interledger-settlement\<close>: scaling between asset scales
  (\<^verbatim>\<open>core/types.rs\<close>, \<^verbatim>\<open>core/mod.rs\<close>), the uncredited leftovers (\<^verbatim>\<open>LeftoversStore\<close> of
  \<^verbatim>\<open>interledger-store/src/redis/mod.rs\<close>), idempotent calls (\<^verbatim>\<open>core/idempotency.rs\<close>) and the handler
  \<^verbatim>\<open>do_receive_settlement\<close> (\<^verbatim>\<open>api/node_api.rs\<close>). \<^verbatim>\<open>BigUint\<close> is \<open>nat\<close>. The parsers of UUIDs and of big
  numbers, and what the account store answers, are parameters.
\<close>

section \<open>Scaling\<close>

datatype ConversionError = ConversionError

text \<open>\<^verbatim>\<open>10u64.pow(n)\<close>, with overflow checks.\<close>

definition pow10 :: "nat \<Rightarrow> (u64, 'e) result" where
  "pow10 n = (if (10::nat) ^ n < 2 ^ 64 then Ok (10 ^ n) else Panic)"

definition scale_diff :: "u8 \<Rightarrow> u8 \<Rightarrow> nat" where
  "scale_diff from to = nat \<bar>uint from - uint to\<bar>"

definition normalize_scale_u64 :: "u64 \<Rightarrow> u8 \<Rightarrow> u8 \<Rightarrow> (u64, ConversionError) result" where
  "normalize_scale_u64 x from to =
     and_then (pow10 (scale_diff from to)) (\<lambda>scale.
       if to \<ge> from then
         (if unat x * unat scale < 2 ^ 64 then Ok (x * scale) else Err ConversionError)
       else Ok (x div scale))"

definition normalize_scale_big :: "nat \<Rightarrow> u8 \<Rightarrow> u8 \<Rightarrow> (nat, ConversionError) result" where
  "normalize_scale_big x from to =
     and_then (pow10 (scale_diff from to)) (\<lambda>scale.
       if to \<ge> from then Ok (x * unat scale) else Ok (x div unat scale))"

definition scale_with_precision_loss :: "nat \<Rightarrow> u8 \<Rightarrow> u8 \<Rightarrow> (nat \<times> nat, 'e) result" where
  "scale_with_precision_loss amount local_scale remote_scale =
     and_then (unwrap (normalize_scale_big amount remote_scale local_scale)) (\<lambda>scaled.
       if local_scale < remote_scale then
         and_then (unwrap (normalize_scale_big scaled local_scale remote_scale)) (\<lambda>upscaled.
           Ok (scaled, if upscaled < amount then amount - upscaled else 0))
       else Ok (scaled, 0))"

section \<open>Leftovers\<close>

record IdempotentData =
  id_status :: nat
  id_body :: bytes
  id_input_hash :: bytes

record SettlementDb =
  sd_balances :: RedisDb
  sd_uncredited :: "Uuid \<Rightarrow> (nat \<times> u8) list"
  sd_idempotent :: "(bytes, IdempotentData) hashmap"

datatype LeftoversStoreError = LeftoversStoreError

primrec sum_at_scale :: "u8 \<Rightarrow> (nat \<times> u8) list \<Rightarrow> (nat, LeftoversStoreError) result" where
  "sum_at_scale max_scale [] = Ok 0"
| "sum_at_scale max_scale (x # xs) =
     and_then (unwrap (normalize_scale_big (fst x) (snd x) max_scale)) (\<lambda>n.
     and_then (sum_at_scale max_scale xs) (\<lambda>rest. Ok (n + rest)))"

definition parse_multi_values :: "(nat \<times> u8) list \<Rightarrow> (nat \<times> u8, LeftoversStoreError) result" where
  "parse_multi_values amounts =
     (let max_scale = foldl (\<lambda>m (_, scale). if scale > m then scale else m) 0 amounts
      in and_then (sum_at_scale max_scale amounts) (\<lambda>sum. Ok (sum, max_scale)))"

definition set_uncredited :: "Uuid \<Rightarrow> (nat \<times> u8) list \<Rightarrow> SettlementDb \<Rightarrow> SettlementDb" where
  "set_uncredited i xs sd = sd\<lparr>sd_uncredited := (sd_uncredited sd)(i := xs)\<rparr>"

definition get_uncredited_settlement_amount ::
  "Uuid \<Rightarrow> SettlementDb \<Rightarrow> (nat \<times> u8, LeftoversStoreError) result \<times> SettlementDb" where
  "get_uncredited_settlement_amount i sd =
     (parse_multi_values (sd_uncredited sd i), set_uncredited i [] sd)"

definition save_uncredited_settlement_amount ::
  "Uuid \<Rightarrow> nat \<times> u8 \<Rightarrow> SettlementDb \<Rightarrow> SettlementDb" where
  "save_uncredited_settlement_amount i x sd = set_uncredited i (sd_uncredited sd i @ [x]) sd"

definition load_uncredited_settlement_amount ::
  "Uuid \<Rightarrow> u8 \<Rightarrow> SettlementDb \<Rightarrow> (nat, LeftoversStoreError) result \<times> SettlementDb" where
  "load_uncredited_settlement_amount i local_scale sd =
     (case get_uncredited_settlement_amount i sd of
        (Ok (num, scale), sd1) \<Rightarrow>
          (case scale_with_precision_loss num local_scale scale of
             Ok (scaled_amount, precision_loss) \<Rightarrow>
               (Ok scaled_amount,
                if precision_loss > 0
                then save_uncredited_settlement_amount i (precision_loss, max local_scale scale) sd1
                else sd1)
           | Err e \<Rightarrow> (Err e, sd1)
           | Panic \<Rightarrow> (Panic, sd1))
      | (Err e, sd1) \<Rightarrow> (Err e, sd1)
      | (Panic, sd1) \<Rightarrow> (Panic, sd1))"

definition clear_uncredited_settlement_amount :: "Uuid \<Rightarrow> SettlementDb \<Rightarrow> SettlementDb" where
  "clear_uncredited_settlement_amount i sd = set_uncredited i [] sd"

section \<open>Receiving a settlement\<close>

datatype ApiError =
    InvalidAccountId | ConversionApiError | AccountNotFound | NoSettlementEngine
  | LoadUncreditedError | BalanceUpdateError | IdempotentStoreCallError
  | IdempotencyError nat bytes

datatype ApiResponse = DefaultResponse | DataResponse bytes

definition do_receive_settlement ::
  "(bytes \<Rightarrow> Uuid option) \<Rightarrow> (bytes \<Rightarrow> nat option) \<Rightarrow> (Uuid \<Rightarrow> (Account list, 'e) result) \<Rightarrow>
   bytes \<Rightarrow> bytes \<times> u8 \<Rightarrow> bytes option \<Rightarrow> SettlementDb \<Rightarrow>
   (ApiResponse, ApiError) result \<times> SettlementDb" where
  "do_receive_settlement uuid_from_str biguint_from_str get_accounts account_id body idempotency_key sd =
     (case uuid_from_str account_id of None \<Rightarrow> (Err InvalidAccountId, sd) | Some i \<Rightarrow>
      case biguint_from_str (fst body) of None \<Rightarrow> (Err ConversionApiError, sd) | Some engine_amount \<Rightarrow>
      case get_accounts i of
        Err _ \<Rightarrow> (Err AccountNotFound, sd)
      | Panic \<Rightarrow> (Panic, sd)
      | Ok [] \<Rightarrow> (Panic, sd)
      | Ok (account # _) \<Rightarrow>
          if acc_settlement_engine_url account = None then (Err NoSettlementEngine, sd)
          else case scale_with_precision_loss engine_amount (acc_asset_scale account) (snd body) of
            Err e \<Rightarrow> (Err e, sd)
          | Panic \<Rightarrow> (Panic, sd)
          | Ok (scaled_engine_amount, precision_loss) \<Rightarrow>
              (case load_uncredited_settlement_amount (acc_id account) (acc_asset_scale account) sd of
                 (Err _, sd1) \<Rightarrow> (Err LoadUncreditedError, sd1)
               | (Panic, sd1) \<Rightarrow> (Panic, sd1)
               | (Ok scaled_leftover_amount, sd1) \<Rightarrow>
                   (let total_amount = scaled_engine_amount + scaled_leftover_amount;
                        engine_amount_u64 =
                          (if total_amount < 2 ^ 64 then of_nat total_amount else u64_max);
                        (updated, balances) = update_balance_for_incoming_settlement
                          (acc_id account) engine_amount_u64 idempotency_key (sd_balances sd1);
                        sd2 = sd1\<lparr>sd_balances := balances\<rparr>
                    in case updated of
                         Panic \<Rightarrow> (Panic, sd2)
                       | Err _ \<Rightarrow> (Err BalanceUpdateError,
                           save_uncredited_settlement_amount (acc_id account) (precision_loss, snd body) sd2)
                       | Ok _ \<Rightarrow> (Ok DefaultResponse,
                           save_uncredited_settlement_amount (acc_id account) (precision_loss, snd body) sd2))))"

section \<open>Idempotent calls\<close>

text \<open>The statuses of \<^verbatim>\<open>error_types.rs\<close>, \<^verbatim>\<open>core/types.rs\<close> and of the handler itself.\<close>

fun api_status :: "ApiError \<Rightarrow> nat" where
  "api_status InvalidAccountId = 400"
| "api_status ConversionApiError = 500"
| "api_status AccountNotFound = 404"
| "api_status NoSettlementEngine = 404"
| "api_status LoadUncreditedError = 500"
| "api_status BalanceUpdateError = 500"
| "api_status IdempotentStoreCallError = 409"
| "api_status (IdempotencyError status _) = status"

definition is_success :: "nat \<Rightarrow> bool" where
  "is_success status \<longleftrightarrow> 200 \<le> status \<and> status < 300"

definition IDEMPOTENCY_CONFLICT_ERR :: bytes where
  "IDEMPOTENCY_CONFLICT_ERR = bstr ''Provided idempotency key is tied to other input''"

datatype IdempotentStoreError = IdempotentStoreError

text \<open>
  \<^verbatim>\<open>from_redis_string\<close> is the conversion of the Redis client from a reply to a \<^verbatim>\<open>String\<close>, which the loader
  asks of every field of the hash; it may refuse. The expiry of the entry after a day is not modelled.
\<close>

definition load_idempotent_data ::
  "(bytes \<Rightarrow> bytes option) \<Rightarrow> bytes \<Rightarrow> SettlementDb \<Rightarrow> (IdempotentData option, IdempotentStoreError) result" where
  "load_idempotent_data from_redis_string idempotency_key sd =
     (case hm_get (sd_idempotent sd) idempotency_key of
        None \<Rightarrow> Ok None
      | Some ret \<Rightarrow>
          (case (from_redis_string (id_body ret), from_redis_string (id_input_hash ret)) of
             (Some body, Some input_hash) \<Rightarrow>
               if length input_hash = 32
               then Ok (Some \<lparr>id_status = id_status ret, id_body = body, id_input_hash = input_hash\<rparr>)
               else Panic
           | _ \<Rightarrow> Err IdempotentStoreError))"

definition save_idempotent_data ::
  "bytes \<Rightarrow> bytes \<Rightarrow> nat \<Rightarrow> bytes \<Rightarrow> SettlementDb \<Rightarrow> SettlementDb" where
  "save_idempotent_data idempotency_key input_hash status_code body sd =
     sd\<lparr>sd_idempotent := hm_insert idempotency_key
       \<lparr>id_status = status_code, id_body = body, id_input_hash = input_hash\<rparr> (sd_idempotent sd)\<rparr>"

definition check_idempotency ::
  "(bytes \<Rightarrow> bytes option) \<Rightarrow> bytes \<Rightarrow> bytes \<Rightarrow> SettlementDb \<Rightarrow> ((nat \<times> bytes) option, ApiError) result" where
  "check_idempotency from_redis_string idempotency_key input_hash sd =
     and_then (map_err (\<lambda>_. IdempotentStoreCallError)
         (load_idempotent_data from_redis_string idempotency_key sd)) (\<lambda>ret.
       case ret of
         Some ret \<Rightarrow>
           if id_input_hash ret = input_hash then Ok (Some (id_status ret, id_body ret))
           else Ok (Some (409, IDEMPOTENCY_CONFLICT_ERR))
       | None \<Rightarrow> Ok None)"

definition response_data :: "bytes \<Rightarrow> ApiResponse \<Rightarrow> bytes" where
  "response_data default_return_value ret =
     (case ret of DefaultResponse \<Rightarrow> default_return_value | DataResponse d \<Rightarrow> d)"

text \<open>
  The call itself is a function on the store, run only where the source awaits it; \<^verbatim>\<open>detail\<close> gives
  the text of an error, or nothing where it has none. The store is reachable, so saving does not fail.
\<close>

definition make_idempotent_call ::
  "(bytes \<Rightarrow> bytes option) \<Rightarrow> (ApiError \<Rightarrow> bytes) \<Rightarrow>
   (SettlementDb \<Rightarrow> (ApiResponse, ApiError) result \<times> SettlementDb) \<Rightarrow>
   bytes \<Rightarrow> bytes option \<Rightarrow> nat \<Rightarrow> bytes \<Rightarrow> SettlementDb \<Rightarrow>
   (nat \<times> bytes, ApiError) result \<times> SettlementDb" where
  "make_idempotent_call from_redis_string detail non_idempotent_function input_hash idempotency_key
     status_code default_return_value sd =
     (case idempotency_key of
        Some key \<Rightarrow>
          (case check_idempotency from_redis_string key input_hash sd of
             Err e \<Rightarrow> (Err e, sd)
           | Panic \<Rightarrow> (Panic, sd)
           | Ok (Some ret) \<Rightarrow>
               (if is_success (fst ret) then Ok ret else Err (IdempotencyError (fst ret) (snd ret)), sd)
           | Ok None \<Rightarrow>
               (case non_idempotent_function sd of
                  (Panic, sd1) \<Rightarrow> (Panic, sd1)
                | (Err ret, sd1) \<Rightarrow>
                    (Err ret, save_idempotent_data key input_hash (api_status ret) (detail ret) sd1)
                | (Ok ret, sd1) \<Rightarrow>
                    (Ok (status_code, response_data default_return_value ret),
                     save_idempotent_data key input_hash status_code
                       (response_data default_return_value ret) sd1)))
      | None \<Rightarrow>
          (case non_idempotent_function sd of
             (Panic, sd1) \<Rightarrow> (Panic, sd1)
           | (Err ret, sd1) \<Rightarrow> (Err ret, sd1)
           | (Ok ret, sd1) \<Rightarrow> (Ok (status_code, response_data default_return_value ret), sd1)))"

text \<open>\<^verbatim>\<open>format_input\<close> is the text the handler hashes, the account id and the printed quantity.\<close>

definition receive_settlement ::
  "(bytes \<Rightarrow> bytes) \<Rightarrow> (bytes \<Rightarrow> bytes \<times> u8 \<Rightarrow> bytes) \<Rightarrow> (bytes \<Rightarrow> bytes option) \<Rightarrow> (ApiError \<Rightarrow> bytes) \<Rightarrow>
   (bytes \<Rightarrow> Uuid option) \<Rightarrow> (bytes \<Rightarrow> nat option) \<Rightarrow> (Uuid \<Rightarrow> (Account list, 'e) result) \<Rightarrow>
   bytes \<Rightarrow> bytes option \<Rightarrow> bytes \<times> u8 \<Rightarrow> SettlementDb \<Rightarrow> (nat \<times> bytes, ApiError) result \<times> SettlementDb" where
  "receive_settlement sha256 format_input from_redis_string detail uuid_from_str biguint_from_str get_accounts
     account_id idempotency_key quantity sd =
     make_idempotent_call from_redis_string detail
       (do_receive_settlement uuid_from_str biguint_from_str get_accounts account_id quantity idempotency_key)
       (sha256 (format_input account_id quantity)) idempotency_key 201 (bstr ''RECEIVED'') sd"

section \<open>Scaling loses nothing\<close>

text \<open>The value of an amount, in units of the finest scale an octet can hold.\<close>

definition amount_value :: "nat \<Rightarrow> u8 \<Rightarrow> nat" where
  "amount_value n scale = n * 10 ^ (255 - unat scale)"

definition leftovers_value :: "(nat \<times> u8) list \<Rightarrow> nat" where
  "leftovers_value xs = sum_list (map (\<lambda>(n, scale). amount_value n scale) xs)"

lemma pow10_eq: "pow10 n = (if n < 20 then Ok (10 ^ n) else Panic)"
proof -
  have "(10::nat) ^ n < 2 ^ 64 \<longleftrightarrow> n < 20"
  proof
    assume "(10::nat) ^ n < 2 ^ 64"
    also have "(2::nat) ^ 64 < 10 ^ 20" by simp
    finally show "n < 20" by (simp only: power_strict_increasing_iff)
  next
    assume "n < 20"
    then have "(10::nat) ^ n \<le> 10 ^ 19" by (intro power_increasing) auto
    also have "(10::nat) ^ 19 < 2 ^ 64" by simp
    finally show "(10::nat) ^ n < 2 ^ 64" .
  qed
  then show ?thesis by (simp add: pow10_def)
qed

lemma unat_pow10: "n < 20 \<Longrightarrow> unat (10 ^ n :: u64) = 10 ^ n"
proof -
  assume "n < 20"
  then have "(10::nat) ^ n \<le> 10 ^ 19" by (intro power_increasing) auto
  also have "(10::nat) ^ 19 < 2 ^ 64" by simp
  finally have "unat (of_nat (10 ^ n) :: u64) = 10 ^ n"
    by (simp add: unat_of_nat take_bit_nat_eq_self del: of_nat_power)
  then show ?thesis by simp
qed

lemma scale_diff_nat:
  "scale_diff from to = (if from \<le> to then unat to - unat from else unat from - unat to)"
  by (simp only: scale_diff_def word_le_nat_alt uint_nat nat_abs_int_diff)

lemma normalize_scale_big_eq:
  "normalize_scale_big n from to =
     (if 20 \<le> scale_diff from to then Panic
      else if from \<le> to then Ok (n * 10 ^ scale_diff from to) else Ok (n div 10 ^ scale_diff from to))"
  by (simp add: normalize_scale_big_def pow10_eq unat_pow10)

lemma scale_diff_commute: "scale_diff from to = scale_diff to from"
  by (simp add: scale_diff_def abs_minus_commute)

lemma scale_with_precision_loss_eq:
  "scale_with_precision_loss n local_scale remote_scale =
     (if 20 \<le> scale_diff remote_scale local_scale then Panic
      else if remote_scale \<le> local_scale then Ok (n * 10 ^ scale_diff remote_scale local_scale, 0)
      else Ok (n div 10 ^ scale_diff remote_scale local_scale,
               n mod 10 ^ scale_diff remote_scale local_scale))"
proof (cases "remote_scale \<le> local_scale \<or> 20 \<le> scale_diff remote_scale local_scale")
  case True
  then show ?thesis by (auto simp: scale_with_precision_loss_def normalize_scale_big_eq)
next
  case False
  let ?d = "scale_diff remote_scale local_scale"
  have less: "local_scale < remote_scale" using False by auto
  then have le: "local_scale \<le> remote_scale" by (rule less_imp_le)
  have down: "normalize_scale_big n remote_scale local_scale = Ok (n div 10 ^ ?d)"
    and up: "normalize_scale_big k local_scale remote_scale = Ok (k * 10 ^ ?d)" for k
    using False le scale_diff_commute [of local_scale remote_scale]
    by (simp_all add: normalize_scale_big_eq)
  have "(if x < n then n - x else 0) = n - x" for x by simp
  then show ?thesis
    using False less
    by (simp add: scale_with_precision_loss_def down up minus_div_mult_eq_mod)
qed

lemma unat_less_256: "unat (s :: u8) < 256"
  using unsigned_less [where 'a = nat, of s] by simp

lemma amount_value_rescale:
  assumes "from \<le> to"
  shows "amount_value n from = amount_value (n * 10 ^ scale_diff from to) to"
proof -
  have "unat from \<le> unat to" "unat to \<le> 255"
    using assms unat_less_256 [of to] by (simp_all add: word_le_nat_alt)
  then have "255 - unat from = (unat to - unat from) + (255 - unat to)" by simp
  then show ?thesis
    using assms by (simp add: amount_value_def scale_diff_nat power_add mult_ac)
qed

lemma amount_value_add: "amount_value (n + m) s = amount_value n s + amount_value m s"
  by (simp add: amount_value_def algebra_simps)

lemma amount_value_0 [simp]: "amount_value 0 s = 0"
  by (simp add: amount_value_def)

lemma scaling_conserves_value:
  assumes "scale_with_precision_loss n local_scale remote_scale = Ok (scaled, loss)"
  shows "amount_value scaled local_scale + amount_value loss remote_scale = amount_value n remote_scale"
proof (cases "remote_scale \<le> local_scale")
  case True
  then show ?thesis
    using assms amount_value_rescale [OF True, of n]
    by (auto simp: scale_with_precision_loss_eq split: if_splits)
next
  case False
  then have le: "local_scale \<le> remote_scale" by simp
  let ?d = "scale_diff remote_scale local_scale"
  have eq: "scaled = n div 10 ^ ?d" "loss = n mod 10 ^ ?d"
    using assms False by (auto simp: scale_with_precision_loss_eq split: if_splits)
  have "scaled * 10 ^ ?d + loss = n" unfolding eq by (rule div_mult_mod_eq)
  then show ?thesis
    using amount_value_rescale [OF le, of scaled] amount_value_add [of "scaled * 10 ^ ?d" loss remote_scale]
    by (simp add: scale_diff_commute [of local_scale])
qed


section \<open>A settlement is credited to the last fraction\<close>

definition scales_small :: "(nat \<times> u8) list \<Rightarrow> bool" where
  "scales_small xs \<longleftrightarrow> list_all (\<lambda>(n, scale). scale < 20) xs"

lemma scale_diff_small: "s < 20 \<Longrightarrow> t < 20 \<Longrightarrow> scale_diff s t < 20"
  by (auto simp: scale_diff_nat word_less_nat_alt)

lemma sum_at_scale_ok:
  assumes "\<forall>(n, s) \<in> set xs. s \<le> m \<and> s < 20" "m < 20"
  shows "\<exists>n. sum_at_scale m xs = Ok n \<and> amount_value n m = leftovers_value xs"
  using assms
proof (induction xs)
  case (Cons x xs)
  then obtain k where k: "sum_at_scale m xs = Ok k" "amount_value k m = leftovers_value xs" by auto
  obtain n s where x: "x = (n, s)" by (cases x)
  have "normalize_scale_big n s m = Ok (n * 10 ^ scale_diff s m)"
    using Cons.prems x scale_diff_small [of s m] by (simp add: normalize_scale_big_eq)
  then show ?case
    using k x Cons.prems amount_value_rescale [of s m n]
    by (simp add: amount_value_add leftovers_value_def)
qed (simp add: leftovers_value_def)

lemma max_scale:
  fixes xs :: "(nat \<times> u8) list" and a :: u8
  defines "m \<equiv> foldl (\<lambda>m (_, scale). if scale > m then scale else m) a xs"
  shows "a \<le> m \<and> (\<forall>(n, s) \<in> set xs. s \<le> m) \<and> (m = a \<or> m \<in> snd ` set xs)"
  unfolding m_def
proof (induction xs arbitrary: a)
  case (Cons x xs)
  obtain n s where x: "x = (n, s)" by (cases x)
  show ?case
    using Cons.IH [of "if s > a then s else a"] unfolding x
    by (auto split: if_splits intro: order_trans)
qed simp

lemma parse_multi_values_ok:
  assumes "scales_small xs"
  shows "\<exists>n m. parse_multi_values xs = Ok (n, m) \<and> m < 20 \<and> amount_value n m = leftovers_value xs"
proof -
  let ?m = "foldl (\<lambda>m (_, scale). if scale > m then scale else m) 0 xs :: u8"
  have m: "?m < 20" "\<forall>(n, s) \<in> set xs. s \<le> ?m \<and> s < 20"
    using max_scale [of 0 xs] assms by (auto simp: scales_small_def list_all_iff)
  show ?thesis
    using sum_at_scale_ok [OF m(2,1)] m(1) by (auto simp: parse_multi_values_def Let_def)
qed

lemma leftovers_value_append [simp]: "leftovers_value (xs @ ys) = leftovers_value xs + leftovers_value ys"
  by (simp add: leftovers_value_def)

lemma leftovers_value_Cons [simp]: "leftovers_value ((n, s) # xs) = amount_value n s + leftovers_value xs"
  by (simp add: leftovers_value_def)

lemma leftovers_value_Nil [simp]: "leftovers_value [] = 0"
  by (simp add: leftovers_value_def)

lemma load_uncredited_settlement_amount_ok:
  assumes "scales_small (sd_uncredited sd i)" "local_scale < 20"
  shows "\<exists>c rest. load_uncredited_settlement_amount i local_scale sd = (Ok c, set_uncredited i rest sd) \<and>
    scales_small rest \<and> amount_value c local_scale + leftovers_value rest = leftovers_value (sd_uncredited sd i)"
proof -
  obtain n m where p: "parse_multi_values (sd_uncredited sd i) = Ok (n, m)"
      "m < 20" "amount_value n m = leftovers_value (sd_uncredited sd i)"
    using parse_multi_values_ok [OF assms(1)] by blast
  obtain c loss where l: "scale_with_precision_loss n local_scale m = (Ok (c, loss) :: (_, LeftoversStoreError) result)"
    using scale_diff_small [OF p(2) assms(2)]
    by (cases "m \<le> local_scale") (auto simp: scale_with_precision_loss_eq)
  have max: "max local_scale m = m" if "loss > 0"
    using that l by (auto simp: scale_with_precision_loss_eq max.absorb2 not_le split: if_splits)
  show ?thesis
    using p max scaling_conserves_value [OF l]
    by (auto simp: load_uncredited_settlement_amount_def get_uncredited_settlement_amount_def l
        save_uncredited_settlement_amount_def set_uncredited_def scales_small_def intro!: exI [of _ c]
        exI [of _ "if loss > 0 then [(loss, m)] else []"])
qed

lemma do_receive_settlement_ok:
  assumes "uuid_from_str account_id = Some i" "biguint_from_str amount = Some n"
    and "get_accounts i = Ok [account]" "acc_id account = i" "acc_settlement_engine_url account \<noteq> None"
    and "acc_asset_scale account = l"
    and scaled: "scale_with_precision_loss n l scale = (Ok (s, loss) :: (_, ApiError) result)"
    and "load_uncredited_settlement_amount i l sd = (Ok c, set_uncredited i rest sd)"
    and "s + c < 2 ^ 51" "hash_small (db_accounts (sd_balances sd) i)"
    and "key \<notin> set (db_settlement_keys (sd_balances sd))"
  shows "\<exists>sd'. do_receive_settlement uuid_from_str biguint_from_str get_accounts account_id (amount, scale)
      (Some key) sd = (Ok DefaultResponse, sd') \<and>
    redis_net (sd_balances sd') i = redis_net (sd_balances sd) i + int (s + c) \<and>
    sd_uncredited sd' = (sd_uncredited sd)(i := rest @ [(loss, scale)]) \<and>
    (\<forall>j. j \<noteq> i \<longrightarrow> redis_net (sd_balances sd') j = redis_net (sd_balances sd) j)"
proof -
  obtain v p where vp: "bh_balance (db_accounts (sd_balances sd) i) = Some v"
      "bh_prepaid_amount (db_accounts (sd_balances sd) i) = Some p"
    using assms(10) by (auto simp: hash_small_def)
  have "uint (of_nat (s + c) :: u64) = int (s + c)"
    using assms(9) by (simp add: uint_nat unat_of_nat take_bit_nat_eq_self del: of_nat_add)
  then have "update_balance_for_incoming_settlement i (of_nat (s + c)) (Some key) (sd_balances sd) =
    (Ok (), \<lparr>db_accounts = (db_accounts (sd_balances sd))
              (i := settled_hash v p (int (s + c)) (db_accounts (sd_balances sd) i)),
            db_settlement_keys = key # db_settlement_keys (sd_balances sd)\<rparr>)"
    using update_balance_for_incoming_settlement_fresh [OF assms(10) _ assms(11) vp, of "of_nat (s + c)"]
      assms(9) by (simp del: of_nat_add)
  then show ?thesis
    using assms(1-9) vp
    by (simp add: do_receive_settlement_def set_uncredited_def save_uncredited_settlement_amount_def
        redis_net_def hash_net_settled del: of_nat_add)
qed

text \<open>
  C8. No fraction of a settlement is lost: what the engine reports, together with the leftovers of
  earlier settlements, is worth exactly what is credited to the account and what is left over. The
  handler succeeds whenever the scales are below twenty and the amounts in range, it leaves every other
  account alone, and its own leftovers do not make a later settlement fail.
\<close>

theorem settlement_value_conserved:
  assumes "uuid_from_str account_id = Some i" "biguint_from_str amount = Some n"
    and "get_accounts i = Ok [account]" "acc_id account = i" "acc_settlement_engine_url account \<noteq> None"
    and "acc_asset_scale account < 20" "scale < 20" "scales_small (sd_uncredited sd i)"
    and "amount_value n scale + leftovers_value (sd_uncredited sd i) <
      amount_value (2 ^ 51) (acc_asset_scale account)"
    and "hash_small (db_accounts (sd_balances sd) i)" "key \<notin> set (db_settlement_keys (sd_balances sd))"
  shows "\<exists>sd' credited. do_receive_settlement uuid_from_str biguint_from_str get_accounts account_id
      (amount, scale) (Some key) sd = (Ok DefaultResponse, sd') \<and>
    redis_net (sd_balances sd') i = redis_net (sd_balances sd) i + int credited \<and>
    amount_value credited (acc_asset_scale account) + leftovers_value (sd_uncredited sd' i) =
      amount_value n scale + leftovers_value (sd_uncredited sd i) \<and>
    scales_small (sd_uncredited sd' i) \<and>
    (\<forall>j. j \<noteq> i \<longrightarrow> redis_net (sd_balances sd') j = redis_net (sd_balances sd) j \<and>
       sd_uncredited sd' j = sd_uncredited sd j)"
proof -
  let ?l = "acc_asset_scale account"
  obtain s loss where s: "scale_with_precision_loss n ?l scale = (Ok (s, loss) :: (_, ApiError) result)"
    using scale_diff_small [OF assms(7,6)]
    by (cases "scale \<le> ?l") (auto simp: scale_with_precision_loss_eq)
  obtain c rest where c: "load_uncredited_settlement_amount i ?l sd = (Ok c, set_uncredited i rest sd)"
      "scales_small rest" "amount_value c ?l + leftovers_value rest = leftovers_value (sd_uncredited sd i)"
    using load_uncredited_settlement_amount_ok [OF assms(8,6)] by blast
  have eq: "amount_value (s + c) ?l + (leftovers_value rest + amount_value loss scale) =
    amount_value n scale + leftovers_value (sd_uncredited sd i)"
    using scaling_conserves_value [OF s] c(3) by (simp add: amount_value_add)
  then have "amount_value (s + c) ?l < amount_value (2 ^ 51) ?l" using assms(9) by linarith
  then have "s + c < 2 ^ 51" by (simp add: amount_value_def)
  from do_receive_settlement_ok [where uuid_from_str = uuid_from_str and account_id = account_id and
      biguint_from_str = biguint_from_str and amount = amount and get_accounts = get_accounts,
      OF assms(1-5) refl s c(1) this assms(10,11)]
  obtain sd' where "do_receive_settlement uuid_from_str biguint_from_str get_accounts account_id
      (amount, scale) (Some key) sd = (Ok DefaultResponse, sd')"
    "redis_net (sd_balances sd') i = redis_net (sd_balances sd) i + int (s + c)"
    "sd_uncredited sd' = (sd_uncredited sd)(i := rest @ [(loss, scale)])"
    "\<forall>j. j \<noteq> i \<longrightarrow> redis_net (sd_balances sd') j = redis_net (sd_balances sd) j" by blast
  then show ?thesis
    using eq c(2) assms(7) by (intro exI [of _ sd'] exI [of _ "s + c"]) (simp add: scales_small_def)
qed

definition example_settlement_db :: SettlementDb where
  "example_settlement_db = \<lparr>sd_balances = example_db, sd_uncredited = (\<lambda>_. [(789, 9)]), sd_idempotent = []\<rparr>"

definition example_settled_account :: "bytes \<Rightarrow> Account" where
  "example_settled_account address = (example_account 3 address Peer)
     \<lparr>acc_asset_scale := 6, acc_settlement_engine_url := Some []\<rparr>"

theorem settlement_value_conserved_witness:
  "\<exists>sd' credited. do_receive_settlement (\<lambda>_. Some 3) (\<lambda>_. Some 1234567)
      (\<lambda>_. Ok [example_settled_account []]) [] ([], 9) (Some [7]) example_settlement_db =
      (Ok DefaultResponse, sd') \<and>
    redis_net (sd_balances sd') 3 = redis_net example_db 3 + int credited \<and>
    amount_value credited 6 + leftovers_value (sd_uncredited sd' 3) =
      amount_value 1234567 9 + leftovers_value [(789, 9)]"
proof -
  have small: "amount_value 1234567 9 + leftovers_value (sd_uncredited example_settlement_db 3) <
      amount_value (2 ^ 51) 6"
    by (simp add: example_settlement_db_def amount_value_def)
  show ?thesis
    using settlement_value_conserved [where uuid_from_str = "\<lambda>_. Some 3" and account_id = "[]" and i = 3 and
        biguint_from_str = "\<lambda>_. Some 1234567" and amount = "[]" and n = 1234567 and scale = 9 and
        get_accounts = "\<lambda>_. Ok [example_settled_account []]" and account = "example_settled_account []" and
        key = "[7]" and sd = example_settlement_db] small
    by (fastforce simp: example_settlement_db_def example_settled_account_def example_account_def
        scales_small_def example_db_def example_hash_def hash_small_def)
qed

section \<open>Retries\<close>

text \<open>
  C30. Idempotent calls: after a first call with a fresh key, a retry with the same key and input runs
  nothing, changes nothing, and answers what the first call answered, an error by its status and text;
  another input under the same key is refused with 409. All of this needs the Redis client to accept
  the stored hash as a string: where it does not, every retry fails instead.
\<close>

theorem idempotent_call_repeats:
  fixes call :: "_ \<Rightarrow> _ \<Rightarrow> _ \<Rightarrow> _ \<Rightarrow> _ \<Rightarrow> SettlementDb \<Rightarrow> (nat \<times> bytes, ApiError) result \<times> SettlementDb"
  assumes "hm_get (sd_idempotent sd) key = None" "f sd = (r, sd1)" "r \<noteq> Panic"
    and "length h = 32" "from_redis_string h \<in> {None, Some h}" "is_success status"
    and "\<forall>a. r = Ok a \<longrightarrow> from_redis_string (response_data dflt a) = Some (response_data dflt a)"
    and "\<forall>e. r = Err e \<longrightarrow> from_redis_string (detail e) = Some (detail e) \<and> \<not> is_success (api_status e)"
  defines "call \<equiv> make_idempotent_call from_redis_string detail"
  shows "\<exists>sd'. call f h (Some key) status dflt sd =
      (map_ok (\<lambda>a. (status, response_data dflt a)) r, sd') \<and>
    (from_redis_string h = Some h \<longrightarrow>
       (\<forall>g status' dflt'. call g h (Some key) status' dflt' sd' =
         (map_err (\<lambda>e. IdempotencyError (api_status e) (detail e))
            (map_ok (\<lambda>a. (status, response_data dflt a)) r), sd')) \<and>
       (\<forall>g h' status' dflt'. h' \<noteq> h \<longrightarrow> call g h' (Some key) status' dflt' sd' =
         (Err (IdempotencyError 409 IDEMPOTENCY_CONFLICT_ERR), sd'))) \<and>
    (from_redis_string h = None \<longrightarrow>
       (\<forall>g h' status' dflt'. call g h' (Some key) status' dflt' sd' = (Err IdempotentStoreCallError, sd')))"
proof (cases r)
  case (Ok a)
  then show ?thesis
    using assms(1-7)
    by (auto simp: call_def make_idempotent_call_def check_idempotency_def load_idempotent_data_def
        save_idempotent_data_def hm_get_insert is_success_def)
next
  case (Err e)
  then show ?thesis
    using assms(1-6,8)
    by (auto simp: call_def make_idempotent_call_def check_idempotency_def load_idempotent_data_def
        save_idempotent_data_def hm_get_insert is_success_def)
qed (use assms(3) in simp)

theorem idempotent_call_repeats_witness:
  "\<exists>sd'. make_idempotent_call Some (\<lambda>_. []) (\<lambda>sd. (Ok DefaultResponse, sd)) (replicate 32 7) (Some [7]) 201 [1]
      example_settlement_db = (Ok (201, [1]), sd') \<and>
    make_idempotent_call Some (\<lambda>_. []) (\<lambda>sd. (Err AccountNotFound, sd)) (replicate 32 7) (Some [7]) 201 [1] sd' =
      (Ok (201, [1]), sd') \<and>
    make_idempotent_call Some (\<lambda>_. []) (\<lambda>sd. (Err AccountNotFound, sd)) (replicate 32 8) (Some [7]) 201 [1] sd' =
      (Err (IdempotencyError 409 IDEMPOTENCY_CONFLICT_ERR), sd')"
  using idempotent_call_repeats [of example_settlement_db "[7]" "\<lambda>sd. (Ok DefaultResponse, sd)"
      "Ok DefaultResponse" example_settlement_db "replicate 32 7" Some 201 "[1]" "\<lambda>_. []"]
  by (fastforce simp: example_settlement_db_def is_success_def response_data_def)

end
