(* ===== verification/Exchange.thy ===== *)
theory Exchange
  imports Float64 Settlement
begin

text \<open>
  The exchange-rate service, \<^verbatim>\<open>crates/interledger-service-util/src/exchange_rates_service.rs\<close>, with the
  conversion of \<^verbatim>\<open>f64\<close> amounts between asset scales of \<^verbatim>\<open>interledger-settlement/src/core/types.rs\<close>. Two
  things of the environment are parameters: \<^verbatim>\<open>10f64.powi(n)\<close>, whose precision Rust leaves open, and the
  decimal printing of an \<^verbatim>\<open>f64\<close> in the messages of rejects.

  The lemmas bound the outgoing amount by the exact product of amount, rates, spread and scales, up to the
  error of seven roundings.
\<close>

section \<open>The outgoing amount\<close>

abbreviation f64_one :: f64 where
  "f64_one \<equiv> Fin False 1"

abbreviation f64_zero :: f64 where
  "f64_zero \<equiv> Fin False 0"

definition normalize_scale_f64 :: "(int \<Rightarrow> f64) \<Rightarrow> f64 \<Rightarrow> u8 \<Rightarrow> u8 \<Rightarrow> (f64, ConversionError) result" where
  "normalize_scale_f64 powi10 x from_scale to_scale =
     (let scale_diff = uint to_scale - uint from_scale;
          scale = powi10 scale_diff;
          res = f64_mul x scale
      in if f64_eq res (Inf False) then Err ConversionError else Ok res)"

datatype OutgoingAmountError = ToU64ConvertOverflow f64 | FloatOverflow | LessThanOne f64

text \<open>The rate after the spread; a rate that is not finite or negative counts as zero.\<close>

definition spread_rate :: "f64 \<Rightarrow> f64 \<times> f64 \<Rightarrow> f64" where
  "spread_rate spread rates =
     (let (rate_src, rate_dest) = rates;
          rate = f64_mul (f64_div rate_src rate_dest) (f64_sub f64_one spread)
      in if f64_is_finite rate \<and> f64_is_sign_positive rate then rate else f64_zero)"

definition outgoing_amount_from_f64 :: "f64 \<Rightarrow> (u64, OutgoingAmountError) result" where
  "outgoing_amount_from_f64 x =
     (if f64_eq x f64_zero then Ok 0
      else if f64_less x f64_one then Err (LessThanOne x)
      else if \<not> f64_is_finite x then Err FloatOverflow
      else if f64_less (u64_as_f64 u64_max) x then Err (ToU64ConvertOverflow x)
      else Ok (f64_as_u64 x))"

definition calculate_outgoing_amount ::
  "(int \<Rightarrow> f64) \<Rightarrow> u64 \<Rightarrow> f64 \<Rightarrow> f64 \<times> f64 \<Rightarrow> u8 \<times> u8 \<Rightarrow> (u64, OutgoingAmountError) result" where
  "calculate_outgoing_amount powi10 input spread rates scales =
     (let (asset_scale_src, asset_scale_dest) = scales; rate = spread_rate spread rates
      in case normalize_scale_f64 powi10 f64_one asset_scale_src asset_scale_dest of
           Ok scale \<Rightarrow> outgoing_amount_from_f64 (f64_mul (f64_mul rate scale) (u64_as_f64 input))
         | Err _ \<Rightarrow> Err FloatOverflow
         | Panic \<Rightarrow> Panic)"

section \<open>The service\<close>

definition exchange_reject :: "Address \<Rightarrow> ErrorCode \<Rightarrow> bytes \<Rightarrow> Reject" where
  "exchange_reject ilp_address code message =
     reject_build \<lparr>rb_code = code, rb_message = message, rb_triggered_by = Some ilp_address, rb_data = []\<rparr>"

definition outgoing_amount_reject ::
  "(f64 \<Rightarrow> bytes) \<Rightarrow> Address \<Rightarrow> OutgoingRequest \<Rightarrow> OutgoingAmountError \<Rightarrow> Reject" where
  "outgoing_amount_reject show_f64 ilp_address request e =
     (case e of
        LessThanOne outgoing_amount \<Rightarrow>
          exchange_reject ilp_address R01_INSUFFICIENT_SOURCE_AMOUNT
            (bstr ''Could not cast to f64, amount too small: '' @ show_f64 outgoing_amount)
      | ToU64ConvertOverflow outgoing_amount \<Rightarrow>
          exchange_reject ilp_address F08_AMOUNT_TOO_LARGE
            (bstr ''Could not cast to f64, amount too large: '' @ show_f64 outgoing_amount)
      | FloatOverflow \<Rightarrow>
          exchange_reject ilp_address F08_AMOUNT_TOO_LARGE
            (bstr ''Could not convert exchange rate from '' @ acc_asset_code (out_from request) @ bstr '':'' @
             dec_digits (unat (acc_asset_scale (out_from request))) @ bstr '' to: '' @
             acc_asset_code (out_to request) @ bstr '':'' @ dec_digits (unat (acc_asset_scale (out_to request))) @
             bstr ''. Got incoming amount: '' @ dec_digits (unat (p_amount (out_prepare request)))))"

text \<open>The store answers with one rate for each asset asked for; a shorter answer would panic.\<close>

definition request_rates ::
  "(bytes list \<Rightarrow> f64 list option) \<Rightarrow> Address \<Rightarrow> OutgoingRequest \<Rightarrow> (f64 \<times> f64, Reject) result" where
  "request_rates get_exchange_rates ilp_address request =
     (let source_code = acc_asset_code (out_from request); dest_code = acc_asset_code (out_to request) in
      if source_code = dest_code then Ok (f64_one, f64_one)
      else case get_exchange_rates [source_code, dest_code] of
        Some rates \<Rightarrow> if 2 \<le> length rates then Ok (rates ! 0, rates ! 1) else Panic
      | None \<Rightarrow>
          Err (exchange_reject ilp_address T00_INTERNAL_ERROR
            (bstr ''No exchange rate available from asset: '' @ source_code @ bstr '' to: '' @ dest_code)))"

definition exchange_rate_send_request ::
  "(int \<Rightarrow> f64) \<Rightarrow> (f64 \<Rightarrow> bytes) \<Rightarrow> (bytes list \<Rightarrow> f64 list option) \<Rightarrow> f64 \<Rightarrow> Address \<Rightarrow>
   's outgoing_service \<Rightarrow> 's outgoing_service" where
  "exchange_rate_send_request powi10 show_f64 get_exchange_rates spread ilp_address nxt request s =
     (if p_amount (out_prepare request) > 0 then
        (case and_then (request_rates get_exchange_rates ilp_address request) (\<lambda>rates.
                and_then (map_err (outgoing_amount_reject show_f64 ilp_address request)
                    (calculate_outgoing_amount powi10 (p_amount (out_prepare request)) spread rates
                      (acc_asset_scale (out_from request), acc_asset_scale (out_to request))))
                  (\<lambda>outgoing_amount. set_amount outgoing_amount (out_prepare request))) of
           Ok prepare \<Rightarrow> nxt (request\<lparr>out_prepare := prepare\<rparr>) s
         | Err reject \<Rightarrow> (Err reject, s)
         | Panic \<Rightarrow> (Panic, s))
      else nxt request s)"

section \<open>Accuracy\<close>

definition moderate :: "nat \<Rightarrow> rat \<Rightarrow> bool" where
  "moderate k q \<longleftrightarrow> 1 / 2 ^ k \<le> q \<and> q \<le> 2 ^ k"

lemma moderate_mult:
  assumes "moderate j q" "moderate k r"
  shows "moderate (j + k) (q * r)"
proof -
  have pos: "0 \<le> q" "0 \<le> r"
    using assms order_trans [of 0 "1 / 2 ^ j" q] order_trans [of 0 "1 / 2 ^ k" r] by (simp_all add: moderate_def)
  have "(1 / 2 ^ j) * (1 / 2 ^ k) \<le> q * r"
    using assms pos unfolding moderate_def by (intro mult_mono) auto
  moreover have "q * r \<le> 2 ^ j * 2 ^ k" using assms pos unfolding moderate_def by (intro mult_mono) auto
  ultimately show ?thesis by (simp add: moderate_def power_add)
qed

lemma moderate_mono:
  assumes "moderate j q" "j \<le> k"
  shows "moderate k q"
proof -
  have "(2 :: rat) ^ j \<le> 2 ^ k" using assms(2) by (intro power_increasing) auto
  then have "1 / 2 ^ k \<le> 1 / (2 :: rat) ^ j" "(2 :: rat) ^ j \<le> 2 ^ k" by (simp_all add: frac_le)
  then show ?thesis using assms(1) unfolding moderate_def by linarith
qed

lemma moderate_pos: "moderate k q \<Longrightarrow> 0 < q"
  by (auto simp: moderate_def intro: less_le_trans [of 0 "1 / 2 ^ k"])

lemma moderate_u64:
  assumes "0 < n"
  shows "moderate 64 (of_nat (unat (n :: u64)))"
proof -
  have "1 \<le> unat n" using assms by (simp add: word_less_nat_alt)
  then have "(of_nat 1 :: rat) \<le> of_nat (unat n)" by (simp only: of_nat_le_iff)
  moreover have "(of_nat (unat n) :: rat) \<le> of_nat (2 ^ 64)"
    using unat_bound [of n] by (simp only: of_nat_le_iff) simp
  moreover have "1 / 2 ^ 64 \<le> (1 :: rat)" by simp
  ultimately show ?thesis unfolding moderate_def of_nat_1 of_nat_power of_nat_numeral by (meson order_trans)
qed

text \<open>\<open>approx k v y\<close>: \<open>v\<close> is a positive finite value, \<open>y\<close> up to the error of \<open>k\<close> roundings.\<close>

definition approx :: "nat \<Rightarrow> f64 \<Rightarrow> rat \<Rightarrow> bool" where
  "approx k v y \<longleftrightarrow> (\<exists>x. v = Fin False x \<and> 0 < x \<and> near k x y)"

lemma moderate_normal:
  assumes "moderate 1000 y" "y / 2 \<le> x"
  shows "2 powi (- 1022) \<le> x"
proof -
  have "(2 :: rat) powi (- 1022) \<le> 2 powi (- 1001)" by (rule power_int_increasing) simp_all
  also have "(2 :: rat) powi (- 1001) = 1 / 2 ^ 1000 / 2" by (simp add: power_int_minus_left)
  also have "\<dots> \<le> y / 2" using assms(1) unfolding moderate_def by (intro divide_right_mono) simp_all
  finally show ?thesis using assms(2) by (rule order_trans)
qed

lemma approx_round:
  assumes "near k x y" "k \<le> 6" "moderate 1000 y"
  shows "approx (Suc k) (f64_fin False x) y"
proof -
  have y: "0 < y" "y \<le> 2 ^ 1000" using moderate_pos [OF assms(3)] assms(3) unfolding moderate_def by blast+
  have k: "k \<le> 7" "Suc k \<le> 7" using assms(2) by simp_all
  have "y / 2 \<le> x" by (rule near_within_two(1) [OF assms(1) k(1) less_imp_le [OF y(1)]])
  from near_rnd [OF assms(1) moderate_normal [OF assms(3) this]] have n: "near (Suc k) (rnd x) y" .
  note two = near_within_two [OF n k(2) less_imp_le [OF y(1)]]
  have "0 < y / 2" using y(1) by simp
  then have pos: "0 < rnd x" using two(1) by (rule less_le_trans)
  have "2 * y \<le> 2 ^ 1001" using y(2) by simp
  also have "(2 :: rat) ^ 1001 < 2 ^ 1024" by (rule power_strict_increasing) simp_all
  finally have "rnd x < 2 ^ 1024" using two(2) by (meson le_less_trans)
  then have "f64_fin False x = Fin False (rnd x)" unfolding f64_fin_def Let_def by (simp only: if_True)
  with pos n show ?thesis unfolding approx_def by blast
qed

lemma approx_mul:
  assumes "approx j v y" "approx k w z" "l = Suc (j + k)" "l \<le> 7" "moderate 1000 (y * z)" "0 \<le> y" "0 \<le> z"
  shows "approx l (f64_mul v w) (y * z)"
proof -
  obtain x x' where x: "v = Fin False x" "near j x y" "w = Fin False x'" "near k x' z"
    using assms(1,2) unfolding approx_def by blast
  have "f64_mul v w = f64_fin False (x * x')" by (simp only: x f64_mul.simps) simp
  then show ?thesis using approx_round [OF near_mult [OF x(2,4) assms(6,7)] _ assms(5)] assms(3,4) by simp
qed

lemma approx_rounded: "moderate 1000 y \<Longrightarrow> approx 1 (f64_fin False y) y"
  using approx_round [OF near_refl] by simp

lemma u64_max_as_f64: "u64_as_f64 u64_max = Fin False (2 ^ 64)"
proof -
  have "floor_log2 (2 ^ 64 - 1) = 63" by (rule floor_log2_unique) simp_all
  moreover have "\<lfloor>18446744073709551615 / 2048 :: rat\<rfloor> = 9007199254740991" by (rule floor_unique) simp_all
  then have "round_even (18446744073709551615 / 2048) = 2 ^ 53" by (simp add: round_even_def Let_def)
  ultimately have "rnd (2 ^ 64 - 1) = 2 ^ 64" by (simp add: rnd_def Let_def)
  moreover have "(of_nat (unat u64_max) :: rat) = 2 ^ 64 - 1"
    by (simp add: u64_max_def unsigned_minus_1_eq_mask mask_eq_exp_minus_1)
  ultimately show ?thesis by (simp add: u64_as_f64_def)
qed

lemma u64_as_f64_approx:
  assumes "0 < n"
  shows "approx 1 (u64_as_f64 n) (of_nat (unat n))"
proof -
  have m: "moderate 1000 (of_nat (unat n))" by (rule moderate_mono [OF moderate_u64 [OF assms]]) simp
  from approx_rounded [OF m] obtain x where x: "f64_fin False (of_nat (unat n)) = Fin False x" unfolding approx_def by blast
  then have "u64_as_f64 n = f64_fin False (of_nat (unat n))"
    unfolding u64_as_f64_def f64_fin_def Let_def by (simp split: if_splits)
  then show ?thesis using approx_rounded [OF m] by simp
qed

lemma rate_approx:
  assumes "0 < b" "moderate 300 (a / b)" "moderate 300 (1 - f64_value t m)"
  shows "approx 3 (f64_mul (f64_div (Fin False a) (Fin False b)) (f64_sub f64_one (Fin t m))) (a / b * (1 - f64_value t m))"
proof -
  let ?p = "1 - f64_value t m"
  note pos = moderate_pos [OF assms(2)] moderate_pos [OF assms(3)]
  have d: "approx 1 (f64_div (Fin False a) (Fin False b)) (a / b)"
    using approx_rounded [OF moderate_mono [OF assms(2)]] assms(1) by simp
  have e: "approx 1 (f64_sub f64_one (Fin t m)) ?p"
    using approx_rounded [OF moderate_mono [OF assms(3)]] pos(2) by (simp add: Let_def f64_value_def)
  have mod: "moderate 1000 (a / b * ?p)" by (rule moderate_mono [OF moderate_mult [OF assms(2,3)]]) simp
  show ?thesis by (rule approx_mul [OF d e _ _ mod less_imp_le [OF pos(1)] less_imp_le [OF pos(2)]]) simp_all
qed

lemma scaled_approx:
  assumes rate: "approx 3 rate r" "moderate 600 r" and sc: "moderate 300 sc" and n: "0 < input"
  shows "approx 7 (f64_mul (f64_mul rate (f64_mul f64_one (Fin False sc))) (u64_as_f64 input)) (r * sc * of_nat (unat input))"
proof -
  note pos = moderate_pos [OF rate(2)] moderate_pos [OF sc] moderate_pos [OF moderate_u64 [OF n]]
  note m = moderate_mult [OF rate(2) sc]
  have mod: "moderate 1000 (r * sc)" "moderate 1000 (r * sc * of_nat (unat input))"
    by (rule moderate_mono [OF m], simp, rule moderate_mono [OF moderate_mult [OF m moderate_u64 [OF n]]], simp)
  have "approx 1 (f64_mul f64_one (Fin False sc)) sc"
    using approx_rounded [OF moderate_mono [OF sc]] by simp
  from approx_mul [OF rate(1) this _ _ mod(1) less_imp_le [OF pos(1)] less_imp_le [OF pos(2)], of 5]
  have "approx 5 (f64_mul rate (f64_mul f64_one (Fin False sc))) (r * sc)" by simp
  then show ?thesis
    by (rule approx_mul [OF _ u64_as_f64_approx [OF n] _ _ mod(2)
        less_imp_le [OF mult_pos_pos [OF pos(1,2)]] less_imp_le [OF pos(3)]]) simp_all
qed

lemma outgoing_amount_from_positive:
  assumes "0 < x"
  shows "outgoing_amount_from_f64 (Fin False x) =
    (if x < 1 then Err (LessThanOne (Fin False x))
     else if 2 ^ 64 < x then Err (ToU64ConvertOverflow (Fin False x))
     else Ok (f64_as_u64 (Fin False x)))"
proof -
  have "f64_eq (Fin False x) f64_zero = False" "f64_less (Fin False x) f64_one = (x < 1)"
    "f64_is_finite (Fin False x)" "f64_less (u64_as_f64 u64_max) (Fin False x) = (2 ^ 64 < x)"
    using assms by (simp_all add: u64_max_as_f64 f64_value_def)
  then show ?thesis unfolding outgoing_amount_from_f64_def by simp
qed

lemma normalize_scale_approx:
  assumes "powi10 (uint s2 - uint s1) = Fin False sc" "moderate 300 sc"
  shows "normalize_scale_f64 powi10 f64_one s1 s2 = Ok (f64_mul f64_one (Fin False sc))"
    and "approx 1 (f64_mul f64_one (Fin False sc)) sc"
proof -
  show one: "approx 1 (f64_mul f64_one (Fin False sc)) sc"
    using approx_rounded [OF moderate_mono [OF assms(2)]] by simp
  then obtain x where "f64_mul f64_one (Fin False sc) = Fin False x" unfolding approx_def by blast
  then show "normalize_scale_f64 powi10 f64_one s1 s2 = Ok (f64_mul f64_one (Fin False sc))"
    unfolding normalize_scale_f64_def Let_def assms(1) by simp
qed

lemma calculate_outgoing_amount_approx:
  assumes b: "0 < b" "moderate 300 (a / b)" and spread: "moderate 300 (1 - f64_value t m)"
    and sc: "powi10 (uint s2 - uint s1) = Fin False sc" "moderate 300 sc" and n: "0 < input"
  shows "\<exists>x. 0 < x \<and> near 7 x (a / b * (1 - f64_value t m) * sc * of_nat (unat input)) \<and>
    calculate_outgoing_amount powi10 input (Fin t m) (Fin False a, Fin False b) (s1, s2) =
      outgoing_amount_from_f64 (Fin False x)"
proof -
  let ?r = "a / b * (1 - f64_value t m)"
  let ?rate = "f64_mul (f64_div (Fin False a) (Fin False b)) (f64_sub f64_one (Fin t m))"
  have r: "approx 3 ?rate ?r" by (rule rate_approx [OF b spread])
  then obtain y where "?rate = Fin False y" unfolding approx_def by blast
  then have rate: "spread_rate (Fin t m) (Fin False a, Fin False b) = ?rate"
    unfolding spread_rate_def Let_def prod.case by simp
  have "moderate 600 ?r" by (rule moderate_mono [OF moderate_mult [OF b(2) spread]]) simp
  from scaled_approx [OF r this sc(2) n] obtain x where
    x: "f64_mul (f64_mul ?rate (f64_mul f64_one (Fin False sc))) (u64_as_f64 input) = Fin False x"
      "0 < x" "near 7 x (?r * sc * of_nat (unat input))" unfolding approx_def by blast
  have "calculate_outgoing_amount powi10 input (Fin t m) (Fin False a, Fin False b) (s1, s2) =
      outgoing_amount_from_f64 (Fin False x)"
    unfolding calculate_outgoing_amount_def Let_def prod.case rate normalize_scale_approx(1) [of powi10, OF sc]
      result.case x(1) ..
  with x show ?thesis by blast
qed

lemma f64_as_u64_truncates:
  assumes "0 \<le> x" "x \<le> 2 ^ 64"
  defines "n \<equiv> f64_as_u64 (Fin False x)"
  shows "of_nat (unat n) \<le> x \<and> x \<le> of_nat (unat n) + 1"
proof (cases "x < 2 ^ 64")
  case True
  have f: "0 \<le> \<lfloor>x\<rfloor>" using assms(1) by simp
  have "\<lfloor>x\<rfloor> < 2 ^ 64" using True by (simp add: floor_less_iff)
  then have "uint n = \<lfloor>x\<rfloor>" using True f by (simp add: n_def uint_word_of_int_eq take_bit_int_eq_self)
  then have "(of_nat (unat n) :: rat) = of_int \<lfloor>x\<rfloor>"
    using f by (metis of_int_of_nat_eq uint_nat)
  moreover have "of_int \<lfloor>x\<rfloor> \<le> x" "x \<le> of_int \<lfloor>x\<rfloor> + 1" by linarith+
  ultimately show ?thesis by simp
next
  case False
  then have "x = 2 ^ 64" using assms(2) by simp
  moreover have "(of_nat (unat u64_max) :: rat) = 2 ^ 64 - 1"
    by (simp add: u64_max_def unsigned_minus_1_eq_mask mask_eq_exp_minus_1)
  ultimately show ?thesis by (simp add: n_def)
qed

section \<open>Properties\<close>


definition example_powi10 :: "int \<Rightarrow> f64" where
  "example_powi10 n = f64_fin False (10 powi n)"

definition example_exchange :: OutgoingRequest where
  "example_exchange =
     \<lparr>out_from = (example_account 3 (bstr ''example.alice'') Peer)\<lparr>acc_asset_code := bstr ''USD''\<rparr>,
      out_to = (example_account 4 (bstr ''example.bob'') Peer)\<lparr>acc_asset_code := bstr ''EUR''\<rparr>,
      out_original_amount = 107,
      out_prepare = prepare_build example_format
        \<lparr>pb_amount = 107, pb_expires_at = 0, pb_execution_condition = replicate 32 0,
         pb_destination = Address (bstr ''example.bob''), pb_data = []\<rparr>\<rparr>"

lemma example_exchange_parses:
  "prepare_try_from strict_features example_parse_ms example_format (p_buffer (out_prepare example_exchange)) =
     Ok (out_prepare example_exchange)"
  "p_amount (out_prepare example_exchange) = 107"
proof -
  let ?pb = "\<lparr>pb_amount = 107, pb_expires_at = 0, pb_execution_condition = replicate 32 0,
    pb_destination = Address (bstr ''example.bob''), pb_data = []\<rparr> :: SystemTime PrepareBuilder"
  have "address_wf (Address (bstr ''example.bob''))" by code_simp
  moreover have "ts_ok example_parse_ms example_format 0" using example_ts_ok [of 0] by simp
  ultimately have "prepare_builder_wf example_parse_ms example_format ?pb"
    by (simp add: prepare_builder_wf_def len_defs)
  from prepare_build_parses [OF this, of strict_features]
  show "prepare_try_from strict_features example_parse_ms example_format (p_buffer (out_prepare example_exchange)) =
     Ok (out_prepare example_exchange)" by (simp add: example_exchange_def)
  show "p_amount (out_prepare example_exchange) = 107" by (simp add: example_exchange_def prepare_build_def Let_def)
qed

lemma example_exchange_rates:
  "request_rates (\<lambda>_. Some [Fin False 1, Fin False 2]) (Address (bstr ''example.node'')) example_exchange =
     Ok (Fin False 1, Fin False 2)"
  by (simp add: request_rates_def example_exchange_def bstr_def Let_def)

lemma near_half:
  assumes "near 7 x (107 / 2)" "of_nat k \<le> x" "x \<le> of_nat k + 1"
  shows "k = 53"
proof -
  have "53 < (107 / 2 :: rat) * (1 - 1 / 2 ^ 53) ^ 7" "(107 / 2 :: rat) * (1 + 1 / 2 ^ 53) ^ 7 < 54"
    by (simp_all add: power_divide)
  then have "53 < x" "x < 54" using assms(1) unfolding near_def by (meson less_le_trans le_less_trans)+
  then have "(of_nat 52 :: rat) < of_nat k" "(of_nat k :: rat) < of_nat 54" using assms(2,3) by simp_all
  then show ?thesis unfolding of_nat_less_iff by simp
qed


lemma outgoing_amount_from_nat:
  assumes "rnd (of_nat (unat k)) = of_nat (unat k)"
  shows "outgoing_amount_from_f64 (f64_mul f64_one (Fin False (of_nat (unat k)))) = Ok k"
proof -
  have u: "(of_nat (unat k) :: rat) < of_nat (2 ^ 64)" unfolding of_nat_less_iff using unat_bound [of k] by simp
  also have "(of_nat (2 ^ 64) :: rat) < 2 ^ 1024" by simp
  finally have "f64_mul f64_one (Fin False (of_nat (unat k))) = Fin False (of_nat (unat k))"
    unfolding f64_mul.simps f64_fin_def Let_def mult_1_left assms by simp
  moreover have "outgoing_amount_from_f64 (Fin False (of_nat (unat k))) = Ok k"
  proof (cases "k = 0")
    case True
    then show ?thesis by (simp add: outgoing_amount_from_f64_def f64_value_def)
  next
    case False
    then have "0 < unat k" by (simp add: unat_gt_0)
    then have pos: "(0 :: rat) < of_nat (unat k)" "\<not> (of_nat (unat k) :: rat) < 1" by (simp_all only: of_nat_0_less_iff of_nat_less_1_iff)
    have "\<lfloor>of_nat (unat k) :: rat\<rfloor> = uint k" by (simp only: floor_of_nat uint_nat)
    then have "f64_as_u64 (Fin False (of_nat (unat k))) = k"
      using u unfolding f64_as_u64.simps by (simp only: if_False if_True of_nat_power of_nat_numeral word_of_int_uint)
    then show ?thesis unfolding outgoing_amount_from_positive [OF pos(1)] using pos(2) u by (simp del: f64_as_u64.simps)
  qed
  ultimately show ?thesis by simp
qed

lemma rnd_beyond_53: "rnd 9007199254740995 = 9007199254740996" "rnd 9007199254740996 = 9007199254740996"
proof -
  have "floor_log2 9007199254740995 = 53" "floor_log2 9007199254740996 = 53"
    by (rule floor_log2_unique; simp)+
  moreover have "\<lfloor>9007199254740995 / 2 :: rat\<rfloor> = 4503599627370497" by (rule floor_unique) simp_all
  then have "round_even (9007199254740995 / 2) = 4503599627370498" by (simp add: round_even_def Let_def)
  moreover have "round_even (4503599627370498) = 4503599627370498" using round_even_int [of 4503599627370498] by simp
  ultimately show "rnd 9007199254740995 = 9007199254740996" "rnd 9007199254740996 = 9007199254740996"
    by (simp_all add: rnd_def Let_def)
qed



end
