(* ===== verification/Ildcp.thy ===== *)
theory Ildcp
  imports Service
begin

text \<open>
  The Interledger Dynamic Configuration Protocol, \<^verbatim>\<open>crates/interledger-ildcp/src\<close>: a child asks its parent for the
  address and the asset of its account with a \<^verbatim>\<open>Prepare\<close> to \<^verbatim>\<open>peer.config\<close>, and the service answers from the
  account in the data of a \<^verbatim>\<open>Fulfill\<close>.
\<close>

section \<open>Requests and responses\<close>

definition ILDCP_FULFILLMENT :: bytes where
  "ILDCP_FULFILLMENT = replicate 32 0"

definition ILDCP_CONDITION :: bytes where
  "ILDCP_CONDITION =
     [102, 104, 122, 173, 248, 98, 189, 119, 108, 143, 193, 139, 142, 159, 142, 32, 8, 151, 20, 133,
      110, 226, 51, 179, 144, 42, 89, 29, 13, 95, 41, 37]"

abbreviation ASSET_SCALE_LEN :: nat where "ASSET_SCALE_LEN \<equiv> 1"

abbreviation ILDCP_EXPIRY_DURATION :: nat where "ILDCP_EXPIRY_DURATION \<equiv> 60000"

definition ILDCP_DESTINATION :: Address where
  "ILDCP_DESTINATION = Address (bstr ''peer.config'')"

definition is_ildcp_request :: "SystemTime Prepare \<Rightarrow> (bool, Reject) result" where
  "is_ildcp_request prepare =
     and_then (execution_condition prepare) (\<lambda>condition.
       Ok (condition = ILDCP_CONDITION \<and> p_destination prepare = ILDCP_DESTINATION))"

definition ildcp_request_to_prepare :: "(SystemTime \<Rightarrow> bytes) \<Rightarrow> SystemTime \<Rightarrow> SystemTime Prepare" where
  "ildcp_request_to_prepare format_ts now =
     prepare_build format_ts
       \<lparr>pb_amount = 0, pb_expires_at = add_millis now ILDCP_EXPIRY_DURATION,
        pb_execution_condition = ILDCP_CONDITION, pb_destination = ILDCP_DESTINATION, pb_data = []\<rparr>"

record IldcpResponse =
  ir_buffer :: bytes
  ir_asset_scale :: u8
  ir_asset_code_offset :: nat
  ir_ilp_address :: Address

definition ildcp_response_to_fulfill :: "IldcpResponse \<Rightarrow> Fulfill" where
  "ildcp_response_to_fulfill response =
     fulfill_build \<lparr>fb_fulfillment = ILDCP_FULFILLMENT, fb_data = ir_buffer response\<rparr>"

definition ildcp_response_try_from :: "features \<Rightarrow> bytes \<Rightarrow> (IldcpResponse, ParseError) result" where
  "ildcp_response_try_from cfg buffer =
     (let buffer_len = length buffer in
      and_then (map_err OerErr (read_var_octet_string cfg buffer)) (\<lambda>(buf, reader).
      and_then (map_err InvalidAddress (address_try_from buf)) (\<lambda>ilp_address.
      if length reader < 1 then Err (OerErr UnexpectedEof)
      else and_then (get_u8 reader) (\<lambda>(asset_scale, reader).
      let asset_code_offset = buffer_len - length reader in
      and_then (map_err OerErr (skip_var_octet_string cfg reader)) (\<lambda>_.
      Ok \<lparr>ir_buffer = buffer, ir_asset_scale = asset_scale, ir_asset_code_offset = asset_code_offset,
          ir_ilp_address = ilp_address\<rparr>)))))"

definition ildcp_asset_code :: "features \<Rightarrow> IldcpResponse \<Rightarrow> (bytes, 'e) result" where
  "ildcp_asset_code cfg response = data_at cfg (ir_asset_code_offset response) (ir_buffer response)"

record IldcpResponseBuilder =
  irb_ilp_address :: Address
  irb_asset_scale :: u8
  irb_asset_code :: bytes

definition ildcp_response_build :: "IldcpResponseBuilder \<Rightarrow> IldcpResponse" where
  "ildcp_response_build b =
     (let address_size = predict_var_octet_string (address_len (irb_ilp_address b));
          buffer = put_var_octet_string_length (address_len (irb_ilp_address b)) @ addr_bytes (irb_ilp_address b) @
            [irb_asset_scale b] @ put_var_octet_string_length (length (irb_asset_code b)) @ irb_asset_code b
      in \<lparr>ir_buffer = buffer, ir_asset_scale = irb_asset_scale b,
          ir_asset_code_offset = address_size + ASSET_SCALE_LEN, ir_ilp_address = irb_ilp_address b\<rparr>)"

section \<open>The service and its client\<close>

definition ildcp_handle_request :: "'s incoming_service \<Rightarrow> 's incoming_service" where
  "ildcp_handle_request nxt request s =
     (case is_ildcp_request (in_prepare request) of
        Ok True \<Rightarrow>
          (let from_account = in_from request;
               response = ildcp_response_build
                 \<lparr>irb_ilp_address = acc_ilp_address from_account, irb_asset_scale = acc_asset_scale from_account,
                  irb_asset_code = acc_asset_code from_account\<rparr>
           in (Ok (ildcp_response_to_fulfill response), s))
      | Ok False \<Rightarrow> nxt request s
      | Err reject \<Rightarrow> (Err reject, s)
      | Panic \<Rightarrow> (Panic, s))"

text \<open>A reject, or a response that does not parse, is logged and becomes the unit error.\<close>

definition get_ildcp_info ::
  "features \<Rightarrow> (SystemTime \<Rightarrow> bytes) \<Rightarrow> SystemTime \<Rightarrow> 's incoming_service \<Rightarrow> Account \<Rightarrow> 's \<Rightarrow>
   (IldcpResponse, unit) result \<times> 's" where
  "get_ildcp_info cfg format_ts now service account s =
     (case service \<lparr>in_from = account, in_prepare = ildcp_request_to_prepare format_ts now\<rparr> s of
        (r, s') \<Rightarrow>
          (and_then (map_err (\<lambda>_. ()) r) (\<lambda>fulfill.
           and_then (fulfill_into_data cfg fulfill) (\<lambda>data.
           map_err (\<lambda>_. ()) (ildcp_response_try_from cfg data))), s'))"

section \<open>Round trip\<close>

lemma fulfill_build_data:
  assumes "length (fb_fulfillment fb) = FULFILLMENT_LEN" "length (fb_data fb) < 2 ^ 64"
  shows "fulfill_into_data cfg (fulfill_build fb) = Ok (fb_data fb)"
proof -
  let ?hdr = "[packet_type_u8 FulfillType] @
    put_var_octet_string_length (FULFILLMENT_LEN + predict_var_octet_string (length (fb_data fb)))"
  have buf: "f_buffer (fulfill_build fb) = (?hdr @ fb_fulfillment fb) @ put_var_octet_string (fb_data fb) @ []"
    and off: "f_content_offset (fulfill_build fb) + FULFILLMENT_LEN = length (?hdr @ fb_fulfillment fb)"
    using assms(1) by (simp_all add: fulfill_build_def Let_def)
  show ?thesis
    unfolding fulfill_into_data_def off
    by (rule data_at_read(2) [OF buf read_put_var_octet_string [OF assms(2), of cfg "[]", unfolded append_Nil2]])
qed

lemma ildcp_build_parses:
  assumes "address_wf (irb_ilp_address b)" "length (irb_asset_code b) < 2 ^ 62"
  shows "ildcp_response_try_from cfg (ir_buffer (ildcp_response_build b)) = Ok (ildcp_response_build b)"
    and "ildcp_asset_code cfg (ildcp_response_build b) = Ok (irb_asset_code b)"
    and "length (ir_buffer (ildcp_response_build b)) < 2 ^ 63"
proof -
  let ?addr = "addr_bytes (irb_ilp_address b)"
  have l: "length ?addr < 2 ^ 64" "length (irb_asset_code b) < 2 ^ 64" "length ?addr \<le> 1023"
    using wf_address_short [OF assms(1)] assms(2) by simp_all
  have buf: "ir_buffer (ildcp_response_build b) =
      put_var_octet_string ?addr @ irb_asset_scale b # put_var_octet_string (irb_asset_code b) @ []"
    by (simp add: ildcp_response_build_def put_var_octet_string_def address_len_def Let_def)
  have addr: "address_try_from ?addr = Ok (irb_ilp_address b)"
    using assms(1) by (cases "irb_ilp_address b") (simp add: address_try_from_Ok)
  have off: "ir_asset_code_offset (ildcp_response_build b) = length (put_var_octet_string ?addr) + 1"
    by (simp add: ildcp_response_build_def length_put_var_octet_string address_len_def Let_def)
  have fields: "ildcp_response_build b = \<lparr>ir_buffer = ir_buffer (ildcp_response_build b),
      ir_asset_scale = irb_asset_scale b, ir_asset_code_offset = length (put_var_octet_string ?addr) + 1,
      ir_ilp_address = irb_ilp_address b\<rparr>"
    using off by (simp add: ildcp_response_build_def Let_def)
  show "ildcp_response_try_from cfg (ir_buffer (ildcp_response_build b)) = Ok (ildcp_response_build b)"
    apply (subst (2) fields)
    using l addr unfolding buf
    by (simp add: ildcp_response_try_from_def read_put_var_octet_string get_u8_Cons skip_put_var_octet_string
        skip_put_var_octet_string [of _ _ "[]", simplified] Let_def)
  have "ir_buffer (ildcp_response_build b) =
      (put_var_octet_string ?addr @ [irb_asset_scale b]) @ put_var_octet_string (irb_asset_code b) @ []"
    using buf by simp
  from data_at_read(1) [OF this read_put_var_octet_string [OF l(2), of cfg "[]", unfolded append_Nil2]]
  show "ildcp_asset_code cfg (ildcp_response_build b) = Ok (irb_asset_code b)"
    by (simp add: ildcp_asset_code_def off)
  show "length (ir_buffer (ildcp_response_build b)) < 2 ^ 63"
    using l(3) assms(2) predict_le [of "length ?addr"] predict_le [of "length (irb_asset_code b)"]
    by (simp add: buf length_put_var_octet_string)
qed

lemma ildcp_request_recognised:
  assumes "ts_ok parse_ts format_ts (add_millis now ILDCP_EXPIRY_DURATION)"
  shows "is_ildcp_request (ildcp_request_to_prepare format_ts now) = Ok True"
proof -
  let ?pb = "\<lparr>pb_amount = 0, pb_expires_at = add_millis now ILDCP_EXPIRY_DURATION,
    pb_execution_condition = ILDCP_CONDITION, pb_destination = ILDCP_DESTINATION, pb_data = []\<rparr>"
  have "address_wf ILDCP_DESTINATION" by code_simp
  then have "prepare_builder_wf parse_ts format_ts ?pb"
    using assms by (simp add: prepare_builder_wf_def ILDCP_CONDITION_def len_defs)
  from prepare_build_accessors(1) [OF this]
  have "execution_condition (ildcp_request_to_prepare format_ts now) = (Ok ILDCP_CONDITION :: (_, Reject) result)"
    by (simp add: ildcp_request_to_prepare_def)
  moreover have "p_destination (ildcp_request_to_prepare format_ts now) = ILDCP_DESTINATION"
    by (simp add: ildcp_request_to_prepare_def prepare_build_def Let_def)
  ultimately show ?thesis by (simp add: is_ildcp_request_def)
qed

section \<open>Properties\<close>

text \<open>
  C22. Asking a parent for the configuration of an account gives the account's address, asset code and asset
  scale as the parent has them, whatever services lie behind the parent's ILDCP service, and none of them
  sees the request.
\<close>

theorem ildcp_info_end_to_end:
  assumes ts: "ts_ok parse_ts format_ts (add_millis now ILDCP_EXPIRY_DURATION)"
    and acc: "address_wf (acc_ilp_address account)" "length (acc_asset_code account) < 2 ^ 62"
  shows "\<exists>response. get_ildcp_info cfg format_ts now (ildcp_handle_request nxt) account s = (Ok response, s) \<and>
    ir_ilp_address response = acc_ilp_address account \<and> ir_asset_scale response = acc_asset_scale account \<and>
    ildcp_asset_code cfg response = (Ok (acc_asset_code account) :: (_, unit) result)"
proof -
  let ?b = "\<lparr>irb_ilp_address = acc_ilp_address account, irb_asset_scale = acc_asset_scale account,
    irb_asset_code = acc_asset_code account\<rparr>"
  have served: "ildcp_handle_request nxt \<lparr>in_from = account, in_prepare = ildcp_request_to_prepare format_ts now\<rparr> s =
      (Ok (ildcp_response_to_fulfill (ildcp_response_build ?b)), s)"
    by (simp add: ildcp_handle_request_def ildcp_request_recognised [OF ts])
  have parsed: "ildcp_response_try_from cfg (ir_buffer (ildcp_response_build ?b)) = Ok (ildcp_response_build ?b)"
    "ildcp_asset_code cfg (ildcp_response_build ?b) = (Ok (acc_asset_code account) :: (_, unit) result)"
    "length (ir_buffer (ildcp_response_build ?b)) < 2 ^ 63"
    using ildcp_build_parses(1,2) [of ?b cfg] ildcp_build_parses(3) [of ?b] acc by simp_all
  then have "fulfill_into_data cfg (ildcp_response_to_fulfill (ildcp_response_build ?b)) =
      (Ok (ir_buffer (ildcp_response_build ?b)) :: (_, unit) result)"
    by (simp add: ildcp_response_to_fulfill_def fulfill_build_data ILDCP_FULFILLMENT_def len_defs)
  then show ?thesis
    using parsed by (simp add: get_ildcp_info_def served) (simp add: ildcp_response_build_def Let_def)
qed

theorem ildcp_info_end_to_end_witness:
  "\<exists>response. get_ildcp_info strict_features example_format 0 (ildcp_handle_request (\<lambda>_ s. (Panic, s)))
      (example_account 3 (bstr ''example.alice'') Child) () = (Ok response, ()) \<and>
    ir_ilp_address response = Address (bstr ''example.alice'') \<and> ir_asset_scale response = 9"
proof -
  let ?a = "example_account 3 (bstr ''example.alice'') Child"
  have ts: "ts_ok example_parse_ms example_format (add_millis 0 ILDCP_EXPIRY_DURATION)"
    using example_ts_ok [of ILDCP_EXPIRY_DURATION] by (simp add: add_millis_def)
  have "address_wf (acc_ilp_address ?a)" "length (acc_asset_code ?a) < 2 ^ 62"
    by (simp_all add: example_account_def example_address_wf)
  from ildcp_info_end_to_end [OF ts this, of strict_features "\<lambda>_ s. (Panic, s)" "()"]
  show ?thesis by (auto simp: example_account_def)
qed

end
