(* ===== verification/Stream_Packet.thy ===== *)
theory Stream_Packet
  imports Ilp_Packet
begin

text \<open>
  STREAM packets, \<^verbatim>\<open>crates/interledger-stream/src/packet.rs\<close>, and the encryption around them,
  \<^verbatim>\<open>crypto.rs\<close>. A packet is a version, an ILP packet type, two integers and a counted sequence of
  typed frames; the parser walks the frames twice, once to drop trailing bytes and once to parse them.
  The cryptographic primitives of \<^verbatim>\<open>ring\<close> are parameters.
\<close>

section \<open>Frames\<close>

datatype StreamPacketError =
    FailedToDecrypt
  | UnsupportedVersion u8
  | NotEnoughValidFrames
  | TrailingInnerBytes
  | StreamOer OerError
  | IlpPacketTypeErr PacketTypeError
  | StreamAddress AddressError
  | Utf8Err
  | NonRoundtrippableSaturatingAmount

datatype FrameType =
    ConnectionCloseType | ConnectionNewAddressType | ConnectionMaxDataType | ConnectionDataBlockedType
  | ConnectionMaxStreamIdType | ConnectionStreamIdBlockedType | ConnectionAssetDetailsType
  | StreamCloseType | StreamMoneyType | StreamMaxMoneyType | StreamMoneyBlockedType
  | StreamDataType | StreamMaxDataType | StreamDataBlockedType | UnknownType

definition frame_type_from_u8 :: "u8 \<Rightarrow> FrameType" where
  "frame_type_from_u8 num =
     (if num = 0x01 then ConnectionCloseType else if num = 0x02 then ConnectionNewAddressType
      else if num = 0x03 then ConnectionMaxDataType else if num = 0x04 then ConnectionDataBlockedType
      else if num = 0x05 then ConnectionMaxStreamIdType
      else if num = 0x06 then ConnectionStreamIdBlockedType
      else if num = 0x07 then ConnectionAssetDetailsType else if num = 0x10 then StreamCloseType
      else if num = 0x11 then StreamMoneyType else if num = 0x12 then StreamMaxMoneyType
      else if num = 0x13 then StreamMoneyBlockedType else if num = 0x14 then StreamDataType
      else if num = 0x15 then StreamMaxDataType else if num = 0x16 then StreamDataBlockedType
      else UnknownType)"

datatype StreamErrorCode =
    NoError | InternalError | EndpointBusy | FlowControlError | StreamIdError | StreamStateError
  | FrameFormatError | ProtocolViolation | ApplicationError | UnknownCode u8

definition stream_error_code_from_u8 :: "u8 \<Rightarrow> StreamErrorCode" where
  "stream_error_code_from_u8 num =
     (if num = 0x01 then NoError else if num = 0x02 then InternalError
      else if num = 0x03 then EndpointBusy else if num = 0x04 then FlowControlError
      else if num = 0x05 then StreamIdError else if num = 0x06 then StreamStateError
      else if num = 0x07 then FrameFormatError else if num = 0x08 then ProtocolViolation
      else if num = 0x09 then ApplicationError else UnknownCode num)"

primrec stream_error_code_u8 :: "StreamErrorCode \<Rightarrow> u8" where
  "stream_error_code_u8 NoError = 0x01"
| "stream_error_code_u8 InternalError = 0x02"
| "stream_error_code_u8 EndpointBusy = 0x03"
| "stream_error_code_u8 FlowControlError = 0x04"
| "stream_error_code_u8 StreamIdError = 0x05"
| "stream_error_code_u8 StreamStateError = 0x06"
| "stream_error_code_u8 FrameFormatError = 0x07"
| "stream_error_code_u8 ProtocolViolation = 0x08"
| "stream_error_code_u8 ApplicationError = 0x09"
| "stream_error_code_u8 (UnknownCode num) = num"

text \<open>A frame carries the fields of its struct, in the order of the wire.\<close>

datatype Frame =
    ConnectionClose StreamErrorCode bytes
  | ConnectionNewAddress Address
  | ConnectionAssetDetails bytes u8
  | ConnectionMaxData u64
  | ConnectionDataBlocked u64
  | ConnectionMaxStreamId u64
  | ConnectionStreamIdBlocked u64
  | StreamClose u64 StreamErrorCode bytes
  | StreamMoney u64 u64
  | StreamMaxMoney u64 u64 u64
  | StreamMoneyBlocked u64 u64 u64
  | StreamData u64 u64 bytes
  | StreamMaxData u64 u64
  | StreamDataBlocked u64 u64
  | UnknownFrame u8 bytes

primrec frame_type_byte :: "Frame \<Rightarrow> u8" where
  "frame_type_byte (ConnectionClose _ _) = 0x01"
| "frame_type_byte (ConnectionNewAddress _) = 0x02"
| "frame_type_byte (ConnectionAssetDetails _ _) = 0x07"
| "frame_type_byte (ConnectionMaxData _) = 0x03"
| "frame_type_byte (ConnectionDataBlocked _) = 0x04"
| "frame_type_byte (ConnectionMaxStreamId _) = 0x05"
| "frame_type_byte (ConnectionStreamIdBlocked _) = 0x06"
| "frame_type_byte (StreamClose _ _ _) = 0x10"
| "frame_type_byte (StreamMoney _ _) = 0x11"
| "frame_type_byte (StreamMaxMoney _ _ _) = 0x12"
| "frame_type_byte (StreamMoneyBlocked _ _ _) = 0x13"
| "frame_type_byte (StreamData _ _ _) = 0x14"
| "frame_type_byte (StreamMaxData _ _) = 0x15"
| "frame_type_byte (StreamDataBlocked _ _) = 0x16"
| "frame_type_byte (UnknownFrame frame_type _) = frame_type"

primrec put_contents :: "Frame \<Rightarrow> bytes" where
  "put_contents (ConnectionClose code message) =
     [stream_error_code_u8 code] @ put_var_octet_string message"
| "put_contents (ConnectionNewAddress source_account) = put_var_octet_string (addr_bytes source_account)"
| "put_contents (ConnectionAssetDetails source_asset_code source_asset_scale) =
     put_var_octet_string source_asset_code @ [source_asset_scale]"
| "put_contents (ConnectionMaxData max_offset) = put_var_uint max_offset"
| "put_contents (ConnectionDataBlocked max_offset) = put_var_uint max_offset"
| "put_contents (ConnectionMaxStreamId max_stream_id) = put_var_uint max_stream_id"
| "put_contents (ConnectionStreamIdBlocked max_stream_id) = put_var_uint max_stream_id"
| "put_contents (StreamClose stream_id code message) =
     put_var_uint stream_id @ [stream_error_code_u8 code] @ put_var_octet_string message"
| "put_contents (StreamMoney stream_id shares) = put_var_uint stream_id @ put_var_uint shares"
| "put_contents (StreamMaxMoney stream_id receive_max total_received) =
     put_var_uint stream_id @ put_var_uint receive_max @ put_var_uint total_received"
| "put_contents (StreamMoneyBlocked stream_id send_max total_sent) =
     put_var_uint stream_id @ put_var_uint send_max @ put_var_uint total_sent"
| "put_contents (StreamData stream_id offset payload) =
     put_var_uint stream_id @ put_var_uint offset @ put_var_octet_string payload"
| "put_contents (StreamMaxData stream_id max_offset) = put_var_uint stream_id @ put_var_uint max_offset"
| "put_contents (StreamDataBlocked stream_id max_offset) =
     put_var_uint stream_id @ put_var_uint max_offset"
| "put_contents (UnknownFrame _ content) = content"

section \<open>Reading frames\<close>

definition stream_no_inner_trailing_bytes :: "features \<Rightarrow> bytes \<Rightarrow> (unit, StreamPacketError) result" where
  "stream_no_inner_trailing_bytes cfg reader =
     ensure (\<not> strict cfg \<or> reader = []) TrailingInnerBytes"

definition stream_var_uint :: "features \<Rightarrow> bytes \<Rightarrow> (u64 \<times> bytes, StreamPacketError) result" where
  "stream_var_uint cfg reader = map_err StreamOer (read_var_uint cfg reader)"

definition stream_var_octets :: "features \<Rightarrow> bytes \<Rightarrow> (bytes \<times> bytes, StreamPacketError) result" where
  "stream_var_octets cfg reader = map_err StreamOer (read_var_octet_string cfg reader)"

definition stream_utf8 :: "bytes \<Rightarrow> (bytes, StreamPacketError) result" where
  "stream_utf8 bs = (if utf8_valid bs then Ok bs else Err Utf8Err)"

definition stream_remaining :: "nat \<Rightarrow> bytes \<Rightarrow> (unit, StreamPacketError) result" where
  "stream_remaining n reader = ensure (\<not> length reader < n) (StreamOer UnexpectedEof)"

definition saturating_read_var_uint :: "features \<Rightarrow> bytes \<Rightarrow> (u64 \<times> bytes, StreamPacketError) result" where
  "saturating_read_var_uint cfg reader =
     and_then (map_err StreamOer (peek_var_octet_string cfg reader)) (\<lambda>peeked.
       if length peeked > 8 then
         and_then (map_err StreamOer (skip_var_octet_string cfg reader)) (\<lambda>(_, rest).
           if roundtrip_only cfg then Err NonRoundtrippableSaturatingAmount else Ok (u64_max, rest))
       else stream_var_uint cfg reader)"

definition read_one_uint :: "features \<Rightarrow> (u64 \<Rightarrow> Frame) \<Rightarrow> bytes \<Rightarrow> (Frame, StreamPacketError) result" where
  "read_one_uint cfg mk reader =
     and_then (stream_var_uint cfg reader) (\<lambda>(x, reader).
     and_then (stream_no_inner_trailing_bytes cfg reader) (\<lambda>_. Ok (mk x)))"

definition read_two_uints ::
  "features \<Rightarrow> (u64 \<Rightarrow> u64 \<Rightarrow> Frame) \<Rightarrow> bytes \<Rightarrow> (Frame, StreamPacketError) result" where
  "read_two_uints cfg mk reader =
     and_then (stream_var_uint cfg reader) (\<lambda>(x, reader).
     and_then (stream_var_uint cfg reader) (\<lambda>(y, reader).
     and_then (stream_no_inner_trailing_bytes cfg reader) (\<lambda>_. Ok (mk x y))))"

definition read_money_limit ::
  "features \<Rightarrow> (u64 \<Rightarrow> u64 \<Rightarrow> u64 \<Rightarrow> Frame) \<Rightarrow> bytes \<Rightarrow> (Frame, StreamPacketError) result" where
  "read_money_limit cfg mk reader =
     and_then (stream_var_uint cfg reader) (\<lambda>(stream_id, reader).
     and_then (saturating_read_var_uint cfg reader) (\<lambda>(limit, reader).
     and_then (stream_var_uint cfg reader) (\<lambda>(so_far, reader).
     and_then (stream_no_inner_trailing_bytes cfg reader) (\<lambda>_. Ok (mk stream_id limit so_far)))))"

definition read_connection_close :: "features \<Rightarrow> bytes \<Rightarrow> (Frame, StreamPacketError) result" where
  "read_connection_close cfg reader =
     and_then (stream_remaining (1 + EMPTY_VARLEN_OCTETS_LEN) reader) (\<lambda>_.
     and_then (get_u8 reader) (\<lambda>(code, reader).
     and_then (stream_var_octets cfg reader) (\<lambda>(message_bytes, reader).
     and_then (stream_no_inner_trailing_bytes cfg reader) (\<lambda>_.
     and_then (stream_utf8 message_bytes) (\<lambda>message.
       Ok (ConnectionClose (stream_error_code_from_u8 code) message))))))"

definition read_connection_new_address :: "features \<Rightarrow> bytes \<Rightarrow> (Frame, StreamPacketError) result" where
  "read_connection_new_address cfg reader =
     and_then (stream_var_octets cfg reader) (\<lambda>(source_account, reader).
     and_then (stream_no_inner_trailing_bytes cfg reader) (\<lambda>_.
     and_then (map_err StreamAddress (address_try_from source_account)) (\<lambda>source_account.
       Ok (ConnectionNewAddress source_account))))"

definition read_connection_asset_details :: "features \<Rightarrow> bytes \<Rightarrow> (Frame, StreamPacketError) result" where
  "read_connection_asset_details cfg reader =
     and_then (stream_var_octets cfg reader) (\<lambda>(code_bytes, reader).
     and_then (stream_utf8 code_bytes) (\<lambda>source_asset_code.
     and_then (stream_remaining 1 reader) (\<lambda>_.
     and_then (get_u8 reader) (\<lambda>(source_asset_scale, reader).
     and_then (stream_no_inner_trailing_bytes cfg reader) (\<lambda>_.
       Ok (ConnectionAssetDetails source_asset_code source_asset_scale))))))"

definition read_stream_close :: "features \<Rightarrow> bytes \<Rightarrow> (Frame, StreamPacketError) result" where
  "read_stream_close cfg reader =
     and_then (stream_var_uint cfg reader) (\<lambda>(stream_id, reader).
     and_then (stream_remaining 1 reader) (\<lambda>_.
     and_then (get_u8 reader) (\<lambda>(code, reader).
     and_then (stream_var_octets cfg reader) (\<lambda>(message_bytes, reader).
     and_then (stream_no_inner_trailing_bytes cfg reader) (\<lambda>_.
     and_then (stream_utf8 message_bytes) (\<lambda>message.
       Ok (StreamClose stream_id (stream_error_code_from_u8 code) message)))))))"

definition read_stream_data :: "features \<Rightarrow> bytes \<Rightarrow> (Frame, StreamPacketError) result" where
  "read_stream_data cfg reader =
     and_then (stream_var_uint cfg reader) (\<lambda>(stream_id, reader).
     and_then (stream_var_uint cfg reader) (\<lambda>(offset, reader).
     and_then (stream_var_octets cfg reader) (\<lambda>(payload, reader).
     and_then (stream_no_inner_trailing_bytes cfg reader) (\<lambda>_. Ok (StreamData stream_id offset payload)))))"

definition read_contents :: "features \<Rightarrow> u8 \<Rightarrow> bytes \<Rightarrow> (Frame, StreamPacketError) result" where
  "read_contents cfg frame_type contents =
     (case frame_type_from_u8 frame_type of
        ConnectionCloseType \<Rightarrow> read_connection_close cfg contents
      | ConnectionNewAddressType \<Rightarrow> read_connection_new_address cfg contents
      | ConnectionAssetDetailsType \<Rightarrow> read_connection_asset_details cfg contents
      | ConnectionMaxDataType \<Rightarrow> read_one_uint cfg ConnectionMaxData contents
      | ConnectionDataBlockedType \<Rightarrow> read_one_uint cfg ConnectionDataBlocked contents
      | ConnectionMaxStreamIdType \<Rightarrow> read_one_uint cfg ConnectionMaxStreamId contents
      | ConnectionStreamIdBlockedType \<Rightarrow> read_one_uint cfg ConnectionStreamIdBlocked contents
      | StreamCloseType \<Rightarrow> read_stream_close cfg contents
      | StreamMoneyType \<Rightarrow> read_two_uints cfg StreamMoney contents
      | StreamMaxMoneyType \<Rightarrow> read_money_limit cfg StreamMaxMoney contents
      | StreamMoneyBlockedType \<Rightarrow> read_money_limit cfg StreamMoneyBlocked contents
      | StreamDataType \<Rightarrow> read_stream_data cfg contents
      | StreamMaxDataType \<Rightarrow> read_two_uints cfg StreamMaxData contents
      | StreamDataBlockedType \<Rightarrow> read_two_uints cfg StreamDataBlocked contents
      | UnknownType \<Rightarrow> Ok (UnknownFrame frame_type contents))"

section \<open>Packets\<close>

text \<open>
  \<^verbatim>\<open>FrameIterator::next\<close> gives the next frame and the rest of the buffer, or nothing at the end of
  the buffer and at the first frame that does not parse.
\<close>

definition try_read_next_frame :: "features \<Rightarrow> bytes \<Rightarrow> (Frame \<times> bytes, StreamPacketError) result" where
  "try_read_next_frame cfg buffer =
     and_then (get_u8 buffer) (\<lambda>(frame_type, buffer).
     and_then (stream_var_octets cfg buffer) (\<lambda>(contents, buffer).
     and_then (read_contents cfg frame_type contents) (\<lambda>frame. Ok (frame, buffer))))"

definition frame_next :: "features \<Rightarrow> bytes \<Rightarrow> ((Frame \<times> bytes) option, StreamPacketError) result" where
  "frame_next cfg buffer =
     (if buffer \<noteq> [] then
        (case try_read_next_frame cfg buffer of
           Ok next_frame \<Rightarrow> Ok (Some next_frame) | Err _ \<Rightarrow> Ok None | Panic \<Rightarrow> Panic)
      else Ok None)"

lemma try_read_next_frame_shrinks:
  "try_read_next_frame cfg buffer = Ok (frame, rest) \<Longrightarrow> length rest + 2 \<le> length buffer"
  by (auto simp: try_read_next_frame_def ok_simps get_u8_eq_Ok stream_var_octets_def
      dest!: read_var_octet_string_shrinks)

lemma frame_next_shrinks: "frame_next cfg buffer = Ok (Some (frame, rest)) \<Longrightarrow> length rest < length buffer"
  by (auto simp: frame_next_def split: if_splits result.splits dest!: try_read_next_frame_shrinks)

text \<open>What a loop over the iterator sees.\<close>

function frame_list :: "features \<Rightarrow> bytes \<Rightarrow> (Frame list, StreamPacketError) result" where
  "frame_list cfg buffer =
     (case frame_next cfg buffer of
        Ok (Some (frame, rest)) \<Rightarrow> map_ok ((#) frame) (frame_list cfg rest)
      | Ok None \<Rightarrow> Ok []
      | Err e \<Rightarrow> Err e
      | Panic \<Rightarrow> Panic)"
  by pat_completeness auto

termination
  by (relation "measure (\<lambda>(cfg, buffer). length buffer)") (auto dest: frame_next_shrinks)

declare frame_list.simps [simp del]

record StreamPacketBuilder =
  b_sequence :: u64
  b_ilp_packet_type :: PacketType
  b_prepare_amount :: u64
  b_frames :: "Frame list"

record StreamPacket =
  sp_buffer_unencrypted :: bytes
  sp_sequence :: u64
  sp_ilp_packet_type :: PacketType
  sp_prepare_amount :: u64
  sp_frames_offset :: nat

definition STREAM_VERSION :: u8 where "STREAM_VERSION = 1"

definition put_frame :: "Frame \<Rightarrow> bytes" where
  "put_frame frame = [frame_type_byte frame] @ put_var_octet_string (put_contents frame)"

definition stream_packet_build :: "StreamPacketBuilder \<Rightarrow> StreamPacket" where
  "stream_packet_build b =
     (let header = [STREAM_VERSION] @ [packet_type_u8 (b_ilp_packet_type b)] @ put_var_uint (b_sequence b) @
            put_var_uint (b_prepare_amount b) @ put_var_uint (of_nat (length (b_frames b)));
          frames_offset = length header
      in \<lparr>sp_buffer_unencrypted = header @ concat (map put_frame (b_frames b)),
          sp_sequence = b_sequence b, sp_ilp_packet_type = b_ilp_packet_type b,
          sp_prepare_amount = b_prepare_amount b, sp_frames_offset = frames_offset\<rparr>)"

primrec skip_frames :: "features \<Rightarrow> nat \<Rightarrow> bytes \<Rightarrow> (bytes, StreamPacketError) result" where
  "skip_frames cfg 0 reader = Ok reader"
| "skip_frames cfg (Suc n) reader =
     and_then (map_err StreamOer (skip 1 reader)) (\<lambda>(_, reader).
     and_then (map_err StreamOer (skip_var_octet_string cfg reader)) (\<lambda>(_, reader).
       skip_frames cfg n reader))"

definition STREAM_MIN_LEN :: nat where
  "STREAM_MIN_LEN = 1 + PACKET_TYPE_LEN + MIN_VARUINT_LEN + MIN_VARUINT_LEN + MIN_VARUINT_LEN"

definition from_bytes_unencrypted :: "features \<Rightarrow> bytes \<Rightarrow> (StreamPacket, StreamPacketError) result" where
  "from_bytes_unencrypted cfg buffer =
     and_then (stream_remaining STREAM_MIN_LEN buffer) (\<lambda>_.
     and_then (get_u8 buffer) (\<lambda>(version, reader).
     and_then (ensure (version = STREAM_VERSION) (UnsupportedVersion version)) (\<lambda>_.
     and_then (get_u8 reader) (\<lambda>(ty, reader).
     and_then (map_err IlpPacketTypeErr (packet_type_from_u8 ty)) (\<lambda>ilp_packet_type.
     and_then (stream_var_uint cfg reader) (\<lambda>(sequence, reader).
     and_then (stream_var_uint cfg reader) (\<lambda>(prepare_amount, reader).
     and_then (stream_var_uint cfg reader) (\<lambda>(num_frames, reader).
       let frames_offset = length buffer - length reader in
       and_then (skip_frames cfg (unat num_frames) (drop frames_offset buffer)) (\<lambda>reader.
         let junk_data_len = length reader;
             buffer = (if junk_data_len > 0 then take (length buffer - junk_data_len) buffer else buffer)
         in and_then (frame_list cfg (drop frames_offset buffer)) (\<lambda>frames.
              if num_frames = of_nat (length frames) then
                Ok \<lparr>sp_buffer_unencrypted = buffer, sp_sequence = sequence,
                    sp_ilp_packet_type = ilp_packet_type, sp_prepare_amount = prepare_amount,
                    sp_frames_offset = frames_offset\<rparr>
              else Err NotEnoughValidFrames))))))))))"

definition stream_frames :: "features \<Rightarrow> StreamPacket \<Rightarrow> (Frame list, StreamPacketError) result" where
  "stream_frames cfg p = frame_list cfg (drop (sp_frames_offset p) (sp_buffer_unencrypted p))"

section \<open>Encryption\<close>

text \<open>
  \<^verbatim>\<open>seal\<close> and \<^verbatim>\<open>open_box\<close> are AES-256-GCM with a key, a nonce and no additional data: \<^verbatim>\<open>seal\<close> appends
  the tag to the ciphertext, \<^verbatim>\<open>open_box\<close> takes both and fails on a forgery.
\<close>

definition NONCE_LENGTH :: nat where "NONCE_LENGTH = 12"
definition AUTH_TAG_LENGTH :: nat where "AUTH_TAG_LENGTH = 16"

definition ENCRYPTION_KEY_STRING :: bytes where
  "ENCRYPTION_KEY_STRING = bstr ''ilp_stream_encryption''"

definition FULFILLMENT_GENERATION_STRING :: bytes where
  "FULFILLMENT_GENERATION_STRING = bstr ''ilp_stream_fulfillment''"

definition generate_fulfillment :: "(bytes \<Rightarrow> bytes \<Rightarrow> bytes) \<Rightarrow> bytes \<Rightarrow> bytes \<Rightarrow> bytes" where
  "generate_fulfillment hmac_sha256 shared_secret payload =
     (let key = hmac_sha256 shared_secret FULFILLMENT_GENERATION_STRING in hmac_sha256 key payload)"

definition generate_condition ::
  "(bytes \<Rightarrow> bytes) \<Rightarrow> (bytes \<Rightarrow> bytes \<Rightarrow> bytes) \<Rightarrow> bytes \<Rightarrow> bytes \<Rightarrow> bytes" where
  "generate_condition hash_sha256 hmac_sha256 shared_secret payload =
     hash_sha256 (generate_fulfillment hmac_sha256 shared_secret payload)"

definition encrypt_with_nonce ::
  "(bytes \<Rightarrow> bytes \<Rightarrow> bytes) \<Rightarrow> (bytes \<Rightarrow> bytes \<Rightarrow> bytes \<Rightarrow> bytes) \<Rightarrow> bytes \<Rightarrow> bytes \<Rightarrow> bytes \<Rightarrow>
   (bytes, 'e) result" where
  "encrypt_with_nonce hmac_sha256 seal shared_secret plaintext nonce =
     (let key = hmac_sha256 shared_secret ENCRYPTION_KEY_STRING;
          sealed = seal key nonce plaintext
      in if length sealed < AUTH_TAG_LENGTH then Panic
         else let auth_tag_position = length sealed - AUTH_TAG_LENGTH
              in Ok (nonce @ drop auth_tag_position sealed @ take auth_tag_position sealed))"

definition stream_decrypt ::
  "(bytes \<Rightarrow> bytes \<Rightarrow> bytes) \<Rightarrow> (bytes \<Rightarrow> bytes \<Rightarrow> bytes \<Rightarrow> bytes option) \<Rightarrow> bytes \<Rightarrow> bytes \<Rightarrow>
   (bytes, unit) result" where
  "stream_decrypt hmac_sha256 open_box shared_secret ciphertext =
     (if length ciphertext < NONCE_LENGTH + AUTH_TAG_LENGTH then Err ()
      else let key = hmac_sha256 shared_secret ENCRYPTION_KEY_STRING;
               nonce = take NONCE_LENGTH ciphertext;
               ciphertext = drop NONCE_LENGTH ciphertext;
               auth_tag = take AUTH_TAG_LENGTH ciphertext;
               ciphertext = drop AUTH_TAG_LENGTH ciphertext
           in case open_box key nonce (ciphertext @ auth_tag) of
                Some plaintext \<Rightarrow> Ok plaintext | None \<Rightarrow> Err ())"

definition into_encrypted ::
  "(bytes \<Rightarrow> bytes \<Rightarrow> bytes) \<Rightarrow> (bytes \<Rightarrow> bytes \<Rightarrow> bytes \<Rightarrow> bytes) \<Rightarrow> bytes \<Rightarrow> StreamPacket \<Rightarrow> bytes \<Rightarrow>
   (bytes, 'e) result" where
  "into_encrypted hmac_sha256 seal shared_secret p nonce =
     encrypt_with_nonce hmac_sha256 seal shared_secret (sp_buffer_unencrypted p) nonce"

definition from_encrypted ::
  "features \<Rightarrow> (bytes \<Rightarrow> bytes \<Rightarrow> bytes) \<Rightarrow> (bytes \<Rightarrow> bytes \<Rightarrow> bytes \<Rightarrow> bytes option) \<Rightarrow> bytes \<Rightarrow> bytes \<Rightarrow>
   (StreamPacket, StreamPacketError) result" where
  "from_encrypted cfg hmac_sha256 open_box shared_secret ciphertext =
     and_then (map_err (\<lambda>_. FailedToDecrypt) (stream_decrypt hmac_sha256 open_box shared_secret ciphertext))
       (from_bytes_unencrypted cfg)"

section \<open>Frames read back\<close>

definition code_wf :: "StreamErrorCode \<Rightarrow> bool" where
  "code_wf code \<longleftrightarrow> stream_error_code_from_u8 (stream_error_code_u8 code) = code"

fun frame_fields_wf :: "Frame \<Rightarrow> bool" where
  "frame_fields_wf (ConnectionClose code message) \<longleftrightarrow> code_wf code \<and> utf8_valid message"
| "frame_fields_wf (ConnectionNewAddress source_account) \<longleftrightarrow> address_wf source_account"
| "frame_fields_wf (ConnectionAssetDetails code scale) \<longleftrightarrow> utf8_valid code"
| "frame_fields_wf (StreamClose _ code message) \<longleftrightarrow> code_wf code \<and> utf8_valid message"
| "frame_fields_wf (UnknownFrame frame_type _) \<longleftrightarrow> frame_type_from_u8 frame_type = UnknownType"
| "frame_fields_wf _ \<longleftrightarrow> True"

definition frame_wf :: "Frame \<Rightarrow> bool" where
  "frame_wf f \<longleftrightarrow> frame_fields_wf f \<and> length (put_contents f) < 2 ^ 64"

lemmas stream_defs = stream_var_uint_def stream_var_octets_def stream_utf8_def stream_remaining_def
  stream_no_inner_trailing_bytes_def

lemmas reader_defs = read_one_uint_def read_two_uints_def read_money_limit_def read_connection_close_def
  read_connection_new_address_def read_connection_asset_details_def read_stream_close_def read_stream_data_def

lemma length_put_var_octet_string_le: "length buf \<le> length (put_var_octet_string buf)"
  by (simp add: put_var_octet_string_def)

lemma put_var_uint_eq:
  "put_var_uint v = put_var_octet_string (be_encode (predict_var_uint_size v) (unat v))"
  by (simp add: put_var_uint_def put_var_octet_string_def Let_def)

lemma stream_var_uint_put [codec_simps]: "stream_var_uint cfg (put_var_uint v @ rest) = Ok (v, rest)"
  by (simp add: stream_var_uint_def read_put_var_uint)

lemma stream_var_octets_put [codec_simps]:
  "length buf < 2 ^ 64 \<Longrightarrow> stream_var_octets cfg (put_var_octet_string buf @ rest) = Ok (buf, rest)"
  by (simp add: stream_var_octets_def read_put_var_octet_string)

lemma saturating_read_put [codec_simps]:
  "saturating_read_var_uint cfg (put_var_uint v @ rest) = Ok (v, rest)"
proof -
  have "predict_var_uint_size v \<le> 8" by (rule predict_var_uint_size_le_8)
  then have "peek_var_octet_string cfg (put_var_uint v @ rest) =
      Ok (be_encode (predict_var_uint_size v) (unat v))"
    by (simp add: put_var_uint_eq peek_put_var_octet_string)
  then show ?thesis
    using \<open>predict_var_uint_size v \<le> 8\<close> by (simp add: saturating_read_var_uint_def stream_var_uint_put)
qed

lemmas codec_last = stream_var_uint_put [where rest = "[]", simplified]
  stream_var_octets_put [where rest = "[]", simplified] saturating_read_put [where rest = "[]", simplified]

lemma read_put_contents:
  assumes "frame_wf f"
  shows "read_contents cfg (frame_type_byte f) (put_contents f) = Ok f"
proof -
  have len: "stream_var_octets cfg (put_var_octet_string buf @ rest) = Ok (buf, rest)"
    if "length (put_var_octet_string buf) < 18446744073709551616" for buf rest
    using that length_put_var_octet_string_le [of buf] by (intro stream_var_octets_put) simp
  have ne: "put_var_octet_string buf \<noteq> []" for buf
    using length_put_var_octet_string_length [of "length buf"]
    by (cases "put_var_octet_string_length (length buf)") (auto simp: put_var_octet_string_def split: if_splits)
  show ?thesis
    using assms
    by (cases f) (simp_all add: frame_wf_def code_wf_def read_contents_def frame_type_from_u8_def reader_defs
        stream_var_uint_put saturating_read_put codec_last(1) len len [where rest = "[]", simplified] ne
        get_u8_Cons address_try_from_bytes stream_no_inner_trailing_bytes_def stream_utf8_def
        stream_remaining_def EMPTY_VARLEN_OCTETS_LEN_def predict_var_octet_string_def not_less Suc_le_eq)
qed

lemma try_read_put_frame:
  "frame_wf f \<Longrightarrow> try_read_next_frame cfg (put_frame f @ rest) = Ok (f, rest)"
  by (simp add: try_read_next_frame_def put_frame_def get_u8_Cons stream_var_octets_put read_put_contents
      frame_wf_def)

interpretation frame: wire_codec put_frame "try_read_next_frame cfg" frame_wf for cfg
  by unfold_locales (rule try_read_put_frame)

lemma skip_put_frames:
  "list_all frame_wf fs \<Longrightarrow> skip_frames cfg (length fs) (concat (map put_frame fs) @ junk) = Ok junk"
proof (induction fs)
  case (Cons f fs)
  then show ?case
    using skip_put_var_octet_string [of "put_contents f" cfg "concat (map put_frame fs) @ junk"]
    by (simp add: put_frame_def [of f] skip_def frame_wf_def [of f])
qed simp

lemma frame_list_Nil: "frame_list cfg [] = Ok []"
  by (subst frame_list.simps) (simp add: frame_next_def)

lemma frame_list_put:
  assumes "list_all frame_wf fs"
  shows "frame_list cfg (concat (map put_frame fs)) = Ok fs"
  using assms
proof (induction fs)
  case (Cons f fs)
  then have "frame_next cfg (put_frame f @ concat (map put_frame fs)) =
      Ok (Some (f, concat (map put_frame fs)))"
    using frame.get_put [of f cfg "concat (map put_frame fs)"] by (simp add: frame_next_def put_frame_def)
  then show ?case
    using Cons by (subst frame_list.simps) simp
qed (simp add: frame_list_Nil)

definition builder_wf :: "StreamPacketBuilder \<Rightarrow> bool" where
  "builder_wf b \<longleftrightarrow> list_all frame_wf (b_frames b) \<and> length (b_frames b) < 2 ^ 64"

lemma packet_type_from_to_u8: "packet_type_from_u8 (packet_type_u8 t) = Ok t"
  by (cases t) (simp_all add: packet_type_from_u8_def)

lemma from_bytes_build:
  assumes "builder_wf b"
  shows "from_bytes_unencrypted cfg (sp_buffer_unencrypted (stream_packet_build b) @ junk) =
    Ok (stream_packet_build b)"
proof -
  let ?fs = "b_frames b" and ?body = "concat (map put_frame (b_frames b))"
  let ?n = "of_nat (length (b_frames b)) :: u64"
  have wf: "list_all frame_wf ?fs" and n: "unat ?n = length ?fs"
    using assms by (simp_all add: builder_wf_def unat_of_nat_u64)
  have min: "\<not> length (put_var_uint x @ put_var_uint y @ put_var_uint z @ r) < 6" for x y z r
    using length_put_var_uint [of x] length_put_var_uint [of y] length_put_var_uint [of z]
    by (simp only: length_append not_less)
  have skip: "skip_frames cfg (unat ?n) (?body @ junk) = Ok junk"
    unfolding n by (rule skip_put_frames [OF wf])
  show ?thesis
    using skip frame_list_put [OF wf, of cfg] min [of "b_sequence b" "b_prepare_amount b" ?n "?body @ junk"]
    by (simp add: stream_packet_build_def from_bytes_unencrypted_def stream_remaining_def STREAM_MIN_LEN_def
        PACKET_TYPE_LEN_def MIN_VARUINT_LEN_def get_u8_Cons stream_var_uint_put packet_type_from_to_u8 Let_def)
qed

section \<open>No panic, and loops that end\<close>

lemma np_stream [np_intros]:
  "stream_var_uint cfg bs \<noteq> Panic" "stream_var_octets cfg bs \<noteq> Panic" "stream_utf8 bs \<noteq> Panic"
  "stream_remaining n bs \<noteq> Panic" "stream_no_inner_trailing_bytes cfg bs \<noteq> Panic"
  "saturating_read_var_uint cfg bs \<noteq> Panic"
proof -
  show 1: "stream_var_uint cfg bs \<noteq> Panic" for cfg bs
    unfolding stream_var_uint_def by (intro np_intros)
  show "stream_var_octets cfg bs \<noteq> Panic" unfolding stream_var_octets_def by (intro np_intros)
  show "stream_utf8 bs \<noteq> Panic" by (simp add: stream_utf8_def)
  show "stream_remaining n bs \<noteq> Panic" unfolding stream_remaining_def by (intro np_intros)
  show "stream_no_inner_trailing_bytes cfg bs \<noteq> Panic"
    unfolding stream_no_inner_trailing_bytes_def by (intro np_intros)
  show "saturating_read_var_uint cfg bs \<noteq> Panic"
    unfolding saturating_read_var_uint_def by (intro np_intros 1)
qed

lemma np_readers [np_intros]:
  "read_one_uint cfg mk1 bs \<noteq> Panic" "read_two_uints cfg mk2 bs \<noteq> Panic" "read_money_limit cfg mk3 bs \<noteq> Panic"
  "read_connection_new_address cfg bs \<noteq> Panic" "read_stream_data cfg bs \<noteq> Panic"
  unfolding read_one_uint_def read_two_uints_def read_money_limit_def read_connection_new_address_def
    read_stream_data_def
  by (intro np_intros)+

lemma stream_remaining_Ok: "stream_remaining n bs = Ok u \<longleftrightarrow> n \<le> length bs"
  by (simp add: stream_remaining_def ensure_eq_Ok not_less)

lemma np_get_u8_remaining:
  assumes "0 < n" "\<And>c r. f (c, r) \<noteq> Panic"
  shows "and_then (stream_remaining n bs) (\<lambda>_. and_then (get_u8 bs) f) \<noteq> Panic"
  using assms by (cases bs) (auto simp: stream_remaining_def ensure_def get_u8_def)

lemma np_read_connection_close [np_intros]: "read_connection_close cfg bs \<noteq> Panic"
  unfolding read_connection_close_def
  by (rule np_get_u8_remaining) (simp, simp only: prod.case, intro np_intros)

lemma np_read_connection_asset_details [np_intros]: "read_connection_asset_details cfg bs \<noteq> Panic"
  unfolding read_connection_asset_details_def
  by (rule np_and_then, rule np_stream, rule np_case_prod, rule np_and_then, rule np_stream,
      rule np_get_u8_remaining) (simp, simp only: prod.case, intro np_intros)

lemma np_read_stream_close [np_intros]: "read_stream_close cfg bs \<noteq> Panic"
  unfolding read_stream_close_def
  by (rule np_and_then, rule np_stream, rule np_case_prod, rule np_get_u8_remaining)
    (simp, simp only: prod.case, intro np_intros)

lemma np_read_contents [np_intros]: "read_contents cfg ty bs \<noteq> Panic"
  by (simp add: read_contents_def np_readers np_read_connection_close
      np_read_connection_asset_details np_read_stream_close split: FrameType.split)

lemma np_try_read_next_frame [np_intros]: "bs \<noteq> [] \<Longrightarrow> try_read_next_frame cfg bs \<noteq> Panic"
  unfolding try_read_next_frame_def by (intro np_intros) simp

lemma frame_next_Ok: "\<exists>r. frame_next cfg bs = Ok r"
  using np_try_read_next_frame [of bs cfg] by (auto simp: frame_next_def split: result.split)

lemma frame_list_Ok: "\<exists>fs. frame_list cfg bs = Ok fs \<and> 2 * length fs \<le> length bs"
proof (induction cfg bs rule: frame_list.induct)
  case (1 cfg bs)
  obtain r where r: "frame_next cfg bs = Ok r" using frame_next_Ok by blast
  show ?case
  proof (cases r)
    case None
    then show ?thesis using r by (subst frame_list.simps) simp
  next
    case (Some p)
    obtain f rest where p: "p = (f, rest)" by (cases p)
    with 1 r Some obtain fs where "frame_list cfg rest = Ok fs" "2 * length fs \<le> length rest" by blast
    moreover have "length rest + 2 \<le> length bs"
      using r Some p try_read_next_frame_shrinks [of cfg bs f rest]
      by (auto simp: frame_next_def split: if_splits result.splits)
    ultimately show ?thesis using r Some p by (subst frame_list.simps) simp
  qed
qed

lemma np_skip_frames [np_intros]: "skip_frames cfg n bs \<noteq> Panic"
  by (induction n arbitrary: bs) (simp, simp only: skip_frames.simps, intro np_intros, simp)

lemma skip_frames_Ok_length: "skip_frames cfg n bs = Ok rest \<Longrightarrow> 2 * n + length rest \<le> length bs"
proof (induction n arbitrary: bs)
  case (Suc n)
  then obtain mid where "skip 1 bs = Ok ((), tl bs)" "bs \<noteq> []"
      and mid: "skip_var_octet_string cfg (tl bs) = Ok ((), mid)" "skip_frames cfg n mid = Ok rest"
    by (auto simp: ok_simps skip_def drop_Suc split: if_splits)
  moreover have "length mid < length (tl bs)"
    using mid(1) by (auto simp: skip_var_octet_string_eq map_ok_eq_Ok dest!: read_var_octet_string_shrinks)
  ultimately show ?case using Suc.IH [OF mid(2)] by (cases bs) auto
qed simp

text \<open>The loop over a claimed number of frames stops after at most half as many rounds as there are bytes.\<close>

lemma skip_frames_bounded:
  "length bs < 2 * n \<Longrightarrow> m \<ge> n \<Longrightarrow> skip_frames cfg m bs = skip_frames cfg n bs \<and> (\<exists>e. skip_frames cfg n bs = Err e)"
proof (induction n arbitrary: bs m)
  case (Suc n)
  then obtain m' where m: "m = Suc m'" "n \<le> m'" by (cases m) auto
  show ?case
  proof (cases "and_then (map_err StreamOer (skip 1 bs)) (\<lambda>(_, reader). map_err StreamOer (skip_var_octet_string cfg reader))")
    case (Ok p)
    obtain u mid where p: "p = (u, mid)" by (cases p)
    from Ok have "bs \<noteq> []" and mid: "skip_var_octet_string cfg (tl bs) = Ok ((), mid)"
      by (auto simp: p ok_simps skip_def drop_Suc split: if_splits)
    moreover have "length mid < length (tl bs)"
      using mid by (auto simp: skip_var_octet_string_eq map_ok_eq_Ok dest!: read_var_octet_string_shrinks)
    ultimately have "length mid < 2 * n" using Suc.prems(1) by (cases bs) auto
    then show ?thesis
      using Suc.IH [of mid m'] m mid \<open>bs \<noteq> []\<close> by (cases bs) (simp_all add: skip_def)
  next
    case (Err e)
    then show ?thesis
      using m by (cases "skip 1 bs"; cases "skip_var_octet_string cfg (tl bs)")
        (auto simp: skip_def drop_Suc split: if_splits)
  next
    case Panic
    moreover have "and_then (map_err StreamOer (skip 1 bs))
        (\<lambda>(_, reader). map_err StreamOer (skip_var_octet_string cfg reader)) \<noteq> Panic"
      by (intro np_intros)
    ultimately show ?thesis by blast
  qed
qed simp

section \<open>Canonical packets\<close>

lemma stream_error_code_u8_from [simp]: "stream_error_code_u8 (stream_error_code_from_u8 c) = c"
  by (simp add: stream_error_code_from_u8_def)

lemma code_wf_from [simp]: "code_wf (stream_error_code_from_u8 c)"
  by (simp add: code_wf_def)

lemma stream_var_uint_canonical:
  "strict cfg \<Longrightarrow> stream_var_uint cfg bs = Ok (v, rest) \<Longrightarrow> bs = put_var_uint v @ rest"
  by (simp add: stream_var_uint_def map_err_eq_Ok read_var_uint_canonical)

lemma stream_var_octets_canonical:
  "strict cfg \<Longrightarrow> stream_var_octets cfg bs = Ok (buf, rest) \<Longrightarrow> bs = put_var_octet_string buf @ rest"
  by (simp add: stream_var_octets_def map_err_eq_Ok read_var_octet_string_canonical)

lemma saturating_canonical:
  "strict cfg \<Longrightarrow> roundtrip_only cfg \<Longrightarrow> saturating_read_var_uint cfg bs = Ok (v, rest) \<Longrightarrow>
   bs = put_var_uint v @ rest"
  by (auto simp: saturating_read_var_uint_def ok_simps split: if_splits dest: stream_var_uint_canonical)

lemma no_inner_canonical: "strict cfg \<Longrightarrow> stream_no_inner_trailing_bytes cfg bs = Ok u \<longleftrightarrow> bs = []"
  by (simp add: stream_no_inner_trailing_bytes_def ensure_eq_Ok)

lemma stream_utf8_Ok: "stream_utf8 bs = Ok m \<longleftrightarrow> m = bs \<and> utf8_valid bs"
  by (auto simp: stream_utf8_def)

lemmas canonical_simps = ok_simps no_inner_canonical stream_utf8_Ok stream_remaining_Ok get_u8_eq_Ok
  address_try_from_Ok

lemma readers_canonical:
  assumes "strict cfg" "roundtrip_only cfg"
  shows "read_one_uint cfg mk1 bs = Ok f \<Longrightarrow> \<exists>x. f = mk1 x \<and> bs = put_var_uint x"
    and "read_two_uints cfg mk2 bs = Ok f \<Longrightarrow> \<exists>x y. f = mk2 x y \<and> bs = put_var_uint x @ put_var_uint y"
    and "read_money_limit cfg mk3 bs = Ok f \<Longrightarrow>
      \<exists>x y z. f = mk3 x y z \<and> bs = put_var_uint x @ put_var_uint y @ put_var_uint z"
    and "read_connection_close cfg bs = Ok f \<Longrightarrow>
      \<exists>c m. f = ConnectionClose c m \<and> bs = put_contents f \<and> frame_fields_wf f"
    and "read_connection_new_address cfg bs = Ok f \<Longrightarrow>
      \<exists>a. f = ConnectionNewAddress a \<and> bs = put_contents f \<and> frame_fields_wf f"
    and "read_connection_asset_details cfg bs = Ok f \<Longrightarrow>
      \<exists>c s. f = ConnectionAssetDetails c s \<and> bs = put_contents f \<and> frame_fields_wf f"
    and "read_stream_close cfg bs = Ok f \<Longrightarrow>
      \<exists>x c m. f = StreamClose x c m \<and> bs = put_contents f \<and> frame_fields_wf f"
    and "read_stream_data cfg bs = Ok f \<Longrightarrow> \<exists>x y d. f = StreamData x y d \<and> bs = put_contents f"
  using assms(1)
  by (auto simp: reader_defs canonical_simps dest!: stream_var_uint_canonical [OF assms(1)]
      stream_var_octets_canonical [OF assms(1)] saturating_canonical [OF assms])

lemma read_contents_canonical:
  assumes "strict cfg" "roundtrip_only cfg" "read_contents cfg ty bs = Ok f"
  shows "ty = frame_type_byte f \<and> bs = put_contents f \<and> frame_fields_wf f"
  using assms(3)
  by (auto simp: read_contents_def frame_type_from_u8_def split: if_splits
      dest!: readers_canonical [OF assms(1,2)])

lemma read_length_less:
  assumes "read_var_octet_string_length cfg bs = Ok (n, rest)"
  shows "n < 2 ^ 64"
  using assms
proof (cases rule: read_length_cases)
  case (short c)
  then show ?thesis using unat_bound [of c] by simp
next
  case (long c r k)
  have "be_decode (take k r) < 256 ^ length (take k r)" by (rule be_decode_less)
  also have "\<dots> \<le> 256 ^ 8" using long by (intro power_increasing) auto
  finally show ?thesis using long by simp
qed

lemma stream_var_octets_length: "stream_var_octets cfg bs = Ok (buf, rest) \<Longrightarrow> length buf < 2 ^ 64"
  by (auto simp: stream_var_octets_def read_var_octet_string_def ok_simps split: if_splits
      dest!: read_length_less)

lemma try_read_next_frame_canonical:
  assumes "strict cfg" "roundtrip_only cfg" "try_read_next_frame cfg bs = Ok (f, rest)"
  shows "bs = put_frame f @ rest \<and> frame_wf f"
proof -
  obtain ty c r where "bs = ty # r" and c: "stream_var_octets cfg r = Ok (c, rest)"
      and f: "read_contents cfg ty c = Ok f"
    using assms(3) by (auto simp: try_read_next_frame_def ok_simps get_u8_eq_Ok)
  then show ?thesis
    using read_contents_canonical [OF assms(1,2) f] stream_var_octets_canonical [OF assms(1) c]
      stream_var_octets_length [OF c]
    by (simp add: put_frame_def frame_wf_def)
qed

lemma frame_list_canonical:
  assumes "strict cfg" "roundtrip_only cfg" "frame_list cfg bs = Ok fs" "skip_frames cfg (length fs) bs = Ok []"
  shows "bs = concat (map put_frame fs) \<and> list_all frame_wf fs"
  using assms(3,4)
proof (induction fs arbitrary: bs)
  case (Cons f fs)
  from Cons.prems(1) obtain rest where rest: "frame_next cfg bs = Ok (Some (f, rest))"
      "frame_list cfg rest = Ok fs"
    by (subst (asm) frame_list.simps) (auto simp: map_ok_eq_Ok split: result.splits option.splits)
  then have f: "bs = put_frame f @ rest" "frame_wf f"
    using try_read_next_frame_canonical [OF assms(1,2), of bs f rest]
    by (auto simp: frame_next_def split: if_splits result.splits)
  then have "skip_frames cfg (length fs) rest = Ok []"
    using Cons.prems(2) skip_put_var_octet_string [of "put_contents f" cfg rest]
    by (simp add: put_frame_def skip_def frame_wf_def)
  then show ?case using Cons.IH [OF rest(2)] f by simp
qed simp

lemma skip_frames_prefix:
  "skip_frames cfg n bs = Ok rest \<Longrightarrow> \<exists>pre. bs = pre @ rest \<and> skip_frames cfg n pre = Ok []"
proof (induction n arbitrary: bs)
  case (Suc n)
  then obtain c r mid where bs: "bs = c # r" and mid: "skip_var_octet_string cfg r = Ok ((), mid)"
      and n: "skip_frames cfg n mid = Ok rest"
    by (cases bs) (auto simp: ok_simps skip_def split: if_splits)
  obtain buf where "read_var_octet_string cfg r = Ok (buf, mid)"
    using mid by (auto simp: skip_var_octet_string_eq map_ok_eq_Ok)
  from vos_safe.delimits [OF this] obtain p where
    p: "r = p @ mid" "\<And>s. read_var_octet_string cfg (p @ s) = Ok (buf, s)" by blast
  obtain q where "mid = q @ rest" "skip_frames cfg n q = Ok []" using Suc.IH [OF n] by blast
  then show ?case
    using bs p by (intro exI [of _ "c # p @ q"]) (simp add: skip_def skip_var_octet_string_eq)
qed simp

lemma np_from_bytes: "from_bytes_unencrypted cfg bs \<noteq> Panic"
proof -
  have np: "frame_list cfg b \<noteq> Panic" for b using frame_list_Ok [of cfg b] by auto
  have type: "packet_type_from_u8 c \<noteq> Panic" for c by (simp add: packet_type_from_u8_def)
  show ?thesis
    unfolding from_bytes_unencrypted_def
    by (intro np_intros np type) (auto simp: stream_remaining_Ok get_u8_eq_Ok STREAM_MIN_LEN_def MIN_VARUINT_LEN_def)
qed

lemma packet_type_from_u8_Ok: "packet_type_from_u8 c = Ok t \<longleftrightarrow> c = packet_type_u8 t"
  by (cases t) (auto simp: packet_type_from_u8_def)

text \<open>The parts of a buffer that parses.\<close>

lemma from_bytes_parts:
  assumes "from_bytes_unencrypted cfg bs = Ok p"
  obtains num body rest frames r1 r2 where
    "bs = [STREAM_VERSION, packet_type_u8 (sp_ilp_packet_type p)] @ r1"
    "stream_var_uint cfg r1 = Ok (sp_sequence p, r2)"
    "\<exists>r3. stream_var_uint cfg r2 = Ok (sp_prepare_amount p, r3) \<and> stream_var_uint cfg r3 = Ok (num, body @ rest)"
    "skip_frames cfg (unat num) (body @ rest) = Ok rest" "skip_frames cfg (unat num) body = Ok []"
    "frame_list cfg body = Ok frames" "num = of_nat (length frames)"
    "bs = sp_buffer_unencrypted p @ rest" "sp_frames_offset p + length body = length (sp_buffer_unencrypted p)"
    "drop (sp_frames_offset p) (sp_buffer_unencrypted p) = body"
proof -
  obtain r1 r2 r3 r4 num rest frames where
    h: "bs = [STREAM_VERSION, packet_type_u8 (sp_ilp_packet_type p)] @ r1"
      "stream_var_uint cfg r1 = Ok (sp_sequence p, r2)" "stream_var_uint cfg r2 = Ok (sp_prepare_amount p, r3)"
      "stream_var_uint cfg r3 = Ok (num, r4)"
    and s: "skip_frames cfg (unat num) (drop (length bs - length r4) bs) = Ok rest"
    and f: "frame_list cfg (drop (length bs - length r4) (take (length bs - length rest) bs)) = Ok frames"
      "num = of_nat (length frames)"
    and p: "sp_buffer_unencrypted p = take (length bs - length rest) bs"
      "sp_frames_offset p = length bs - length r4"
    using assms
    by (auto simp: from_bytes_unencrypted_def Let_def ok_simps get_u8_eq_Ok packet_type_from_u8_Ok
        split: if_splits)
  have "\<exists>q. r1 = q @ r4"
    using h(2-4) by (auto simp: stream_var_uint_def map_err_eq_Ok dest!: vuint_safe.delimits)
  then obtain pre where bs: "bs = pre @ r4" using h(1) by auto
  obtain body where body: "r4 = body @ rest" "skip_frames cfg (unat num) body = Ok []"
    using skip_frames_prefix [of cfg "unat num" r4 rest] s bs by auto
  have off: "sp_frames_offset p = length pre" and buf: "sp_buffer_unencrypted p = pre @ body"
    using p bs body(1) by simp_all
  have "\<exists>r3. stream_var_uint cfg r2 = Ok (sp_prepare_amount p, r3) \<and> stream_var_uint cfg r3 = Ok (num, body @ rest)"
    using h(3,4) body(1) by blast
  moreover have "skip_frames cfg (unat num) (body @ rest) = Ok rest" "frame_list cfg body = Ok frames"
    using s f(1) bs body(1) by simp_all
  moreover have "bs = sp_buffer_unencrypted p @ rest" using bs body(1) buf by simp
  moreover have "sp_frames_offset p + length body = length (sp_buffer_unencrypted p)"
    "drop (sp_frames_offset p) (sp_buffer_unencrypted p) = body" using off buf by simp_all
  ultimately show ?thesis using that [OF h(1,2) _ _ body(2) _ f(2)] by blast
qed

definition aead_ok ::
  "(bytes \<Rightarrow> bytes \<Rightarrow> bytes \<Rightarrow> bytes) \<Rightarrow> (bytes \<Rightarrow> bytes \<Rightarrow> bytes \<Rightarrow> bytes option) \<Rightarrow> bool" where
  "aead_ok seal open_box \<longleftrightarrow> (\<forall>key nonce plaintext.
     length (seal key nonce plaintext) = length plaintext + AUTH_TAG_LENGTH \<and>
     open_box key nonce (seal key nonce plaintext) = Some plaintext)"

lemma decrypt_encrypt:
  assumes "aead_ok seal open_box" "length nonce = NONCE_LENGTH"
  shows "\<exists>c. encrypt_with_nonce hmac seal secret plaintext nonce = (Ok c :: (_, 'e) result) \<and>
    stream_decrypt hmac open_box secret c = Ok plaintext"
  using assms by (simp add: aead_ok_def encrypt_with_nonce_def stream_decrypt_def Let_def)

text \<open>
  C35. STREAM packets survive the wire: encrypting and decrypting a packet made by the builder gives the
  packet back and its frames are the builder's, under every feature set and whatever bytes follow the
  frames.
\<close>

theorem stream_packet_roundtrip:
  assumes "builder_wf b" "aead_ok seal open_box" "length nonce = NONCE_LENGTH"
  shows "(\<exists>c. into_encrypted hmac_sha256 seal secret (stream_packet_build b) nonce =
      (Ok c :: (_, StreamPacketError) result) \<and>
      from_encrypted cfg hmac_sha256 open_box secret c = Ok (stream_packet_build b)) \<and>
    from_bytes_unencrypted cfg (sp_buffer_unencrypted (stream_packet_build b) @ junk) =
      Ok (stream_packet_build b) \<and>
    stream_frames cfg (stream_packet_build b) = Ok (b_frames b)"
proof -
  let ?p = "stream_packet_build b"
  obtain c where "encrypt_with_nonce hmac_sha256 seal secret (sp_buffer_unencrypted ?p) nonce =
      (Ok c :: (_, StreamPacketError) result)"
    "stream_decrypt hmac_sha256 open_box secret c = Ok (sp_buffer_unencrypted ?p)"
    using decrypt_encrypt [OF assms(2,3)] by blast
  moreover have "from_bytes_unencrypted cfg (sp_buffer_unencrypted ?p) = Ok ?p"
    using from_bytes_build [OF assms(1), of cfg "[]"] by simp
  moreover have "stream_frames cfg ?p = Ok (b_frames b)"
    using frame_list_put [of "b_frames b" cfg] assms(1)
    by (simp add: stream_frames_def stream_packet_build_def builder_wf_def Let_def)
  ultimately show ?thesis
    using from_bytes_build [OF assms(1)] by (simp add: into_encrypted_def from_encrypted_def)
qed

definition example_stream_builder :: StreamPacketBuilder where
  "example_stream_builder = \<lparr>b_sequence = 5, b_ilp_packet_type = PrepareType, b_prepare_amount = 700,
     b_frames = [StreamMoney 1 1, StreamMaxMoney 1 9 3, UnknownFrame 0x20 [1, 2], ConnectionClose NoError (bstr ''bye'')]\<rparr>"

definition example_seal :: "bytes \<Rightarrow> bytes \<Rightarrow> bytes \<Rightarrow> bytes" where
  "example_seal key nonce plaintext = plaintext @ replicate 16 0"

definition example_open :: "bytes \<Rightarrow> bytes \<Rightarrow> bytes \<Rightarrow> bytes option" where
  "example_open key nonce sealed = Some (take (length sealed - 16) sealed)"

lemma example_stream_builder_wf: "builder_wf example_stream_builder"
proof -
  have "length (put_contents f) < 100" if "f \<in> set (b_frames example_stream_builder)" for f
  proof -
    have "list_all (\<lambda>f. length (put_contents f) < 100) (b_frames example_stream_builder)" by code_simp
    with that show ?thesis by (simp add: list_all_iff)
  qed
  moreover have "list_all frame_fields_wf (b_frames example_stream_builder)" by code_simp
  ultimately show ?thesis
    by (force simp: builder_wf_def frame_wf_def list_all_iff example_stream_builder_def)
qed

theorem stream_packet_roundtrip_witness:
  "(\<exists>c. into_encrypted (\<lambda>_ _. []) example_seal [] (stream_packet_build example_stream_builder) (replicate 12 7) =
      (Ok c :: (_, StreamPacketError) result) \<and>
     from_encrypted strict_features (\<lambda>_ _. []) example_open [] c = Ok (stream_packet_build example_stream_builder)) \<and>
   from_bytes_unencrypted strict_features
     (sp_buffer_unencrypted (stream_packet_build example_stream_builder) @ [0, 0, 0]) =
     Ok (stream_packet_build example_stream_builder)"
proof -
  have "aead_ok example_seal example_open"
    by (simp add: aead_ok_def example_seal_def example_open_def AUTH_TAG_LENGTH_def)
  then show ?thesis
    using stream_packet_roundtrip [OF example_stream_builder_wf, of example_seal example_open "replicate 12 7"
        "\<lambda>_ _. []" "[]" strict_features "[0, 0, 0]"]
    by (simp add: NONCE_LENGTH_def)
qed

text \<open>
  C36. Parsing a STREAM packet always ends and never panics, whatever the bytes and the number of frames
  they claim: the loop over the claimed frames has stopped once it has gone round more often than half
  the number of bytes, and a parsed packet gives its frames, at most one for every two bytes.
\<close>

theorem stream_parse_terminates:
  "from_bytes_unencrypted cfg bs \<noteq> Panic \<and>
   (\<forall>n \<ge> length bs div 2 + 1. skip_frames cfg n bs = skip_frames cfg (length bs div 2 + 1) bs \<and>
      (\<exists>e. skip_frames cfg n bs = Err e)) \<and>
   (\<forall>p. from_bytes_unencrypted cfg bs = Ok p \<longrightarrow>
      (\<exists>frames. stream_frames cfg p = Ok frames \<and> 2 * length frames \<le> length bs))"
proof (intro conjI allI impI)
  show "from_bytes_unencrypted cfg bs \<noteq> Panic" by (rule np_from_bytes)
next
  fix n assume "length bs div 2 + 1 \<le> n"
  with skip_frames_bounded [of bs "length bs div 2 + 1" n cfg]
  show "skip_frames cfg n bs = skip_frames cfg (length bs div 2 + 1) bs" "\<exists>e. skip_frames cfg n bs = Err e"
    by auto
next
  fix p assume "from_bytes_unencrypted cfg bs = Ok p"
  then show "\<exists>frames. stream_frames cfg p = Ok frames \<and> 2 * length frames \<le> length bs"
  proof (rule from_bytes_parts)
    fix num body rest frames r1 r2
    assume "frame_list cfg body = Ok frames" "bs = sp_buffer_unencrypted p @ rest"
      "sp_frames_offset p + length body = length (sp_buffer_unencrypted p)"
      "drop (sp_frames_offset p) (sp_buffer_unencrypted p) = body"
    then show ?thesis using frame_list_Ok [of cfg body] by (auto simp: stream_frames_def)
  qed
qed

theorem stream_parse_terminates_witness:
  "from_bytes_unencrypted default_features (bstr ''no stream packet'') \<noteq> Panic \<and>
   skip_frames default_features 1000000 [1, 0, 2, 0] = skip_frames default_features 3 [1, 0, 2, 0] \<and>
   (\<exists>frames. stream_frames default_features (stream_packet_build example_stream_builder) = Ok frames)"
proof -
  have "from_bytes_unencrypted default_features (sp_buffer_unencrypted (stream_packet_build example_stream_builder)) =
      Ok (stream_packet_build example_stream_builder)"
    using from_bytes_build [OF example_stream_builder_wf, of default_features "[]"] by simp
  then show ?thesis
    using stream_parse_terminates [of default_features "bstr ''no stream packet''"]
      stream_parse_terminates [of default_features "[1, 0, 2, 0]"]
      stream_parse_terminates [of default_features "sp_buffer_unencrypted (stream_packet_build example_stream_builder)"]
    by fastforce
qed

text \<open>
  Under \<^verbatim>\<open>roundtrip-only\<close> the parser accepts exactly what the builder writes, followed by
  anything: every accepted buffer is the buffer of a well-formed builder up to the trailing bytes the
  parser drops.
\<close>

lemma stream_packets_canonical:
  assumes "strict cfg" "roundtrip_only cfg" "length bs < 2 ^ 64"
  shows "from_bytes_unencrypted cfg bs = Ok p \<longleftrightarrow>
    (\<exists>b junk. builder_wf b \<and> p = stream_packet_build b \<and> bs = sp_buffer_unencrypted p @ junk)"
proof
  assume "\<exists>b junk. builder_wf b \<and> p = stream_packet_build b \<and> bs = sp_buffer_unencrypted p @ junk"
  then show "from_bytes_unencrypted cfg bs = Ok p" using from_bytes_build by blast
next
  assume "from_bytes_unencrypted cfg bs = Ok p"
  then obtain num body rest frames r1 r2 r3 where
    h: "bs = [STREAM_VERSION, packet_type_u8 (sp_ilp_packet_type p)] @ r1"
      "stream_var_uint cfg r1 = Ok (sp_sequence p, r2)" "stream_var_uint cfg r2 = Ok (sp_prepare_amount p, r3)"
      "stream_var_uint cfg r3 = Ok (num, body @ rest)"
    and s: "skip_frames cfg (unat num) body = Ok []"
    and f: "frame_list cfg body = Ok frames" "num = of_nat (length frames)"
    and p: "bs = sp_buffer_unencrypted p @ rest" "sp_frames_offset p + length body = length (sp_buffer_unencrypted p)"
    by (elim from_bytes_parts) blast
  have "2 * length frames \<le> length body" using frame_list_Ok [of cfg body] f(1) by simp
  then have len: "length frames < 2 ^ 64" using p assms(3) by simp
  then have "unat num = length frames" using f(2) by (simp add: unat_of_nat_u64)
  then have body: "body = concat (map put_frame frames)" "list_all frame_wf frames"
    using frame_list_canonical [OF assms(1,2) f(1)] s by simp_all
  let ?b = "\<lparr>b_sequence = sp_sequence p, b_ilp_packet_type = sp_ilp_packet_type p,
    b_prepare_amount = sp_prepare_amount p, b_frames = frames\<rparr>"
  let ?head = "[STREAM_VERSION, packet_type_u8 (sp_ilp_packet_type p)] @ put_var_uint (sp_sequence p) @
    put_var_uint (sp_prepare_amount p) @ put_var_uint num"
  have bs: "bs = ?head @ body @ rest"
    using h stream_var_uint_canonical [OF assms(1)] by simp
  then have buf: "sp_buffer_unencrypted p = ?head @ body" using p(1) by simp
  have "p = stream_packet_build ?b"
    using buf p(2) body(1) f(2)
    by (intro StreamPacket.equality) (simp_all add: stream_packet_build_def Let_def)
  moreover have "builder_wf ?b" using body len by (simp add: builder_wf_def)
  ultimately show "\<exists>b junk. builder_wf b \<and> p = stream_packet_build b \<and> bs = sp_buffer_unencrypted p @ junk"
    using p(1) by blast
qed

lemma stream_packets_canonical_example:
  "from_bytes_unencrypted \<lparr>strict = True, roundtrip_only = True\<rparr>
     (sp_buffer_unencrypted (stream_packet_build example_stream_builder) @ [9]) =
     Ok (stream_packet_build example_stream_builder)"
proof -
  have "length (sp_buffer_unencrypted (stream_packet_build example_stream_builder)) = 34" by code_simp
  then show ?thesis
    using stream_packets_canonical [of "\<lparr>strict = True, roundtrip_only = True\<rparr>"
        "sp_buffer_unencrypted (stream_packet_build example_stream_builder) @ [9]"
        "stream_packet_build example_stream_builder"] example_stream_builder_wf
    by auto
qed

end
