(* ===== verification/Stream_Server.thy ===== *)
theory Stream_Server
  imports Stream_Packet Service
begin

text \<open>
  The receiver of STREAM payments, \<^verbatim>\<open>crates/interledger-stream/src/server.rs\<close>: addresses and shared
  secrets made from one server secret, and the service that fulfills or rejects incoming packets. The
  primitives of \<^verbatim>\<open>ring\<close>, the random token in its base64 form, the nonce and the timestamp text are
  parameters.
\<close>

section \<open>Connection generator\<close>

record ring_crypto =
  hmac_sha256 :: "bytes \<Rightarrow> bytes \<Rightarrow> bytes"
  hash_sha256 :: "bytes \<Rightarrow> bytes"
  aead_seal :: "bytes \<Rightarrow> bytes \<Rightarrow> bytes \<Rightarrow> bytes"
  aead_open :: "bytes \<Rightarrow> bytes \<Rightarrow> bytes \<Rightarrow> bytes option"

text \<open>What the library documents: the lengths of digests, and that opening undoes sealing.\<close>

definition ring_ok :: "ring_crypto \<Rightarrow> bool" where
  "ring_ok R \<longleftrightarrow> aead_ok (aead_seal R) (aead_open R) \<and>
     (\<forall>key message. length (hmac_sha256 R key message) = 32) \<and> (\<forall>message. length (hash_sha256 R message) = 32)"

record ConnectionGenerator =
  secret_generator :: bytes

definition STREAM_SERVER_SECRET_GENERATOR :: bytes where
  "STREAM_SERVER_SECRET_GENERATOR = bstr ''ilp_stream_shared_secret''"

definition connection_generator_new :: "ring_crypto \<Rightarrow> bytes \<Rightarrow> (ConnectionGenerator, 'e) result" where
  "connection_generator_new R server_secret =
     (if length server_secret = 32
      then Ok \<lparr>secret_generator = hmac_sha256 R server_secret STREAM_SERVER_SECRET_GENERATOR\<rparr>
      else Panic)"

definition generate_address_and_secret ::
  "ring_crypto \<Rightarrow> bytes \<Rightarrow> ConnectionGenerator \<Rightarrow> Address \<Rightarrow> (Address \<times> bytes, 'e) result" where
  "generate_address_and_secret R token gen base_address =
     (let shared_secret = hmac_sha256 R (secret_generator gen) token
      in and_then (unwrap (with_suffix base_address token)) (\<lambda>destination_account.
           Ok (destination_account, shared_secret)))"

definition rederive_secret :: "ring_crypto \<Rightarrow> ConnectionGenerator \<Rightarrow> Address \<Rightarrow> (bytes, 'e) result" where
  "rederive_secret R gen destination_account =
     (case rev (segments destination_account) of
        [] \<Rightarrow> Panic | local_part # _ \<Rightarrow> Ok (hmac_sha256 R (secret_generator gen) local_part))"

section \<open>Receiving money\<close>

record ReceiveOk =
  ro_fulfill :: Fulfill
  ro_sequence :: u64

datatype ReceiveErr = InvalidPacket | Rejection Reject u64 bool

definition response_frames :: "bytes \<Rightarrow> u8 \<Rightarrow> Frame list \<Rightarrow> Frame list" where
  "response_frames asset_code asset_scale frames =
     concat (map (\<lambda>frame. case frame of
         StreamMoney stream_id _ \<Rightarrow> [StreamMaxMoney stream_id u64_max 0]
       | ConnectionNewAddress _ \<Rightarrow> [ConnectionAssetDetails asset_code asset_scale]
       | _ \<Rightarrow> []) frames)"

definition closes_connection :: "Frame \<Rightarrow> bool" where
  "closes_connection frame = (case frame of ConnectionClose _ _ \<Rightarrow> True | _ \<Rightarrow> False)"

definition receive_money ::
  "features \<Rightarrow> ring_crypto \<Rightarrow> bytes \<Rightarrow> bytes \<Rightarrow> Address \<Rightarrow> bytes \<Rightarrow> u8 \<Rightarrow> SystemTime Prepare \<Rightarrow>
   (ReceiveOk, ReceiveErr) result" where
  "receive_money cfg R nonce shared_secret ilp_address asset_code asset_scale prepare =
     and_then (prepare_data cfg prepare) (\<lambda>payload.
     and_then (execution_condition prepare) (\<lambda>execution_condition.
       let fulfillment = generate_fulfillment (hmac_sha256 R) shared_secret payload;
           condition = hash_sha256 R fulfillment;
           is_fulfillable = (condition = execution_condition);
           prepare_amount = p_amount prepare
       in and_then (map_err (\<lambda>_. InvalidPacket)
              (from_encrypted cfg (hmac_sha256 R) (aead_open R) shared_secret payload)) (\<lambda>stream_packet.
          and_then (map_err (\<lambda>_. InvalidPacket) (stream_frames cfg stream_packet)) (\<lambda>frames.
            let response = response_frames asset_code asset_scale frames;
                connection_closed = list_ex closes_connection frames
            in if is_fulfillable \<and> prepare_amount \<ge> sp_prepare_amount stream_packet then
                 let response_packet = stream_packet_build
                       \<lparr>b_sequence = sp_sequence stream_packet, b_ilp_packet_type = FulfillType,
                        b_prepare_amount = prepare_amount, b_frames = response\<rparr>
                 in and_then (into_encrypted (hmac_sha256 R) (aead_seal R) shared_secret response_packet nonce)
                      (\<lambda>encrypted_response.
                        Ok \<lparr>ro_fulfill = fulfill_build \<lparr>fb_fulfillment = fulfillment, fb_data = encrypted_response\<rparr>,
                            ro_sequence = sp_sequence stream_packet\<rparr>)
               else
                 let response_packet = stream_packet_build
                       \<lparr>b_sequence = sp_sequence stream_packet, b_ilp_packet_type = RejectType,
                        b_prepare_amount = prepare_amount, b_frames = response\<rparr>
                 in and_then (into_encrypted (hmac_sha256 R) (aead_seal R) shared_secret response_packet nonce)
                      (\<lambda>encrypted_response.
                        Err (Rejection
                          (reject_build \<lparr>rb_code = F99_APPLICATION_ERROR, rb_message = [],
                             rb_triggered_by = Some ilp_address, rb_data = encrypted_response\<rparr>)
                          (sp_sequence stream_packet) connection_closed))))))"

record PaymentNotification =
  pn_to_username :: bytes
  pn_from_username :: bytes
  pn_destination :: Address
  pn_amount :: u64
  pn_timestamp :: bytes
  pn_sequence :: u64
  pn_connection_closed :: bool

definition stream_receiver_send_request ::
  "features \<Rightarrow> ring_crypto \<Rightarrow> ConnectionGenerator \<Rightarrow> bytes \<Rightarrow> bytes \<Rightarrow> 's outgoing_service \<Rightarrow>
   OutgoingRequest \<Rightarrow> 's \<Rightarrow> IlpResult \<times> PaymentNotification list \<times> 's" where
  "stream_receiver_send_request cfg R gen nonce timestamp nxt request s =
     (let destination = p_destination (out_prepare request);
          to_address = acc_ilp_address (out_to request);
          notification = \<lparr>pn_to_username = acc_username (out_to request),
            pn_from_username = acc_username (out_from request), pn_destination = destination,
            pn_amount = p_amount (out_prepare request), pn_timestamp = timestamp, pn_sequence = 0,
            pn_connection_closed = False\<rparr>
      in if starts_with (addr_bytes destination) (addr_bytes to_address) then
           (case and_then (rederive_secret R gen destination) (\<lambda>shared_secret.
                   receive_money cfg R nonce shared_secret to_address (acc_asset_code (out_to request))
                     (acc_asset_scale (out_to request)) (out_prepare request)) of
              Ok received \<Rightarrow>
                (Ok (ro_fulfill received), [notification\<lparr>pn_sequence := ro_sequence received\<rparr>], s)
            | Err InvalidPacket \<Rightarrow> (let (r, s') = nxt request s in (r, [], s'))
            | Err (Rejection reject sequence connection_closed) \<Rightarrow>
                (Err reject,
                 if connection_closed
                 then [notification\<lparr>pn_amount := 0, pn_sequence := sequence, pn_connection_closed := True\<rparr>]
                 else [], s)
            | Panic \<Rightarrow> (Panic, [], s))
         else (let (r, s') = nxt request s in (r, [], s')))"

section \<open>Secrets\<close>

text \<open>
  C37. The secret of a connection is found again from its address alone: for a base address that leaves
  room for the token, the generated address extends it by the token and rederives the same secret. A
  base address of more than 998 bytes makes the generator panic.
\<close>

theorem secret_rederived_from_address:
  assumes "address_wf base" "segment_ok token" "length token = 24"
  shows "generate_address_and_secret R token gen base =
    (if address_len base \<le> 998
     then Ok (Address (addr_bytes base @ dot # token), hmac_sha256 R (secret_generator gen) token)
     else Panic) \<and>
    (address_len base \<le> 998 \<longrightarrow>
      address_wf (Address (addr_bytes base @ dot # token)) \<and>
      rederive_secret R gen (Address (addr_bytes base @ dot # token)) =
        (Ok (hmac_sha256 R (secret_generator gen) token) :: (_, unit) result))"
proof -
  have split: "split_on dot token = [token]"
    using assms(2) by (intro split_on_no_sep) (auto simp: segment_ok_def list_all_iff)
  have suffix: "with_suffix base token = Ok a \<longleftrightarrow>
      a = Address (addr_bytes base @ dot # token) \<and> address_len base \<le> 998" for a
    using with_suffix_Ok [OF assms(1), of token a] assms(2,3) split by (auto simp: MAX_ADDRESS_LENGTH_def)
  have "segments (Address (addr_bytes base @ dot # token)) = segments base @ [token]"
    using split by (simp add: segments_def split_on_append_sep)
  moreover have "address_wf (Address (addr_bytes base @ dot # token))" if "address_len base \<le> 998"
    using suffix that by (auto simp: with_suffix_def address_try_from_Ok)
  moreover have "with_suffix base token \<noteq> Ok a" if "\<not> address_len base \<le> 998" for a
    using suffix that by blast
  ultimately show ?thesis
    using suffix
    by (cases "with_suffix base token") (auto simp: generate_address_and_secret_def rederive_secret_def)
qed

definition example_ring :: ring_crypto where
  "example_ring = \<lparr>hmac_sha256 = (\<lambda>key message. take 32 (message @ key @ replicate 32 0)),
     hash_sha256 = (\<lambda>message. take 32 (rev message @ replicate 32 0)),
     aead_seal = example_seal, aead_open = example_open\<rparr>"

lemma example_ring_ok: "ring_ok example_ring"
  by (auto simp: ring_ok_def example_ring_def aead_ok_def example_seal_def example_open_def AUTH_TAG_LENGTH_def
      min_def)

theorem secret_rederived_from_address_witness:
  "rederive_secret example_ring \<lparr>secret_generator = [1]\<rparr>
     (Address (bstr ''example.alice'' @ dot # replicate 24 65)) =
   (Ok (hmac_sha256 example_ring [1] (replicate 24 65)) :: (_, unit) result)"
proof -
  have "segment_ok (replicate 24 65)" "address_len (Address (bstr ''example.alice'')) \<le> 998" by code_simp+
  moreover have "length (replicate 24 (65 :: u8)) = 24" by simp
  ultimately show ?thesis
    using secret_rederived_from_address [OF example_address_wf, of "replicate 24 65" example_ring
        "\<lparr>secret_generator = [1]\<rparr>", where 'a = unit]
    by (simp only: ConnectionGenerator.simps Address.sel if_True simp_thms)
qed

section \<open>What the receiver answers\<close>

lemma response_frame_wf:
  assumes "utf8_valid asset_code" "length asset_code < 2 ^ 32" "f \<in> set (response_frames asset_code asset_scale frames)"
  shows "frame_wf f"
proof -
  have money: "frame_wf (StreamMaxMoney i x y)" for i x y
    using length_put_var_uint_le [of i] length_put_var_uint_le [of x] length_put_var_uint_le [of y]
    by (simp add: frame_wf_def)
  have asset: "frame_wf (ConnectionAssetDetails asset_code asset_scale)"
    using assms(1,2) predict_le [of "length asset_code"]
    by (simp add: frame_wf_def length_put_var_octet_string)
  show ?thesis
  proof -
    obtain fr where "f \<in> set (case fr of StreamMoney stream_id _ \<Rightarrow> [StreamMaxMoney stream_id u64_max 0]
       | ConnectionNewAddress _ \<Rightarrow> [ConnectionAssetDetails asset_code asset_scale] | _ \<Rightarrow> [])"
      using assms(3) by (auto simp: response_frames_def)
    then show ?thesis using money asset by (cases fr) simp_all
  qed
qed

lemma length_response_frames: "length (response_frames asset_code asset_scale frames) \<le> length frames"
  by (induction frames) (auto simp: response_frames_def split: Frame.split)

lemma encrypted_reply:
  assumes "ring_ok R" "builder_wf b" "length nonce = NONCE_LENGTH"
  shows "\<exists>c. into_encrypted (hmac_sha256 R) (aead_seal R) secret (stream_packet_build b) nonce =
      (Ok c :: (_, 'e) result) \<and>
    from_encrypted cfg (hmac_sha256 R) (aead_open R) secret c = Ok (stream_packet_build b)"
proof -
  have "aead_ok (aead_seal R) (aead_open R)" using assms(1) by (simp add: ring_ok_def)
  from decrypt_encrypt [OF this assms(3), of "hmac_sha256 R" secret
      "sp_buffer_unencrypted (stream_packet_build b)"]
  show ?thesis
    using from_bytes_build [OF assms(2), of cfg "[]"] by (auto simp: into_encrypted_def from_encrypted_def)
qed

text \<open>
  The receiver fulfills a packet it can decrypt exactly when the condition of the packet is the one
  the shared secret gives for its data and the amount that arrived is at least the minimum the sender
  asked for; otherwise it rejects with F99. Either way the reply decrypts to a STREAM packet with the
  sender's sequence number, the amount that arrived, and a receive limit for every money frame; a
  fulfillment hashes to the condition.
\<close>

lemma receive_money_reply:
  fixes R :: ring_crypto and sp :: StreamPacket and cfg :: features
  assumes "ring_ok R" "prepare_data cfg p = (Ok payload :: (_, ReceiveErr) result)"
    and "execution_condition p = (Ok condition :: (_, ReceiveErr) result)"
    and "from_encrypted cfg (hmac_sha256 R) (aead_open R) secret payload = Ok sp"
    and "stream_frames cfg sp = Ok frames" "length frames < 2 ^ 64" "length nonce = NONCE_LENGTH"
    and "utf8_valid asset_code" "length asset_code < 2 ^ 32"
  shows "\<exists>reply. from_encrypted cfg (hmac_sha256 R) (aead_open R) secret reply = Ok (stream_packet_build
        \<lparr>b_sequence = sp_sequence sp,
         b_ilp_packet_type = (if condition = generate_condition (hash_sha256 R) (hmac_sha256 R) secret payload \<and>
           sp_prepare_amount sp \<le> p_amount p then FulfillType else RejectType),
         b_prepare_amount = p_amount p, b_frames = response_frames asset_code scale frames\<rparr>) \<and>
    receive_money cfg R nonce secret addr asset_code scale p =
      (if condition = generate_condition (hash_sha256 R) (hmac_sha256 R) secret payload \<and>
          sp_prepare_amount sp \<le> p_amount p
       then Ok \<lparr>ro_fulfill = fulfill_build
                  \<lparr>fb_fulfillment = generate_fulfillment (hmac_sha256 R) secret payload, fb_data = reply\<rparr>,
                ro_sequence = sp_sequence sp\<rparr>
       else Err (Rejection (reject_build \<lparr>rb_code = F99_APPLICATION_ERROR, rb_message = [],
              rb_triggered_by = Some addr, rb_data = reply\<rparr>) (sp_sequence sp)
              (list_ex closes_connection frames)))"
proof -
  let ?ok = "condition = generate_condition (hash_sha256 R) (hmac_sha256 R) secret payload \<and>
      sp_prepare_amount sp \<le> p_amount p"
  let ?b = "\<lambda>ty. \<lparr>b_sequence = sp_sequence sp, b_ilp_packet_type = ty, b_prepare_amount = p_amount p,
    b_frames = response_frames asset_code scale frames\<rparr>"
  have wf: "builder_wf (?b ty)" for ty
    using response_frame_wf [OF assms(8,9)] length_response_frames [of asset_code scale frames] assms(6)
    by (auto simp: builder_wf_def list_all_iff)
  obtain reply where reply: "into_encrypted (hmac_sha256 R) (aead_seal R) secret
      (stream_packet_build (?b (if ?ok then FulfillType else RejectType))) nonce = (Ok reply :: (_, ReceiveErr) result)"
    "from_encrypted cfg (hmac_sha256 R) (aead_open R) secret reply =
      Ok (stream_packet_build (?b (if ?ok then FulfillType else RejectType)))"
    using encrypted_reply [OF assms(1) wf assms(7)] by blast
  have "receive_money cfg R nonce secret addr asset_code scale p =
      (if ?ok
       then Ok \<lparr>ro_fulfill = fulfill_build
                  \<lparr>fb_fulfillment = generate_fulfillment (hmac_sha256 R) secret payload, fb_data = reply\<rparr>,
                ro_sequence = sp_sequence sp\<rparr>
       else Err (Rejection (reject_build \<lparr>rb_code = F99_APPLICATION_ERROR, rb_message = [],
              rb_triggered_by = Some addr, rb_data = reply\<rparr>) (sp_sequence sp)
              (list_ex closes_connection frames)))"
    using assms(2-5) reply(1)
    by (cases ?ok) (auto simp: receive_money_def generate_condition_def Let_def)
  then show ?thesis using reply(2) by blast
qed

end
