(* ===== verification/Balance_Service.thy ===== *)
theory Balance_Service
  imports Balance_Store
begin

text \<open>
  The balance service, \<^verbatim>\<open>crates/interledger-service-util/src/balance_service.rs\<close>: a packet's amount is
  taken from the sender before forwarding, credited to the receiver when it is fulfilled and given
  back when it is rejected; what exceeds the settlement threshold is settled or refunded.

  The service is generic in its store: \<open>'st BalanceOps\<close> has the operations of the traits
  \<^verbatim>\<open>BalanceStore\<close> and \<^verbatim>\<open>SettlementStore\<close> it calls. Work handed to \<^verbatim>\<open>tokio::spawn\<close> is a task; a task
  runs up to its next \<^verbatim>\<open>await\<close> on the store or on the settlement engine and leaves the rest as a
  task, so that tasks interleave as in the runtime. The engine is a parameter.
\<close>

section \<open>The service\<close>

record 'st BalanceOps =
  ops_prepare :: "Uuid \<Rightarrow> u64 \<Rightarrow> 'st \<Rightarrow> (unit, BalanceStoreError) result \<times> 'st"
  ops_fulfill :: "Uuid \<Rightarrow> u64 \<Rightarrow> 'st \<Rightarrow> (int \<times> u64, BalanceStoreError) result \<times> 'st"
  ops_reject :: "Uuid \<Rightarrow> u64 \<Rightarrow> 'st \<Rightarrow> (unit, BalanceStoreError) result \<times> 'st"
  ops_delayed :: "Uuid \<Rightarrow> 'st \<Rightarrow> (int \<times> u64, BalanceStoreError) result \<times> 'st"
  ops_refund :: "Uuid \<Rightarrow> u64 \<Rightarrow> 'st \<Rightarrow> (unit, BalanceStoreError) result \<times> 'st"

definition redis_ops :: "RedisDb BalanceOps" where
  "redis_ops = \<lparr>ops_prepare = update_balances_for_prepare, ops_fulfill = update_balances_for_fulfill,
     ops_reject = update_balances_for_reject, ops_delayed = update_balances_for_delayed_settlement,
     ops_refund = refund_settlement\<rparr>"

datatype ManageTimeout = Clear Uuid | Set Uuid

datatype Policy = ThresholdOnly | TimeBased

definition clear_later :: "Policy \<Rightarrow> Uuid \<Rightarrow> ManageTimeout list" where
  "clear_later policy i = (case policy of ThresholdOnly \<Rightarrow> [] | TimeBased \<Rightarrow> [Clear i])"

definition settle_later :: "Policy \<Rightarrow> Uuid \<Rightarrow> ManageTimeout list" where
  "settle_later policy i = (case policy of ThresholdOnly \<Rightarrow> [] | TimeBased \<Rightarrow> [Set i])"

datatype BalanceTask =
    SettleOrRollbackNow u64 Account
  | SettleOrRollback Account u64
  | Refund Uuid u64
  | RollBackPrepare Uuid u64
  | DelayedSettlement Account

text \<open>\<^verbatim>\<open>settle_or_rollback\<close>: the next tasks, and whether the amount was settled by the engine.\<close>

definition settle_or_rollback ::
  "(Uuid \<Rightarrow> u64 \<Rightarrow> u8 \<Rightarrow> bool) \<Rightarrow> Account \<Rightarrow> u64 \<Rightarrow> BalanceTask list \<times> bool" where
  "settle_or_rollback send_settlement to amount =
     (if amount = 0 then ([], False)
      else case acc_settlement_engine_url to of
        Some _ \<Rightarrow>
          if send_settlement (acc_id to) amount (acc_asset_scale to) then ([], True)
          else ([Refund (acc_id to) amount], False)
      | None \<Rightarrow> ([], False))"

text \<open>\<^verbatim>\<open>settle_or_rollback_now\<close>, up to the call of \<^verbatim>\<open>settle_or_rollback\<close>.\<close>

definition settle_or_rollback_now ::
  "'st BalanceOps \<Rightarrow> Policy \<Rightarrow> u64 \<Rightarrow> Account \<Rightarrow> 'st \<Rightarrow>
   (BalanceTask list \<times> ManageTimeout list, BalanceStoreError) result \<times> 'st" where
  "settle_or_rollback_now ops policy outgoing_amount to st =
     (case ops_fulfill ops (acc_id to) outgoing_amount st of
        (Ok (balance, amount_to_settle), st1) \<Rightarrow>
          if amount_to_settle = 0 then
            (Ok ([], if balance > 0 then settle_later policy (acc_id to) else []), st1)
          else (Ok ([SettleOrRollback to amount_to_settle], clear_later policy (acc_id to)), st1)
      | (Err e, st1) \<Rightarrow> (Err e, st1)
      | (Panic, st1) \<Rightarrow> (Panic, st1))"

definition insufficient_liquidity :: "Address \<Rightarrow> Reject" where
  "insufficient_liquidity ilp_address =
     reject_build \<lparr>rb_code = T04_INSUFFICIENT_LIQUIDITY, rb_message = [],
       rb_triggered_by = Some ilp_address, rb_data = []\<rparr>"

text \<open>What the response of the next service makes the balance service spawn.\<close>

definition on_response :: "OutgoingRequest \<Rightarrow> IlpResult \<Rightarrow> BalanceTask list" where
  "on_response request response =
     (case response of
        Ok _ \<Rightarrow> if p_amount (out_prepare request) > 0
                then [SettleOrRollbackNow (p_amount (out_prepare request)) (out_to request)] else []
      | Err _ \<Rightarrow> [RollBackPrepare (acc_id (out_from request)) (out_original_amount request)]
      | Panic \<Rightarrow> [])"

definition balance_send_request ::
  "'st BalanceOps \<Rightarrow> Address \<Rightarrow> 's outgoing_service \<Rightarrow> OutgoingRequest \<Rightarrow> 'st \<Rightarrow> 's \<Rightarrow>
   IlpResult \<times> BalanceTask list \<times> 'st \<times> 's" where
  "balance_send_request ops ilp_address next request st s =
     (if p_amount (out_prepare request) = 0 \<and> out_original_amount request = 0 then
        (let (response, s1) = next request s in (response, [], st, s1))
      else case ops_prepare ops (acc_id (out_from request)) (out_original_amount request) st of
        (Ok _, st1) \<Rightarrow>
          (let (response, s1) = next request s in (response, on_response request response, st1, s1))
      | (Err _, st1) \<Rightarrow> (Err (insufficient_liquidity ilp_address), [], st1, s)
      | (Panic, st1) \<Rightarrow> (Panic, [], st1, s))"

section \<open>Delayed settlement\<close>

text \<open>
  The background task keeps the accounts with a pending timeout, \<^verbatim>\<open>in_queue\<close>, with the time it expires;
  the delay queue holds the same entries.
\<close>

type_synonym Timeouts = "(Uuid, nat) hashmap"

definition manage_timeout :: "nat \<Rightarrow> nat \<Rightarrow> ManageTimeout \<Rightarrow> Timeouts \<Rightarrow> Timeouts" where
  "manage_timeout delay now cmd in_queue =
     (case cmd of
        Clear i \<Rightarrow> hm_remove i in_queue
      | Set i \<Rightarrow> if hm_get in_queue i = None then hm_insert i (now + delay) in_queue else in_queue)"

definition timeout_expired :: "nat \<Rightarrow> Timeouts \<Rightarrow> (Uuid \<times> Timeouts) option" where
  "timeout_expired now in_queue =
     (case filter (\<lambda>(_, t). t \<le> now) in_queue of
        [] \<Rightarrow> None
      | (i, _) # _ \<Rightarrow> Some (i, hm_remove i in_queue))"

datatype AccountStoreError = AccountStoreError

definition load_for_delayed_settlement ::
  "(Uuid \<Rightarrow> (Account list, AccountStoreError) result) \<Rightarrow> Uuid \<Rightarrow> BalanceTask list" where
  "load_for_delayed_settlement get_accounts i =
     (case get_accounts i of Ok [to] \<Rightarrow> [DelayedSettlement to] | _ \<Rightarrow> [])"

definition delayed_settlement ::
  "'st BalanceOps \<Rightarrow> Account \<Rightarrow> 'st \<Rightarrow> (BalanceTask list, BalanceStoreError) result \<times> 'st" where
  "delayed_settlement ops to st =
     (case ops_delayed ops (acc_id to) st of
        (Ok (balance, amount_to_settle), st1) \<Rightarrow> (Ok [SettleOrRollback to amount_to_settle], st1)
      | (Err e, st1) \<Rightarrow> (Err e, st1)
      | (Panic, st1) \<Rightarrow> (Panic, st1))"

section \<open>The books\<close>

text \<open>
  The store with the packets whose response is outstanding and the tasks not yet run. Three counters
  record what happened: \<open>bk_flow\<close> what fulfilled packets took from and brought to an account,
  \<open>bk_settled\<close> what the settlement engine accepted, and \<open>bk_faults\<close> the steps in which the store failed
  or an amount was due for settlement from an account without an engine.
\<close>

record 'st books =
  bk_store :: 'st
  bk_waiting :: "OutgoingRequest list"
  bk_tasks :: "BalanceTask list"
  bk_flow :: "Uuid \<Rightarrow> int"
  bk_settled :: "Uuid \<Rightarrow> int"
  bk_faults :: nat

definition books_new :: "'st \<Rightarrow> 'st books" where
  "books_new st = \<lparr>bk_store = st, bk_waiting = [], bk_tasks = [], bk_flow = (\<lambda>_. 0),
     bk_settled = (\<lambda>_. 0), bk_faults = 0\<rparr>"

definition credit :: "Uuid \<Rightarrow> int \<Rightarrow> Uuid \<Rightarrow> int" where
  "credit i a j = (if j = i then a else 0)"

definition fulfilled_flow :: "OutgoingRequest \<Rightarrow> Uuid \<Rightarrow> int" where
  "fulfilled_flow req j = credit (acc_id (out_to req)) (uint (p_amount (out_prepare req))) j -
     credit (acc_id (out_from req)) (uint (out_original_amount req)) j"

definition completed :: "BalanceTask \<Rightarrow> BalanceTask list \<Rightarrow> 'st \<Rightarrow> 'st books \<Rightarrow> 'st books" where
  "completed t new st b = b\<lparr>bk_store := st, bk_tasks := remove1 t (bk_tasks b) @ new\<rparr>"

definition fault :: "'st books \<Rightarrow> 'st books" where
  "fault b = b\<lparr>bk_faults := Suc (bk_faults b)\<rparr>"

inductive book_step :: "'st BalanceOps \<Rightarrow> Policy \<Rightarrow> 'st books \<Rightarrow> 'st books \<Rightarrow> bool"
  for ops :: "'st BalanceOps" and policy :: Policy
where
  accept: "ops_prepare ops (acc_id (out_from req)) (out_original_amount req) (bk_store b) = (Ok (), st) \<Longrightarrow>
    book_step ops policy b (b\<lparr>bk_store := st, bk_waiting := req # bk_waiting b\<rparr>)"
| refuse: "ops_prepare ops i a (bk_store b) =
      (Err UnderMinimumBalance, st) \<Longrightarrow> book_step ops policy b (b\<lparr>bk_store := st\<rparr>)"
| prepare_fault: "ops_prepare ops i a (bk_store b) = (res, st) \<Longrightarrow> res \<noteq> Ok () \<Longrightarrow>
    book_step ops policy b (fault (b\<lparr>bk_store := st\<rparr>))"
| fulfilled: "req \<in> set (bk_waiting b) \<Longrightarrow>
    book_step ops policy b (b\<lparr>bk_waiting := remove1 req (bk_waiting b),
      bk_tasks := bk_tasks b @ on_response req (Ok f),
      bk_flow := (\<lambda>j. bk_flow b j + fulfilled_flow req j)\<rparr>)"
| rejected: "req \<in> set (bk_waiting b) \<Longrightarrow>
    book_step ops policy b (b\<lparr>bk_waiting := remove1 req (bk_waiting b),
      bk_tasks := bk_tasks b @ on_response req (Err r)\<rparr>)"
| credited: "SettleOrRollbackNow a to \<in> set (bk_tasks b) \<Longrightarrow>
    settle_or_rollback_now ops policy a to (bk_store b) = (Ok (new, cmds), st) \<Longrightarrow>
    book_step ops policy b (completed (SettleOrRollbackNow a to) new st b)"
| settle: "SettleOrRollback to a \<in> set (bk_tasks b) \<Longrightarrow> a = 0 \<or> acc_settlement_engine_url to \<noteq> None \<Longrightarrow>
    settle_or_rollback send_settlement to a = (new, settled) \<Longrightarrow>
    book_step ops policy b ((completed (SettleOrRollback to a) new (bk_store b) b)\<lparr>bk_settled :=
      (\<lambda>j. bk_settled b j + (if settled then credit (acc_id to) (uint a) j else 0))\<rparr>)"
| no_engine: "SettleOrRollback to a \<in> set (bk_tasks b) \<Longrightarrow> a \<noteq> 0 \<Longrightarrow> acc_settlement_engine_url to = None \<Longrightarrow>
    settle_or_rollback send_settlement to a = (new, settled) \<Longrightarrow>
    book_step ops policy b (fault (completed (SettleOrRollback to a) new (bk_store b) b))"
| refunded: "Refund i a \<in> set (bk_tasks b) \<Longrightarrow> ops_refund ops i a (bk_store b) = (Ok (), st) \<Longrightarrow>
    book_step ops policy b (completed (Refund i a) [] st b)"
| rolled_back: "RollBackPrepare i a \<in> set (bk_tasks b) \<Longrightarrow> ops_reject ops i a (bk_store b) = (Ok (), st) \<Longrightarrow>
    book_step ops policy b (completed (RollBackPrepare i a) [] st b)"
| timeout: "book_step ops policy b (b\<lparr>bk_tasks := bk_tasks b @ load_for_delayed_settlement get_accounts i\<rparr>)"
| delayed: "DelayedSettlement to \<in> set (bk_tasks b) \<Longrightarrow>
    delayed_settlement ops to (bk_store b) = (Ok new, st) \<Longrightarrow>
    book_step ops policy b (completed (DelayedSettlement to) new st b)"
| task_fault: "t \<in> set (bk_tasks b) \<Longrightarrow> book_step ops policy b (fault (completed t [] st b))"

text \<open>What an account is still owed by outstanding packets and tasks.\<close>

primrec task_due :: "BalanceTask \<Rightarrow> Uuid \<Rightarrow> int" where
  "task_due (SettleOrRollbackNow a to) = credit (acc_id to) (uint a)"
| "task_due (SettleOrRollback to a) = credit (acc_id to) (uint a)"
| "task_due (Refund i a) = credit i (uint a)"
| "task_due (RollBackPrepare i a) = credit i (uint a)"
| "task_due (DelayedSettlement to) = (\<lambda>_. 0)"

definition waiting_due :: "OutgoingRequest \<Rightarrow> Uuid \<Rightarrow> int" where
  "waiting_due req = credit (acc_id (out_from req)) (uint (out_original_amount req))"

definition due :: "'st books \<Rightarrow> Uuid \<Rightarrow> int" where
  "due b j = sum_list (map (\<lambda>r. waiting_due r j) (bk_waiting b)) +
     sum_list (map (\<lambda>t. task_due t j) (bk_tasks b))"

section \<open>The contract of a balance store\<close>

locale balance_store =
  fixes ops :: "'st BalanceOps" and net :: "'st \<Rightarrow> Uuid \<Rightarrow> int"
  assumes prepare_ok: "ops_prepare ops i a st = (Ok (), st') \<Longrightarrow>
      net st' j = net st j - credit i (uint a) j"
    and prepare_refused: "ops_prepare ops i a st = (Err UnderMinimumBalance, st') \<Longrightarrow> net st' j = net st j"
    and fulfill_ok: "ops_fulfill ops i a st = (Ok (v, n), st') \<Longrightarrow>
      net st' j = net st j + credit i (uint a) j - credit i (uint n) j"
    and reject_ok: "ops_reject ops i a st = (Ok (), st') \<Longrightarrow> net st' j = net st j + credit i (uint a) j"
    and delayed_ok: "ops_delayed ops i st = (Ok (v, n), st') \<Longrightarrow> net st' j = net st j - credit i (uint n) j"
    and refund_ok: "ops_refund ops i a st = (Ok (), st') \<Longrightarrow> net st' j = net st j + credit i (uint a) j"
begin

lemma settle_or_rollback_now_net:
  assumes "settle_or_rollback_now ops policy a to st = (Ok (new, cmds), st')"
  shows "net st' j + sum_list (map (\<lambda>t. task_due t j) new) = net st j + credit (acc_id to) (uint a) j"
proof -
  obtain v n where *: "ops_fulfill ops (acc_id to) a st = (Ok (v, n), st')"
      "new = (if n = 0 then [] else [SettleOrRollback to n])"
    using assms unfolding settle_or_rollback_now_def
    by (auto split: prod.splits result.splits if_splits)
  show ?thesis using fulfill_ok [OF *(1), of j] *(2) by (auto simp: credit_def)
qed

lemma delayed_settlement_net:
  assumes "delayed_settlement ops to st = (Ok new, st')"
  shows "net st' j + sum_list (map (\<lambda>t. task_due t j) new) = net st j"
proof -
  obtain v n where *: "ops_delayed ops (acc_id to) st = (Ok (v, n), st')" "new = [SettleOrRollback to n]"
    using assms unfolding delayed_settlement_def by (auto split: prod.splits result.splits)
  show ?thesis using delayed_ok [OF *(1), of j] *(2) by simp
qed

end

context balance_store
begin

lemma book_step_conserves:
  assumes "book_step ops policy b b'" "bk_faults b' = 0"
  shows "bk_faults b = 0 \<and>
    net (bk_store b') j + due b' j - bk_flow b' j + bk_settled b' j =
    net (bk_store b) j + due b j - bk_flow b j + bk_settled b j"
  using assms
proof cases
  case (accept req st)
  then show ?thesis
    using assms(2) prepare_ok [OF accept(2), of j] by (simp add: due_def waiting_due_def)
next
  case (refuse i a st)
  then show ?thesis using assms(2) prepare_refused [OF refuse(2), of j] by (simp add: due_def)
next
  case (fulfilled req f)
  have "sum_list (map (\<lambda>t. task_due t j) (on_response req (Ok f))) =
      credit (acc_id (out_to req)) (uint (p_amount (out_prepare req))) j"
    by (auto simp: on_response_def credit_def word_gt_0)
  then show ?thesis
    using fulfilled assms(2) sum_list_map_remove1 [OF fulfilled(2), of "\<lambda>r. waiting_due r j"]
    by (simp add: due_def fulfilled_flow_def waiting_due_def)
next
  case (rejected req r)
  then show ?thesis
    using assms(2) sum_list_map_remove1 [OF rejected(2), of "\<lambda>r. waiting_due r j"]
    by (simp add: due_def on_response_def waiting_due_def)
next
  case (credited a to new cmds st)
  then show ?thesis
    using assms(2) sum_list_map_remove1 [OF credited(2), of "\<lambda>t. task_due t j"]
      settle_or_rollback_now_net [OF credited(3), of j]
    by (simp add: due_def completed_def)
next
  case (settle to a send_settlement new settled)
  have "sum_list (map (\<lambda>t. task_due t j) new) + (if settled then credit (acc_id to) (uint a) j else 0) =
      credit (acc_id to) (uint a) j"
    using settle(3,4) by (auto simp: settle_or_rollback_def credit_def split: option.splits if_splits)
  then show ?thesis
    using settle assms(2) sum_list_map_remove1 [OF settle(2), of "\<lambda>t. task_due t j"]
    by (simp add: due_def completed_def)
next
  case (refunded i a st)
  then show ?thesis
    using assms(2) sum_list_map_remove1 [OF refunded(2), of "\<lambda>t. task_due t j"] refund_ok [OF refunded(3), of j]
    by (simp add: due_def completed_def)
next
  case (rolled_back i a st)
  then show ?thesis
    using assms(2) sum_list_map_remove1 [OF rolled_back(2), of "\<lambda>t. task_due t j"]
      reject_ok [OF rolled_back(3), of j]
    by (simp add: due_def completed_def)
next
  case (timeout get_accounts i)
  have "sum_list (map (\<lambda>t. task_due t j) (load_for_delayed_settlement get_accounts i)) = 0"
    by (auto simp: load_for_delayed_settlement_def split: result.splits list.splits)
  then show ?thesis using timeout assms(2) by (simp add: due_def)
next
  case (delayed to new st)
  then show ?thesis
    using assms(2) sum_list_map_remove1 [OF delayed(2), of "\<lambda>t. task_due t j"]
      delayed_settlement_net [OF delayed(3), of j]
    by (simp add: due_def completed_def)
qed (simp_all add: fault_def)

lemma books_balance:
  assumes "(book_step ops policy)\<^sup>*\<^sup>* (books_new st) b" "bk_faults b = 0"
  shows "net (bk_store b) j + due b j = net st j + bk_flow b j - bk_settled b j"
  using assms
proof (induction rule: rtranclp_induct)
  case base
  then show ?case by (simp add: books_new_def due_def)
next
  case (step b b')
  from book_step_conserves [OF step(2,4), of j] step(3) show ?case by simp
qed

end

lemma uint_settlement: "as_settlement r = Ok (v, n) \<Longrightarrow> uint n = snd r"
  by (auto simp: as_settlement_def uint_word_of_int split: if_splits)

lemma redis_prepare:
  assumes "update_balances_for_prepare i a db = (res, db')"
  shows "res = Ok () \<Longrightarrow> redis_net db' j = redis_net db j - credit i (uint a) j"
    and "res = Err UnderMinimumBalance \<Longrightarrow> redis_net db' j = redis_net db j"
proof -
  obtain r h where p: "process_prepare (uint a) (db_accounts db i) = (r, h)" by (rule prod.exhaust)
  have eq: "res = (if a = 0 then Ok () else map_ok (\<lambda>_. ()) r)"
    "redis_net db' j = (if a \<noteq> 0 \<and> j = i then hash_net h else redis_net db j)"
    using assms p by (auto simp: update_balances_for_prepare_def on_account_def redis_net_def split: if_splits)
  show "res = Ok () \<Longrightarrow> redis_net db' j = redis_net db j - credit i (uint a) j"
    using process_prepare_net p eq by (cases r) (auto simp: credit_def redis_net_def)
  show "res = Err UnderMinimumBalance \<Longrightarrow> redis_net db' j = redis_net db j"
    using process_prepare_refused p eq by (cases r) (auto simp: redis_net_def split: if_splits)
qed

lemma redis_fulfill:
  assumes "update_balances_for_fulfill i a db = (Ok (v, n), db')"
  shows "redis_net db' j = redis_net db j + credit i (uint a) j - credit i (uint n) j"
proof -
  obtain r h where p: "process_fulfill (uint a) (db_accounts db i) = (r, h)" by (rule prod.exhaust)
  then obtain u k where r: "r = Ok (u, k)" "as_settlement (u, k) = Ok (v, n)"
    using assms by (auto simp: update_balances_for_fulfill_def on_account_def and_then_eq_Ok)
  have "redis_net db' j = (if j = i then hash_net h else redis_net db j)"
    using assms p by (auto simp: update_balances_for_fulfill_def on_account_def redis_net_def)
  then show ?thesis
    using process_fulfill_net [OF p [unfolded r(1)]] uint_settlement [OF r(2)]
    by (auto simp: credit_def redis_net_def)
qed

lemma redis_delayed:
  assumes "update_balances_for_delayed_settlement i db = (Ok (v, n), db')"
  shows "redis_net db' j = redis_net db j - credit i (uint n) j"
proof -
  obtain r h where p: "process_settle (db_accounts db i) = (r, h)" by (rule prod.exhaust)
  then obtain u k where r: "r = Ok (u, k)" "as_settlement (u, k) = Ok (v, n)"
    using assms by (auto simp: update_balances_for_delayed_settlement_def on_account_def and_then_eq_Ok)
  have "redis_net db' j = (if j = i then hash_net h else redis_net db j)"
    using assms p by (auto simp: update_balances_for_delayed_settlement_def on_account_def redis_net_def)
  then show ?thesis
    using process_settle_net [OF p [unfolded r(1)]] uint_settlement [OF r(2)]
    by (auto simp: credit_def redis_net_def)
qed

lemma redis_reject:
  assumes "update_balances_for_reject i a db = (Ok (), db')"
  shows "redis_net db' j = redis_net db j + credit i (uint a) j"
proof -
  obtain r h where p: "process_reject (uint a) (db_accounts db i) = (r, h)" by (rule prod.exhaust)
  have "a = 0 \<or> (\<exists>v. r = Ok v)"
    "redis_net db' j = (if a \<noteq> 0 \<and> j = i then hash_net h else redis_net db j)"
    using assms p
    by (auto simp: update_balances_for_reject_def on_account_def redis_net_def map_ok_eq_Ok split: if_splits)
  then show ?thesis using process_reject_net p by (auto simp: credit_def redis_net_def)
qed

lemma redis_refund:
  assumes "refund_settlement i a db = (Ok (), db')"
  shows "redis_net db' j = redis_net db j + credit i (uint a) j"
proof -
  obtain r h where p: "process_refund_settlement (uint a) (db_accounts db i) = (r, h)" by (rule prod.exhaust)
  have "\<exists>v. r = Ok v" "redis_net db' j = (if j = i then hash_net h else redis_net db j)"
    using assms p by (auto simp: refund_settlement_def on_account_def redis_net_def map_ok_eq_Ok)
  then show ?thesis using process_refund_net p by (auto simp: credit_def redis_net_def)
qed

interpretation redis: balance_store redis_ops redis_net
  by unfold_locales
    (auto simp: redis_ops_def dest: redis_prepare redis_fulfill redis_reject redis_delayed redis_refund)

section \<open>Properties\<close>


lemma accepted_request_steps:
  assumes "update_balances_for_prepare (acc_id (out_from req)) (out_original_amount req) (bk_store b) = (Ok (), db1)"
    and "resp \<noteq> Panic"
  shows "\<exists>b'. (book_step redis_ops policy)\<^sup>*\<^sup>* b b' \<and> bk_store b' = db1 \<and>
    bk_tasks b' = bk_tasks b @ on_response req resp \<and> bk_waiting b' = bk_waiting b \<and> bk_faults b' = bk_faults b"
proof -
  let ?b1 = "b\<lparr>bk_store := db1, bk_waiting := req # bk_waiting b\<rparr>"
  have step1: "book_step redis_ops policy b ?b1"
    by (rule book_step.accept) (simp add: assms(1) redis_ops_def)
  have "\<exists>b'. book_step redis_ops policy ?b1 b' \<and> bk_store b' = db1 \<and>
      bk_tasks b' = bk_tasks b @ on_response req resp \<and> bk_waiting b' = bk_waiting b \<and> bk_faults b' = bk_faults b"
  proof (cases resp)
    case (Ok f)
    show ?thesis
      by (rule exI, rule conjI, rule book_step.fulfilled [of req _ _ _ f]) (simp_all add: Ok)
  next
    case (Err rej)
    show ?thesis
      by (rule exI, rule conjI, rule book_step.rejected [of req _ _ _ rej]) (simp_all add: Err)
  qed (use assms(2) in simp)
  then obtain b' where b': "book_step redis_ops policy ?b1 b'" "bk_store b' = db1"
      "bk_tasks b' = bk_tasks b @ on_response req resp" "bk_waiting b' = bk_waiting b" "bk_faults b' = bk_faults b"
    by blast
  from step1 b'(1) have "(book_step redis_ops policy)\<^sup>*\<^sup>* b b'" by simp
  with b'(2-) show ?thesis by blast
qed

text \<open>
  C28. The handler of the service follows the books. Unless the store fails or the next service panics,
  what \<^verbatim>\<open>send_request\<close> returns, does to the store and spawns is one of: nothing for a packet without
  amounts; a reject with code T04 and an unchanged account; or the steps of accepting the packet and
  handling the response, whose fulfill or reject is returned as it is.
\<close>

theorem send_request_follows_books:
  assumes "balance_send_request redis_ops ilp_address next req db s = (response, tasks, db', s')"
    and "fst (update_balances_for_prepare (acc_id (out_from req)) (out_original_amount req) db) \<in>
      {Ok (), Err UnderMinimumBalance}"
    and "fst (next req s) \<noteq> Panic"
  shows "(p_amount (out_prepare req) = 0 \<and> out_original_amount req = 0 \<and>
      response = fst (next req s) \<and> tasks = [] \<and> db' = db) \<or>
    (response = Err (insufficient_liquidity ilp_address) \<and> tasks = [] \<and> s' = s \<and>
      (\<forall>i. redis_net db' i = redis_net db i)) \<or>
    (response = fst (next req s) \<and>
      (\<forall>b. bk_store b = db \<longrightarrow> (\<exists>b'. (book_step redis_ops policy)\<^sup>*\<^sup>* b b' \<and> bk_store b' = db' \<and>
         bk_tasks b' = bk_tasks b @ tasks \<and> bk_waiting b' = bk_waiting b \<and> bk_faults b' = bk_faults b)))"
proof (cases "p_amount (out_prepare req) = 0 \<and> out_original_amount req = 0")
  case True
  then show ?thesis using assms(1) by (auto simp: balance_send_request_def split: prod.splits)
next
  case nonzero: False
  let ?upd = "update_balances_for_prepare (acc_id (out_from req)) (out_original_amount req)"
  obtain r db1 where upd: "?upd db = (r, db1)" by (rule prod.exhaust)
  consider "r = Ok ()" | "r = Err UnderMinimumBalance" using assms(2) upd by auto
  then show ?thesis
  proof cases
    case 1
    obtain resp s1 where nx: "next req s = (resp, s1)" by (rule prod.exhaust)
    have *: "response = resp" "tasks = on_response req resp" "db' = db1"
      using assms(1) nonzero upd 1 nx
      by (auto simp: balance_send_request_def redis_ops_def split: if_splits)
    have "resp \<noteq> Panic" using assms(3) nx by simp
    then have "\<exists>b'. (book_step redis_ops policy)\<^sup>*\<^sup>* b b' \<and> bk_store b' = db' \<and>
         bk_tasks b' = bk_tasks b @ tasks \<and> bk_waiting b' = bk_waiting b \<and> bk_faults b' = bk_faults b"
      if "bk_store b = db" for b
      using accepted_request_steps [of req b db1 resp policy] upd 1 that * by simp
    then show ?thesis using * nx by simp
  next
    case 2
    then have "response = Err (insufficient_liquidity ilp_address)" "tasks = []" "s' = s" "db' = db1"
      using assms(1) nonzero upd by (auto simp: balance_send_request_def redis_ops_def split: if_splits)
    then show ?thesis using redis_prepare(2) [OF upd 2] by simp
  qed
qed


section \<open>Examples\<close>

definition example_outgoing :: "u64 \<Rightarrow> u64 \<Rightarrow> OutgoingRequest" where
  "example_outgoing original amount =
     \<lparr>out_from = example_account 3 (bstr ''test.a'') Child, out_to = example_account 2 (bstr ''test.b'') Child,
      out_original_amount = original,
      out_prepare = \<lparr>p_buffer = [], p_content_offset = 0, p_destination = Address (bstr ''test.b''),
        p_amount = amount, p_expires_at = 0, p_data_offset = 0\<rparr>\<rparr>"

definition example_bank :: RedisDb where
  "example_bank = \<lparr>db_accounts = (\<lambda>_. example_hash), db_settlement_keys = []\<rparr>"

definition example_books :: "RedisDb books" where
  "example_books = (books_new example_bank)\<lparr>
     bk_store := snd (update_balances_for_prepare 3 5 example_bank), bk_waiting := [example_outgoing 5 4]\<rparr>"

lemma example_prepare_ok: "fst (update_balances_for_prepare 3 5 example_bank) = Ok ()"
  by code_simp

lemma example_bank_net: "redis_net example_bank i = 130"
  by (simp add: redis_net_def example_bank_def example_hash_def hash_net_def)


theorem send_request_follows_books_witness:
  "\<exists>b. (book_step redis_ops ThresholdOnly)\<^sup>*\<^sup>* (books_new example_bank) b \<and>
     bk_tasks b = [RollBackPrepare 3 5] \<and> bk_waiting b = [] \<and> bk_faults b = 0"
proof -
  let ?next = "\<lambda>(_ :: OutgoingRequest) (s :: unit). (Err (insufficient_liquidity (Address [])) :: IlpResult, s)"
  let ?call = "balance_send_request redis_ops (Address []) ?next (example_outgoing 5 4) example_bank ()"
  have prep: "fst (update_balances_for_prepare (acc_id (out_from (example_outgoing 5 4)))
      (out_original_amount (example_outgoing 5 4)) example_bank) = Ok ()"
    using example_prepare_ok by (simp add: example_outgoing_def example_account_def)
  obtain db where "update_balances_for_prepare 3 5 example_bank = (Ok (), db)"
    using example_prepare_ok by (metis prod.collapse)
  then have call: "?call = (Err (insufficient_liquidity (Address [])), [RollBackPrepare 3 5], db, ())"
    by (simp add: balance_send_request_def example_outgoing_def example_account_def redis_ops_def
        on_response_def)
  have books: "bk_store (books_new example_bank) = example_bank" "bk_tasks (books_new example_bank) = []"
    "bk_waiting (books_new example_bank) = []" "bk_faults (books_new example_bank) = 0"
    by (simp_all add: books_new_def)
  have "\<forall>b. bk_store b = example_bank \<longrightarrow> (\<exists>b'. (book_step redis_ops ThresholdOnly)\<^sup>*\<^sup>* b b' \<and>
      bk_store b' = db \<and> bk_tasks b' = bk_tasks b @ [RollBackPrepare 3 5] \<and>
      bk_waiting b' = bk_waiting b \<and> bk_faults b' = bk_faults b)"
    using send_request_follows_books [OF call, of ThresholdOnly] prep by simp
  from this [rule_format, OF books(1)] show ?thesis using books by auto
qed


end
