(* ===== verification/Node.thy ===== *)
theory Node
  imports Service_Util Exchange Ildcp Stream_Server Balance_Service Ccp_Manager
begin

text \<open>
  The node: the services composed in the order of \<^verbatim>\<open>crates/ilp-node/src/node.rs\<close>. An incoming packet passes
  the rate limiter, the validator, the packet limit, ILDCP, the settlement messages, echo and the route manager
  to the router; the router hands it to the outgoing services: exchange, balances, the STREAM receiver, the
  expiry shortener and the validator, which sends it over the wire. The wire (ILP over HTTP and BTP), the
  settlement engine's client and the Redis rate limiter act on the world, a parameter.

  The lemmas chain the contracts of the services through the stack.
\<close>

section \<open>State and configuration\<close>

record 'w Node =
  nd_store :: RedisDb
  nd_balance_tasks :: "BalanceTask list"
  nd_manager :: CcpRouteManager
  nd_ccp_tasks :: "Task list"
  nd_notifications :: "PaymentNotification list"
  nd_routes :: "(bytes, Uuid) hashmap"
  nd_accounts :: "Uuid list \<Rightarrow> Account list option"
  nd_world :: 'w

text \<open>
  What is fixed while one packet is handled: the features, the cryptography, the address, the seed of the
  receiver, the times the services read from the clock, the nonce drawn for a STREAM response, and the
  parameters of the exchange service.
\<close>

record 'w NodeConfig =
  nc_features :: features
  nc_ring :: ring_crypto
  nc_generator :: ConnectionGenerator
  nc_format_ts :: "SystemTime \<Rightarrow> bytes"
  nc_ilp_address :: Address
  nc_now_incoming :: SystemTime
  nc_now_ccp :: SystemTime
  nc_now_shortener :: SystemTime
  nc_now_outgoing :: SystemTime
  nc_nonce :: bytes
  nc_timestamp :: bytes
  nc_powi10 :: "int \<Rightarrow> f64"
  nc_show_f64 :: "f64 \<Rightarrow> bytes"
  nc_rates :: "bytes list \<Rightarrow> f64 list option"
  nc_spread :: f64
  nc_throttle :: "'w throttle"
  nc_engine :: "'w engine_client"
  nc_show_status :: "nat \<Rightarrow> bytes"
  nc_wire :: "'w timed_service"

definition on_world :: "('w \<Rightarrow> 'a \<times> 'w) \<Rightarrow> 'w Node \<Rightarrow> 'a \<times> 'w Node" where
  "on_world f s = (case f (nd_world s) of (r, w) \<Rightarrow> (r, s\<lparr>nd_world := w\<rparr>))"

section \<open>Outgoing services\<close>

definition node_stream_receiver :: "'w NodeConfig \<Rightarrow> 'w Node outgoing_service \<Rightarrow> 'w Node outgoing_service" where
  "node_stream_receiver c nxt request s =
     (case stream_receiver_send_request (nc_features c) (nc_ring c) (nc_generator c) (nc_nonce c) (nc_timestamp c)
             nxt request s of
        (r, notifications, s') \<Rightarrow> (r, s'\<lparr>nd_notifications := nd_notifications s' @ notifications\<rparr>))"

definition node_balance :: "'w NodeConfig \<Rightarrow> 'w Node outgoing_service \<Rightarrow> 'w Node outgoing_service" where
  "node_balance c nxt request s =
     (case balance_send_request redis_ops (nc_ilp_address c) nxt request (nd_store s) s of
        (r, tasks, store, s') \<Rightarrow> (r, s'\<lparr>nd_store := store, nd_balance_tasks := nd_balance_tasks s' @ tasks\<rparr>))"

text \<open>The last two services before the wire, and the STREAM receiver in front of them.\<close>

definition node_wire :: "'w NodeConfig \<Rightarrow> 'w Node outgoing_service" where
  "node_wire c =
     expiry_shortener_send_request (nc_format_ts c) (nc_now_shortener c) DEFAULT_MAX_EXPIRY_DURATION
       (validator_send_request (hash_sha256 (nc_ring c)) (nc_ilp_address c) (nc_now_outgoing c)
         (\<lambda>time_left request. on_world (nc_wire c time_left request)))"

definition node_send_request :: "'w NodeConfig \<Rightarrow> 'w Node outgoing_service" where
  "node_send_request c =
     exchange_rate_send_request (nc_powi10 c) (nc_show_f64 c) (nc_rates c) (nc_spread c) (nc_ilp_address c)
       (node_balance c (node_stream_receiver c (node_wire c)))"

section \<open>Incoming services\<close>

definition node_router :: "'w NodeConfig \<Rightarrow> 'w Node incoming_service" where
  "node_router c request s =
     router_handle_request (nd_routes s) (nc_ilp_address c) (nd_accounts s) (node_send_request c) request s"

text \<open>The route manager answers route requests itself and passes every other packet on.\<close>

definition node_ccp :: "'w NodeConfig \<Rightarrow> 'w Node incoming_service \<Rightarrow> 'w Node incoming_service" where
  "node_ccp c nxt request s =
     (if p_destination (in_prepare request) \<in> {CCP_CONTROL_DESTINATION, CCP_UPDATE_DESTINATION} then
        (case ccp_handle_request (nc_features c) (nc_now_ccp c) (\<lambda>_. Panic) request (nd_manager s) of
           (r, manager, tasks) \<Rightarrow> (r, s\<lparr>nd_manager := manager, nd_ccp_tasks := nd_ccp_tasks s @ tasks\<rparr>))
      else nxt request s)"

definition node_rate_limits :: "'w NodeConfig \<Rightarrow> 'w Node RateLimitStore" where
  "node_rate_limits c =
     \<lparr>rl_apply = (\<lambda>account amount. on_world (redis_apply_rate_limits (nc_throttle c) account amount)),
      rl_refund = (\<lambda>account amount. on_world (redis_refund_throughput_limit (nc_throttle c) account amount))\<rparr>"

text \<open>The services behind the packet limit: ILDCP, settlement messages, echo, routes and the router.\<close>

definition node_answer :: "'w NodeConfig \<Rightarrow> 'w Node incoming_service" where
  "node_answer c =
     echo_handle_request (nc_features c) (nc_format_ts c) (nc_ilp_address c) (node_ccp c (node_router c))"

definition node_message :: "'w NodeConfig \<Rightarrow> 'w Node incoming_service" where
  "node_message c =
     settlement_message_handle_request (nc_features c) (nc_show_status c)
       (\<lambda>account url message. on_world (nc_engine c account url message)) (node_answer c)"

definition node_handle_request :: "'w NodeConfig \<Rightarrow> 'w Node incoming_service" where
  "node_handle_request c =
     rate_limit_handle_request (node_rate_limits c) (nc_ilp_address c)
       (validator_handle_request (nc_ilp_address c) (nc_now_incoming c)
         (max_packet_amount_handle_request (nc_ilp_address c) (ildcp_handle_request (node_message c))))"

section \<open>The contract of the outgoing stack\<close>

text \<open>
  The environment: SHA-256 and HMAC give thirty-two bytes, and the condition of the peer protocols is the
  hash of their fulfillment of thirty-two zeros.
\<close>

definition peer_env :: "ring_crypto \<Rightarrow> bool" where
  "peer_env R \<longleftrightarrow> ring_ok R \<and> hash_sha256 R (replicate 32 0) = PEER_PROTOCOL_CONDITION"

lemma execution_condition_error_type:
  "execution_condition p = (Ok x :: (_, 'e) result) \<Longrightarrow> execution_condition p = (Ok x :: (_, 'f) result)"
  by (auto simp: execution_condition_def slice_def Let_def split: if_splits)

lemma receive_money_Ok:
  assumes "receive_money cfg R nonce secret ilp_address code scale p = Ok received"
  shows "\<exists>payload d. execution_condition p =
      (Ok (hash_sha256 R (generate_fulfillment (hmac_sha256 R) secret payload)) :: (_, ReceiveErr) result) \<and>
    ro_fulfill received =
      fulfill_build \<lparr>fb_fulfillment = generate_fulfillment (hmac_sha256 R) secret payload, fb_data = d\<rparr>"
  using assms by (fastforce simp: receive_money_def ok_simps Let_def split: if_splits)

locale node_outgoing_prover =
  outgoing_prover sha256 env svc for sha256 and env and svc :: "'w Node outgoing_service"
begin

lemma stream_receiver_proves:
  assumes "sha256 = hash_sha256 (nc_ring c)" "ring_ok (nc_ring c)" env
    and "node_stream_receiver c svc r s = (Ok f, s')"
  shows "proves_condition sha256 (out_prepare r) f"
proof -
  let ?p = "out_prepare r"
  from assms(4) consider s2 where "svc r s = (Ok f, s2)"
    | secret received where "receive_money (nc_features c) (nc_ring c) (nc_nonce c) secret (acc_ilp_address (out_to r))
        (acc_asset_code (out_to r)) (acc_asset_scale (out_to r)) ?p = Ok received" "f = ro_fulfill received"
    by (auto simp: node_stream_receiver_def stream_receiver_send_request_def ok_simps Let_def
        split: if_splits result.splits prod.splits ReceiveErr.splits)
  then show ?thesis
  proof cases
    case 1
    then show ?thesis by (rule proves [OF assms(3)])
  next
    case 2
    then obtain payload d where x: "execution_condition ?p =
        (Ok (hash_sha256 (nc_ring c) (generate_fulfillment (hmac_sha256 (nc_ring c)) secret payload)) :: (_, ReceiveErr) result)"
      "f = fulfill_build \<lparr>fb_fulfillment = generate_fulfillment (hmac_sha256 (nc_ring c)) secret payload, fb_data = d\<rparr>"
      using receive_money_Ok by blast
    have "length (generate_fulfillment (hmac_sha256 (nc_ring c)) secret payload) = FULFILLMENT_LEN"
      using assms(2) by (simp add: generate_fulfillment_def ring_ok_def len_defs)
    then show ?thesis
      using execution_condition_error_type [OF x(1)] by (simp add: x(2) proves_condition_def assms(1) fulfill_build_fulfillment)
  qed
qed

lemma balance_proves:
  assumes env "node_balance c svc r s = (Ok f, s')"
  shows "proves_condition sha256 (out_prepare r) f"
  using assms
  by (auto simp: node_balance_def balance_send_request_def intro: proves split: if_splits result.splits prod.splits)

end

context outgoing_prover
begin

lemma exchange_proves:
  assumes env "exchange_rate_send_request powi10 show_f64 rates spread ilp_address svc r s = (Ok f, s')"
  shows "proves_condition sha256 (out_prepare r) f"
proof -
  from assms(2) consider "svc r s = (Ok f, s')"
    | a p where "set_amount a (out_prepare r) = (Ok p :: (_, Reject) result)" "svc (r\<lparr>out_prepare := p\<rparr>) s = (Ok f, s')"
    by (auto simp: exchange_rate_send_request_def ok_simps split: if_splits result.splits)
  then show ?thesis
  proof cases
    case 1
    then show ?thesis by (rule proves [OF assms(1)])
  next
    case 2
    then show ?thesis
      using proves [OF assms(1)] set_amount_keeps(1) by (fastforce intro: proves_condition_same)
  qed
qed

end

interpretation wired: node_outgoing_prover "hash_sha256 (nc_ring c)" "peer_env (nc_ring c)" "node_wire c"
  for c :: "'w NodeConfig"
  unfolding node_wire_def by unfold_locales (rule shortened.proves, simp_all)

interpretation received: node_outgoing_prover "hash_sha256 (nc_ring c)" "peer_env (nc_ring c)"
  "node_stream_receiver c (node_wire c)" for c :: "'w NodeConfig"
  by unfold_locales (rule wired.stream_receiver_proves [OF refl], simp_all add: peer_env_def)

interpretation booked: outgoing_prover "hash_sha256 (nc_ring c)" "peer_env (nc_ring c)"
  "node_balance c (node_stream_receiver c (node_wire c))" for c :: "'w NodeConfig"
  by unfold_locales (rule received.balance_proves)

interpretation outgoing: outgoing_prover "hash_sha256 (nc_ring c)" "peer_env (nc_ring c)" "node_send_request c"
  for c :: "'w NodeConfig"
  unfolding node_send_request_def by unfold_locales (rule booked.exchange_proves)

section \<open>The contract of the incoming stack\<close>

lemma peer_response_proves:
  assumes "peer_env R" "execution_condition p = (Ok PEER_PROTOCOL_CONDITION :: (_, Reject) result)"
  shows "proves_condition (hash_sha256 R) p (fulfill_build \<lparr>fb_fulfillment = replicate 32 0, fb_data = d\<rparr>)"
  using assms by (simp add: proves_condition_def peer_env_def fulfill_build_fulfillment len_defs)

lemma ccp_request_condition:
  assumes "ccp_handle_request cfg now (\<lambda>_. Panic) request m = (Ok f, m', tasks)"
  shows "f = CCP_RESPONSE \<and> execution_condition (in_prepare request) = (Ok PEER_PROTOCOL_CONDITION :: (_, Reject) result)"
proof -
  have "execution_condition (in_prepare request) = (Ok PEER_PROTOCOL_CONDITION :: (_, CcpPacketError) result)" "f = CCP_RESPONSE"
    using assms
    by (auto simp: ccp_handle_request_def handle_route_control_request_def handle_route_update_request_def
        route_control_try_from_def route_update_try_from_def route_control_try_from_without_expiry_def
        route_update_try_from_without_expiry_def try_from_without_expiry_def ok_simps Let_def
        split: if_splits result.splits prod.splits option.splits)
  then show ?thesis using execution_condition_error_type by blast
qed

lemma router_proves:
  assumes "peer_env (nc_ring c)" "node_router c r s = (Ok f, s')"
  shows "proves_condition (hash_sha256 (nc_ring c)) (in_prepare r) f"
  using assms(2) outgoing.proves [OF assms(1)]
  by (fastforce simp: node_router_def router_handle_request_def into_outgoing_def Let_def split: option.splits list.splits)

interpretation routed: incoming_prover "hash_sha256 (nc_ring c)" "peer_env (nc_ring c)" "\<lambda>_. True" "node_router c"
  for c :: "'w NodeConfig"
  by unfold_locales (rule router_proves)

lemma ccp_proves:
  assumes "peer_env (nc_ring c)" "node_ccp c (node_router c) r s = (Ok f, s')"
  shows "proves_condition (hash_sha256 (nc_ring c)) (in_prepare r) f"
proof (cases "p_destination (in_prepare r) \<in> {CCP_CONTROL_DESTINATION, CCP_UPDATE_DESTINATION}")
  case True
  then obtain m tasks where "ccp_handle_request (nc_features c) (nc_now_ccp c) (\<lambda>_. Panic) r (nd_manager s) = (Ok f, m, tasks)"
    using assms(2) by (auto simp: node_ccp_def split: prod.splits if_splits)
  from ccp_request_condition [OF this] show ?thesis
    using peer_response_proves [OF assms(1)] by (simp add: CCP_RESPONSE_def PEER_PROTOCOL_FULFILLMENT_def)
next
  case False
  then show ?thesis using assms(2) routed.proves [OF assms(1)] by (auto simp: node_ccp_def)
qed

interpretation managed: incoming_prover "hash_sha256 (nc_ring c)" "peer_env (nc_ring c)" "\<lambda>_. True"
  "node_ccp c (node_router c)" for c :: "'w NodeConfig"
  by unfold_locales (rule ccp_proves)

text \<open>
  The packets covered: those whose expiry is written in seventeen bytes, as every parsed one is, and that are
  not messages of a settlement engine, which are answered whatever their condition.
\<close>

definition expiry_formats :: "'w NodeConfig \<Rightarrow> IncomingRequest \<Rightarrow> bool" where
  "expiry_formats c r \<longleftrightarrow> length (nc_format_ts c (p_expires_at (in_prepare r))) = EXPIRY_LEN"

definition settlement_message :: "IncomingRequest \<Rightarrow> bool" where
  "settlement_message r \<longleftrightarrow>
     acc_settlement_engine_url (in_from r) \<noteq> None \<and> p_destination (in_prepare r) = SE_ILP_ADDRESS"

lemma echo_proves:
  assumes "peer_env (nc_ring c)" "expiry_formats c r"
    and "echo_handle_request cfg (nc_format_ts c) ilp_address (node_ccp c (node_router c)) r s = (Ok f, s')"
  shows "proves_condition (hash_sha256 (nc_ring c)) (in_prepare r) f"
proof -
  from echo_forwards [OF assms(3)] assms(2) obtain p where
    p: "node_ccp c (node_router c) (r\<lparr>in_prepare := p\<rparr>) s = (Ok f, s')"
      "execution_condition p = (execution_condition (in_prepare r) :: (_, Reject) result)"
    by (auto simp: expiry_formats_def)
  show ?thesis
    using managed.proves [OF assms(1) TrueI p(1)] p(2) by (auto intro: proves_condition_same)
qed

interpretation echoed: incoming_prover "hash_sha256 (nc_ring c)" "peer_env (nc_ring c)" "expiry_formats c"
  "node_answer c" for c :: "'w NodeConfig"
  unfolding node_answer_def by unfold_locales (rule echo_proves)

context incoming_prover
begin

lemma ildcp_proves:
  assumes "sha256 = hash_sha256 R" "peer_env R" env "covered r" "ildcp_handle_request svc r s = (Ok f, s')"
  shows "proves_condition sha256 (in_prepare r) f"
proof -
  have same: "ILDCP_CONDITION = PEER_PROTOCOL_CONDITION"
    by (simp add: ILDCP_CONDITION_def PEER_PROTOCOL_CONDITION_def)
  from assms(5) consider "svc r s = (Ok f, s')"
    | d where "execution_condition (in_prepare r) = (Ok PEER_PROTOCOL_CONDITION :: (_, Reject) result)"
      "f = fulfill_build \<lparr>fb_fulfillment = replicate 32 0, fb_data = d\<rparr>"
    by (auto simp: ildcp_handle_request_def is_ildcp_request_def ildcp_response_to_fulfill_def ILDCP_FULFILLMENT_def
        same ok_simps Let_def split: result.splits bool.splits)
  then show ?thesis
    using proves [OF assms(3,4)] peer_response_proves [OF assms(2)] assms(1) by cases auto
qed

end

definition covered_packet :: "'w NodeConfig \<Rightarrow> IncomingRequest \<Rightarrow> bool" where
  "covered_packet c r \<longleftrightarrow> expiry_formats c r \<and> \<not> settlement_message r"

interpretation messaged: incoming_prover "hash_sha256 (nc_ring c)" "peer_env (nc_ring c)" "covered_packet c"
  "node_message c" for c :: "'w NodeConfig"
  unfolding node_message_def
  by unfold_locales (rule echoed.settlement_message_proves, auto simp: settlement_message_def covered_packet_def)

interpretation configured: incoming_prover "hash_sha256 (nc_ring c)" "peer_env (nc_ring c)" "covered_packet c"
  "ildcp_handle_request (node_message c)" for c :: "'w NodeConfig"
  by unfold_locales (rule messaged.ildcp_proves [OF refl])

interpretation limited: incoming_prover "hash_sha256 (nc_ring c)" "peer_env (nc_ring c)" "covered_packet c"
  "max_packet_amount_handle_request (nc_ilp_address c) (ildcp_handle_request (node_message c))" for c :: "'w NodeConfig"
  by unfold_locales (rule configured.max_packet_amount_proves)

interpretation unexpired: incoming_prover "hash_sha256 (nc_ring c)" "peer_env (nc_ring c)" "covered_packet c"
  "validator_handle_request (nc_ilp_address c) (nc_now_incoming c)
     (max_packet_amount_handle_request (nc_ilp_address c) (ildcp_handle_request (node_message c)))"
  for c :: "'w NodeConfig"
  by unfold_locales (rule limited.validator_proves)

interpretation node: incoming_prover "hash_sha256 (nc_ring c)" "peer_env (nc_ring c)" "covered_packet c"
  "node_handle_request c" for c :: "'w NodeConfig"
  unfolding node_handle_request_def by unfold_locales (rule unexpired.rate_limit_proves)

section \<open>What reaches the wire\<close>

text \<open>The limits a packet on the wire keeps, for the incoming packet it was made from.\<close>

definition within_limits :: "'w NodeConfig \<Rightarrow> IncomingRequest \<Rightarrow> nat \<Rightarrow> OutgoingRequest \<Rightarrow> bool" where
  "within_limits c r time_left r' \<longleftrightarrow>
     (let round_trips = unat (acc_round_trip_time (in_from r)) + unat (acc_round_trip_time (out_to r')) in
      out_from r' = in_from r \<and> out_original_amount r' = p_amount (in_prepare r) \<and>
      p_amount (in_prepare r) \<le> acc_max_packet_amount (in_from r) \<and>
      nc_now_incoming c \<le> p_expires_at (in_prepare r) \<and>
      p_expires_at (out_prepare r') \<le> sub_millis (p_expires_at (in_prepare r)) round_trips \<and>
      p_expires_at (out_prepare r') \<le> add_millis (nc_now_shortener c) 30000 \<and>
      0 < time_left \<and> nc_now_outgoing c + time_left = p_expires_at (out_prepare r'))"

lemma validator_agree:
  assumes "\<And>s. now < p_expires_at (out_prepare r) \<Longrightarrow>
    nxt1 (p_expires_at (out_prepare r) - now) r s = nxt2 (p_expires_at (out_prepare r) - now) r s"
  shows "validator_send_request sha256 ilp_address now nxt1 r s = validator_send_request sha256 ilp_address now nxt2 r s"
  using assms [of s] by (simp add: validator_send_request_def Let_def split: result.split)

lemma shortener_agree:
  assumes "\<And>t p s. shortened_expiry now mx r = Ok t \<Longrightarrow> set_expires_at format_ts t (out_prepare r) = (Ok p :: (_, Reject) result) \<Longrightarrow>
    nxt1 (r\<lparr>out_prepare := p\<rparr>) s = nxt2 (r\<lparr>out_prepare := p\<rparr>) s"
  shows "expiry_shortener_send_request format_ts now mx nxt1 r s = expiry_shortener_send_request format_ts now mx nxt2 r s"
  using assms by (auto simp: expiry_shortener_send_request_def ok_simps split: result.split)

lemma shortened_expiry_bounds:
  assumes "shortened_expiry now mx r = Ok t"
  shows "t \<le> add_millis now (unat mx)"
    "t \<le> sub_millis (p_expires_at (out_prepare r))
      (unat (acc_round_trip_time (out_from r)) + unat (acc_round_trip_time (out_to r)))"
  using assms by (auto simp: shortened_expiry_def ok_simps checked_add_def unat_word_ariths Let_def split: if_splits)

lemma stream_agree:
  "(\<And>s. nxt1 r s = nxt2 r s) \<Longrightarrow> node_stream_receiver c nxt1 r s = node_stream_receiver c nxt2 r s"
  by (simp add: node_stream_receiver_def stream_receiver_send_request_def Let_def
      split: result.split ReceiveErr.split)

lemma balance_agree: "(\<And>s. nxt1 r s = nxt2 r s) \<Longrightarrow> node_balance c nxt1 r s = node_balance c nxt2 r s"
  by (auto simp: node_balance_def balance_send_request_def split: prod.split result.split)

lemma exchange_agree:
  assumes "\<And>p s. p_expires_at p = p_expires_at (out_prepare r) \<Longrightarrow>
    nxt1 (r\<lparr>out_prepare := p\<rparr>) s = nxt2 (r\<lparr>out_prepare := p\<rparr>) s"
  shows "exchange_rate_send_request powi10 show_f64 rates spread ilp_address nxt1 r s =
    exchange_rate_send_request powi10 show_f64 rates spread ilp_address nxt2 r s"
proof -
  define prepared where "prepared = and_then (request_rates rates ilp_address r) (\<lambda>rates.
    and_then (map_err (outgoing_amount_reject show_f64 ilp_address r)
        (calculate_outgoing_amount powi10 (p_amount (out_prepare r)) spread rates
          (acc_asset_scale (out_from r), acc_asset_scale (out_to r))))
      (\<lambda>outgoing_amount. set_amount outgoing_amount (out_prepare r)))"
  have "p_expires_at p = p_expires_at (out_prepare r)" if "prepared = Ok p" for p
    using that set_amount_keeps(3) by (fastforce simp: prepared_def ok_simps)
  moreover have "nxt1 r s = nxt2 r s" using assms [of "out_prepare r"] by simp
  ultimately show ?thesis
    unfolding exchange_rate_send_request_def prepared_def [symmetric] using assms by (auto split: result.split)
qed

text \<open>A request derived from an incoming one that passed the checks of the incoming side.\<close>

definition derived_request :: "'w NodeConfig \<Rightarrow> IncomingRequest \<Rightarrow> OutgoingRequest \<Rightarrow> bool" where
  "derived_request c r r' \<longleftrightarrow>
     out_from r' = in_from r \<and> out_original_amount r' = p_amount (in_prepare r) \<and>
     p_expires_at (out_prepare r') = p_expires_at (in_prepare r) \<and>
     p_amount (in_prepare r) \<le> acc_max_packet_amount (in_from r) \<and> nc_now_incoming c \<le> p_expires_at (in_prepare r)"

definition wires_agree :: "'w NodeConfig \<Rightarrow> 'w timed_service \<Rightarrow> IncomingRequest \<Rightarrow> bool" where
  "wires_agree c wire r \<longleftrightarrow>
     (\<forall>time_left r'. within_limits c r time_left r' \<longrightarrow> nc_wire c time_left r' = wire time_left r')"

lemma node_wire_agree:
  assumes "wires_agree c wire r" "derived_request c r r'"
  shows "node_wire c r' s = node_wire (c\<lparr>nc_wire := wire\<rparr>) r' s"
proof -
  have "within_limits c r (p_expires_at p - nc_now_outgoing c) (r'\<lparr>out_prepare := p\<rparr>)"
    if "shortened_expiry (nc_now_shortener c) DEFAULT_MAX_EXPIRY_DURATION r' = Ok t"
      "set_expires_at (nc_format_ts c) t (out_prepare r') = (Ok p :: (_, Reject) result)"
      "nc_now_outgoing c < p_expires_at p" for t p
    using that shortened_expiry_bounds [OF that(1)] set_expires_at_keeps(3) [OF that(2)] assms(2)
    by (auto simp: within_limits_def derived_request_def Let_def)
  then show ?thesis
    using assms(1) unfolding node_wire_def
    by (auto intro!: shortener_agree validator_agree simp: wires_agree_def)
qed

lemma node_stream_receiver_config: "node_stream_receiver (c\<lparr>nc_wire := wire\<rparr>) nxt r s = node_stream_receiver c nxt r s"
  by (simp add: node_stream_receiver_def)

lemma node_balance_config: "node_balance (c\<lparr>nc_wire := wire\<rparr>) nxt r s = node_balance c nxt r s"
  by (simp add: node_balance_def)

lemma node_send_request_agree:
  assumes "wires_agree c wire r" "derived_request c r r'"
  shows "node_send_request c r' s = node_send_request (c\<lparr>nc_wire := wire\<rparr>) r' s"
proof -
  have wire: "node_wire c (r'\<lparr>out_prepare := p\<rparr>) s = node_wire (c\<lparr>nc_wire := wire\<rparr>) (r'\<lparr>out_prepare := p\<rparr>) s"
    if "p_expires_at p = p_expires_at (out_prepare r')" for p s
    by (rule node_wire_agree [OF assms(1)]) (use assms(2) that in \<open>simp add: derived_request_def\<close>)
  show ?thesis
    unfolding node_send_request_def
    by (simp, rule exchange_agree, subst node_balance_config, rule balance_agree, subst node_stream_receiver_config,
        rule stream_agree, erule wire)
qed

lemma node_router_agree:
  assumes "wires_agree c wire r" "\<And>to. derived_request c r (into_outgoing r' to)"
  shows "node_router c r' s = node_router (c\<lparr>nc_wire := wire\<rparr>) r' s"
  using node_send_request_agree [OF assms]
  by (auto simp: node_router_def router_handle_request_def Let_def split: option.split list.split)


lemma echo_agree:
  assumes "\<And>p s. p_expires_at p = p_expires_at (in_prepare r) \<Longrightarrow> p_amount p = p_amount (in_prepare r) \<Longrightarrow>
    nxt1 (r\<lparr>in_prepare := p\<rparr>) s = nxt2 (r\<lparr>in_prepare := p\<rparr>) s"
  shows "echo_handle_request cfg format_ts ilp_address nxt1 r s = echo_handle_request cfg format_ts ilp_address nxt2 r s"
  using assms [of "in_prepare r"] assms
  by (auto simp: echo_handle_request_def echo_response_build_def prepare_build_def Let_def
      split: result.split option.split)

lemma node_answer_agree:
  assumes "wires_agree c wire r" "p_amount (in_prepare r) \<le> acc_max_packet_amount (in_from r)"
    and "nc_now_incoming c \<le> p_expires_at (in_prepare r)"
  shows "node_answer c r s = node_answer (c\<lparr>nc_wire := wire\<rparr>) r s"
proof -
  have "node_router c (r\<lparr>in_prepare := p\<rparr>) s = node_router (c\<lparr>nc_wire := wire\<rparr>) (r\<lparr>in_prepare := p\<rparr>) s"
    if "p_expires_at p = p_expires_at (in_prepare r)" "p_amount p = p_amount (in_prepare r)" for p s
    by (rule node_router_agree [OF assms(1)])
      (use assms(2,3) that in \<open>simp add: derived_request_def into_outgoing_def\<close>)
  then show ?thesis
    unfolding node_answer_def by (simp, intro echo_agree) (simp add: node_ccp_def)
qed

lemma rate_limit_agree:
  assumes "\<And>s. nxt1 r s = nxt2 r s"
  shows "rate_limit_handle_request store ilp_address nxt1 r s = rate_limit_handle_request store ilp_address nxt2 r s"
proof -
  from assms have eq: "nxt1 r = nxt2 r" by blast
  show ?thesis unfolding rate_limit_handle_request_def eq by (rule refl)
qed

lemma node_handle_request_agree:
  assumes "wires_agree c wire r"
  shows "node_handle_request c r s = node_handle_request (c\<lparr>nc_wire := wire\<rparr>) r s"
proof -
  let ?limited = "\<lambda>c. max_packet_amount_handle_request (nc_ilp_address c) (ildcp_handle_request (node_message c))"
  have "ildcp_handle_request (node_message c) r s = ildcp_handle_request (node_message (c\<lparr>nc_wire := wire\<rparr>)) r s"
    if "p_amount (in_prepare r) \<le> acc_max_packet_amount (in_from r)" "nc_now_incoming c \<le> p_expires_at (in_prepare r)" for s
    using node_answer_agree [OF assms that]
    by (simp add: ildcp_handle_request_def node_message_def settlement_message_handle_request_def
        split: result.split bool.split option.split)
  then have "validator_handle_request (nc_ilp_address c) (nc_now_incoming c) (?limited c) r s =
      validator_handle_request (nc_ilp_address c) (nc_now_incoming c) (?limited (c\<lparr>nc_wire := wire\<rparr>)) r s" for s
    by (simp add: validator_handle_request_def max_packet_amount_handle_request_def Let_def)
  moreover have "node_rate_limits (c\<lparr>nc_wire := wire\<rparr>) = node_rate_limits c" by (simp add: node_rate_limits_def)
  ultimately show ?thesis unfolding node_handle_request_def by (simp, intro rate_limit_agree)
qed

section \<open>Properties\<close>

text \<open>
  C1. A node that answers an incoming packet with a fulfillment answers with a preimage of the packet's
  condition: whichever service answered it (a peer over the wire, the STREAM receiver, the route manager, ILDCP
  or echo) and whatever the wire, the throttle and the exchange rates do, the hash of the returned fulfillment
  is the execution condition of the packet that came in. The exception is the messages of a settlement engine,
  which are fulfilled whatever their condition.
\<close>

theorem node_fulfills_with_preimage:
  assumes "ring_ok (nc_ring c)" "hash_sha256 (nc_ring c) (replicate 32 0) = PEER_PROTOCOL_CONDITION"
    and "length (nc_format_ts c (p_expires_at (in_prepare r))) = EXPIRY_LEN"
    and "acc_settlement_engine_url (in_from r) = None \<or> p_destination (in_prepare r) \<noteq> SE_ILP_ADDRESS"
    and "node_handle_request c r s = (Ok f, s')"
  shows "\<exists>preimage. fulfillment f = (Ok preimage :: (_, Reject) result) \<and>
    execution_condition (in_prepare r) = (Ok (hash_sha256 (nc_ring c) preimage) :: (_, Reject) result)"
  using node.proves [OF _ _ assms(5)] assms(1-4)
  by (auto simp: peer_env_def covered_packet_def expiry_formats_def settlement_message_def proves_condition_def)

definition example_node_config :: "nat NodeConfig" where
  "example_node_config =
     \<lparr>nc_features = strict_features,
      nc_ring = example_ring\<lparr>hash_sha256 := \<lambda>m. if m = replicate 32 0 then PEER_PROTOCOL_CONDITION else replicate 32 1\<rparr>,
      nc_generator = \<lparr>secret_generator = [1]\<rparr>, nc_format_ts = example_format,
      nc_ilp_address = Address (bstr ''example.us''), nc_now_incoming = 0, nc_now_ccp = 0, nc_now_shortener = 0,
      nc_now_outgoing = 0, nc_nonce = [], nc_timestamp = [], nc_powi10 = (\<lambda>_. NaN), nc_show_f64 = (\<lambda>_. []),
      nc_rates = (\<lambda>_. None), nc_spread = NaN, nc_throttle = (\<lambda>_ _ _ w. (Some False, w)),
      nc_engine = (\<lambda>_ _ _ w. (None, w)), nc_show_status = (\<lambda>_. []),
      nc_wire = (\<lambda>_ _ calls. (None, Suc calls))\<rparr>"

definition example_node :: "nat Node" where
  "example_node =
     \<lparr>nd_store = \<lparr>db_accounts = (\<lambda>_. example_hash), db_settlement_keys = []\<rparr>, nd_balance_tasks = [],
      nd_manager = manager_new (Address (bstr ''example.us'')) [] [], nd_ccp_tasks = [], nd_notifications = [],
      nd_routes = [(bstr ''example.bob'', 4)],
      nd_accounts = (\<lambda>_. Some [example_account 4 (bstr ''test.bob'') Peer]), nd_world = 0\<rparr>"

definition example_incoming :: "Address \<Rightarrow> bytes \<Rightarrow> IncomingRequest" where
  "example_incoming destination condition =
     \<lparr>in_from = example_account 3 (bstr ''example.alice'') Child,
      in_prepare = prepare_build example_format
        \<lparr>pb_amount = 0, pb_expires_at = 2000000000, pb_execution_condition = condition,
         pb_destination = destination, pb_data = []\<rparr>\<rparr>"

lemma example_format_length: "t < 10 ^ 23 \<Longrightarrow> length (example_format t) = EXPIRY_LEN"
  using fmt_dec_shape [of 17 "t div 1000000"] by (simp add: example_format_def len_defs)

lemma example_incoming_facts [simp]:
  fixes destination condition
  defines "r \<equiv> example_incoming destination condition"
  shows "in_from r = example_account 3 (bstr ''example.alice'') Child" "p_amount (in_prepare r) = 0"
    "p_expires_at (in_prepare r) = 2000000000" "p_destination (in_prepare r) = destination"
    "length condition = 32 \<Longrightarrow> execution_condition (in_prepare r) = (Ok condition :: (_, 'e) result)"
  using example_format_length [of 2000000000]
  by (simp_all add: r_def example_incoming_def prepare_build_condition CONDITION_LEN_def)
    (simp_all add: prepare_build_def Let_def len_defs)

lemma example_account_facts [simp]:
  "acc_max_packet_amount (example_account i a rel) = 1000" "acc_amount_per_minute_limit (example_account i a rel) = None"
  "acc_settlement_engine_url (example_account i a rel) = None" "acc_ilp_address (example_account i a rel) = Address a"
  "acc_round_trip_time (example_account i a rel) = 500"
  by (simp_all add: example_account_def)

lemma example_node_config_facts [simp]:
  "nc_now_incoming example_node_config = 0" "nc_format_ts example_node_config = example_format"
  "nc_ilp_address example_node_config = Address (bstr ''example.us'')" "nc_now_shortener example_node_config = 0"
  "nc_now_outgoing example_node_config = 0" "nc_wire example_node_config = (\<lambda>_ _ calls. (None, Suc calls))"
  by (simp_all add: example_node_config_def)

lemma example_limits: "on_world (redis_apply_rate_limits throttle (example_account i a rel) n) s = (Ok (), s)"
  by (simp add: on_world_def redis_apply_rate_limits_def throttle_by_def example_account_def Let_def)

lemma example_node_limits:
  "node_handle_request example_node_config (example_incoming destination condition) example_node =
   ildcp_handle_request (node_message example_node_config) (example_incoming destination condition) example_node"
  by (simp add: node_handle_request_def rate_limit_handle_request_def node_rate_limits_def example_limits Let_def
      validator_handle_request_def max_packet_amount_handle_request_def split: prod.split result.split)

lemma example_node_ildcp:
  "\<exists>f. node_handle_request example_node_config (example_incoming ILDCP_DESTINATION ILDCP_CONDITION) example_node =
      (Ok f, example_node)"
proof -
  have "length ILDCP_CONDITION = 32" by (simp add: ILDCP_CONDITION_def)
  then show ?thesis by (simp add: example_node_limits ildcp_handle_request_def is_ildcp_request_def Let_def)
qed

theorem node_fulfills_with_preimage_witness:
  "\<exists>f. node_handle_request example_node_config (example_incoming ILDCP_DESTINATION ILDCP_CONDITION) example_node =
      (Ok f, example_node) \<and>
    (\<exists>preimage. fulfillment f = (Ok preimage :: (_, Reject) result) \<and>
      hash_sha256 (nc_ring example_node_config) preimage = ILDCP_CONDITION)"
proof -
  let ?r = "example_incoming ILDCP_DESTINATION ILDCP_CONDITION"
  have "ring_ok (nc_ring example_node_config)"
    using example_ring_ok by (simp add: example_node_config_def ring_ok_def PEER_PROTOCOL_CONDITION_def)
  moreover have "hash_sha256 (nc_ring example_node_config) (replicate 32 0) = PEER_PROTOCOL_CONDITION"
    "acc_settlement_engine_url (in_from ?r) = None"
    "length (nc_format_ts example_node_config (p_expires_at (in_prepare ?r))) = EXPIRY_LEN"
    by (simp_all add: example_node_config_def example_account_def example_format_length)
  moreover obtain f where f: "node_handle_request example_node_config ?r example_node = (Ok f, example_node)"
    using example_node_ildcp by blast
  moreover have "execution_condition (in_prepare ?r) = (Ok ILDCP_CONDITION :: (_, Reject) result)"
    by (simp add: ILDCP_CONDITION_def)
  ultimately show ?thesis using node_fulfills_with_preimage [OF _ _ _ _ f] by auto
qed

text \<open>
  C2. What the node sends over the wire keeps the limits of the packet that came in. The outcome for a packet
  depends on the wire only through requests within them: replacing the wire by one that agrees on those changes
  neither the response nor the state. They are requests from the account the packet came from, whose original
  amount is the packet's and at most that account's maximum, for a packet not yet expired on arrival; the
  outgoing expiry is earlier than the incoming one by at least the two round-trip times and at most thirty
  seconds ahead; and the wait is positive and ends when the outgoing packet expires.
\<close>

theorem node_forwards_within_limits:
  assumes "\<And>time_left r'. within_limits c r time_left r' \<Longrightarrow> nc_wire c time_left r' = wire time_left r'"
  shows "node_handle_request c r s = node_handle_request (c\<lparr>nc_wire := wire\<rparr>) r s"
  using assms by (intro node_handle_request_agree) (simp add: wires_agree_def)

lemma example_set_expires_at:
  "\<exists>p. set_expires_at example_format 1000000000 (in_prepare (example_incoming destination (replicate 32 7))) =
    (Ok p :: (_, Reject) result)"
  using example_format_length [of 1000000000] example_format_length [of 2000000000]
  by (simp add: set_expires_at_def example_incoming_def prepare_build_def slice_def write_slice_def len_defs Let_def)

lemma example_node_wire:
  "nd_world (snd (node_wire example_node_config
     (into_outgoing (example_incoming destination (replicate 32 7)) (example_account 4 a rel)) s)) = Suc (nd_world s)"
proof -
  let ?r = "into_outgoing (example_incoming destination (replicate 32 7)) (example_account 4 a rel)"
  obtain p where p: "set_expires_at example_format 1000000000 (in_prepare (example_incoming destination (replicate 32 7))) =
      (Ok p :: (_, Reject) result)"
    using example_set_expires_at by blast
  have "shortened_expiry 0 DEFAULT_MAX_EXPIRY_DURATION ?r = Ok 1000000000"
    by (simp add: shortened_expiry_def into_outgoing_def checked_add_def sub_millis_def add_millis_def)
  moreover have "execution_condition p = (Ok (replicate 32 7) :: (_, Reject) result)" "p_expires_at p = 1000000000"
    using set_expires_at_keeps(1,3) [OF p] by simp_all
  ultimately show ?thesis using p
    by (simp add: node_wire_def expiry_shortener_send_request_def validator_send_request_def on_world_def into_outgoing_def)
qed

lemma example_node_forwards:
  "nd_world (snd (node_handle_request example_node_config
     (example_incoming (Address (bstr ''example.bob'')) (replicate 32 7)) example_node)) = 1"
proof -
  let ?r = "example_incoming (Address (bstr ''example.bob'')) (replicate 32 7)"
  have hop: "find_next_hop [(bstr ''example.bob'', 4)] (bstr ''example.bob'') = Some (4 :: nat)"
    "\<not> starts_with (bstr ''example.bob'') (bstr ''test.bob'')"
    "Address (bstr ''example.bob'') \<noteq> Address (bstr ''example.us'')"
    "Address (bstr ''example.bob'') \<notin> {CCP_CONTROL_DESTINATION, CCP_UPDATE_DESTINATION}"
    "(replicate 32 7 = ILDCP_CONDITION) = False"
    by code_simp+
  have "nd_world (snd (node_send_request example_node_config
      (into_outgoing ?r (example_account 4 (bstr ''test.bob'') Peer)) example_node)) = 1"
    using example_node_wire [of "Address (bstr ''example.bob'')" "bstr ''test.bob''" Peer example_node] hop(2)
    by (auto simp: node_send_request_def exchange_rate_send_request_def node_balance_def balance_send_request_def
        node_stream_receiver_def stream_receiver_send_request_def into_outgoing_def Let_def example_node_def
        split: prod.split)
  then show ?thesis
    using hop unfolding example_node_limits
    by (simp add: ildcp_handle_request_def is_ildcp_request_def node_message_def
        settlement_message_handle_request_def node_answer_def echo_handle_request_def node_ccp_def node_router_def
        router_handle_request_def Let_def example_node_def)
qed

theorem node_forwards_within_limits_witness:
  defines "r \<equiv> example_incoming (Address (bstr ''example.bob'')) (replicate 32 7)"
  defines "limited_wire \<equiv> \<lambda>time_left r' calls.
    if within_limits example_node_config r time_left r' then (None, Suc calls) else (None, calls)"
  shows "nd_world (snd (node_handle_request (example_node_config\<lparr>nc_wire := limited_wire\<rparr>) r example_node)) = 1"
proof -
  have "nc_wire example_node_config time_left r' = limited_wire time_left r'"
    if "within_limits example_node_config r time_left r'" for time_left r'
    using that by (simp add: limited_wire_def example_node_config_def)
  from node_forwards_within_limits [of example_node_config r limited_wire, OF this, of example_node]
  show ?thesis using example_node_forwards by (simp add: r_def)
qed

end
