(* ===== verification/Congestion.thy ===== *)
theory Congestion
  imports Ilp_Packet Float64
begin

text \<open>
  The congestion controller of a STREAM sender, \<^verbatim>\<open>crates/interledger-stream/src/congestion.rs\<close>, with the
  double-precision steps it takes. Arithmetic on \<^verbatim>\<open>u64\<close> is written with the overflow check; a panic in the
  middle of an operation keeps what was assigned before it, so an operation returns its result and the
  controller.
\<close>

section \<open>Double precision\<close>

text \<open>
  Rounding a natural number to 53 significant bits, ties to even: \<^verbatim>\<open>x as f64\<close> for an integer \<^verbatim>\<open>x\<close>. A
  quotient by two is exact, and the cast back to \<^verbatim>\<open>u64\<close> saturates.
\<close>

definition f64_round :: "nat \<Rightarrow> nat" where
  "f64_round n =
     (let k = bit_len n - 53; q = n div 2 ^ k; r = n mod 2 ^ k
      in if k = 0 then n
         else if 2 * r > 2 ^ k \<or> (2 * r = 2 ^ k \<and> odd q) then (q + 1) * 2 ^ k else q * 2 ^ k)"

definition as_f64 :: "u64 \<Rightarrow> nat" where
  "as_f64 x = f64_round (unat x)"

definition as_u64 :: "nat \<Rightarrow> u64" where
  "as_u64 n = (if n < 2 ^ 64 then of_nat n else u64_max)"

text \<open>\<^verbatim>\<open>(x as f64 / 2.0).floor() as u64\<close>: two is the factor every sender uses.\<close>

definition halve_f64 :: "u64 \<Rightarrow> u64" where
  "halve_f64 x = as_u64 (as_f64 x div 2)"

section \<open>The controller\<close>

text \<open>The errors a payment can end with, \<^verbatim>\<open>error.rs\<close>.\<close>

datatype StreamError =
    PaymentFailFast u64 u64
  | UnexpectedRejection ErrorCode bytes
  | PaymentTimeout

datatype CongestionState = SlowStart | AvoidCongestion

record CongestionController =
  cc_state :: CongestionState
  cc_increase_amount :: u64
  cc_max_packet_amount :: "u64 option"
  cc_amount_in_flight :: u64
  cc_max_in_flight :: u64

definition congestion_new :: "u64 \<Rightarrow> u64 \<Rightarrow> CongestionController" where
  "congestion_new start_amount increase_amount =
     \<lparr>cc_state = SlowStart, cc_increase_amount = increase_amount, cc_max_packet_amount = None,
      cc_amount_in_flight = 0, cc_max_in_flight = start_amount\<rparr>"

definition get_max_packet_amount :: "CongestionController \<Rightarrow> u64" where
  "get_max_packet_amount cc = (case cc_max_packet_amount cc of None \<Rightarrow> u64_max | Some m \<Rightarrow> m)"

definition get_amount_left_in_window :: "CongestionController \<Rightarrow> u64" where
  "get_amount_left_in_window cc = saturating_sub (cc_max_in_flight cc) (cc_amount_in_flight cc)"

definition congestion_prepare :: "u64 \<Rightarrow> CongestionController \<Rightarrow> (unit, StreamError) result \<times> CongestionController" where
  "congestion_prepare amount cc =
     (if amount > 0 then
        (case checked_add (cc_amount_in_flight cc) amount of
           Ok n \<Rightarrow> (Ok (), cc\<lparr>cc_amount_in_flight := n\<rparr>) | Err e \<Rightarrow> (Err e, cc) | Panic \<Rightarrow> (Panic, cc))
      else (Ok (), cc))"

definition congestion_fulfill :: "u64 \<Rightarrow> CongestionController \<Rightarrow> (unit, StreamError) result \<times> CongestionController" where
  "congestion_fulfill prepare_amount cc =
     (case checked_sub (cc_amount_in_flight cc) prepare_amount of
        Panic \<Rightarrow> (Panic, cc)
      | Err e \<Rightarrow> (Err e, cc)
      | Ok in_flight \<Rightarrow>
          (let cc1 = cc\<lparr>cc_amount_in_flight := in_flight\<rparr> in
           (Ok (), cc1\<lparr>cc_max_in_flight :=
              (if cc_state cc1 = SlowStart then
                 (if u64_max div 2 \<ge> cc_max_in_flight cc1 then cc_max_in_flight cc1 * 2 else u64_max)
               else
                 (if u64_max - cc_increase_amount cc1 \<ge> cc_max_in_flight cc1
                  then cc_max_in_flight cc1 + cc_increase_amount cc1 else u64_max))\<rparr>)))"

definition new_max_packet_amount :: "u64 \<Rightarrow> MaxPacketAmountDetails \<Rightarrow> (u64, StreamError) result" where
  "new_max_packet_amount prepare_amount details =
     and_then (checked_mul prepare_amount (max_amount details)) (\<lambda>product.
       checked_div product (amount_received details))"

definition congestion_reject ::
  "u64 \<Rightarrow> ErrorCode \<Rightarrow> bytes \<Rightarrow> CongestionController \<Rightarrow> (unit, StreamError) result \<times> CongestionController" where
  "congestion_reject prepare_amount code payload cc =
     (case checked_sub (cc_amount_in_flight cc) prepare_amount of
        Panic \<Rightarrow> (Panic, cc)
      | Err e \<Rightarrow> (Err e, cc)
      | Ok in_flight \<Rightarrow>
          (let cc1 = cc\<lparr>cc_amount_in_flight := in_flight\<rparr> in
           if code = T04_INSUFFICIENT_LIQUIDITY then
             (Ok (), cc1\<lparr>cc_state := AvoidCongestion,
                         cc_max_in_flight := max (halve_f64 (cc_max_in_flight cc1)) 1\<rparr>)
           else if code = F08_AMOUNT_TOO_LARGE then
             (case max_packet_details_from_bytes payload of
                Ok details \<Rightarrow>
                  (case new_max_packet_amount prepare_amount details of
                     Ok new_max \<Rightarrow>
                       (Ok (), cc1\<lparr>cc_max_packet_amount :=
                          (case cc_max_packet_amount cc1 of
                             Some max_packet_amount \<Rightarrow> Some (min max_packet_amount new_max)
                           | None \<Rightarrow> Some new_max)\<rparr>)
                   | Err e \<Rightarrow> (Err e, cc1)
                   | Panic \<Rightarrow> (Panic, cc1))
              | _ \<Rightarrow>
                  (Ok (), cc1\<lparr>cc_max_packet_amount := map_option halve_f64 (cc_max_packet_amount cc1)\<rparr>))
           else (Ok (), cc1)))"

section \<open>Rounding\<close>

text \<open>The rounding is that of \<open>Float64\<close>, for naturals.\<close>

lemma round_even_quotient:
  "round_even (of_nat n / 2 ^ k) =
    int (if 2 * (n mod 2 ^ k) > 2 ^ k \<or> 2 * (n mod 2 ^ k) = 2 ^ k \<and> odd (n div 2 ^ k) then n div 2 ^ k + 1 else n div 2 ^ k)"
proof -
  let ?q = "n div 2 ^ k" and ?r = "n mod 2 ^ k"
  have "of_nat n = of_nat ?q * (2 :: rat) ^ k + of_nat ?r"
    by (metis div_mult_mod_eq of_nat_add of_nat_mult of_nat_numeral of_nat_power)
  then have x: "of_nat n / 2 ^ k = of_nat ?q + (of_nat ?r / 2 ^ k :: rat)" by (simp add: add_divide_distrib)
  have "(of_nat ?r :: rat) < of_nat (2 ^ k)" unfolding of_nat_less_iff by simp
  then have f: "\<lfloor>of_nat n / 2 ^ k :: rat\<rfloor> = int ?q" unfolding x by (intro floor_unique) simp_all
  have "2 * ?r > 2 ^ k \<longleftrightarrow> of_nat (2 * ?r) > (of_nat (2 ^ k) :: rat)"
    "2 * ?r = 2 ^ k \<longleftrightarrow> of_nat (2 * ?r) = (of_nat (2 ^ k) :: rat)"
    unfolding of_nat_less_iff of_nat_eq_iff by simp_all
  then have "2 * ?r > 2 ^ k \<longleftrightarrow> of_nat ?r / 2 ^ k > (1 / 2 :: rat)" "2 * ?r = 2 ^ k \<longleftrightarrow> of_nat ?r / 2 ^ k = (1 / 2 :: rat)"
    by (auto simp: field_simps)
  then show ?thesis unfolding round_even_def Let_def f by (simp add: x)
qed

lemma rnd_f64_round: "rnd (of_nat n) = of_nat (f64_round n)"
proof (cases "bit_len n \<le> 53")
  case True
  then show ?thesis using rnd_nat [of n] by (simp add: bit_len_le_iff f64_round_def)
next
  case False
  then have n: "2 ^ 53 \<le> n" by (simp add: bit_len_le_iff)
  define k where "k = bit_len n - 53"
  have "2 ^ (k + 52) \<le> n" "n < 2 ^ (k + 53)"
    using False bit_len_le_iff [of n "k + 52"] bit_len_le_iff [of n "k + 53"] by (auto simp: k_def)
  then have "(of_nat (2 ^ (k + 52)) :: rat) \<le> of_nat n" "(of_nat n :: rat) < of_nat (2 ^ (k + 53))"
    unfolding of_nat_le_iff of_nat_less_iff by simp_all
  then have "floor_log2 (of_nat n) = int (k + 52)"
    using power_int_of_nat [of "2 :: rat" "k + 52"] power_int_of_nat [of "2 :: rat" "k + 53"]
    by (intro floor_log2_unique) (simp_all add: add.commute)
  then have e: "max (floor_log2 (of_nat n) - 52) (- 1074) = int k" by simp
  have "k \<noteq> 0" using False by (simp add: k_def)
  then have "f64_round n = nat (round_even (of_nat n / 2 ^ k)) * 2 ^ k"
    unfolding round_even_quotient by (auto simp: f64_round_def k_def [symmetric] Let_def)
  moreover have "0 \<le> round_even (of_nat n / 2 ^ k)" unfolding round_even_quotient by simp
  moreover have "rnd (of_nat n) = of_int (round_even (of_nat n / 2 ^ k)) * 2 ^ k"
    unfolding rnd_def Let_def e using n by simp
  ultimately show ?thesis by (simp add: of_nat_nat)
qed

lemma as_f64_cast: "u64_as_f64 x = Fin False (of_nat (as_f64 x))"
  unfolding u64_as_f64_def as_f64_def rnd_f64_round by (rule refl)

lemma f64_round_le: "f64_round n \<le> 2 * n"
proof -
  let ?k = "bit_len n - 53" and ?q = "n div 2 ^ (bit_len n - 53)"
  have n: "?q * 2 ^ ?k + n mod 2 ^ ?k = n" by (rule div_mult_mod_eq)
  have "(?q + 1) * 2 ^ ?k \<le> 2 * n" if "?k \<noteq> 0"
  proof -
    have "\<not> bit_len n \<le> ?k" using that by simp
    then have "2 ^ ?k \<le> n" by (simp only: bit_len_le_iff not_less)
    moreover have "?q * 2 ^ ?k \<le> n" by simp
    ultimately have "2 ^ ?k + ?q * 2 ^ ?k \<le> n + n" by (rule add_mono)
    then show ?thesis by (simp add: algebra_simps)
  qed
  then show ?thesis using n by (auto simp: f64_round_def Let_def)
qed

lemma f64_round_small: "n < 2 ^ 53 \<Longrightarrow> f64_round n = n"
proof -
  assume "n < 2 ^ 53"
  then have "bit_len n \<le> 53" by (simp only: bit_len_le_iff)
  then show ?thesis by (simp add: f64_round_def)
qed

lemma halve_f64_le: "unat (halve_f64 x) \<le> unat x"
proof -
  have "as_f64 x div 2 \<le> unat x"
    using f64_round_le [of "unat x"] by (simp add: as_f64_def)
  moreover have "unat x < 2 ^ 64" using unat_bound [of x] by simp
  ultimately show ?thesis by (simp add: halve_f64_def as_u64_def unat_of_nat_u64)
qed

lemma halve_f64_exact: "unat x < 2 ^ 53 \<Longrightarrow> unat (halve_f64 x) = unat x div 2"
proof -
  assume x: "unat x < 2 ^ 53"
  then have "as_f64 x = unat x" by (simp only: as_f64_def f64_round_small)
  moreover have "unat x div 2 < 2 ^ 64" using x by simp
  ultimately show ?thesis by (simp add: halve_f64_def as_u64_def unat_of_nat_u64)
qed

section \<open>Windows\<close>

text \<open>What every controller that sends keeps: a window of at least one unit.\<close>

definition window_open :: "CongestionController \<Rightarrow> bool" where
  "window_open cc \<longleftrightarrow> 1 \<le> cc_max_in_flight cc"

lemma u64_max_unat: "unat u64_max = 2 ^ 64 - 1"
  by (simp add: u64_max_def unsigned_minus_1_eq_mask mask_eq_exp_minus_1)

lemma u64_max_ge: "x \<le> u64_max"
  by (simp add: u64_max_def)

lemma fulfill_ok:
  assumes "prepare_amount \<le> cc_amount_in_flight cc"
  shows "\<exists>window. congestion_fulfill prepare_amount cc =
    (Ok (), cc\<lparr>cc_amount_in_flight := cc_amount_in_flight cc - prepare_amount, cc_max_in_flight := window\<rparr>) \<and>
    unat window = min (2 ^ 64 - 1) (if cc_state cc = SlowStart then 2 * unat (cc_max_in_flight cc)
      else unat (cc_max_in_flight cc) + unat (cc_increase_amount cc))"
proof -
  let ?m = "cc_max_in_flight cc" and ?i = "cc_increase_amount cc"
  have half: "unat (u64_max div 2) = 2 ^ 63 - 1" by (simp add: u64_max_def unat_div)
  have m: "unat ?m < 2 ^ 64" "unat ?i < 2 ^ 64" using unat_bound [of ?m] unat_bound [of ?i] by simp_all
  let ?dbl = "if u64_max div 2 \<ge> ?m then ?m * 2 else u64_max"
  let ?inc = "if u64_max - ?i \<ge> ?m then ?m + ?i else u64_max"
  let ?w = "if cc_state cc = SlowStart then ?dbl else ?inc"
  have dbl: "unat (if u64_max div 2 \<ge> ?m then ?m * 2 else u64_max) = min (2 ^ 64 - 1) (2 * unat ?m)"
  proof (cases "unat ?m \<le> 2 ^ 63 - 1")
    case True
    then have "unat (?m * 2) = 2 * unat ?m" by (subst unat_mult_lem [THEN iffD1]) simp_all
    then show ?thesis using True half by (simp add: word_le_nat_alt)
  next
    case False
    then show ?thesis using half u64_max_unat by (simp add: word_le_nat_alt)
  qed
  have inc: "unat (if u64_max - ?i \<ge> ?m then ?m + ?i else u64_max) = min (2 ^ 64 - 1) (unat ?m + unat ?i)"
  proof -
    have sub: "unat (u64_max - ?i) = 2 ^ 64 - 1 - unat ?i"
      using u64_max_ge [of ?i] u64_max_unat by (simp add: unat_sub)
    show ?thesis
    proof (cases "unat ?m + unat ?i < 2 ^ 64")
      case True
      then have "unat (?m + ?i) = unat ?m + unat ?i" by (simp add: unat_add_lem [symmetric])
      moreover have "unat ?m \<le> 2 ^ 64 - 1 - unat ?i" using True m by linarith
      ultimately show ?thesis using True sub by (simp add: word_le_nat_alt)
    next
      case False
      then have "\<not> unat ?m \<le> 2 ^ 64 - 1 - unat ?i" using m by linarith
      then show ?thesis using False sub u64_max_unat by (simp add: word_le_nat_alt)
    qed
  qed
  have "congestion_fulfill prepare_amount cc = (Ok (), cc\<lparr>cc_amount_in_flight :=
      cc_amount_in_flight cc - prepare_amount, cc_max_in_flight := ?w\<rparr>)"
    using assms by (simp add: congestion_fulfill_def checked_sub_def Let_def)
  moreover have "unat ?w = min (2 ^ 64 - 1) (if cc_state cc = SlowStart then 2 * unat ?m else unat ?m + unat ?i)"
    by (cases "cc_state cc = SlowStart") (simp_all only: if_True if_False simp_thms dbl inc)
  ultimately show ?thesis by blast
qed

lemma congestion_reject_effect:
  assumes "prepare_amount \<le> cc_amount_in_flight cc"
  shows "cc_amount_in_flight (snd (congestion_reject prepare_amount code payload cc)) =
      cc_amount_in_flight cc - prepare_amount"
    and "window_open cc \<Longrightarrow> window_open (snd (congestion_reject prepare_amount code payload cc))"
    and "fst (congestion_reject prepare_amount code payload cc) \<in> {Ok (), Panic}"
    and "fst (congestion_reject prepare_amount code payload cc) = Panic \<longleftrightarrow>
      code = F08_AMOUNT_TOO_LARGE \<and> (\<exists>details. max_packet_details_from_bytes payload = Ok details \<and>
        (amount_received details = 0 \<or> 2 ^ 64 \<le> unat prepare_amount * unat (max_amount details)))"
proof -
  have codes: "T04_INSUFFICIENT_LIQUIDITY \<noteq> F08_AMOUNT_TOO_LARGE"
    by (simp add: bstr_def)
  have one: "1 \<le> max w (1 :: u64)" for w by simp
  show "cc_amount_in_flight (snd (congestion_reject prepare_amount code payload cc)) =
      cc_amount_in_flight cc - prepare_amount"
    using assms
    by (simp add: congestion_reject_def checked_sub_def Let_def split: result.split option.split)
  show "window_open cc \<Longrightarrow> window_open (snd (congestion_reject prepare_amount code payload cc))"
    using assms one
    by (simp add: congestion_reject_def checked_sub_def window_open_def Let_def split: result.split option.split)
  show "fst (congestion_reject prepare_amount code payload cc) \<in> {Ok (), Panic}"
    using assms
    by (auto simp: congestion_reject_def checked_sub_def new_max_packet_amount_def checked_mul_def checked_div_def
        Let_def split: result.split if_splits)
  show "fst (congestion_reject prepare_amount code payload cc) = Panic \<longleftrightarrow>
      code = F08_AMOUNT_TOO_LARGE \<and> (\<exists>details. max_packet_details_from_bytes payload = Ok details \<and>
        (amount_received details = 0 \<or> 2 ^ 64 \<le> unat prepare_amount * unat (max_amount details)))"
    using assms codes
    by (auto simp: congestion_reject_def checked_sub_def new_max_packet_amount_def checked_mul_def checked_div_def
        Let_def not_less split: result.split)
qed

end
