(* ===== verification/Stream_Payment.thy ===== *)
theory Stream_Payment
  imports Complex_Main "HOL-Library.Multiset" Stream_Server Congestion
begin

text \<open>
  The sender of a STREAM payment, \<^verbatim>\<open>crates/interledger-stream/src/client.rs\<close>: the payment state shared by
  the packets in flight, what the loop of \<^verbatim>\<open>send_money\<close> does next, and the sending and handling of one
  packet. Packets run as tasks of their own, so the payment is a step relation over the shared state and
  the packets in flight. Rates are exact rationals, as in the source; the rates of the store and the slippage come as
  what \<^verbatim>\<open>BigRational::from_f64\<close> makes of them. Times are in nanoseconds.
\<close>

section \<open>Rates\<close>

definition to_u64 :: "int \<Rightarrow> u64 option" where
  "to_u64 i = (if 0 \<le> i \<and> i < 2 ^ 64 then Some (word_of_int i) else None)"

type_synonym exchange_rates = "bytes \<Rightarrow> bytes \<Rightarrow> (rat option \<times> rat option) option"

text \<open>Dividing by a price of zero panics.\<close>

definition get_rate ::
  "exchange_rates \<Rightarrow> u8 \<Rightarrow> bytes \<Rightarrow> u8 option \<Rightarrow> bytes option \<Rightarrow> rat option \<Rightarrow> (rat option, StreamError) result" where
  "get_rate rates source_scale source_code dest_scale dest_code slippage =
     (case (dest_code, dest_scale) of
        (Some dest_code, Some dest_scale) \<Rightarrow>
          and_then
            (if source_code = dest_code then Ok (Some 1)
             else case rates source_code dest_code of
               None \<Rightarrow> Ok None
             | Some (Some source_price, Some dest_price) \<Rightarrow>
                 if dest_price = 0 then Panic else Ok (Some (source_price / dest_price))
             | Some _ \<Rightarrow> Ok None)
            (\<lambda>rate. case (rate, slippage) of
               (Some rate, Some slippage) \<Rightarrow>
                 Ok (Some (rate * (1 - slippage) / 10 ^ unat source_scale * 10 ^ unat dest_scale))
             | _ \<Rightarrow> Ok None)
      | _ \<Rightarrow> Ok None)"

definition convert :: "u64 \<Rightarrow> rat \<Rightarrow> u64 option" where
  "convert source_amount rate = to_u64 \<lceil>of_nat (unat source_amount) * rate\<rceil>"

text \<open>\<^verbatim>\<open>1 / (rate * 0.001)\<close>, rounded up; zero when there is no rate or it does not fit.\<close>

definition min_source_amount :: "rat \<Rightarrow> u64" where
  "min_source_amount rate =
     (let divisor = rate * (1 / 1000);
          quotient = (if divisor = 0 then 0 else 1 / divisor)
      in case to_u64 \<lceil>quotient\<rceil> of Some n \<Rightarrow> n | None \<Rightarrow> 0)"

text \<open>
  \<^verbatim>\<open>(n as f64 * 1.2).ceil() as u64\<close>: the double nearest to 1.2 is \<open>5404319552844595 / 2 ^ 52\<close>, and the
  product is rounded once.
\<close>

definition dust_limit :: "u64 \<Rightarrow> u64" where
  "dust_limit n = as_u64 ((f64_round (as_f64 n * 5404319552844595) + (2 ^ 52 - 1)) div 2 ^ 52)"

section \<open>The payment\<close>

record StreamDelivery =
  rc_from :: Address
  rc_to :: Address
  rc_source_asset_scale :: u8
  rc_source_asset_code :: bytes
  rc_source_amount :: u64
  rc_sent_amount :: u64
  rc_in_flight_amount :: u64
  rc_delivered_amount :: u64
  rc_destination_asset_scale :: "u8 option"
  rc_destination_asset_code :: "bytes option"

definition stream_delivery_new :: "Account \<Rightarrow> Address \<Rightarrow> u64 \<Rightarrow> StreamDelivery" where
  "stream_delivery_new from_account destination source_amount =
     \<lparr>rc_from = acc_ilp_address from_account, rc_to = destination,
      rc_source_asset_scale = acc_asset_scale from_account, rc_source_asset_code = acc_asset_code from_account,
      rc_source_amount = source_amount, rc_sent_amount = 0, rc_in_flight_amount = 0, rc_delivered_amount = 0,
      rc_destination_asset_scale = None, rc_destination_asset_code = None\<rparr>"

record StreamPayment =
  pay_cc :: CongestionController
  pay_receipt :: StreamDelivery
  pay_should_send_source_account :: bool
  pay_sequence :: u64
  pay_fulfilled_packets :: u64
  pay_rejected_packets :: u64
  pay_fail_fast_rejects :: u64
  pay_last_fulfill_time :: nat

definition get_amount_available_to_send :: "StreamPayment \<Rightarrow> u64" where
  "get_amount_available_to_send pay =
     saturating_sub (rc_source_amount (pay_receipt pay)) (rc_sent_amount (pay_receipt pay))"

definition get_fulfilled_amount :: "StreamPayment \<Rightarrow> u64" where
  "get_fulfilled_amount pay =
     saturating_sub (rc_sent_amount (pay_receipt pay)) (rc_in_flight_amount (pay_receipt pay))"

definition get_remaining_amount :: "StreamPayment \<Rightarrow> u64" where
  "get_remaining_amount pay = saturating_sub (rc_source_amount (pay_receipt pay)) (get_fulfilled_amount pay)"

definition is_complete :: "StreamPayment \<Rightarrow> bool" where
  "is_complete pay \<longleftrightarrow> get_remaining_amount pay = 0"

definition is_max_in_flight :: "StreamPayment \<Rightarrow> bool" where
  "is_max_in_flight pay \<longleftrightarrow>
     get_amount_left_in_window (pay_cc pay) = 0 \<or> get_amount_available_to_send pay = 0"

definition FAIL_FAST_MINIMUM_PACKET_ATTEMPTS :: u64 where
  "FAIL_FAST_MINIMUM_PACKET_ATTEMPTS = 200"

text \<open>
  The quotient of two doubles exceeds 0.99: the double 0.99 is \<open>8917127262193582 / 2 ^ 53\<close>, its mantissa is
  even, so the rounded quotient is above it exactly when the quotient is above the midpoint to the next
  double.
\<close>

definition ratio_exceeds_99 :: "u64 \<Rightarrow> u64 \<Rightarrow> bool" where
  "ratio_exceeds_99 x y \<longleftrightarrow> as_f64 x * 2 ^ 54 > 17834254524387165 * as_f64 y"

definition is_failing :: "StreamPayment \<Rightarrow> (bool, StreamError) result" where
  "is_failing pay =
     and_then (checked_add (pay_fulfilled_packets pay) (pay_rejected_packets pay)) (\<lambda>num_packets.
       Ok (num_packets \<ge> FAIL_FAST_MINIMUM_PACKET_ATTEMPTS \<and>
           ratio_exceeds_99 (pay_fail_fast_rejects pay) num_packets))"

definition next_sequence :: "StreamPayment \<Rightarrow> (u64, StreamError) result \<times> StreamPayment" where
  "next_sequence pay =
     (case checked_add (pay_sequence pay) 1 of
        Ok n \<Rightarrow> (Ok (pay_sequence pay), pay\<lparr>pay_sequence := n\<rparr>) | Err e \<Rightarrow> (Err e, pay) | Panic \<Rightarrow> (Panic, pay))"

definition set_destination_asset_details :: "bytes \<Rightarrow> u8 \<Rightarrow> StreamPayment \<Rightarrow> StreamPayment" where
  "set_destination_asset_details asset_code asset_scale pay =
     pay\<lparr>pay_receipt := (pay_receipt pay)
       \<lparr>rc_destination_asset_code := Some asset_code, rc_destination_asset_scale := Some asset_scale\<rparr>\<rparr>"

text \<open>The amount of the next packet before the limits (2) and (1) of the source.\<close>

definition undusted_amount :: "u64 \<Rightarrow> u64 \<Rightarrow> u64 \<Rightarrow> (u64, StreamError) result" where
  "undusted_amount source_amount min_source remaining_amount =
     and_then (checked_div remaining_amount source_amount) (\<lambda>estimated_num_packets.
       let estimated_final_amount = remaining_amount mod source_amount;
           possible_dust = (estimated_num_packets > 0 \<and> estimated_final_amount < dust_limit min_source)
       in if possible_dust then
            and_then (checked_add remaining_amount (estimated_num_packets - 1)) (\<lambda>total_amount.
              checked_div total_amount estimated_num_packets)
          else Ok source_amount)"

definition apply_prepare ::
  "exchange_rates \<Rightarrow> rat option \<Rightarrow> StreamPayment \<Rightarrow> (u64 \<times> u64, StreamError) result \<times> StreamPayment" where
  "apply_prepare rates slippage pay =
     (let receipt = pay_receipt pay in
      case get_rate rates (rc_source_asset_scale receipt) (rc_source_asset_code receipt)
          (rc_destination_asset_scale receipt) (rc_destination_asset_code receipt) slippage of
        Err e \<Rightarrow> (Err e, pay)
      | Panic \<Rightarrow> (Panic, pay)
      | Ok rate_opt \<Rightarrow>
          (let rate = (case rate_opt of None \<Rightarrow> 0 | Some r \<Rightarrow> r);
               min_source = min_source_amount rate;
               source_amount = max (get_amount_left_in_window (pay_cc pay)) min_source;
               remaining_amount = get_amount_available_to_send pay
           in case undusted_amount source_amount min_source remaining_amount of
                Err e \<Rightarrow> (Err e, pay)
              | Panic \<Rightarrow> (Panic, pay)
              | Ok source_amount \<Rightarrow>
                  (let source_amount = min source_amount (get_max_packet_amount (pay_cc pay));
                       source_amount = min source_amount (get_amount_available_to_send pay)
                   in case congestion_prepare source_amount (pay_cc pay) of
                        (Err e, cc) \<Rightarrow> (Err e, pay\<lparr>pay_cc := cc\<rparr>)
                      | (Panic, cc) \<Rightarrow> (Panic, pay\<lparr>pay_cc := cc\<rparr>)
                      | (Ok _, cc) \<Rightarrow>
                          (Ok (source_amount, case convert source_amount rate of None \<Rightarrow> 0 | Some n \<Rightarrow> n),
                           pay\<lparr>pay_cc := cc, pay_receipt := receipt
                             \<lparr>rc_sent_amount := saturating_add (rc_sent_amount receipt) source_amount,
                              rc_in_flight_amount := saturating_add (rc_in_flight_amount receipt) source_amount\<rparr>\<rparr>))))"

definition apply_fulfill ::
  "nat \<Rightarrow> u64 \<Rightarrow> u64 \<Rightarrow> StreamPayment \<Rightarrow> (unit, StreamError) result \<times> StreamPayment" where
  "apply_fulfill now source_amount destination_amount pay =
     (case congestion_fulfill source_amount (pay_cc pay) of
        (Err e, cc) \<Rightarrow> (Err e, pay\<lparr>pay_cc := cc\<rparr>)
      | (Panic, cc) \<Rightarrow> (Panic, pay\<lparr>pay_cc := cc\<rparr>)
      | (Ok _, cc) \<Rightarrow>
          (let receipt = pay_receipt pay;
               pay1 = pay\<lparr>pay_cc := cc, pay_receipt := receipt
                 \<lparr>rc_in_flight_amount := saturating_sub (rc_in_flight_amount receipt) source_amount,
                  rc_delivered_amount := saturating_add (rc_delivered_amount receipt) destination_amount\<rparr>,
                 pay_last_fulfill_time := now\<rparr>
           in case checked_add (pay_fulfilled_packets pay1) 1 of
                Ok n \<Rightarrow> (Ok (), pay1\<lparr>pay_fulfilled_packets := n\<rparr>)
              | Err e \<Rightarrow> (Err e, pay1)
              | Panic \<Rightarrow> (Panic, pay1)))"

definition applies_to_fail_fast :: "ErrorCode \<Rightarrow> bool" where
  "applies_to_fail_fast code \<longleftrightarrow>
     code = T00_INTERNAL_ERROR \<or> code = T01_PEER_UNREACHABLE \<or> code = F99_APPLICATION_ERROR"

definition apply_reject ::
  "u64 \<Rightarrow> ErrorCode \<Rightarrow> bytes \<Rightarrow> StreamPayment \<Rightarrow> (unit, StreamError) result \<times> StreamPayment" where
  "apply_reject amount code payload pay =
     (case congestion_reject amount code payload (pay_cc pay) of
        (Err e, cc) \<Rightarrow> (Err e, pay\<lparr>pay_cc := cc\<rparr>)
      | (Panic, cc) \<Rightarrow> (Panic, pay\<lparr>pay_cc := cc\<rparr>)
      | (Ok _, cc) \<Rightarrow>
          (let receipt = pay_receipt pay;
               pay1 = pay\<lparr>pay_cc := cc, pay_receipt := receipt
                 \<lparr>rc_sent_amount := saturating_sub (rc_sent_amount receipt) amount,
                  rc_in_flight_amount := saturating_sub (rc_in_flight_amount receipt) amount\<rparr>\<rparr>
           in case checked_add (pay_rejected_packets pay1) 1 of
                Err e \<Rightarrow> (Err e, pay1)
              | Panic \<Rightarrow> (Panic, pay1)
              | Ok n \<Rightarrow>
                  (let pay2 = pay1\<lparr>pay_rejected_packets := n\<rparr>
                   in if applies_to_fail_fast code then
                        (case checked_add (pay_fail_fast_rejects pay2) 1 of
                           Ok m \<Rightarrow> (Ok (), pay2\<lparr>pay_fail_fast_rejects := m\<rparr>)
                         | Err e \<Rightarrow> (Err e, pay2)
                         | Panic \<Rightarrow> (Panic, pay2))
                      else (Ok (), pay2))))"

section \<open>The loop of send\_money\<close>

definition MAX_TIME_SINCE_LAST_FULFILL :: nat where
  "MAX_TIME_SINCE_LAST_FULFILL = 30 * 10 ^ 9"

datatype PaymentEvent = SendMoney u64 u64 | MaxInFlight nat | CloseConnection | TimeoutEvent | FailFast

definition stream_payment_new :: "Account \<Rightarrow> Address \<Rightarrow> u64 \<Rightarrow> nat \<Rightarrow> StreamPayment" where
  "stream_payment_new from_account destination_account source_amount now =
     \<lparr>pay_cc = congestion_new source_amount (source_amount div 10),
      pay_receipt = stream_delivery_new from_account destination_account source_amount,
      pay_should_send_source_account = True, pay_sequence = 1, pay_fulfilled_packets = 0,
      pay_rejected_packets = 0, pay_fail_fast_rejects = 0, pay_last_fulfill_time = now\<rparr>"

definition payment_event ::
  "exchange_rates \<Rightarrow> rat option \<Rightarrow> nat \<Rightarrow> StreamPayment \<Rightarrow> (PaymentEvent, StreamError) result \<times> StreamPayment" where
  "payment_event rates slippage now pay =
     (if now - pay_last_fulfill_time pay \<ge> MAX_TIME_SINCE_LAST_FULFILL then (Ok TimeoutEvent, pay)
      else case is_failing pay of
        Err e \<Rightarrow> (Err e, pay)
      | Panic \<Rightarrow> (Panic, pay)
      | Ok failing \<Rightarrow>
          if failing then (Ok FailFast, pay)
          else if is_complete pay then (Ok CloseConnection, pay)
          else if is_max_in_flight pay then
            (Ok (MaxInFlight (pay_last_fulfill_time pay + MAX_TIME_SINCE_LAST_FULFILL)), pay)
          else (case apply_prepare rates slippage pay of
                  (r, pay1) \<Rightarrow> (map_ok (\<lambda>(source_amount, dest_amount). SendMoney source_amount dest_amount) r, pay1)))"

section \<open>One packet\<close>

text \<open>
  The Prepare of a packet; \<^verbatim>\<open>nonce\<close> and \<^verbatim>\<open>random_condition\<close> are the random values drawn for it, and
  \<^verbatim>\<open>format_ts\<close> writes its expiry thirty seconds from now.
\<close>

definition packet_builder ::
  "ring_crypto \<Rightarrow> bytes \<Rightarrow> bytes \<Rightarrow> bytes \<Rightarrow> nat \<Rightarrow> u64 \<Rightarrow> u64 \<Rightarrow> StreamPayment \<Rightarrow>
   (SystemTime PrepareBuilder \<times> u64, StreamError) result \<times> StreamPayment" where
  "packet_builder R nonce random_condition shared_secret now source_amount min_destination_amount pay =
     (case next_sequence pay of
        (Err e, pay1) \<Rightarrow> (Err e, pay1)
      | (Panic, pay1) \<Rightarrow> (Panic, pay1)
      | (Ok sequence, pay1) \<Rightarrow>
          (let frames = [StreamMoney 1 1] @
                 (if pay_should_send_source_account pay1
                  then [ConnectionNewAddress (rc_from (pay_receipt pay1))] else []);
               stream_request_packet = stream_packet_build
                 \<lparr>b_sequence = sequence, b_ilp_packet_type = PrepareType,
                  b_prepare_amount = min_destination_amount, b_frames = frames\<rparr>
           in (and_then (into_encrypted (hmac_sha256 R) (aead_seal R) shared_secret stream_request_packet nonce)
                 (\<lambda>prepare_data.
                   let execution_condition =
                         (if min_destination_amount > 0
                          then generate_condition (hash_sha256 R) (hmac_sha256 R) shared_secret prepare_data
                          else random_condition)
                   in Ok (\<lparr>pb_amount = source_amount, pb_expires_at = now + 30 * 10 ^ 9,
                           pb_execution_condition = execution_condition,
                           pb_destination = rc_to (pay_receipt pay1), pb_data = prepare_data\<rparr>, sequence)),
               pay1)))"

definition packet_prepare ::
  "ring_crypto \<Rightarrow> (SystemTime \<Rightarrow> bytes) \<Rightarrow> bytes \<Rightarrow> bytes \<Rightarrow> bytes \<Rightarrow> nat \<Rightarrow> u64 \<Rightarrow> u64 \<Rightarrow> StreamPayment \<Rightarrow>
   (SystemTime Prepare \<times> u64, StreamError) result \<times> StreamPayment" where
  "packet_prepare R format_ts nonce random_condition shared_secret now source_amount min_destination_amount pay =
     (case packet_builder R nonce random_condition shared_secret now source_amount min_destination_amount pay of
        (r, pay1) \<Rightarrow> (map_ok (\<lambda>(builder, sequence). (prepare_build format_ts builder, sequence)) r, pay1))"

definition note_asset_details :: "Frame list \<Rightarrow> StreamPayment \<Rightarrow> StreamPayment" where
  "note_asset_details frames pay =
     (if rc_destination_asset_scale (pay_receipt pay) = None then
        fold (\<lambda>frame pay. case frame of
            ConnectionAssetDetails asset_code asset_scale \<Rightarrow>
              set_destination_asset_details asset_code asset_scale pay
          | _ \<Rightarrow> pay) frames pay
      else pay)"

text \<open>The amount the recipient claims, and what its reply tells about it.\<close>

definition claimed_amount ::
  "features \<Rightarrow> ring_crypto \<Rightarrow> bytes \<Rightarrow> u64 \<Rightarrow> PacketType \<Rightarrow> bytes \<Rightarrow> StreamPayment \<Rightarrow>
   (u64, StreamError) result \<times> StreamPayment" where
  "claimed_amount cfg R shared_secret sequence packet_type reply_data pay =
     (case from_encrypted cfg (hmac_sha256 R) (aead_open R) shared_secret reply_data of
        Panic \<Rightarrow> (Panic, pay)
      | Err _ \<Rightarrow> (Ok 0, pay)
      | Ok stream_reply_packet \<Rightarrow>
          if sp_sequence stream_reply_packet \<noteq> sequence then (Ok 0, pay)
          else if sp_ilp_packet_type stream_reply_packet = RejectType \<and> packet_type = FulfillType then (Ok 0, pay)
          else (case stream_frames cfg stream_reply_packet of
                  Panic \<Rightarrow> (Panic, pay\<lparr>pay_should_send_source_account := False\<rparr>)
                | Err _ \<Rightarrow> (Panic, pay\<lparr>pay_should_send_source_account := False\<rparr>)
                | Ok frames \<Rightarrow>
                    (Ok (sp_prepare_amount stream_reply_packet),
                     note_asset_details frames (pay\<lparr>pay_should_send_source_account := False\<rparr>))))"

definition tolerated :: "ErrorCode \<Rightarrow> bool" where
  "tolerated code \<longleftrightarrow> error_class code = Temporary \<or> code = F08_AMOUNT_TOO_LARGE \<or>
     code = F99_APPLICATION_ERROR \<or> code = R01_INSUFFICIENT_SOURCE_AMOUNT"

text \<open>
  The reply of the next service, with the data and message of its packet: those accessors do not panic
  on a packet that was parsed or built. \<^verbatim>\<open>lossy\<close> is \<^verbatim>\<open>String::from_utf8_lossy\<close>.
\<close>

datatype Reply = FulfillReply bytes | RejectReply ErrorCode bytes bytes

definition reply_of :: "features \<Rightarrow> IlpResult \<Rightarrow> (Reply, StreamError) result" where
  "reply_of cfg r =
     (case r of
        Ok fulfill \<Rightarrow> map_ok FulfillReply (fulfill_data cfg fulfill)
      | Err reject \<Rightarrow>
          and_then (reject_message cfg reject) (\<lambda>message.
            map_ok (RejectReply (r_code reject) message) (reject_data cfg reject))
      | Panic \<Rightarrow> Panic)"

definition handle_reply ::
  "features \<Rightarrow> ring_crypto \<Rightarrow> (bytes \<Rightarrow> bytes) \<Rightarrow> bytes \<Rightarrow> nat \<Rightarrow> u64 \<Rightarrow> u64 \<Rightarrow> u64 \<Rightarrow> Reply \<Rightarrow> StreamPayment \<Rightarrow>
   (unit, StreamError) result \<times> StreamPayment" where
  "handle_reply cfg R lossy shared_secret now source_amount min_destination_amount sequence reply pay =
     (case reply of
        FulfillReply reply_data \<Rightarrow>
          (case claimed_amount cfg R shared_secret sequence FulfillType reply_data pay of
             (Ok claimed, pay1) \<Rightarrow> apply_fulfill now source_amount (max min_destination_amount claimed) pay1
           | (Err e, pay1) \<Rightarrow> (Err e, pay1)
           | (Panic, pay1) \<Rightarrow> (Panic, pay1))
      | RejectReply code message reply_data \<Rightarrow>
          (case claimed_amount cfg R shared_secret sequence RejectType reply_data pay of
             (Ok claimed, pay1) \<Rightarrow>
               (case apply_reject source_amount code reply_data pay1 of
                  (Ok _, pay2) \<Rightarrow>
                    (if tolerated code then Ok () else Err (UnexpectedRejection code (lossy message)), pay2)
                | (Err e, pay2) \<Rightarrow> (Err e, pay2)
                | (Panic, pay2) \<Rightarrow> (Panic, pay2))
           | (Err e, pay1) \<Rightarrow> (Err e, pay1)
           | (Panic, pay1) \<Rightarrow> (Panic, pay1)))"

text \<open>The packet that tells the recipient the connection is closed; its reply is dropped.\<close>

definition connection_close_prepare ::
  "ring_crypto \<Rightarrow> (SystemTime \<Rightarrow> bytes) \<Rightarrow> bytes \<Rightarrow> bytes \<Rightarrow> bytes \<Rightarrow> nat \<Rightarrow> StreamPayment \<Rightarrow>
   (SystemTime Prepare, StreamError) result \<times> StreamPayment" where
  "connection_close_prepare R format_ts nonce random_condition shared_secret now pay =
     (case next_sequence pay of
        (Err e, pay1) \<Rightarrow> (Err e, pay1)
      | (Panic, pay1) \<Rightarrow> (Panic, pay1)
      | (Ok sequence, pay1) \<Rightarrow>
          (let stream_packet = stream_packet_build
                 \<lparr>b_sequence = sequence, b_ilp_packet_type = PrepareType, b_prepare_amount = 0,
                  b_frames = [ConnectionClose NoError []]\<rparr>
           in (and_then (into_encrypted (hmac_sha256 R) (aead_seal R) shared_secret stream_packet nonce)
                 (\<lambda>payload. Ok (prepare_build format_ts
                    \<lparr>pb_amount = 0, pb_expires_at = now + 30 * 10 ^ 9, pb_execution_condition = random_condition,
                     pb_destination = rc_to (pay_receipt pay1), pb_data = payload\<rparr>)),
               pay1)))"

section \<open>Runs of a payment\<close>

text \<open>
  A packet in flight carries its source amount, its minimum destination amount and, once its task has
  run, its sequence number. The two counters say what was fulfilled so far, in source units and as minimum destination
  amounts.
\<close>

type_synonym flight = "u64 \<times> u64 \<times> u64 option"

record run =
  run_payment :: StreamPayment
  run_flights :: "flight multiset"
  run_fulfilled :: nat
  run_promised :: nat

definition flight_amount :: "flight \<Rightarrow> nat" where
  "flight_amount f = unat (fst f)"

definition flying :: "flight multiset \<Rightarrow> nat" where
  "flying F = sum_mset (image_mset flight_amount F)"

definition run_new :: "Account \<Rightarrow> Address \<Rightarrow> u64 \<Rightarrow> nat \<Rightarrow> run" where
  "run_new from_account destination source_amount now =
     \<lparr>run_payment = stream_payment_new from_account destination source_amount now, run_flights = {#},
      run_fulfilled = 0, run_promised = 0\<rparr>"

inductive pay_step :: "features \<Rightarrow> ring_crypto \<Rightarrow> bytes \<Rightarrow> run \<Rightarrow> run \<Rightarrow> bool"
  for cfg :: features and R :: ring_crypto and secret :: bytes where
  send: "payment_event rates slippage now (run_payment s) = (Ok (SendMoney a d), pay) \<Longrightarrow>
    pay_step cfg R secret s (s\<lparr>run_payment := pay, run_flights := add_mset (a, d, None) (run_flights s)\<rparr>)"
| start: "(a, d, None) \<in># run_flights s \<Longrightarrow>
    packet_prepare R format_ts nonce random_condition secret now a d (run_payment s) = (Ok (prepare, n), pay) \<Longrightarrow>
    pay_step cfg R secret s (s\<lparr>run_payment := pay,
      run_flights := add_mset (a, d, Some n) (run_flights s - {#(a, d, None)#})\<rparr>)"
| fulfilled: "(a, d, Some n) \<in># run_flights s \<Longrightarrow>
    handle_reply cfg R lossy secret now a d n (FulfillReply reply) (run_payment s) = (Ok (), pay) \<Longrightarrow>
    pay_step cfg R secret s (s\<lparr>run_payment := pay, run_flights := run_flights s - {#(a, d, Some n)#},
      run_fulfilled := run_fulfilled s + unat a, run_promised := run_promised s + unat d\<rparr>)"
| rejected: "(a, d, Some n) \<in># run_flights s \<Longrightarrow>
    handle_reply cfg R lossy secret now a d n (RejectReply code message reply) (run_payment s) = (r, pay) \<Longrightarrow>
    r \<noteq> Panic \<Longrightarrow>
    pay_step cfg R secret s (s\<lparr>run_payment := pay, run_flights := run_flights s - {#(a, d, Some n)#}\<rparr>)"

definition seqs :: "flight multiset \<Rightarrow> u64 multiset" where
  "seqs F = image_mset (\<lambda>f. the (snd (snd f))) (filter_mset (\<lambda>f. snd (snd f) \<noteq> None) F)"

text \<open>
  The invariant of a run, in which the receipt counts \<open>stranded\<close> units as in flight that no packet carries
  any more: none, unless a packet's task has panicked.
\<close>

definition run_inv :: "nat \<Rightarrow> u64 \<Rightarrow> run \<Rightarrow> bool" where
  "run_inv stranded source_amount s \<longleftrightarrow>
     (let pay = run_payment s; receipt = pay_receipt pay in
      rc_source_amount receipt = source_amount \<and>
      unat (cc_amount_in_flight (pay_cc pay)) = flying (run_flights s) \<and>
      unat (rc_in_flight_amount receipt) = flying (run_flights s) + stranded \<and>
      unat (rc_sent_amount receipt) = run_fulfilled s + flying (run_flights s) + stranded \<and>
      run_fulfilled s + flying (run_flights s) + stranded \<le> unat source_amount \<and>
      min (2 ^ 64 - 1) (run_promised s) \<le> unat (rc_delivered_amount receipt) \<and>
      (\<forall>n. count (seqs (run_flights s)) n \<le> 1) \<and> (\<forall>n \<in># seqs (run_flights s). n < pay_sequence pay))"

lemma flying_simps [simp]:
  "flying {#} = 0" "flying (add_mset f F) = flight_amount f + flying F" "flight_amount (a, d, q) = unat a"
  by (simp_all add: flying_def flight_amount_def)

lemma flying_remove: "f \<in># F \<Longrightarrow> flying (F - {#f#}) = flying F - flight_amount f \<and> flight_amount f \<le> flying F"
  by (auto dest!: multi_member_split)

lemma seqs_simps [simp]:
  "seqs {#} = {#}" "seqs (add_mset (a, d, None) F) = seqs F" "seqs (add_mset (a, d, Some n) F) = add_mset n (seqs F)"
  by (simp_all add: seqs_def)

lemma run_inv_new: "run_inv 0 source_amount (run_new from_account destination source_amount now)"
  by (simp add: run_inv_def run_new_def stream_payment_new_def stream_delivery_new_def congestion_new_def Let_def)

section \<open>What the steps do to the amounts\<close>

lemma apply_prepare_Ok:
  assumes "apply_prepare rates slippage pay = (Ok (a, d), pay')"
  shows "unat a \<le> unat (get_amount_available_to_send pay)"
    and "\<exists>cc. congestion_prepare a (pay_cc pay) = (Ok (), cc) \<and> pay' = pay\<lparr>pay_cc := cc,
      pay_receipt := (pay_receipt pay)
        \<lparr>rc_sent_amount := saturating_add (rc_sent_amount (pay_receipt pay)) a,
         rc_in_flight_amount := saturating_add (rc_in_flight_amount (pay_receipt pay)) a\<rparr>\<rparr>"
proof -
  have le: "unat (min x y) \<le> unat y" for x y :: u64
    by (simp add: min_def word_le_nat_alt)
  show "unat a \<le> unat (get_amount_available_to_send pay)"
    using assms le
    by (auto simp: apply_prepare_def Let_def split: result.splits prod.splits)
  show "\<exists>cc. congestion_prepare a (pay_cc pay) = (Ok (), cc) \<and> pay' = pay\<lparr>pay_cc := cc,
      pay_receipt := (pay_receipt pay)
        \<lparr>rc_sent_amount := saturating_add (rc_sent_amount (pay_receipt pay)) a,
         rc_in_flight_amount := saturating_add (rc_in_flight_amount (pay_receipt pay)) a\<rparr>\<rparr>"
    using assms by (auto simp: apply_prepare_def Let_def split: result.splits prod.splits)
qed

lemma congestion_prepare_Ok:
  "congestion_prepare a cc = (Ok (), cc') \<Longrightarrow>
   cc' = cc\<lparr>cc_amount_in_flight := cc_amount_in_flight cc + a\<rparr> \<and> unat (cc_amount_in_flight cc) + unat a < 2 ^ 64"
  using unat_bound [of "cc_amount_in_flight cc"]
  by (auto simp: congestion_prepare_def checked_add_def word_neq_0_conv [symmetric] split: if_splits)

text \<open>The part of the payment the invariant reads.\<close>

definition pay_amounts :: "StreamPayment \<Rightarrow> u64 \<times> u64 \<times> u64 \<times> u64 \<times> CongestionController \<times> u64" where
  "pay_amounts pay =
     (rc_source_amount (pay_receipt pay), rc_sent_amount (pay_receipt pay), rc_in_flight_amount (pay_receipt pay),
      rc_delivered_amount (pay_receipt pay), pay_cc pay, pay_sequence pay)"

lemma pay_amounts_flag: "pay_amounts (pay\<lparr>pay_should_send_source_account := b\<rparr>) = pay_amounts pay"
  by (simp add: pay_amounts_def)

lemma note_asset_details_amounts: "pay_amounts (note_asset_details frames pay) = pay_amounts pay"
proof -
  have "pay_amounts (fold (\<lambda>frame pay. case frame of
      ConnectionAssetDetails asset_code asset_scale \<Rightarrow> set_destination_asset_details asset_code asset_scale pay
    | _ \<Rightarrow> pay) frames pay) = pay_amounts pay"
    by (induction frames arbitrary: pay)
      (simp_all add: pay_amounts_def set_destination_asset_details_def split: Frame.split)
  then show ?thesis by (simp add: note_asset_details_def)
qed

lemma claimed_amount_amounts: "pay_amounts (snd (claimed_amount cfg R secret n ty reply pay)) = pay_amounts pay"
  by (simp add: claimed_amount_def note_asset_details_amounts pay_amounts_flag split: result.split)

lemma stream_frames_Ok: "\<exists>fs. stream_frames cfg p = Ok fs"
  using frame_list_Ok by (auto simp: stream_frames_def)

lemma claimed_amount_Ok:
  "\<exists>c. fst (claimed_amount cfg R secret n ty reply pay) = Ok c"
proof -
  have "from_encrypted cfg (hmac_sha256 R) (aead_open R) secret reply \<noteq> Panic"
    unfolding from_encrypted_def
    by (intro np_and_then np_map_err np_from_bytes) (simp add: stream_decrypt_def Let_def split: option.split)
  then show ?thesis
    using stream_frames_Ok [of cfg]
    by (auto simp: claimed_amount_def split: result.split) (metis result.distinct(1) result.distinct(3))+
qed

lemma apply_fulfill_Ok:
  assumes "apply_fulfill now a d pay = (r, pay')" "a \<le> cc_amount_in_flight (pay_cc pay)"
  shows "rc_source_amount (pay_receipt pay') = rc_source_amount (pay_receipt pay)"
    "rc_sent_amount (pay_receipt pay') = rc_sent_amount (pay_receipt pay)"
    "rc_in_flight_amount (pay_receipt pay') = saturating_sub (rc_in_flight_amount (pay_receipt pay)) a"
    "rc_delivered_amount (pay_receipt pay') = saturating_add (rc_delivered_amount (pay_receipt pay)) d"
    "cc_amount_in_flight (pay_cc pay') = cc_amount_in_flight (pay_cc pay) - a"
    "pay_sequence pay' = pay_sequence pay"
  using fulfill_ok [OF assms(2)] assms(1)
  by (auto simp: apply_fulfill_def Let_def split: result.splits)

lemma apply_reject_Ok:
  assumes "apply_reject a code payload pay = (r, pay')" "a \<le> cc_amount_in_flight (pay_cc pay)" "r \<noteq> Panic"
  shows "rc_source_amount (pay_receipt pay') = rc_source_amount (pay_receipt pay)"
    "rc_sent_amount (pay_receipt pay') = saturating_sub (rc_sent_amount (pay_receipt pay)) a"
    "rc_in_flight_amount (pay_receipt pay') = saturating_sub (rc_in_flight_amount (pay_receipt pay)) a"
    "rc_delivered_amount (pay_receipt pay') = rc_delivered_amount (pay_receipt pay)"
    "cc_amount_in_flight (pay_cc pay') = cc_amount_in_flight (pay_cc pay) - a"
    "pay_sequence pay' = pay_sequence pay"
proof -
  obtain x cc where cc: "congestion_reject a code payload (pay_cc pay) = (x, cc)" by fastforce
  have "x \<in> {Ok (), Panic}" "cc_amount_in_flight cc = cc_amount_in_flight (pay_cc pay) - a"
    using congestion_reject_effect [OF assms(2), of code payload] cc by auto
  then show "rc_source_amount (pay_receipt pay') = rc_source_amount (pay_receipt pay)"
    "rc_sent_amount (pay_receipt pay') = saturating_sub (rc_sent_amount (pay_receipt pay)) a"
    "rc_in_flight_amount (pay_receipt pay') = saturating_sub (rc_in_flight_amount (pay_receipt pay)) a"
    "rc_delivered_amount (pay_receipt pay') = rc_delivered_amount (pay_receipt pay)"
    "cc_amount_in_flight (pay_cc pay') = cc_amount_in_flight (pay_cc pay) - a"
    "pay_sequence pay' = pay_sequence pay"
    using assms(1,3) cc by (auto simp: apply_reject_def Let_def split: result.splits if_splits)
qed

lemma payment_event_send:
  assumes "payment_event rates slippage now pay = (Ok (SendMoney a d), pay')"
  shows "apply_prepare rates slippage pay = (Ok (a, d), pay')"
  using assms
  by (auto simp: payment_event_def map_ok_eq_Ok split: if_splits result.splits prod.splits)

lemma run_inv_send:
  assumes inv: "run_inv k src s" and ev: "payment_event rates slippage now (run_payment s) = (Ok (SendMoney a d), pay)"
  shows "run_inv k src (s\<lparr>run_payment := pay, run_flights := add_mset (a, d, None) (run_flights s)\<rparr>)"
proof -
  let ?p = "run_payment s"
  let ?r = "pay_receipt ?p"
  note prep = apply_prepare_Ok [OF payment_event_send [OF ev]]
  obtain cc where cc: "congestion_prepare a (pay_cc ?p) = (Ok (), cc)" and pay: "pay = ?p\<lparr>pay_cc := cc,
      pay_receipt := ?r\<lparr>rc_sent_amount := saturating_add (rc_sent_amount ?r) a,
        rc_in_flight_amount := saturating_add (rc_in_flight_amount ?r) a\<rparr>\<rparr>"
    using prep(2) by blast
  have src: "unat src < 2 ^ 64" using unat_bound [of src] by simp
  have sum: "unat (rc_sent_amount ?r) + unat a \<le> unat src"
    using prep(1) inv by (auto simp: get_amount_available_to_send_def unat_saturating_sub run_inv_def Let_def)
  have "unat (cc_amount_in_flight cc) = unat (cc_amount_in_flight (pay_cc ?p)) + unat a"
    using congestion_prepare_Ok [OF cc] unat_add_lem [of "cc_amount_in_flight (pay_cc ?p)" a] by simp
  then show ?thesis
    using inv sum src by (auto simp: run_inv_def Let_def pay unat_saturating_add)
qed

lemma run_inv_start:
  assumes inv: "run_inv k src s" and f: "(a, d, None) \<in># run_flights s"
    and pk: "packet_prepare R format_ts nonce rc secret now a d (run_payment s) = (Ok (prepare, n), pay)"
  shows "run_inv k src (s\<lparr>run_payment := pay,
    run_flights := add_mset (a, d, Some n) (run_flights s - {#(a, d, None)#})\<rparr>)"
proof -
  let ?p = "run_payment s"
  obtain F where F: "run_flights s = add_mset (a, d, None) F" using f by (metis insert_DiffM)
  have "n = pay_sequence ?p" "pay = ?p\<lparr>pay_sequence := n + 1\<rparr>" and fit: "unat n + 1 < 2 ^ 64"
    using pk by (auto simp: packet_prepare_def packet_builder_def next_sequence_def checked_add_def Let_def ok_simps
        split: result.splits if_splits)
  moreover have "n < n + 1"
    using fit unat_add_lem [of n 1] by (simp add: word_less_nat_alt)
  ultimately show ?thesis
    using inv F by (auto simp: run_inv_def Let_def not_in_iff [symmetric] dest: less_trans)
qed

lemma run_inv_reply:
  assumes inv: "run_inv k src s" and f: "(a, d, Some n) \<in># run_flights s"
    and am: "pay_amounts pay1 = pay_amounts (run_payment s)"
  shows "a \<le> cc_amount_in_flight (pay_cc pay1)" "a \<le> rc_in_flight_amount (pay_receipt pay1)"
    "a \<le> rc_sent_amount (pay_receipt pay1)"
proof -
  have "unat a \<le> flying (run_flights s)" using flying_remove [OF f] by simp
  then show "a \<le> cc_amount_in_flight (pay_cc pay1)" "a \<le> rc_in_flight_amount (pay_receipt pay1)"
    "a \<le> rc_sent_amount (pay_receipt pay1)"
    using inv am by (auto simp: run_inv_def Let_def pay_amounts_def word_le_nat_alt)
qed

lemma seqs_remove:
  assumes "(a, d, Some n) \<in># F"
  shows "seqs (F - {#(a, d, Some n)#}) = seqs F - {#n#}"
  using assms by (auto dest!: multi_member_split)

lemma run_inv_fulfilled:
  assumes inv: "run_inv k src s" and f: "(a, d, Some n) \<in># run_flights s"
    and h: "handle_reply cfg R lossy secret now a d n (FulfillReply reply) (run_payment s) = (Ok (), pay)"
  shows "run_inv k src (s\<lparr>run_payment := pay, run_flights := run_flights s - {#(a, d, Some n)#},
      run_fulfilled := run_fulfilled s + unat a, run_promised := run_promised s + unat d\<rparr>)"
proof -
  obtain c pay1 where c: "claimed_amount cfg R secret n FulfillType reply (run_payment s) = (Ok c, pay1)"
    and ap: "apply_fulfill now a (max d c) pay1 = (Ok (), pay)"
    using h by (auto simp: handle_reply_def split: prod.splits result.splits)
  have am: "pay_amounts pay1 = pay_amounts (run_payment s)"
    using claimed_amount_amounts [of cfg R secret n FulfillType reply "run_payment s"] c by simp
  note le = run_inv_reply [OF inv f am]
  note eff = apply_fulfill_Ok [OF ap le(1)]
  have "unat d \<le> unat (max d c)" by (simp add: max_def word_le_nat_alt)
  moreover have "unat (cc_amount_in_flight (pay_cc pay1) - a) = unat (cc_amount_in_flight (pay_cc pay1)) - unat a"
    using le(1) by (simp add: unat_sub)
  ultimately show ?thesis
    using inv am flying_remove [OF f] seqs_remove [OF f] eff
    by (auto simp: run_inv_def Let_def pay_amounts_def unat_saturating_sub unat_saturating_add
        dest: in_diffD intro: le_trans [OF diff_le_self])
qed

lemma run_inv_rejected:
  assumes inv: "run_inv k src s" and f: "(a, d, Some n) \<in># run_flights s"
    and h: "handle_reply cfg R lossy secret now a d n (RejectReply code message reply) (run_payment s) = (r, pay)"
    and np: "r \<noteq> Panic"
  shows "run_inv k src (s\<lparr>run_payment := pay, run_flights := run_flights s - {#(a, d, Some n)#}\<rparr>)"
proof -
  obtain c pay1 where c: "claimed_amount cfg R secret n RejectType reply (run_payment s) = (Ok c, pay1)"
    using claimed_amount_Ok [of cfg R secret n RejectType reply "run_payment s"] by (metis prod.collapse)
  obtain x pay2 where ap: "apply_reject a code reply pay1 = (x, pay2)" by fastforce
  have x: "x \<noteq> Panic" "pay = pay2"
    using h c ap np by (auto simp: handle_reply_def split: result.splits)
  have am: "pay_amounts pay1 = pay_amounts (run_payment s)"
    using claimed_amount_amounts [of cfg R secret n RejectType reply "run_payment s"] c by simp
  note le = run_inv_reply [OF inv f am]
  note eff = apply_reject_Ok [OF ap le(1) x(1)]
  have "unat (cc_amount_in_flight (pay_cc pay1) - a) = unat (cc_amount_in_flight (pay_cc pay1)) - unat a"
    using le(1) by (simp add: unat_sub)
  then show ?thesis
    using inv am flying_remove [OF f] seqs_remove [OF f] eff x
    by (auto simp: run_inv_def Let_def pay_amounts_def unat_saturating_sub
        dest: in_diffD intro: le_trans [OF diff_le_self])
qed

lemma pay_step_inv: "pay_step cfg R secret s s' \<Longrightarrow> run_inv k src s \<Longrightarrow> run_inv k src s'"
  by (induction rule: pay_step.induct) (auto intro: run_inv_send run_inv_start run_inv_fulfilled run_inv_rejected)

lemma pay_steps_inv: "(pay_step cfg R secret)\<^sup>*\<^sup>* s s' \<Longrightarrow> run_inv k src s \<Longrightarrow> run_inv k src s'"
  by (induction rule: rtranclp_induct) (auto intro: pay_step_inv)

lemma run_inv_complete:
  assumes "run_inv k src s"
  shows "is_complete (run_payment s) \<longleftrightarrow> run_fulfilled s = unat src"
proof -
  have "is_complete (run_payment s) \<longleftrightarrow> unat (get_remaining_amount (run_payment s)) = 0"
    by (simp add: is_complete_def unat_eq_0)
  then show ?thesis
    using assms
    by (auto simp: get_remaining_amount_def get_fulfilled_amount_def unat_saturating_sub run_inv_def Let_def)
qed

section \<open>From the sender to the recipient\<close>

lemma sender_frames_wf:
  assumes "address_wf from_address"
  shows "builder_wf \<lparr>b_sequence = n, b_ilp_packet_type = ty, b_prepare_amount = d,
    b_frames = [StreamMoney 1 1] @ (if q then [ConnectionNewAddress from_address] else [])\<rparr>"
proof -
  have "frame_wf (StreamMoney 1 1)"
    using length_put_var_uint_le [of 1] by (simp add: frame_wf_def)
  moreover have "frame_wf (ConnectionNewAddress from_address)"
    using assms wf_address_short [OF assms] predict_le [of "length (addr_bytes from_address)"]
    by (simp add: frame_wf_def length_put_var_octet_string)
  ultimately show ?thesis by (simp add: builder_wf_def)
qed

lemma claimed_amount_reply:
  assumes "from_encrypted cfg (hmac_sha256 R) (aead_open R) secret reply = Ok (stream_packet_build
    \<lparr>b_sequence = n, b_ilp_packet_type = ty, b_prepare_amount = a, b_frames = fs\<rparr>)"
  shows "fst (claimed_amount cfg R secret n ty reply pay) = Ok a"
proof -
  have "sp_sequence (stream_packet_build b) = b_sequence b" "sp_prepare_amount (stream_packet_build b) = b_prepare_amount b"
    "sp_ilp_packet_type (stream_packet_build b) = b_ilp_packet_type b" for b
    by (simp_all add: stream_packet_build_def Let_def)
  then show ?thesis
    using assms stream_frames_Ok [of cfg "stream_packet_build
        \<lparr>b_sequence = n, b_ilp_packet_type = ty, b_prepare_amount = a, b_frames = fs\<rparr>"]
    by (auto simp: claimed_amount_def)
qed

section \<open>An example run\<close>

definition example_run :: run where
  "example_run = run_new (example_account 3 (bstr ''example.alice'') Peer) (Address (bstr ''example.bob'')) 500 0"

lemma example_send:
  "\<exists>pay. payment_event (\<lambda>_ _. None) None 0 (run_payment example_run) = (Ok (SendMoney 500 0), pay) \<and>
     pay_sequence pay = 1"
proof -
  have "dust_limit 0 = 0"
    by (simp add: dust_limit_def as_f64_def f64_round_def as_u64_def bit_len.simps)
  moreover have "min 500 u64_max = 500" by (simp add: u64_max_ge min_absorb1)
  ultimately show ?thesis
    by (simp add: example_run_def run_new_def stream_payment_new_def stream_delivery_new_def payment_event_def
        MAX_TIME_SINCE_LAST_FULFILL_def is_failing_def checked_add_def FAIL_FAST_MINIMUM_PACKET_ATTEMPTS_def
        is_complete_def get_remaining_amount_def get_fulfilled_amount_def is_max_in_flight_def
        get_amount_available_to_send_def get_amount_left_in_window_def congestion_new_def saturating_sub_def
        apply_prepare_def get_rate_def min_source_amount_def to_u64_def undusted_amount_def checked_div_def
        get_max_packet_amount_def congestion_prepare_def convert_def Let_def)
qed

lemma example_start:
  assumes "pay_sequence pay = 1"
  shows "\<exists>prepare pay'. packet_prepare example_ring (\<lambda>_. []) (replicate 12 7) [] [5] 0 500 0 pay = (Ok (prepare, 1), pay')"
  using assms
  by (simp add: packet_prepare_def packet_builder_def next_sequence_def checked_add_def into_encrypted_def encrypt_with_nonce_def
      example_ring_def example_seal_def AUTH_TAG_LENGTH_def Let_def)

lemma example_reaches:
  "\<exists>s. (pay_step default_features example_ring [5])\<^sup>*\<^sup>* example_run s \<and> run_flights s = {#(500, 0, Some 1)#}"
proof -
  obtain pay where pay: "payment_event (\<lambda>_ _. None) None 0 (run_payment example_run) = (Ok (SendMoney 500 0), pay)"
      "pay_sequence pay = 1"
    using example_send by blast
  let ?s1 = "example_run\<lparr>run_payment := pay, run_flights := add_mset (500, 0, None) (run_flights example_run)\<rparr>"
  have s1: "pay_step default_features example_ring [5] example_run ?s1" by (rule pay_step.send [OF pay(1)])
  obtain prepare pay' where "packet_prepare example_ring (\<lambda>_. []) (replicate 12 7) [] [5] 0 500 0 (run_payment ?s1) =
      (Ok (prepare, 1), pay')"
    using example_start [OF pay(2)] by auto
  then have "pay_step default_features example_ring [5] ?s1 (?s1\<lparr>run_payment := pay',
      run_flights := add_mset (500, 0, Some 1) (run_flights ?s1 - {#(500, 0, None)#})\<rparr>)"
    by (rule pay_step.start [rotated]) simp
  with s1 show ?thesis
    by (intro exI conjI) (erule (1) converse_rtranclp_into_rtranclp [OF _ r_into_rtranclp],
        simp add: example_run_def run_new_def)
qed

section \<open>Properties\<close>



text \<open>
  C7. From the sender to the recipient and back. A packet with a minimum destination amount that reaches
  the recipient with its data and condition, whatever happened to its amount on the way, is fulfilled
  exactly when at least the minimum arrived, and the sender then counts exactly the amount that
  arrived as delivered. A packet sent before the rate is known is rejected, so it puts no money at
  risk, unless its random condition happens to be the right one.
\<close>

theorem stream_money_end_to_end:
  assumes ring: "ring_ok R" and nonces: "length nonce = NONCE_LENGTH" "length nonce' = NONCE_LENGTH"
    and asset: "utf8_valid asset_code" "length asset_code < 2 ^ 32" and addr_wf: "address_wf (rc_from (pay_receipt pay))"
    and pb: "packet_builder R nonce random_condition secret now a d pay = (Ok (pb, n), pay')"
    and p: "prepare_data cfg p = (Ok (pb_data pb) :: (_, ReceiveErr) result)"
      "execution_condition p = (Ok (pb_execution_condition pb) :: (_, ReceiveErr) result)"
    and rnd: "d = 0 \<longrightarrow> random_condition \<noteq> generate_condition (hash_sha256 R) (hmac_sha256 R) secret (pb_data pb)"
  shows "\<exists>reply. receive_money cfg R nonce' secret addr asset_code scale p =
      (if 0 < d \<and> d \<le> p_amount p
       then Ok \<lparr>ro_fulfill = fulfill_build
              \<lparr>fb_fulfillment = generate_fulfillment (hmac_sha256 R) secret (pb_data pb), fb_data = reply\<rparr>,
            ro_sequence = n\<rparr>
       else Err (Rejection (reject_build \<lparr>rb_code = F99_APPLICATION_ERROR, rb_message = [],
              rb_triggered_by = Some addr, rb_data = reply\<rparr>) n False)) \<and>
    (\<forall>pay''. fst (claimed_amount cfg R secret n (if 0 < d \<and> d \<le> p_amount p then FulfillType else RejectType)
       reply pay'') = Ok (p_amount p))"
proof -
  let ?frames = "[StreamMoney 1 1] @ (if pay_should_send_source_account pay
    then [ConnectionNewAddress (rc_from (pay_receipt pay))] else [])"
  let ?b = "\<lparr>b_sequence = n, b_ilp_packet_type = PrepareType, b_prepare_amount = d, b_frames = ?frames\<rparr>"
  let ?cond = "generate_condition (hash_sha256 R) (hmac_sha256 R) secret (pb_data pb)"
  have sent: "into_encrypted (hmac_sha256 R) (aead_seal R) secret (stream_packet_build ?b) nonce =
      (Ok (pb_data pb) :: (_, StreamError) result)"
    and cond: "pb_execution_condition pb = (if 0 < d then ?cond else random_condition)"
    using pb by (auto simp: packet_builder_def next_sequence_def Let_def ok_simps checked_add_def
        split: result.splits if_splits)
  have wf: "builder_wf ?b" using addr_wf by (rule sender_frames_wf)
  have dec: "from_encrypted cfg (hmac_sha256 R) (aead_open R) secret (pb_data pb) = Ok (stream_packet_build ?b)"
    using encrypted_reply [where 'e = StreamError, OF ring wf nonces(1), of secret cfg] sent by force
  have frames: "stream_frames cfg (stream_packet_build ?b) = Ok ?frames"
    using frame_list_put [of ?frames cfg] wf
    by (simp add: stream_frames_def stream_packet_build_def builder_wf_def Let_def)
  have len: "length ?frames < 2 ^ 64" by simp
  have sel: "sp_sequence (stream_packet_build ?b) = n" "sp_prepare_amount (stream_packet_build ?b) = d"
    by (simp_all add: stream_packet_build_def Let_def)
  have closed: "\<not> list_ex closes_connection ?frames" by (simp add: closes_connection_def)
  have ok: "pb_execution_condition pb = ?cond \<and> d \<le> p_amount p \<longleftrightarrow> 0 < d \<and> d \<le> p_amount p"
    using cond rnd by (cases "d = 0") (simp_all add: word_neq_0_conv)
  show ?thesis
    using receive_money_reply [OF ring p dec frames len nonces(2) asset, of scale addr]
    unfolding sel ok using closed claimed_amount_reply [of cfg R secret _ n _ "p_amount p"] by fastforce
qed

definition example_buffer :: bytes where
  "example_buffer = sp_buffer_unencrypted (stream_packet_build
     \<lparr>b_sequence = 1, b_ilp_packet_type = PrepareType, b_prepare_amount = 70,
      b_frames = [StreamMoney 1 1, ConnectionNewAddress (Address (bstr ''example.alice''))]\<rparr>)"

lemma example_buffer_length: "length example_buffer < 100" by code_simp

lemma example_payment:
  defines "pay \<equiv> run_payment example_run"
  shows "pay_sequence pay = 1" "pay_should_send_source_account pay"
    "rc_from (pay_receipt pay) = Address (bstr ''example.alice'')" "rc_to (pay_receipt pay) = Address (bstr ''example.bob'')"
  by (simp_all add: pay_def example_run_def run_new_def stream_payment_new_def stream_delivery_new_def example_account_def)

lemma example_packet:
  "\<exists>pb pay'. packet_builder example_ring (replicate 12 7) [] [5] 0 100 70 (run_payment example_run) = (Ok (pb, 1), pay') \<and>
     pb_amount pb = 100 \<and> pb_destination pb = Address (bstr ''example.bob'') \<and>
     length (pb_execution_condition pb) = 32 \<and> length (pb_data pb) = 28 + length example_buffer"
proof -
  let ?pay = "run_payment example_run"
  let ?data = "replicate 12 7 @ replicate 16 0 @ example_buffer"
  have sealed: "into_encrypted (hmac_sha256 example_ring) (aead_seal example_ring) [5] (stream_packet_build
      \<lparr>b_sequence = 1, b_ilp_packet_type = PrepareType, b_prepare_amount = 70,
       b_frames = [StreamMoney 1 1, ConnectionNewAddress (Address (bstr ''example.alice''))]\<rparr>) (replicate 12 7) =
    (Ok ?data :: (_, StreamError) result)"
    by (simp add: into_encrypted_def encrypt_with_nonce_def example_ring_def example_seal_def AUTH_TAG_LENGTH_def
        example_buffer_def Let_def)
  have seq: "next_sequence ?pay = (Ok 1, ?pay\<lparr>pay_sequence := 2\<rparr>)"
    by (simp add: next_sequence_def example_payment checked_add_def)
  have "length (generate_condition (hash_sha256 example_ring) (hmac_sha256 example_ring) [5] ?data) = 32"
    using example_ring_ok by (simp add: generate_condition_def ring_ok_def)
  then show ?thesis
    by (simp add: packet_builder_def seq example_payment sealed Let_def)
qed

theorem stream_money_end_to_end_witness:
  "\<exists>p reply fulfillment. p_amount p = 100 \<and>
     receive_money default_features example_ring (replicate 12 9) [5] (Address (bstr ''example.bob'')) (bstr ''XYZ'') 9 p =
       Ok \<lparr>ro_fulfill = fulfill_build \<lparr>fb_fulfillment = fulfillment, fb_data = reply\<rparr>, ro_sequence = 1\<rparr> \<and>
     fst (claimed_amount default_features example_ring [5] 1 FulfillType reply (run_payment example_run)) = Ok 100"
proof -
  obtain pb pay' where
    pb: "packet_builder example_ring (replicate 12 7) [] [5] 0 100 70 (run_payment example_run) = (Ok (pb, 1), pay')"
    and fields: "pb_amount pb = 100" "pb_destination pb = Address (bstr ''example.bob'')"
      "length (pb_execution_condition pb) = 32" "length (pb_data pb) = 28 + length example_buffer"
    using example_packet by blast
  let ?fmt = "\<lambda>_ :: SystemTime. replicate 17 (48 :: u8)"
  have asset: "utf8_valid (bstr ''XYZ'')" "length (bstr ''XYZ'') < 2 ^ 32"
    and addr: "address_wf (Address (bstr ''example.bob''))" "address_wf (Address (bstr ''example.alice''))"
    and fmt: "list_all is_digit (replicate 17 48)"
    by (code_simp, simp add: bstr_def, code_simp, code_simp, code_simp)
  have wf: "prepare_builder_wf (\<lambda>_. Some (pb_expires_at pb)) ?fmt pb"
    using fields addr(1) fmt example_buffer_length
    by (simp add: prepare_builder_wf_def ts_ok_def len_defs)
  have amount: "p_amount (prepare_build ?fmt pb) = 100" by (simp add: prepare_build_def fields Let_def)
  have nonce: "length (replicate 12 (7 :: u8)) = NONCE_LENGTH" "length (replicate 12 (9 :: u8)) = NONCE_LENGTH"
    by (simp_all add: NONCE_LENGTH_def)
  have "address_wf (rc_from (pay_receipt (run_payment example_run)))" by (simp add: example_payment addr)
  note stream_money_end_to_end [OF example_ring_ok nonce asset this pb
      prepare_build_accessors(2) [OF wf] prepare_build_accessors(1) [OF wf],
      of default_features "Address (bstr ''example.bob'')" 9]
  then have "\<exists>reply. receive_money default_features example_ring (replicate 12 9) [5] (Address (bstr ''example.bob''))
      (bstr ''XYZ'') 9 (prepare_build ?fmt pb) = Ok \<lparr>ro_fulfill = fulfill_build
        \<lparr>fb_fulfillment = generate_fulfillment (hmac_sha256 example_ring) [5] (pb_data pb), fb_data = reply\<rparr>,
        ro_sequence = 1\<rparr> \<and>
    (\<forall>pay''. fst (claimed_amount default_features example_ring [5] 1 FulfillType reply pay'') = Ok 100)"
    by (simp add: amount)
  then show ?thesis using amount by blast
qed



end
