(* ===== verification/Settlement_Client.thy ===== *)
theory Settlement_Client
  imports Settlement
begin

text \<open>
  The client of the settlement engines, \<^verbatim>\<open>crates/interledger-settlement/src/core/settlement_client.rs\<close>:
  account creation, messages and settlements, each retried by \<^verbatim>\<open>FutureRetry\<close> under the policy of
  \<^verbatim>\<open>RequestErrorHandler\<close>. The HTTP client, URLs, random UUIDs and \<^verbatim>\<open>FutureRetry\<close> are parameters; \<open>retries\<close> is
  what \<^verbatim>\<open>FutureRetry\<close> documents.

  The lemmas show that a call makes at most one attempt more than the retries allowed, and that every attempt
  at a settlement carries a new idempotency key.
\<close>

section \<open>Requests\<close>

record Quantity =
  qty_amount :: bytes
  qty_scale :: u8

definition quantity_new :: "u64 \<Rightarrow> u8 \<Rightarrow> Quantity" where
  "quantity_new amount scale = \<lparr>qty_amount = dec_digits (unat amount), qty_scale = scale\<rparr>"

datatype HttpBody = IdBody bytes | QuantityBody Quantity | MessageBody bytes

record 'u HttpPost =
  hp_url :: 'u
  hp_idempotency_key :: "bytes option"
  hp_body :: HttpBody

text \<open>What the code reads of a \<^verbatim>\<open>reqwest::Error\<close>.\<close>

record RequestError =
  re_is_timeout :: bool
  re_status :: "nat option"

text \<open>
  \<open>cw_uuids\<close> counts the UUIDs drawn, \<open>cw_engine\<close> is the engine's side; \<open>hl_new_v4 n\<close> is the text of the UUID
  drawn after \<open>n\<close> others, and \<open>hl_push_segments\<close> has no result for a URL that cannot be a base.
\<close>

record 'e ClientWorld =
  cw_uuids :: nat
  cw_engine :: 'e

record ('u, 'r, 'e) HttpLib =
  hl_post :: "'u HttpPost \<Rightarrow> 'e \<Rightarrow> ('r, RequestError) result \<times> 'e"
  hl_error_for_status :: "'r \<Rightarrow> ('r, RequestError) result"
  hl_push_segments :: "'u \<Rightarrow> bytes list \<Rightarrow> 'u option"
  hl_new_v4 :: "nat \<Rightarrow> bytes"
  hl_uuid_string :: "Uuid \<Rightarrow> bytes"

type_synonym ('r, 'e) attempt = "'e ClientWorld \<Rightarrow> ('r, RequestError) result \<times> 'e ClientWorld"

abbreviation ACCOUNTS_ENDPOINT :: bytes where "ACCOUNTS_ENDPOINT \<equiv> bstr ''accounts''"
abbreviation MAX_RETRIES :: nat where "MAX_RETRIES \<equiv> 10"

definition post_to_engine :: "('u, 'r, 'e) HttpLib \<Rightarrow> 'u HttpPost \<Rightarrow> ('r, 'e) attempt" where
  "post_to_engine lib request w =
     (case hl_post lib request (cw_engine w) of (response, e) \<Rightarrow> (response, w\<lparr>cw_engine := e\<rparr>))"

definition create_engine_account_once :: "('u, 'r, 'e) HttpLib \<Rightarrow> Uuid \<Rightarrow> 'u \<Rightarrow> ('r, 'e) attempt" where
  "create_engine_account_once lib i engine_url w =
     (case hl_push_segments lib engine_url [ACCOUNTS_ENDPOINT] of
        None \<Rightarrow> (Panic, w)
      | Some url \<Rightarrow>
          post_to_engine lib
            \<lparr>hp_url = url, hp_idempotency_key = None, hp_body = IdBody (hl_uuid_string lib i)\<rparr> w)"

definition send_message_once :: "('u, 'r, 'e) HttpLib \<Rightarrow> Uuid \<Rightarrow> 'u \<Rightarrow> bytes \<Rightarrow> ('r, 'e) attempt" where
  "send_message_once lib i engine_url message w =
     (case hl_push_segments lib engine_url [bstr ''accounts'', hl_uuid_string lib i, bstr ''messages''] of
        None \<Rightarrow> (Panic, w)
      | Some url \<Rightarrow>
          (let idempotency_uuid = hl_new_v4 lib (cw_uuids w) in
           post_to_engine lib
             \<lparr>hp_url = url, hp_idempotency_key = Some idempotency_uuid, hp_body = MessageBody message\<rparr>
             (w\<lparr>cw_uuids := Suc (cw_uuids w)\<rparr>)))"

definition send_settlement_once :: "('u, 'r, 'e) HttpLib \<Rightarrow> Uuid \<Rightarrow> 'u \<Rightarrow> u64 \<Rightarrow> u8 \<Rightarrow> ('r, 'e) attempt" where
  "send_settlement_once lib i engine_url amount asset_scale w =
     (case hl_push_segments lib engine_url [ACCOUNTS_ENDPOINT, hl_uuid_string lib i, bstr ''settlements''] of
        None \<Rightarrow> (Panic, w)
      | Some url \<Rightarrow>
          (let idempotency_uuid = hl_new_v4 lib (cw_uuids w);
               (response, w') = post_to_engine lib
                 \<lparr>hp_url = url, hp_idempotency_key = Some idempotency_uuid,
                  hp_body = QuantityBody (quantity_new amount asset_scale)\<rparr>
                 (w\<lparr>cw_uuids := Suc (cw_uuids w)\<rparr>)
           in (and_then response (hl_error_for_status lib), w')))"

section \<open>Retries\<close>

datatype 'err RetryPolicy = WaitRetry nat | ForwardError 'err

definition is_client_error :: "nat \<Rightarrow> bool" where
  "is_client_error status \<longleftrightarrow> 400 \<le> status \<and> status < 500"

definition is_server_error :: "nat \<Rightarrow> bool" where
  "is_server_error status \<longleftrightarrow> 500 \<le> status \<and> status < 600"

definition request_error_handle :: "nat \<Rightarrow> nat \<Rightarrow> RequestError \<Rightarrow> RequestError RetryPolicy" where
  "request_error_handle max_retries attempt e =
     (if attempt > max_retries then ForwardError e
      else if re_is_timeout e then WaitRetry 5
      else case re_status e of
        Some status \<Rightarrow>
          if is_client_error status then ForwardError e
          else if is_server_error status then WaitRetry 5
          else WaitRetry 1
      | None \<Rightarrow> WaitRetry 1)"

type_synonym ('r, 'e) future_retry =
  "('r, 'e) attempt \<Rightarrow> (nat \<Rightarrow> RequestError \<Rightarrow> RequestError RetryPolicy) \<Rightarrow>
   'e ClientWorld \<Rightarrow> ('r \<times> nat, RequestError \<times> nat) result \<times> 'e ClientWorld"

definition with_retries :: "('r, 'e) future_retry \<Rightarrow> nat \<Rightarrow> ('r, 'e) attempt \<Rightarrow> ('r, 'e) attempt" where
  "with_retries future_retry max_retries factory w =
     (case future_retry factory (request_error_handle max_retries) w of
        (r, w') \<Rightarrow> (map_err fst (map_ok fst r), w'))"

definition create_engine_account ::
  "('r, 'e) future_retry \<Rightarrow> ('u, 'r, 'e) HttpLib \<Rightarrow> nat \<Rightarrow> Uuid \<Rightarrow> 'u \<Rightarrow> ('r, 'e) attempt" where
  "create_engine_account future_retry lib max_retries i engine_url =
     with_retries future_retry max_retries (create_engine_account_once lib i engine_url)"

definition send_message ::
  "('r, 'e) future_retry \<Rightarrow> ('u, 'r, 'e) HttpLib \<Rightarrow> nat \<Rightarrow> Uuid \<Rightarrow> 'u \<Rightarrow> bytes \<Rightarrow> ('r, 'e) attempt" where
  "send_message future_retry lib max_retries i engine_url message =
     with_retries future_retry max_retries (send_message_once lib i engine_url message)"

definition send_settlement ::
  "('r, 'e) future_retry \<Rightarrow> ('u, 'r, 'e) HttpLib \<Rightarrow> nat \<Rightarrow> Uuid \<Rightarrow> 'u \<Rightarrow> u64 \<Rightarrow> u8 \<Rightarrow> ('r, 'e) attempt" where
  "send_settlement future_retry lib max_retries i engine_url amount asset_scale =
     with_retries future_retry max_retries (send_settlement_once lib i engine_url amount asset_scale)"

section \<open>What is documented of the libraries\<close>

text \<open>
  \<^verbatim>\<open>FutureRetry\<close> runs the factory; a success is the result, and an error is handed to the handler with the
  number of the attempt, from one on, and is forwarded or followed by another attempt. The count is the number
  of attempts made.
\<close>

inductive retries ::
  "('r, 'e) attempt \<Rightarrow> (nat \<Rightarrow> RequestError \<Rightarrow> RequestError RetryPolicy) \<Rightarrow> nat \<Rightarrow> 'e ClientWorld \<Rightarrow>
   ('r \<times> nat, RequestError \<times> nat) result \<Rightarrow> 'e ClientWorld \<Rightarrow> bool" for factory handler where
  succeeds: "factory w = (Ok r, w') \<Longrightarrow> retries factory handler n w (Ok (r, n)) w'"
| forwards: "factory w = (Err e, w') \<Longrightarrow> handler n e = ForwardError e' \<Longrightarrow> retries factory handler n w (Err (e', n)) w'"
| panics: "factory w = (Panic, w') \<Longrightarrow> retries factory handler n w Panic w'"
| again: "factory w = (Err e, w1) \<Longrightarrow> handler n e = WaitRetry d \<Longrightarrow> retries factory handler (Suc n) w1 r w' \<Longrightarrow>
    retries factory handler n w r w'"

definition future_retry_ok :: "('r, 'e) future_retry \<Rightarrow> bool" where
  "future_retry_ok future_retry \<longleftrightarrow>
     (\<forall>factory max_retries w r w'. future_retry factory (request_error_handle max_retries) w = (r, w') \<longrightarrow>
        retries factory (request_error_handle max_retries) 1 w r w')"

text \<open>
  An engine that keeps the promise of idempotency keys: a request under a new key is settled, one under a key
  it has seen is not settled again. Whether the response arrives is another matter.
\<close>

definition settles_once_per_key ::
  "('u, 'r, 'e) HttpLib \<Rightarrow> ('e \<Rightarrow> (bytes \<times> Quantity) list) \<Rightarrow> bool" where
  "settles_once_per_key lib settled \<longleftrightarrow>
     (\<forall>u key q e r e'. hl_post lib \<lparr>hp_url = u, hp_idempotency_key = Some key, hp_body = QuantityBody q\<rparr> e = (r, e') \<longrightarrow>
        settled e' = (if key \<in> fst ` set (settled e) then settled e else settled e @ [(key, q)]))"

section \<open>Attempts\<close>

lemma handle_last: "request_error_handle max_retries n e = WaitRetry d \<Longrightarrow> n \<le> max_retries"
  by (simp add: request_error_handle_def split: if_splits)

definition unused_uuids :: "('u, 'r, 'e) HttpLib \<Rightarrow> ('e \<Rightarrow> (bytes \<times> Quantity) list) \<Rightarrow> 'e ClientWorld \<Rightarrow> bool" where
  "unused_uuids lib settled w \<longleftrightarrow> (\<forall>n \<ge> cw_uuids w. hl_new_v4 lib n \<notin> fst ` set (settled (cw_engine w)))"

lemma send_settlement_once_settles:
  assumes "settles_once_per_key lib settled" "inj (hl_new_v4 lib)" "unused_uuids lib settled w"
    and "send_settlement_once lib i url amount scale w = (r, w')"
    and "hl_push_segments lib url [ACCOUNTS_ENDPOINT, hl_uuid_string lib i, bstr ''settlements''] = Some u"
  shows "cw_uuids w' = Suc (cw_uuids w) \<and> unused_uuids lib settled w' \<and>
    settled (cw_engine w') = settled (cw_engine w) @ [(hl_new_v4 lib (cw_uuids w), quantity_new amount scale)]"
proof -
  from assms(4,5) obtain response where post: "hl_post lib
      \<lparr>hp_url = u, hp_idempotency_key = Some (hl_new_v4 lib (cw_uuids w)),
       hp_body = QuantityBody (quantity_new amount scale)\<rparr> (cw_engine w) = (response, cw_engine w')"
    "cw_uuids w' = Suc (cw_uuids w)"
    by (auto simp: send_settlement_once_def post_to_engine_def Let_def split: prod.splits)
  have "settled (cw_engine w') = settled (cw_engine w) @ [(hl_new_v4 lib (cw_uuids w), quantity_new amount scale)]"
    using assms(1,3) post(1) unfolding settles_once_per_key_def unused_uuids_def by (metis order_refl)
  with assms(2,3) post(2) show ?thesis by (auto simp: unused_uuids_def inj_eq)
qed

lemma retries_settle:
  assumes "retries (send_settlement_once lib i url amount scale) (request_error_handle max_retries) n w r w'"
    and "settles_once_per_key lib settled" "inj (hl_new_v4 lib)" "unused_uuids lib settled w"
    and "hl_push_segments lib url [ACCOUNTS_ENDPOINT, hl_uuid_string lib i, bstr ''settlements''] = Some u"
    and "n \<le> Suc max_retries"
  shows "\<exists>k. 1 \<le> k \<and> n + k \<le> max_retries + 2 \<and> cw_uuids w' = cw_uuids w + k \<and>
    settled (cw_engine w') =
      settled (cw_engine w) @ map (\<lambda>j. (hl_new_v4 lib j, quantity_new amount scale)) [cw_uuids w ..< cw_uuids w + k]"
proof -
  have single: "\<exists>k. 1 \<le> k \<and> n + k \<le> max_retries + 2 \<and> cw_uuids w2 = cw_uuids w1 + k \<and> settled (cw_engine w2) =
      settled (cw_engine w1) @ map (\<lambda>j. (hl_new_v4 lib j, quantity_new amount scale)) [cw_uuids w1 ..< cw_uuids w1 + k]"
    if "send_settlement_once lib i url amount scale w1 = (res, w2)" "unused_uuids lib settled w1" "n \<le> Suc max_retries"
    for w1 res w2 n
    using send_settlement_once_settles [OF assms(2,3) that(2,1) assms(5)] that(3) by (intro exI [of _ 1]) simp
  show ?thesis
    using assms(1,4,6)
  proof (induction rule: retries.induct)
    case (again w e w1 n d r w')
    note once = send_settlement_once_settles [OF assms(2,3) again.prems(1) again.hyps(1) assms(5)]
    from again.IH once handle_last [OF again.hyps(2)] obtain k where
      k: "1 \<le> k" "Suc n + k \<le> max_retries + 2" "cw_uuids w' = cw_uuids w1 + k"
        "settled (cw_engine w') = settled (cw_engine w1) @
          map (\<lambda>j. (hl_new_v4 lib j, quantity_new amount scale)) [cw_uuids w1 ..< cw_uuids w1 + k]"
      by auto
    have "[cw_uuids w ..< cw_uuids w + Suc k] = cw_uuids w # [Suc (cw_uuids w) ..< Suc (cw_uuids w) + k]"
      by (simp add: upt_conv_Cons del: upt_Suc)
    with k once show ?case by (intro exI [of _ "Suc k"]) (simp del: upt_Suc)
  qed (rule single; assumption)+
qed

definition responses_lost :: "('u, 'r, 'e) HttpLib \<Rightarrow> bool" where
  "responses_lost lib \<longleftrightarrow> (\<forall>request e. \<exists>err. fst (hl_post lib request e) = Err err \<and> re_is_timeout err)"

lemma retries_exhausted:
  assumes "retries (send_settlement_once lib i url amount scale) (request_error_handle max_retries) n w r w'"
    and "responses_lost lib" "n \<le> Suc max_retries"
    and "hl_push_segments lib url [ACCOUNTS_ENDPOINT, hl_uuid_string lib i, bstr ''settlements''] = Some u"
  shows "n + cw_uuids w' = cw_uuids w + (max_retries + 2)"
proof -
  have once: "\<exists>err. res = Err err \<and> re_is_timeout err \<and> cw_uuids w2 = Suc (cw_uuids w1)"
    if "send_settlement_once lib i url amount scale w1 = (res, w2)" for w1 w2 res
  proof -
    let ?request = "\<lparr>hp_url = u, hp_idempotency_key = Some (hl_new_v4 lib (cw_uuids w1)),
      hp_body = QuantityBody (quantity_new amount scale)\<rparr>"
    from assms(2) obtain err e' where "hl_post lib ?request (cw_engine w1) = (Err err, e')" "re_is_timeout err"
      unfolding responses_lost_def by (metis prod.collapse)
    then show ?thesis using that assms(4) by (auto simp: send_settlement_once_def post_to_engine_def Let_def)
  qed
  from assms(1,3) show ?thesis
  proof (induction rule: retries.induct)
    case (forwards w e w' n e')
    then have "n = Suc max_retries"
      using once [OF forwards.hyps(1)] by (auto simp: request_error_handle_def split: if_splits)
    then show ?case using once [OF forwards.hyps(1)] by simp
  next
    case (again w e w1 n d r w')
    then show ?case using once [OF again.hyps(1)] handle_last [OF again.hyps(2)] by simp
  qed (use once in fastforce)+
qed

section \<open>Properties\<close>

text \<open>
  C11. Every attempt at a settlement draws a new idempotency key, so an engine that settles once per key settles
  as often as it is asked: after \<^verbatim>\<open>send_settlement\<close> it has settled the quantity between once and one time more
  than the retries allowed, under keys that are all different; when each response is lost after the engine
  settled, it has settled the quantity the full number of times. The request is documented as idempotent.
\<close>

theorem retried_settlement_settles_again:
  assumes "future_retry_ok future_retry" "settles_once_per_key lib settled" "inj (hl_new_v4 lib)"
    and "unused_uuids lib settled w"
    and "hl_push_segments lib url [ACCOUNTS_ENDPOINT, hl_uuid_string lib i, bstr ''settlements''] = Some u"
    and "send_settlement future_retry lib max_retries i url amount scale w = (r, w')"
  shows "\<exists>keys. 1 \<le> length keys \<and> length keys \<le> max_retries + 1 \<and> distinct keys \<and>
    settled (cw_engine w') = settled (cw_engine w) @ map (\<lambda>key. (key, quantity_new amount scale)) keys \<and>
    (responses_lost lib \<longrightarrow> length keys = max_retries + 1)"
proof -
  from assms(6) obtain r' where
    "future_retry (send_settlement_once lib i url amount scale) (request_error_handle max_retries) w = (r', w')"
    by (auto simp: send_settlement_def with_retries_def split: prod.splits)
  with assms(1) have
    run: "retries (send_settlement_once lib i url amount scale) (request_error_handle max_retries) 1 w r' w'"
    unfolding future_retry_ok_def by blast
  from retries_settle [OF this assms(2-5)] obtain k where
    k: "1 \<le> k" "1 + k \<le> max_retries + 2" "cw_uuids w' = cw_uuids w + k"
      "settled (cw_engine w') = settled (cw_engine w) @
        map (\<lambda>j. (hl_new_v4 lib j, quantity_new amount scale)) [cw_uuids w ..< cw_uuids w + k]" by auto
  have "k = max_retries + 1" if "responses_lost lib"
    using retries_exhausted [OF run that _ assms(5)] k(3) by simp
  with k assms(3) show ?thesis
    by (intro exI [of _ "map (hl_new_v4 lib) [cw_uuids w ..< cw_uuids w + k]"])
      (simp add: distinct_map inj_on_subset [of _ UNIV])
qed

partial_function (option) example_retry_from ::
  "('r, 'e) attempt \<Rightarrow> (nat \<Rightarrow> RequestError \<Rightarrow> RequestError RetryPolicy) \<Rightarrow> nat \<Rightarrow> 'e ClientWorld \<Rightarrow>
   (('r \<times> nat, RequestError \<times> nat) result \<times> 'e ClientWorld) option" where
  "example_retry_from factory handler n w =
     (case factory w of
        (Ok r, w') \<Rightarrow> Some (Ok (r, n), w')
      | (Panic, w') \<Rightarrow> Some (Panic, w')
      | (Err e, w') \<Rightarrow>
          (case handler n e of
             ForwardError e' \<Rightarrow> Some (Err (e', n), w')
           | WaitRetry _ \<Rightarrow> example_retry_from factory handler (Suc n) w'))"

definition example_retry :: "('r, 'e) future_retry" where
  "example_retry factory handler w =
     (case example_retry_from factory handler 1 w of Some x \<Rightarrow> x | None \<Rightarrow> (Panic, w))"

lemma example_retry_from_runs:
  "\<exists>r w'. example_retry_from factory (request_error_handle max_retries) n w = Some (r, w') \<and>
    retries factory (request_error_handle max_retries) n w r w'"
proof (induction "Suc max_retries - n" arbitrary: n w)
  case 0
  then have "request_error_handle max_retries n e = ForwardError e" for e by (simp add: request_error_handle_def)
  then show ?case
    by (subst example_retry_from.simps) (auto split: prod.split result.split intro: retries.intros)
next
  case (Suc m)
  then have "\<exists>r w'. example_retry_from factory (request_error_handle max_retries) (Suc n) w1 = Some (r, w') \<and>
    retries factory (request_error_handle max_retries) (Suc n) w1 r w'" for w1 by (metis Suc_diff_Suc Suc_inject zero_less_Suc zero_less_diff diff_Suc_Suc)
  then show ?case
    by (subst example_retry_from.simps) (fastforce split: prod.split result.split RetryPolicy.split intro: retries.intros)
qed

lemma example_retry_run:
  "example_retry factory (request_error_handle m) w = (r, w') \<Longrightarrow> retries factory (request_error_handle m) 1 w r w'"
  using example_retry_from_runs [of factory m 1 w] by (auto simp: example_retry_def)

lemma example_retry_ok: "future_retry_ok example_retry"
  unfolding future_retry_ok_def by (intro allI impI) (rule example_retry_run)

text \<open>An engine whose state is the log of its settlements, and whose responses are all lost.\<close>

definition example_post :: "unit HttpPost \<Rightarrow> (bytes \<times> Quantity) list \<Rightarrow>
  (unit, RequestError) result \<times> (bytes \<times> Quantity) list" where
  "example_post request log =
     (Err \<lparr>re_is_timeout = True, re_status = None\<rparr>,
      case (hp_idempotency_key request, hp_body request) of
        (Some key, QuantityBody q) \<Rightarrow> if key \<in> fst ` set log then log else log @ [(key, q)]
      | _ \<Rightarrow> log)"

definition example_lib :: "(unit, unit, (bytes \<times> Quantity) list) HttpLib" where
  "example_lib = \<lparr>hl_post = example_post, hl_error_for_status = Ok, hl_push_segments = (\<lambda>_ _. Some ()),
     hl_new_v4 = (\<lambda>n. replicate n 0), hl_uuid_string = (\<lambda>_. [])\<rparr>"

theorem retried_settlement_settles_again_witness:
  "length (cw_engine (snd (send_settlement example_retry example_lib MAX_RETRIES 7 () 100 6
     \<lparr>cw_uuids = 0, cw_engine = []\<rparr>))) = 11"
proof -
  obtain r w' where run: "send_settlement example_retry example_lib MAX_RETRIES 7 () 100 6
      \<lparr>cw_uuids = 0, cw_engine = []\<rparr> = (r, w')" by fastforce
  have "settles_once_per_key example_lib (\<lambda>log. log)"
    by (simp add: settles_once_per_key_def example_lib_def example_post_def)
  moreover have "inj (hl_new_v4 example_lib)"
    by (rule injI) (metis example_lib_def HttpLib.select_convs(4) length_replicate)
  moreover have "unused_uuids example_lib (\<lambda>log. log) \<lparr>cw_uuids = 0, cw_engine = []\<rparr>"
    by (simp add: unused_uuids_def)
  moreover have "responses_lost example_lib"
    by (simp add: responses_lost_def example_lib_def example_post_def)
  moreover have "hl_push_segments example_lib () segments = Some ()" for segments by (simp add: example_lib_def)
  ultimately obtain keys where "cw_engine w' = map (\<lambda>key. (key, quantity_new 100 6)) keys" "length keys = 11"
    using retried_settlement_settles_again [OF example_retry_ok _ _ _ _ run, of "\<lambda>log. log"]
    by auto
  then show ?thesis using run by simp
qed

end
