(* ===== verification/Btp_Packet.thy ===== *)
theory Btp_Packet
  imports Oer
begin

text \<open>
  The packets of the Bilateral Transfer Protocol, \<^verbatim>\<open>crates/interledger-btp/src/packet.rs\<close>: messages, responses
  and errors, each a type byte, a request id and one octet string with the contents, which end with a list of
  named protocol data. Rust strings are their bytes, valid UTF-8; chrono's parser and formatter of the
  timestamp of an error are parameters.

  The lemmas interpret the codec locales for one entry of protocol data and show that every packet survives
  the wire, that bytes after a packet are refused, and that no input makes the parser panic.
\<close>

section \<open>Packets\<close>

datatype PacketTypeError = UnknownType u8 | Unexpected u8 u8

datatype BtpPacketError =
    TrailingBytesErr
  | Utf8Err
  | ChronoErr
  | PacketTypeErr PacketTypeError
  | BtpOer OerError

abbreviation REQUEST_ID_LEN :: nat where "REQUEST_ID_LEN \<equiv> 4"
abbreviation BTP_TYPE_LEN :: nat where "BTP_TYPE_LEN \<equiv> 1"
abbreviation CONTENT_TYPE_LEN :: nat where "CONTENT_TYPE_LEN \<equiv> 1"

datatype BtpPacketType = MessageType | ResponseType | ErrorType | UnknownPacketType

text \<open>\<^verbatim>\<open>PacketType::X as u8\<close>: the unknown type has the discriminant after the error's.\<close>

primrec btp_type_u8 :: "BtpPacketType \<Rightarrow> u8" where
  "btp_type_u8 MessageType = 6"
| "btp_type_u8 ResponseType = 1"
| "btp_type_u8 ErrorType = 2"
| "btp_type_u8 UnknownPacketType = 3"

definition btp_type_from_u8 :: "u8 \<Rightarrow> BtpPacketType" where
  "btp_type_from_u8 type_int =
     (if type_int = 6 then MessageType
      else if type_int = 1 then ResponseType
      else if type_int = 2 then ErrorType
      else UnknownPacketType)"

datatype ContentType = ApplicationOctetStream | TextPlainUtf8 | UnknownContent u8

definition content_type_from_u8 :: "u8 \<Rightarrow> ContentType" where
  "content_type_from_u8 type_int =
     (if type_int = 0 then ApplicationOctetStream
      else if type_int = 1 then TextPlainUtf8
      else UnknownContent type_int)"

primrec content_type_u8 :: "ContentType \<Rightarrow> u8" where
  "content_type_u8 ApplicationOctetStream = 0"
| "content_type_u8 TextPlainUtf8 = 1"
| "content_type_u8 (UnknownContent x) = x"

record ProtocolData =
  pd_protocol_name :: bytes
  pd_content_type :: ContentType
  pd_data :: bytes

record BtpMessage =
  bm_request_id :: u32
  bm_protocol_data :: "ProtocolData list"

record BtpResponse =
  br_request_id :: u32
  br_protocol_data :: "ProtocolData list"

record 'd BtpError =
  be_request_id :: u32
  be_code :: bytes
  be_name :: bytes
  be_triggered_at :: "'d VariableLengthTimestamp"
  be_data :: bytes
  be_protocol_data :: "ProtocolData list"

datatype 'd BtpPacket =
    BtpMessagePacket BtpMessage
  | BtpResponsePacket BtpResponse
  | BtpErrorPacket "'d BtpError"

section \<open>Parsing\<close>

definition btp_str :: "bytes \<Rightarrow> (bytes, BtpPacketError) result" where
  "btp_str s = (if utf8_valid s then Ok s else Err Utf8Err)"

definition check_no_trailing_bytes :: "bytes \<Rightarrow> (unit, BtpPacketError) result" where
  "check_no_trailing_bytes buf = (if buf \<noteq> [] then Err TrailingBytesErr else Ok ())"

definition read_protocol_entry :: "features \<Rightarrow> bytes \<Rightarrow> (ProtocolData \<times> bytes, BtpPacketError) result" where
  "read_protocol_entry cfg reader =
     and_then (map_err BtpOer (read_var_octet_string cfg reader)) (\<lambda>(name, reader).
     and_then (btp_str name) (\<lambda>protocol_name.
     if length reader < CONTENT_TYPE_LEN then Err (BtpOer UnexpectedEof)
     else and_then (get_u8 reader) (\<lambda>(c, reader).
     and_then (map_err BtpOer (read_var_octet_string cfg reader)) (\<lambda>(data, reader).
     Ok (\<lparr>pd_protocol_name = protocol_name, pd_content_type = content_type_from_u8 c, pd_data = data\<rparr>, reader)))))"

definition read_protocol_data :: "features \<Rightarrow> bytes \<Rightarrow> (ProtocolData list, BtpPacketError) result" where
  "read_protocol_data cfg reader =
     and_then (map_err BtpOer (read_var_uint cfg reader)) (\<lambda>(num_entries, reader).
     and_then (read_many (read_protocol_entry cfg) (unat num_entries) reader) (\<lambda>(protocol_data, reader).
     and_then (check_no_trailing_bytes reader) (\<lambda>_. Ok protocol_data)))"

text \<open>The header of a packet of the given type: the request id and the contents.\<close>

definition read_btp_header :: "features \<Rightarrow> BtpPacketType \<Rightarrow> bytes \<Rightarrow> (u32 \<times> bytes, BtpPacketError) result" where
  "read_btp_header cfg expected reader =
     (if length reader < BTP_TYPE_LEN + REQUEST_ID_LEN + EMPTY_VARLEN_OCTETS_LEN then Err (BtpOer UnexpectedEof)
      else and_then (get_u8 reader) (\<lambda>(packet_type, reader).
      if btp_type_from_u8 packet_type \<noteq> expected
      then Err (PacketTypeErr (Unexpected packet_type (btp_type_u8 expected)))
      else and_then (get_u32 reader) (\<lambda>(request_id, reader).
      and_then (map_err BtpOer (read_var_octet_string cfg reader)) (\<lambda>(contents, reader).
      and_then (check_no_trailing_bytes reader) (\<lambda>_. Ok (request_id, contents))))))"

definition message_from_bytes :: "features \<Rightarrow> bytes \<Rightarrow> (BtpMessage, BtpPacketError) result" where
  "message_from_bytes cfg bs =
     and_then (read_btp_header cfg MessageType bs) (\<lambda>(request_id, contents).
     and_then (read_protocol_data cfg contents) (\<lambda>protocol_data.
     Ok \<lparr>bm_request_id = request_id, bm_protocol_data = protocol_data\<rparr>))"

definition response_from_bytes :: "features \<Rightarrow> bytes \<Rightarrow> (BtpResponse, BtpPacketError) result" where
  "response_from_bytes cfg bs =
     and_then (read_btp_header cfg ResponseType bs) (\<lambda>(request_id, contents).
     and_then (read_protocol_data cfg contents) (\<lambda>protocol_data.
     Ok \<lparr>br_request_id = request_id, br_protocol_data = protocol_data\<rparr>))"

abbreviation CODE_LEN :: nat where "CODE_LEN \<equiv> 3"

abbreviation MIN_CONTENTS_LEN :: nat where
  "MIN_CONTENTS_LEN \<equiv>
     CODE_LEN + EMPTY_VARLEN_OCTETS_LEN + MIN_VARLEN_TIMESTAMP_LEN + EMPTY_VARLEN_OCTETS_LEN"

definition error_from_bytes ::
  "features \<Rightarrow> (bytes \<Rightarrow> 'd option) \<Rightarrow> bytes \<Rightarrow> ('d BtpError, BtpPacketError) result" where
  "error_from_bytes cfg datetime_from_str bs =
     and_then (read_btp_header cfg ErrorType bs) (\<lambda>(request_id, contents).
     if length contents < MIN_CONTENTS_LEN then Err (BtpOer UnexpectedEof)
     else and_then (copy_to_slice CODE_LEN contents) (\<lambda>(code, contents).
     and_then (map_err BtpOer (read_var_octet_string cfg contents)) (\<lambda>(name, contents).
     and_then (btp_str name) (\<lambda>name.
     and_then (map_err BtpOer (read_variable_length_timestamp cfg datetime_from_str contents))
       (\<lambda>(triggered_at, contents).
     and_then (map_err BtpOer (read_var_octet_string cfg contents)) (\<lambda>(data, contents).
     and_then (btp_str data) (\<lambda>data.
     and_then (read_protocol_data cfg contents) (\<lambda>protocol_data.
     and_then (btp_str code) (\<lambda>code.
     Ok \<lparr>be_request_id = request_id, be_code = code, be_name = name, be_triggered_at = triggered_at,
         be_data = data, be_protocol_data = protocol_data\<rparr>)))))))))"

definition btp_from_bytes ::
  "features \<Rightarrow> (bytes \<Rightarrow> 'd option) \<Rightarrow> bytes \<Rightarrow> ('d BtpPacket, BtpPacketError) result" where
  "btp_from_bytes cfg datetime_from_str bs =
     (case bs of
        [] \<Rightarrow> Err (BtpOer UnexpectedEof)
      | c # _ \<Rightarrow>
          (case btp_type_from_u8 c of
             MessageType \<Rightarrow> map_ok BtpMessagePacket (message_from_bytes cfg bs)
           | ResponseType \<Rightarrow> map_ok BtpResponsePacket (response_from_bytes cfg bs)
           | ErrorType \<Rightarrow> map_ok BtpErrorPacket (error_from_bytes cfg datetime_from_str bs)
           | UnknownPacketType \<Rightarrow> Err (PacketTypeErr (UnknownType c))))"

section \<open>Writing\<close>

definition put_protocol_entry :: "ProtocolData \<Rightarrow> bytes" where
  "put_protocol_entry entry =
     put_var_octet_string (pd_protocol_name entry) @ [content_type_u8 (pd_content_type entry)] @
     put_var_octet_string (pd_data entry)"

definition put_protocol_data :: "ProtocolData list \<Rightarrow> bytes" where
  "put_protocol_data protocol_data =
     put_var_uint (of_nat (length protocol_data)) @ concat (map put_protocol_entry protocol_data)"

definition put_btp :: "BtpPacketType \<Rightarrow> u32 \<Rightarrow> bytes \<Rightarrow> bytes" where
  "put_btp t request_id contents = [btp_type_u8 t] @ put_u32 request_id @ put_var_octet_string contents"

definition message_to_bytes :: "BtpMessage \<Rightarrow> bytes" where
  "message_to_bytes m = put_btp MessageType (bm_request_id m) (put_protocol_data (bm_protocol_data m))"

definition response_to_bytes :: "BtpResponse \<Rightarrow> bytes" where
  "response_to_bytes r = put_btp ResponseType (br_request_id r) (put_protocol_data (br_protocol_data r))"

text \<open>Formatting the timestamp of an error panics for a length other than 15, 17, 18 and 19.\<close>

definition error_contents ::
  "('d \<Rightarrow> bytes) \<Rightarrow> ('d \<Rightarrow> nat) \<Rightarrow> 'd BtpError \<Rightarrow> (bytes, OerError) result" where
  "error_contents format_secs nanosecond e =
     map_ok (\<lambda>triggered_at.
       be_code e @ put_var_octet_string (be_name e) @ triggered_at @
       put_var_octet_string (be_data e) @ put_protocol_data (be_protocol_data e))
     (put_variable_length_timestamp format_secs nanosecond (be_triggered_at e))"

definition error_to_bytes ::
  "('d \<Rightarrow> bytes) \<Rightarrow> ('d \<Rightarrow> nat) \<Rightarrow> 'd BtpError \<Rightarrow> (bytes, OerError) result" where
  "error_to_bytes format_secs nanosecond e =
     map_ok (put_btp ErrorType (be_request_id e)) (error_contents format_secs nanosecond e)"

definition btp_to_bytes ::
  "('d \<Rightarrow> bytes) \<Rightarrow> ('d \<Rightarrow> nat) \<Rightarrow> 'd BtpPacket \<Rightarrow> (bytes, OerError) result" where
  "btp_to_bytes format_secs nanosecond p =
     (case p of
        BtpMessagePacket packet \<Rightarrow> Ok (message_to_bytes packet)
      | BtpResponsePacket packet \<Rightarrow> Ok (response_to_bytes packet)
      | BtpErrorPacket packet \<Rightarrow> error_to_bytes format_secs nanosecond packet)"

section \<open>Writing and reading back\<close>

lemmas btp_lens = EMPTY_VARLEN_OCTETS_LEN_def MIN_VARLEN_TIMESTAMP_LEN_def predict_var_octet_string_def

definition btp_string_wf :: "bytes \<Rightarrow> bool" where
  "btp_string_wf s \<longleftrightarrow> utf8_valid s \<and> length s < 2 ^ 64"

definition protocol_entry_wf :: "ProtocolData \<Rightarrow> bool" where
  "protocol_entry_wf entry \<longleftrightarrow> btp_string_wf (pd_protocol_name entry) \<and> length (pd_data entry) < 2 ^ 64 \<and>
     content_type_from_u8 (content_type_u8 (pd_content_type entry)) = pd_content_type entry"

definition protocol_data_wf :: "ProtocolData list \<Rightarrow> bool" where
  "protocol_data_wf entries \<longleftrightarrow> list_all protocol_entry_wf entries \<and> length entries < 2 ^ 64"

lemma btp_str_wf [simp]: "btp_string_wf s \<Longrightarrow> btp_str s = Ok s"
  by (simp add: btp_str_def btp_string_wf_def)

lemma read_put_protocol_entry:
  "protocol_entry_wf entry \<Longrightarrow> read_protocol_entry cfg (put_protocol_entry entry @ rest) = Ok (entry, rest)"
  by (simp add: read_protocol_entry_def put_protocol_entry_def protocol_entry_wf_def read_put_var_octet_string
      btp_string_wf_def btp_str_def btp_lens get_u8_Cons)

interpretation entry: wire_codec put_protocol_entry "read_protocol_entry cfg" protocol_entry_wf for cfg
  by unfold_locales (rule read_put_protocol_entry)

lemma read_put_protocol_data:
  "protocol_data_wf entries \<Longrightarrow> read_protocol_data cfg (put_protocol_data entries) = Ok entries"
  using entry.read_many_puts [of entries cfg "[]"]
  by (simp add: read_protocol_data_def put_protocol_data_def protocol_data_wf_def read_put_var_uint
      unat_of_nat_u64 check_no_trailing_bytes_def)

lemma btp_type_from_to_u8: "btp_type_from_u8 (btp_type_u8 t) = t"
  by (cases t) (simp_all add: btp_type_from_u8_def)

lemma length_put_octets_pos: "1 \<le> length (put_var_octet_string s)"
  by (simp add: put_var_octet_string_def length_put_var_octet_string_length)

lemmas read_put_octets = read_put_var_octet_string read_put_var_octet_string [of _ _ "[]", simplified]

lemma read_put_btp:
  assumes "length contents < 2 ^ 64"
  shows "read_btp_header cfg t (put_btp t request_id contents @ junk) =
    (if junk = [] then Ok (request_id, contents) else Err TrailingBytesErr)"
  using assms length_put_octets_pos [of contents]
  by (auto simp: read_btp_header_def put_btp_def get_u8_Cons get_u32_put read_put_octets
      check_no_trailing_bytes_def btp_type_from_to_u8 btp_lens)

text \<open>The packets that can be sent: strings are UTF-8, the code of an error has three bytes.\<close>

definition btp_error_wf :: "('d \<Rightarrow> bytes) \<Rightarrow> ('d \<Rightarrow> nat) \<Rightarrow> 'd BtpError \<Rightarrow> bool" where
  "btp_error_wf format_secs nanosecond e \<longleftrightarrow>
     length (be_code e) = CODE_LEN \<and> btp_string_wf (be_code e) \<and> btp_string_wf (be_name e) \<and>
     timestamp_wf format_secs nanosecond (be_triggered_at e) \<and> btp_string_wf (be_data e) \<and>
     protocol_data_wf (be_protocol_data e) \<and>
     (\<forall>contents. error_contents format_secs nanosecond e = Ok contents \<longrightarrow> length contents < 2 ^ 64)"

definition btp_packet_wf :: "('d \<Rightarrow> bytes) \<Rightarrow> ('d \<Rightarrow> nat) \<Rightarrow> 'd BtpPacket \<Rightarrow> bool" where
  "btp_packet_wf format_secs nanosecond p =
     (case p of
        BtpMessagePacket m \<Rightarrow>
          protocol_data_wf (bm_protocol_data m) \<and> length (put_protocol_data (bm_protocol_data m)) < 2 ^ 64
      | BtpResponsePacket r \<Rightarrow>
          protocol_data_wf (br_protocol_data r) \<and> length (put_protocol_data (br_protocol_data r)) < 2 ^ 64
      | BtpErrorPacket e \<Rightarrow> btp_error_wf format_secs nanosecond e)"

lemma btp_from_bytes_put:
  "btp_from_bytes cfg parse (put_btp t i contents @ junk) =
     (case t of
        MessageType \<Rightarrow> map_ok BtpMessagePacket (message_from_bytes cfg (put_btp t i contents @ junk))
      | ResponseType \<Rightarrow> map_ok BtpResponsePacket (response_from_bytes cfg (put_btp t i contents @ junk))
      | ErrorType \<Rightarrow> map_ok BtpErrorPacket (error_from_bytes cfg parse (put_btp t i contents @ junk))
      | UnknownPacketType \<Rightarrow> Err (PacketTypeErr (UnknownType 3)))"
  by (cases t) (simp_all add: btp_from_bytes_def put_btp_def btp_type_from_u8_def)

lemma timestamp_length:
  assumes "chrono_varlen p fmt nanos" "timestamp_wf fmt nanos vts" "put_variable_length_timestamp fmt nanos vts = Ok bs"
  shows "16 \<le> length bs"
proof -
  from assms(1,2) obtain s where "fmt_timestamp fmt nanos vts = Ok s" "length s = unat (vts_len vts)"
    "unat (vts_len vts) \<in> {15, 17, 18, 19}" by (rule fmt_timestamp_wf)
  with assms(3) show ?thesis
    by (auto simp: put_variable_length_timestamp_def length_put_var_octet_string_length)
qed

lemma error_contents_parse:
  assumes chrono: "chrono_varlen parse format_secs nanosecond" and wf: "btp_error_wf format_secs nanosecond e"
  shows "\<exists>contents. error_contents format_secs nanosecond e = Ok contents \<and> length contents < 2 ^ 64 \<and>
    (\<forall>junk. error_from_bytes cfg parse (put_btp ErrorType (be_request_id e) contents @ junk) =
      (if junk = [] then Ok e else Err TrailingBytesErr))"
proof -
  have w: "length (be_code e) = 3" "btp_string_wf (be_code e)" "btp_string_wf (be_name e)" "btp_string_wf (be_data e)"
    "length (be_name e) < 2 ^ 64" "length (be_data e) < 2 ^ 64" "protocol_data_wf (be_protocol_data e)"
    using wf by (simp_all add: btp_error_wf_def btp_string_wf_def)
  from wf have stamp: "timestamp_wf format_secs nanosecond (be_triggered_at e)" by (simp add: btp_error_wf_def)
  from read_put_timestamp [OF chrono stamp] obtain ts where
    ts: "put_variable_length_timestamp format_secs nanosecond (be_triggered_at e) = Ok ts"
      "\<And>rest. read_variable_length_timestamp cfg parse (ts @ rest) = Ok (be_triggered_at e, rest)" by metis
  let ?c = "be_code e @ put_var_octet_string (be_name e) @ ts @ put_var_octet_string (be_data e) @
    put_protocol_data (be_protocol_data e)"
  have c: "error_contents format_secs nanosecond e = Ok ?c" by (simp add: error_contents_def ts)
  then have len: "length ?c < 2 ^ 64" using wf unfolding btp_error_wf_def by blast
  have "16 \<le> length ts" by (rule timestamp_length [OF chrono stamp ts(1)])
  then have "\<not> length ?c < MIN_CONTENTS_LEN"
    using w(1) length_put_octets_pos [of "be_name e"] length_put_octets_pos [of "be_data e"] by (simp add: btp_lens)
  moreover have "e = \<lparr>be_request_id = be_request_id e, be_code = be_code e, be_name = be_name e,
      be_triggered_at = be_triggered_at e, be_data = be_data e, be_protocol_data = be_protocol_data e\<rparr>" by simp
  ultimately have "error_from_bytes cfg parse (put_btp ErrorType (be_request_id e) ?c @ junk) =
      (if junk = [] then Ok e else Err TrailingBytesErr)" for junk
    unfolding error_from_bytes_def read_put_btp [OF len]
    using w ts(2) by (simp add: copy_to_slice_append read_put_octets read_put_protocol_data)
  with c len show ?thesis by blast
qed

section \<open>No panics\<close>

lemma np_read_protocol_entry [np_intros]: "read_protocol_entry cfg bs \<noteq> Panic"
  unfolding read_protocol_entry_def btp_str_def btp_lens by (intro np_intros) auto

lemma read_protocol_entry_delimits:
  assumes "read_protocol_entry cfg bs = Ok (entry, rest)"
  shows "\<exists>pre. bs = pre @ rest \<and> (\<forall>r. read_protocol_entry cfg (pre @ r) = Ok (entry, r))"
proof -
  from assms obtain name c d1 d2 where
    1: "read_var_octet_string cfg bs = Ok (name, c # d1)" "btp_str name = Ok (pd_protocol_name entry)"
    and 2: "read_var_octet_string cfg d1 = Ok (pd_data entry, rest)" "pd_content_type entry = content_type_from_u8 c"
    by (auto simp: read_protocol_entry_def ok_simps get_u8_def split: if_splits list.splits)
  from vos_safe.delimits [OF 1(1)] vos_safe.delimits [OF 2(1)] obtain p q where
    "bs = p @ c # d1" "\<forall>r. read_var_octet_string cfg (p @ r) = Ok (name, r)"
    "d1 = q @ rest" "\<forall>r. read_var_octet_string cfg (q @ r) = Ok (pd_data entry, r)" by blast
  then show ?thesis
    using 1(2) 2(2) by (intro exI [of _ "p @ [c] @ q"]) (simp add: read_protocol_entry_def get_u8_Cons btp_lens)
qed

interpretation entry_safe: safe_reader "read_protocol_entry cfg" for cfg
  by unfold_locales (rule np_read_protocol_entry, rule read_protocol_entry_delimits)

lemma np_read_protocol_data [np_intros]: "read_protocol_data cfg bs \<noteq> Panic"
  unfolding read_protocol_data_def check_no_trailing_bytes_def
  by (intro np_intros entry_safe.read_many_no_panic)

lemma np_read_btp_header [np_intros]: "read_btp_header cfg t bs \<noteq> Panic"
proof (cases bs)
  case (Cons c cs)
  have "and_then (get_u32 cs) (\<lambda>(request_id, reader).
      and_then (map_err BtpOer (read_var_octet_string cfg reader)) (\<lambda>(contents, reader).
      and_then (check_no_trailing_bytes reader) (\<lambda>_. Ok (request_id, contents)))) \<noteq> Panic" if "4 \<le> length cs"
    using that unfolding check_no_trailing_bytes_def by (intro np_intros)
  then show ?thesis by (simp add: read_btp_header_def Cons get_u8_Cons btp_lens)
qed (simp add: read_btp_header_def btp_lens)

lemma np_btp_from_bytes: "btp_from_bytes cfg parse bs \<noteq> Panic"
proof -
  have "message_from_bytes cfg bs \<noteq> Panic" "response_from_bytes cfg bs \<noteq> Panic"
    unfolding message_from_bytes_def response_from_bytes_def by (intro np_intros)+
  moreover have "error_from_bytes cfg parse bs \<noteq> Panic"
    unfolding error_from_bytes_def btp_str_def
    by (intro np_intros np_read_variable_length_timestamp) (simp add: btp_lens)
  ultimately show ?thesis
    by (auto simp: btp_from_bytes_def np_map_ok split: list.splits BtpPacketType.splits)
qed

section \<open>Properties\<close>

text \<open>
  C21. BTP packets survive the wire. Every packet with well-formed strings, and for an error a code of three
  bytes, is written, and what is written parses back to the packet under every feature set; any byte after
  it is refused. Whatever the input, parsing does not panic.
\<close>

theorem btp_roundtrip:
  assumes chrono: "chrono_varlen parse format_secs nanosecond" and wf: "btp_packet_wf format_secs nanosecond p"
  shows "(\<exists>bs. btp_to_bytes format_secs nanosecond p = Ok bs \<and>
      (\<forall>junk. btp_from_bytes cfg parse (bs @ junk) = (if junk = [] then Ok p else Err TrailingBytesErr))) \<and>
    btp_from_bytes cfg parse input \<noteq> Panic"
proof
  show "\<exists>bs. btp_to_bytes format_secs nanosecond p = Ok bs \<and>
      (\<forall>junk. btp_from_bytes cfg parse (bs @ junk) = (if junk = [] then Ok p else Err TrailingBytesErr))"
  proof (cases p)
    case (BtpMessagePacket m)
    then show ?thesis
      using wf by (auto simp: btp_packet_wf_def btp_to_bytes_def message_to_bytes_def btp_from_bytes_put
          message_from_bytes_def read_put_btp read_put_protocol_data)
  next
    case (BtpResponsePacket r)
    then show ?thesis
      using wf by (auto simp: btp_packet_wf_def btp_to_bytes_def response_to_bytes_def btp_from_bytes_put
          response_from_bytes_def read_put_btp read_put_protocol_data)
  next
    case (BtpErrorPacket e)
    with wf have "btp_error_wf format_secs nanosecond e" by (simp add: btp_packet_wf_def)
    from error_contents_parse [OF chrono this, of cfg] obtain contents where
      c: "error_contents format_secs nanosecond e = Ok contents"
        "\<And>junk. error_from_bytes cfg parse (put_btp ErrorType (be_request_id e) contents @ junk) =
          (if junk = [] then Ok e else Err TrailingBytesErr)" by blast
    have "btp_from_bytes cfg parse (put_btp ErrorType (be_request_id e) contents @ junk) =
        (if junk = [] then Ok p else Err TrailingBytesErr)" for junk
      unfolding btp_from_bytes_put BtpErrorPacket BtpPacketType.case c(2) by simp
    then show ?thesis by (auto simp: BtpErrorPacket btp_to_bytes_def error_to_bytes_def c(1))
  qed
  show "btp_from_bytes cfg parse input \<noteq> Panic" by (rule np_btp_from_bytes)
qed

definition example_btp :: "(bytes \<times> nat) BtpPacket" where
  "example_btp = BtpMessagePacket \<lparr>bm_request_id = 7, bm_protocol_data =
     [\<lparr>pd_protocol_name = bstr ''ilp'', pd_content_type = ApplicationOctetStream, pd_data = [1, 2, 3]\<rparr>]\<rparr>"

theorem btp_roundtrip_witness:
  "\<exists>bs. btp_to_bytes (\<lambda>d. if list_all is_digit (fst d) then fst d else []) snd example_btp = Ok bs \<and>
     btp_from_bytes strict_features example_parse bs = Ok example_btp \<and>
     btp_from_bytes strict_features example_parse (bs @ [0]) = Err TrailingBytesErr"
proof -
  let ?entries = "[\<lparr>pd_protocol_name = bstr ''ilp'', pd_content_type = ApplicationOctetStream, pd_data = [1, 2, 3]\<rparr>]"
  have "length (put_protocol_data ?entries) = 11" "utf8_valid (bstr ''ilp'')" by code_simp+
  then have "btp_packet_wf (\<lambda>d. if list_all is_digit (fst d) then fst d else []) snd example_btp"
    by (simp add: example_btp_def btp_packet_wf_def protocol_data_wf_def protocol_entry_wf_def btp_string_wf_def
        content_type_from_u8_def bstr_def)
  from btp_roundtrip [OF example_chrono this, of strict_features "[]"] obtain bs where
    "btp_to_bytes (\<lambda>d. if list_all is_digit (fst d) then fst d else []) snd example_btp = Ok bs"
    "\<And>junk. btp_from_bytes strict_features example_parse (bs @ junk) =
      (if junk = [] then Ok example_btp else Err TrailingBytesErr)" by blast
  from this(1) this(2) [of "[]"] this(2) [of "[0]"] show ?thesis by (intro exI [of _ bs]) simp
qed

end
