(* ===== verification/Btp_Service.thy ===== *)
theory Btp_Service
  imports Btp_Packet Service_Util "HOL-Library.Multiset"
begin

text \<open>
  ILP over BTP, \<^verbatim>\<open>crates/interledger-btp/src/service.rs\<close>: ILP packets inside BTP packets inside WebSocket
  messages, the requests in flight, and the tasks that send, receive, answer and give up; with the
  authentication of \<^verbatim>\<open>server.rs\<close> and \<^verbatim>\<open>client.rs\<close>. The requests in flight are shared by all connections and
  keyed by a random id. The tasks run in any order: each step of \<open>btp_step\<close> is what one task does between two
  points where another can run.

  Sockets, channels and timers are the nondeterminism of the relation: \<open>channel_open\<close> says whether the
  receiving half of a channel still exists, a message may come on any connection, and a task may time out or be
  dropped by its caller at any moment. Codecs of times are those of the packets.
\<close>

section \<open>ILP packets in WebSocket messages\<close>

datatype WsMessage = Binary bytes | Text bytes | Ping bytes | Pong bytes | Close

record 'd BtpEnv =
  env_features :: features
  env_parse_ts :: "bytes \<Rightarrow> SystemTime option"
  env_format_ts :: "SystemTime \<Rightarrow> bytes"
  env_datetime :: "bytes \<Rightarrow> 'd option"

definition ilp_protocol_data :: "ProtocolData list \<Rightarrow> (bytes, unit) result" where
  "ilp_protocol_data protocol_data =
     (case find (\<lambda>proto. pd_protocol_name proto = bstr ''ilp'') protocol_data of
        Some proto \<Rightarrow> Ok (pd_data proto)
      | None \<Rightarrow> Err ())"

definition parse_ilp_packet :: "'d BtpEnv \<Rightarrow> WsMessage \<Rightarrow> (u32 \<times> SystemTime Packet, unit) result" where
  "parse_ilp_packet env message =
     (case message of
        Binary data \<Rightarrow>
          and_then
            (case btp_from_bytes (env_features env) (env_datetime env) data of
               Ok (BtpMessagePacket m) \<Rightarrow> map_ok (Pair (bm_request_id m)) (ilp_protocol_data (bm_protocol_data m))
             | Ok (BtpResponsePacket r) \<Rightarrow> map_ok (Pair (br_request_id r)) (ilp_protocol_data (br_protocol_data r))
             | Ok (BtpErrorPacket _) \<Rightarrow> Err ()
             | Err _ \<Rightarrow> Err ()
             | Panic \<Rightarrow> Panic)
            (\<lambda>(request_id, ilp_data).
               map_ok (Pair request_id) (map_err (\<lambda>_. ())
                 (packet_try_from (env_features env) (env_parse_ts env) (env_format_ts env) ilp_data)))
      | _ \<Rightarrow> Err ())"

definition ilp_packet_to_ws_message :: "u32 \<Rightarrow> SystemTime Packet \<Rightarrow> WsMessage" where
  "ilp_packet_to_ws_message request_id packet =
     (let (data, is_response) =
            (case packet of
               PreparePacket prepare \<Rightarrow> (p_buffer prepare, False)
             | FulfillPacket fulfill \<Rightarrow> (f_buffer fulfill, True)
             | RejectPacket reject \<Rightarrow> (r_buffer reject, True));
          protocol_data =
            [\<lparr>pd_protocol_name = bstr ''ilp'', pd_content_type = ApplicationOctetStream, pd_data = data\<rparr>];
          btp_packet =
            (if is_response
             then message_to_bytes \<lparr>bm_request_id = request_id, bm_protocol_data = protocol_data\<rparr>
             else response_to_bytes \<lparr>br_request_id = request_id, br_protocol_data = protocol_data\<rparr>)
      in Binary btp_packet)"

section \<open>Authentication\<close>

definition auth_message :: "u32 \<Rightarrow> bytes option \<Rightarrow> WsMessage" where
  "auth_message request_id outgoing_token =
     Binary (message_to_bytes
       \<lparr>bm_request_id = request_id, bm_protocol_data =
          [\<lparr>pd_protocol_name = bstr ''auth'', pd_content_type = ApplicationOctetStream, pd_data = []\<rparr>,
           \<lparr>pd_protocol_name = bstr ''auth_token'', pd_content_type = TextPlainUtf8,
            pd_data = (case outgoing_token of Some token \<Rightarrow> token | None \<Rightarrow> [])\<rparr>]\<rparr>)"

text \<open>The last entry named \<^verbatim>\<open>auth_token\<close> counts; one that is not UTF-8 takes the token away again.\<close>

definition parse_auth :: "features \<Rightarrow> WsMessage option \<Rightarrow> (u32 \<times> bytes) option" where
  "parse_auth cfg ws_packet =
     (case ws_packet of
        Some (Binary data) \<Rightarrow>
          (case message_from_bytes cfg data of
             Ok message \<Rightarrow>
               map_option (Pair (bm_request_id message))
                 (foldl (\<lambda>token entry.
                    if pd_protocol_name entry = bstr ''auth_token''
                    then (if utf8_valid (pd_data entry) then Some (pd_data entry) else None) else token)
                  None (bm_protocol_data message))
           | _ \<Rightarrow> None)
      | _ \<Rightarrow> None)"

fun get_auth :: "features \<Rightarrow> WsMessage list \<Rightarrow> ((u32 \<times> bytes) \<times> WsMessage list, unit) result" where
  "get_auth cfg (Binary data # connection) =
     (case parse_auth cfg (Some (Binary data)) of Some auth \<Rightarrow> Ok (auth, connection) | None \<Rightarrow> Err ())"
| "get_auth cfg (_ # connection) = get_auth cfg connection"
| "get_auth cfg [] = Err ()"

text \<open>The account of the token, the response to send, and what is left to read.\<close>

definition validate_auth ::
  "features \<Rightarrow> (bytes \<Rightarrow> Account option) \<Rightarrow> WsMessage list \<Rightarrow> (Account \<times> WsMessage \<times> WsMessage list, unit) result" where
  "validate_auth cfg get_account_from_btp_auth connection =
     and_then (get_auth cfg connection) (\<lambda>((request_id, token), connection).
     case get_account_from_btp_auth token of
       Some account \<Rightarrow>
         Ok (account, Binary (response_to_bytes \<lparr>br_request_id = request_id, br_protocol_data = []\<rparr>), connection)
     | None \<Rightarrow> Err ())"

section \<open>The service\<close>

abbreviation SEND_MSG_TIMEOUT :: nat where "SEND_MSG_TIMEOUT \<equiv> 30 * 1000000000"

text \<open>
  A call of \<^verbatim>\<open>send_request\<close> that found a connection: it sent the packet, it waits for the response with the given
  id from the given account, it got a response, it failed, or its caller dropped it.
\<close>

datatype BtpTask =
    Sent u32 Uuid
  | Waiting u32 Uuid
  | Responded u32 Uuid IlpResult
  | Failed Reject
  | Dropped u32 Uuid

text \<open>
  A connection is the number of its channel. \<open>btp_pending_outgoing\<close> has the task whose oneshot channel is stored
  under an id, \<open>btp_queues\<close> what was handed to the channels, \<open>btp_received\<close> the responses read so far with the
  account whose connection they came on.
\<close>

record BtpRun =
  btp_connections :: "(Uuid, nat) hashmap"
  btp_pending_outgoing :: "(u32, nat) hashmap"
  btp_pending_incoming :: "(Account \<times> u32 \<times> SystemTime Prepare) list"
  btp_queues :: "(nat \<times> WsMessage) list"
  btp_tasks :: "BtpTask list"
  btp_received :: "(Uuid \<times> u32 \<times> IlpResult) list"

definition btp_new :: BtpRun where
  "btp_new = \<lparr>btp_connections = [], btp_pending_outgoing = [], btp_pending_incoming = [], btp_queues = [],
     btp_tasks = [], btp_received = []\<rparr>"

definition btp_unbounded_send :: "(nat \<Rightarrow> bool) \<Rightarrow> nat \<Rightarrow> WsMessage \<Rightarrow> BtpRun \<Rightarrow> BtpRun" where
  "btp_unbounded_send channel_open connection message run =
     (if channel_open connection then run\<lparr>btp_queues := btp_queues run @ [(connection, message)]\<rparr> else run)"

definition set_task :: "nat \<Rightarrow> BtpTask \<Rightarrow> BtpRun \<Rightarrow> BtpRun" where
  "set_task t task run = run\<lparr>btp_tasks := (btp_tasks run)[t := task]\<rparr>"

text \<open>The oneshot channel of a task: its value arrives only while the task waits.\<close>

definition btp_resolve :: "nat \<Rightarrow> (u32 \<Rightarrow> Uuid \<Rightarrow> BtpTask) \<Rightarrow> BtpRun \<Rightarrow> BtpRun" where
  "btp_resolve t outcome run =
     (case btp_tasks run ! t of Waiting request_id account_id \<Rightarrow> set_task t (outcome request_id account_id) run | _ \<Rightarrow> run)"

definition btp_respond :: "u32 \<Rightarrow> IlpResult \<Rightarrow> BtpRun \<Rightarrow> BtpRun" where
  "btp_respond request_id result run =
     (case hm_get (btp_pending_outgoing run) request_id of
        Some t \<Rightarrow>
          btp_resolve t (\<lambda>i a. Responded i a result)
            (run\<lparr>btp_pending_outgoing := hm_remove request_id (btp_pending_outgoing run)\<rparr>)
      | None \<Rightarrow> run)"

definition handle_message ::
  "'d BtpEnv \<Rightarrow> (nat \<Rightarrow> bool) \<Rightarrow> nat \<Rightarrow> Account \<Rightarrow> WsMessage \<Rightarrow> BtpRun \<Rightarrow> (unit, unit) result \<times> BtpRun" where
  "handle_message env channel_open connection account message run =
     (case message of
        Binary _ \<Rightarrow>
          (case parse_ilp_packet env message of
             Ok (request_id, PreparePacket prepare) \<Rightarrow>
               (Ok (), run\<lparr>btp_pending_incoming := btp_pending_incoming run @ [(account, request_id, prepare)]\<rparr>)
           | Ok (request_id, FulfillPacket fulfill) \<Rightarrow> (Ok (), btp_respond request_id (Ok fulfill) run)
           | Ok (request_id, RejectPacket reject) \<Rightarrow> (Ok (), btp_respond request_id (Err reject) run)
           | Err _ \<Rightarrow> (Ok (), run)
           | Panic \<Rightarrow> (Panic, run))
      | Ping _ \<Rightarrow> (Ok (), btp_unbounded_send channel_open connection (Pong []) run)
      | _ \<Rightarrow> (Ok (), run))"

definition btp_close_connection :: "Uuid \<Rightarrow> BtpRun \<Rightarrow> BtpRun" where
  "btp_close_connection account_id run = run\<lparr>btp_connections := hm_remove account_id (btp_connections run)\<rparr>"

definition btp_add_connection :: "Account \<Rightarrow> nat \<Rightarrow> BtpRun \<Rightarrow> BtpRun" where
  "btp_add_connection account connection run =
     run\<lparr>btp_connections := hm_insert (acc_id account) connection (btp_connections run)\<rparr>"

definition btp_send_ping :: "(nat \<Rightarrow> bool) \<Rightarrow> nat \<Rightarrow> BtpRun \<Rightarrow> BtpRun" where
  "btp_send_ping channel_open connection = btp_unbounded_send channel_open connection (Ping [])"

text \<open>The part of \<^verbatim>\<open>send_request\<close> up to sending; without a connection the request goes to the next service.\<close>

definition btp_send_request ::
  "Address \<Rightarrow> (nat \<Rightarrow> bool) \<Rightarrow> u32 \<Rightarrow> OutgoingRequest \<Rightarrow> BtpRun \<Rightarrow> BtpRun option" where
  "btp_send_request ilp_address channel_open request_id request run =
     (case hm_get (btp_connections run) (acc_id (out_to request)) of
        Some connection \<Rightarrow>
          Some
            (if channel_open connection then
               (btp_unbounded_send channel_open connection
                  (ilp_packet_to_ws_message request_id (PreparePacket (out_prepare request))) run)
               \<lparr>btp_tasks := btp_tasks run @ [Sent request_id (acc_id (out_to request))]\<rparr>
             else run\<lparr>btp_tasks := btp_tasks run @ [Failed (service_reject ilp_address T00_INTERNAL_ERROR [] [])]\<rparr>)
      | None \<Rightarrow> None)"

text \<open>Storing the oneshot channel: a channel stored under the same id before is dropped, which fails its task.\<close>

definition btp_displace :: "Address \<Rightarrow> u32 \<Rightarrow> BtpRun \<Rightarrow> BtpRun" where
  "btp_displace ilp_address request_id run =
     (case hm_get (btp_pending_outgoing run) request_id of
        Some t \<Rightarrow> btp_resolve t (\<lambda>_ _. Failed (service_reject ilp_address T00_INTERNAL_ERROR [] [])) run
      | None \<Rightarrow> run)"

definition btp_register :: "Address \<Rightarrow> nat \<Rightarrow> BtpRun \<Rightarrow> BtpRun" where
  "btp_register ilp_address t run =
     (case btp_tasks run ! t of
        Sent request_id account_id \<Rightarrow>
          set_task t (Waiting request_id account_id)
            ((btp_displace ilp_address request_id run)
              \<lparr>btp_pending_outgoing := hm_insert request_id t (btp_pending_outgoing run)\<rparr>)
      | _ \<Rightarrow> run)"

definition btp_time_out :: "Address \<Rightarrow> nat \<Rightarrow> BtpRun \<Rightarrow> BtpRun" where
  "btp_time_out ilp_address t run =
     (case btp_tasks run ! t of
        Waiting request_id account_id \<Rightarrow>
          set_task t (Failed (timed_out_reject ilp_address))
            (btp_close_connection account_id
              (run\<lparr>btp_pending_outgoing := hm_remove request_id (btp_pending_outgoing run)\<rparr>))
      | _ \<Rightarrow> run)"

text \<open>The caller drops the call, as the validator does when the packet expires.\<close>

definition btp_drop :: "nat \<Rightarrow> BtpRun \<Rightarrow> BtpRun" where
  "btp_drop t run =
     (case btp_tasks run ! t of
        Sent request_id account_id \<Rightarrow> set_task t (Dropped request_id account_id) run
      | Waiting request_id account_id \<Rightarrow> set_task t (Dropped request_id account_id) run
      | _ \<Rightarrow> run)"

text \<open>One round of the loop of \<^verbatim>\<open>handle_incoming\<close>, with what the incoming handler answers.\<close>

definition btp_handle_incoming ::
  "(nat \<Rightarrow> bool) \<Rightarrow> (IncomingRequest \<Rightarrow> IlpResult) \<Rightarrow> BtpRun \<Rightarrow> (unit, unit) result \<times> BtpRun" where
  "btp_handle_incoming channel_open handler run =
     (case btp_pending_incoming run of
        [] \<Rightarrow> (Ok (), run)
      | (account, request_id, prepare) # buffer \<Rightarrow>
          (let run1 = run\<lparr>btp_pending_incoming := buffer\<rparr>;
               reply = (\<lambda>packet. case hm_get (btp_connections run1) (acc_id account) of
                  Some connection \<Rightarrow>
                    btp_unbounded_send channel_open connection (ilp_packet_to_ws_message request_id packet) run1
                | None \<Rightarrow> run1)
           in case handler \<lparr>in_from = account, in_prepare = prepare\<rparr> of
                Ok fulfill \<Rightarrow> (Ok (), reply (FulfillPacket fulfill))
              | Err reject \<Rightarrow> (Ok (), reply (RejectPacket reject))
              | Panic \<Rightarrow> (Panic, run1)))"

section \<open>Interleaving\<close>

text \<open>The response a message carries.\<close>

definition btp_responses :: "'d BtpEnv \<Rightarrow> Account \<Rightarrow> WsMessage \<Rightarrow> (Uuid \<times> u32 \<times> IlpResult) list" where
  "btp_responses env account message =
     (case parse_ilp_packet env message of
        Ok (request_id, FulfillPacket fulfill) \<Rightarrow> [(acc_id account, request_id, Ok fulfill)]
      | Ok (request_id, RejectPacket reject) \<Rightarrow> [(acc_id account, request_id, Err reject)]
      | _ \<Rightarrow> [])"

definition btp_receive :: "'d BtpEnv \<Rightarrow> (nat \<Rightarrow> bool) \<Rightarrow> nat \<Rightarrow> Account \<Rightarrow> WsMessage \<Rightarrow> BtpRun \<Rightarrow> BtpRun" where
  "btp_receive env channel_open connection account message run =
     (snd (handle_message env channel_open connection account message run))
       \<lparr>btp_received := btp_received run @ btp_responses env account message\<rparr>"

inductive btp_step :: "'d BtpEnv \<Rightarrow> Address \<Rightarrow> BtpRun \<Rightarrow> BtpRun \<Rightarrow> bool" for env ilp_address where
  send: "btp_send_request ilp_address channel_open request_id request run = Some run' \<Longrightarrow> btp_step env ilp_address run run'"
| register: "t < length (btp_tasks run) \<Longrightarrow> btp_step env ilp_address run (btp_register ilp_address t run)"
| receive: "btp_step env ilp_address run (btp_receive env channel_open connection account message run)"
| time_out: "t < length (btp_tasks run) \<Longrightarrow> btp_step env ilp_address run (btp_time_out ilp_address t run)"
| dropped: "t < length (btp_tasks run) \<Longrightarrow> btp_step env ilp_address run (btp_drop t run)"
| answer: "btp_step env ilp_address run (snd (btp_handle_incoming channel_open handler run))"
| connect: "btp_step env ilp_address run (btp_add_connection account connection run)"
| ping: "btp_step env ilp_address run (btp_send_ping channel_open connection run)"
| close: "btp_step env ilp_address run (btp_close_connection account_id run)"

abbreviation btp_reaches :: "'d BtpEnv \<Rightarrow> Address \<Rightarrow> BtpRun \<Rightarrow> bool" where
  "btp_reaches env ilp_address run \<equiv> (btp_step env ilp_address)\<^sup>*\<^sup>* btp_new run"


section \<open>The requests in flight\<close>

definition responded :: "BtpTask \<Rightarrow> (u32 \<times> IlpResult) option" where
  "responded task = (case task of Responded request_id _ result \<Rightarrow> Some (request_id, result) | _ \<Rightarrow> None)"

abbreviation responses :: "BtpTask list \<Rightarrow> (u32 \<times> IlpResult) list" where
  "responses tasks \<equiv> List.map_filter responded tasks"

text \<open>
  An id in flight belongs to a task that waits for it or was dropped, every waiting task is found under its id,
  and the responses the tasks got are among those received, each counted once.
\<close>

definition btp_inv :: "BtpRun \<Rightarrow> bool" where
  "btp_inv run \<longleftrightarrow>
     (\<forall>i t. hm_get (btp_pending_outgoing run) i = Some t \<longrightarrow> t < length (btp_tasks run) \<and>
        (\<exists>a. btp_tasks run ! t = Waiting i a \<or> btp_tasks run ! t = Dropped i a)) \<and>
     (\<forall>t < length (btp_tasks run). \<forall>i a. btp_tasks run ! t = Waiting i a \<longrightarrow>
        hm_get (btp_pending_outgoing run) i = Some t) \<and>
     mset (responses (btp_tasks run)) \<subseteq># mset (map snd (btp_received run))"

lemma map_filter_append: "List.map_filter f (xs @ ys) = List.map_filter f xs @ List.map_filter f ys"
  by (induction xs) (simp_all add: List.map_filter_simps split: option.split)

lemma responses_update:
  assumes "t < length tasks" "responded (tasks ! t) = None"
  shows "mset (responses (tasks[t := task])) =
    (case responded task of None \<Rightarrow> mset (responses tasks) | Some r \<Rightarrow> add_mset r (mset (responses tasks)))"
  using assms
proof (induction tasks arbitrary: t)
  case (Cons x xs)
  show ?case
  proof (cases t)
    case 0
    then show ?thesis using Cons.prems by (simp add: List.map_filter_simps split: option.split)
  next
    case (Suc m)
    then show ?thesis
      using Cons.prems Cons.IH [of m] by (auto simp: List.map_filter_simps split: option.splits)
  qed
qed simp

lemma btp_inv_keeps:
  assumes "btp_inv run" "btp_pending_outgoing run' = btp_pending_outgoing run" "btp_tasks run' = btp_tasks run"
    and "btp_received run' = btp_received run"
  shows "btp_inv run'"
  using assms(1) unfolding btp_inv_def assms(2-4) .

lemma btp_inv_append:
  assumes "btp_inv run" "btp_pending_outgoing run' = btp_pending_outgoing run" "btp_tasks run' = btp_tasks run @ [task]"
    and "btp_received run' = btp_received run" "responded task = None" "\<And>i a. task \<noteq> Waiting i a"
  shows "btp_inv run'"
  unfolding btp_inv_def
proof (intro conjI allI impI)
  fix i t
  assume "hm_get (btp_pending_outgoing run') i = Some t"
  then have "t < length (btp_tasks run) \<and> (\<exists>a. btp_tasks run ! t = Waiting i a \<or> btp_tasks run ! t = Dropped i a)"
    using assms(1) unfolding btp_inv_def assms(2) by blast
  then show "t < length (btp_tasks run')" "\<exists>a. btp_tasks run' ! t = Waiting i a \<or> btp_tasks run' ! t = Dropped i a"
    using assms(3) by (simp_all add: nth_append)
next
  fix t i a
  assume t: "t < length (btp_tasks run')" "btp_tasks run' ! t = Waiting i a"
  then have "t < length (btp_tasks run)" using assms(3,6) by (cases "t = length (btp_tasks run)") auto
  moreover from this have "btp_tasks run ! t = Waiting i a" using assms(3) t(2) by (simp add: nth_append)
  ultimately show "hm_get (btp_pending_outgoing run') i = Some t"
    using assms(1) unfolding btp_inv_def assms(2) by blast
next
  show "mset (responses (btp_tasks run')) \<subseteq># mset (map snd (btp_received run'))"
    using assms(1) unfolding btp_inv_def assms(3,4) by (simp add: map_filter_append List.map_filter_simps assms(5))
qed

lemma btp_inv_send:
  assumes "btp_inv run" "btp_send_request ilp_address channel_open i request run = Some run'"
  shows "btp_inv run'"
  using assms(2)
  by (auto simp: btp_send_request_def btp_unbounded_send_def responded_def split: option.splits if_splits
      intro: btp_inv_append [OF assms(1)])

lemma btp_invD:
  assumes "btp_inv run"
  shows "hm_get (btp_pending_outgoing run) i = Some t \<Longrightarrow> t < length (btp_tasks run)"
    "hm_get (btp_pending_outgoing run) i = Some t \<Longrightarrow>
      (\<exists>a. btp_tasks run ! t = Waiting i a) \<or> (\<exists>a. btp_tasks run ! t = Dropped i a)"
    "t < length (btp_tasks run) \<Longrightarrow> btp_tasks run ! t = Waiting i a \<Longrightarrow> hm_get (btp_pending_outgoing run) i = Some t"
    "mset (responses (btp_tasks run)) \<subseteq># mset (map snd (btp_received run))"
  using assms unfolding btp_inv_def by blast+

text \<open>Changing one task that got no response yet, and what is stored for it.\<close>

lemma btp_inv_set:
  assumes inv: "btp_inv run" and t: "t < length (btp_tasks run)" "responded (btp_tasks run ! t) = None"
    and tasks: "btp_tasks run' = (btp_tasks run)[t := task]"
    and owned: "\<And>i u. hm_get (btp_pending_outgoing run') i = Some u \<Longrightarrow>
      u = t \<and> (\<exists>a. task = Waiting i a \<or> task = Dropped i a) \<or> u \<noteq> t \<and> hm_get (btp_pending_outgoing run) i = Some u"
    and kept: "\<And>i u. hm_get (btp_pending_outgoing run) i = Some u \<Longrightarrow> u \<noteq> t \<Longrightarrow>
      hm_get (btp_pending_outgoing run') i = Some u"
    and stored: "\<And>i a. task = Waiting i a \<Longrightarrow> hm_get (btp_pending_outgoing run') i = Some t"
    and got: "(case responded task of None \<Rightarrow> {#} | Some r \<Rightarrow> {#r#}) + mset (map snd (btp_received run)) \<subseteq>#
      mset (map snd (btp_received run'))"
  shows "btp_inv run'"
  unfolding btp_inv_def
proof (intro conjI allI impI)
  fix i u
  assume "hm_get (btp_pending_outgoing run') i = Some u"
  from owned [OF this] consider "u = t" "\<exists>a. task = Waiting i a \<or> task = Dropped i a"
    | "u \<noteq> t" "hm_get (btp_pending_outgoing run) i = Some u" by blast
  then have "u < length (btp_tasks run') \<and> (\<exists>a. btp_tasks run' ! u = Waiting i a \<or> btp_tasks run' ! u = Dropped i a)"
  proof cases
    case 1
    then show ?thesis using t(1) tasks by simp
  next
    case 2
    then have "btp_tasks run' ! u = btp_tasks run ! u" "length (btp_tasks run') = length (btp_tasks run)"
      by (simp_all add: tasks)
    then show ?thesis using btp_invD(1,2) [OF inv 2(2)] by metis
  qed
  then show "u < length (btp_tasks run')" "\<exists>a. btp_tasks run' ! u = Waiting i a \<or> btp_tasks run' ! u = Dropped i a"
    by blast+
next
  fix u i a
  assume u: "u < length (btp_tasks run')" "btp_tasks run' ! u = Waiting i a"
  show "hm_get (btp_pending_outgoing run') i = Some u"
  proof (cases "u = t")
    case True
    then show ?thesis using u(2) t(1) tasks stored by simp
  next
    case False
    then have "hm_get (btp_pending_outgoing run) i = Some u" using u tasks by (intro btp_invD(3) [OF inv, of u i a]) simp_all
    then show ?thesis using False by (rule kept)
  qed
next
  let ?new = "case responded task of None \<Rightarrow> {#} | Some r \<Rightarrow> {#r#}"
  have "mset (responses (btp_tasks run')) = ?new + mset (responses (btp_tasks run))"
    unfolding tasks responses_update [OF t] by (simp split: option.split)
  also have "\<dots> \<subseteq># ?new + mset (map snd (btp_received run))"
    by (rule subset_mset.add_left_mono [OF btp_invD(4) [OF inv]])
  finally show "mset (responses (btp_tasks run')) \<subseteq># mset (map snd (btp_received run'))"
    using got by (rule subset_mset.order_trans)
qed

lemma btp_inv_received:
  assumes "btp_inv run" "btp_pending_outgoing run' = btp_pending_outgoing run" "btp_tasks run' = btp_tasks run"
    and "btp_received run' = btp_received run @ further"
  shows "btp_inv run'"
proof -
  have "mset (responses (btp_tasks run)) \<subseteq># mset (map snd (btp_received run'))"
    unfolding assms(4) map_append mset_append
    by (rule subset_mset.order_trans [OF btp_invD(4) [OF assms(1)] mset_subset_eq_add_left])
  with assms(1) show ?thesis unfolding btp_inv_def assms(2,3) by (elim conjE) (intro conjI)
qed

lemma btp_inv_forget:
  assumes "btp_inv run" "hm_get (btp_pending_outgoing run) i = Some t" "btp_tasks run ! t = Dropped i a"
    and "btp_pending_outgoing run' = hm_remove i (btp_pending_outgoing run)" "btp_tasks run' = btp_tasks run"
    and "btp_received run' = btp_received run"
  shows "btp_inv run'"
  unfolding btp_inv_def assms(4-6) hm_get_remove
proof (intro conjI allI impI)
  fix j u
  assume "((hm_get (btp_pending_outgoing run))(i := None)) j = Some u"
  then have "hm_get (btp_pending_outgoing run) j = Some u" by (simp split: if_splits)
  from btp_invD(1,2) [OF assms(1) this]
  show "u < length (btp_tasks run)" "\<exists>a. btp_tasks run ! u = Waiting j a \<or> btp_tasks run ! u = Dropped j a" by blast+
next
  fix u j b
  assume "u < length (btp_tasks run)" "btp_tasks run ! u = Waiting j b"
  then have own: "hm_get (btp_pending_outgoing run) j = Some u" by (rule btp_invD(3) [OF assms(1)])
  have "j \<noteq> i" using own assms(2,3) \<open>btp_tasks run ! u = Waiting j b\<close> by auto
  with own show "((hm_get (btp_pending_outgoing run))(i := None)) j = Some u" by simp
qed (rule btp_invD(4) [OF assms(1)])

text \<open>The oneshot channel of a waiting task is taken out and the task ends.\<close>

lemma btp_inv_end:
  assumes "btp_inv run" "t < length (btp_tasks run)" "btp_tasks run ! t = Waiting i a"
    and "btp_tasks run' = (btp_tasks run)[t := task]" "\<And>j b. task \<noteq> Waiting j b" "\<And>j b. task \<noteq> Dropped j b"
    and "btp_pending_outgoing run' = hm_remove i (btp_pending_outgoing run)"
    and "(case responded task of None \<Rightarrow> {#} | Some r \<Rightarrow> {#r#}) + mset (map snd (btp_received run)) \<subseteq>#
      mset (map snd (btp_received run'))"
  shows "btp_inv run'"
proof (rule btp_inv_set [OF assms(1,2) _ assms(4)])
  have own: "hm_get (btp_pending_outgoing run) i = Some t" using btp_invD(3) [OF assms(1-3)] .
  fix j u
  {
    assume "hm_get (btp_pending_outgoing run') j = Some u"
    then have j: "j \<noteq> i" "hm_get (btp_pending_outgoing run) j = Some u" using assms(7) by (auto simp: hm_get_remove split: if_splits)
    have "u \<noteq> t" using btp_invD(2) [OF assms(1) j(2)] assms(3) j(1) by force
    with j(2) show "u = t \<and> (\<exists>a. task = Waiting j a \<or> task = Dropped j a) \<or> u \<noteq> t \<and> hm_get (btp_pending_outgoing run) j = Some u"
      by blast
  }
  assume "hm_get (btp_pending_outgoing run) j = Some u" "u \<noteq> t"
  with own show "hm_get (btp_pending_outgoing run') j = Some u" using assms(7) by (auto simp: hm_get_remove)
qed (use assms in \<open>auto simp: responded_def\<close>)

lemma btp_inv_respond:
  assumes "btp_inv run"
  shows "btp_inv ((btp_respond i result run)\<lparr>btp_received := btp_received run @ [(a, i, result)]\<rparr>)"
proof (cases "hm_get (btp_pending_outgoing run) i")
  case None
  then show ?thesis by (intro btp_inv_received [OF assms, of _ "[(a, i, result)]"]) (simp_all add: btp_respond_def)
next
  case (Some t)
  from btp_invD(2) [OF assms Some] show ?thesis
  proof (elim disjE exE)
    fix b
    assume w: "btp_tasks run ! t = Waiting i b"
    then show ?thesis
      using Some
      by (intro btp_inv_end [OF assms btp_invD(1) [OF assms Some] w, of _ "Responded i b result"])
        (simp_all add: btp_respond_def btp_resolve_def set_task_def responded_def)
  next
    fix b
    assume d: "btp_tasks run ! t = Dropped i b"
    then show ?thesis
      using Some
      by (intro btp_inv_received [OF btp_inv_forget [OF assms Some d, of "btp_respond i result run"], of _ "[(a, i, result)]"])
        (simp_all add: btp_respond_def btp_resolve_def)
  qed
qed

lemma btp_displace_fields:
  "btp_pending_outgoing (btp_displace ilp_address i run) = btp_pending_outgoing run"
  "btp_received (btp_displace ilp_address i run) = btp_received run"
  "length (btp_tasks (btp_displace ilp_address i run)) = length (btp_tasks run)"
  by (auto simp: btp_displace_def btp_resolve_def set_task_def split: option.split BtpTask.split)

lemma btp_inv_displace:
  assumes "btp_inv run" "btp_tasks run ! t = Sent i a"
    and "run' = (btp_displace ilp_address i run)\<lparr>btp_pending_outgoing := hm_remove i (btp_pending_outgoing run)\<rparr>"
  shows "btp_inv run' \<and> btp_tasks run' ! t = Sent i a"
proof (cases "hm_get (btp_pending_outgoing run) i")
  case None
  then have "hm_remove i (btp_pending_outgoing run) = btp_pending_outgoing run"
    by (intro AList.delete_id) (simp add: map_of_eq_None_iff)
  then show ?thesis using None assms by (simp add: btp_displace_def)
next
  case (Some u)
  let ?gone = "Failed (service_reject ilp_address T00_INTERNAL_ERROR [] [])"
  from btp_invD(2) [OF assms(1) Some] show ?thesis
  proof (elim disjE exE)
    fix b
    assume w: "btp_tasks run ! u = Waiting i b"
    with Some assms(2,3) have "btp_tasks run' = (btp_tasks run)[u := ?gone]" "u \<noteq> t"
      by (auto simp: btp_displace_def btp_resolve_def set_task_def)
    moreover from this(1) w have "btp_inv run'"
      by (intro btp_inv_end [OF assms(1) btp_invD(1) [OF assms(1) Some] w, of _ ?gone])
        (simp_all add: assms(3) btp_displace_fields responded_def)
    ultimately show ?thesis using assms(2) by simp
  next
    fix b
    assume d: "btp_tasks run ! u = Dropped i b"
    then have "btp_tasks run' = btp_tasks run" using Some by (simp add: assms(3) btp_displace_def btp_resolve_def)
    then show ?thesis using btp_inv_forget [OF assms(1) Some d, of run'] assms(2,3) by (simp add: btp_displace_fields)
  qed
qed

lemma btp_inv_register:
  assumes "btp_inv run" "t < length (btp_tasks run)"
  shows "btp_inv (btp_register ilp_address t run)"
proof (cases "\<exists>i a. btp_tasks run ! t = Sent i a")
  case False
  then have "btp_register ilp_address t run = run" by (simp add: btp_register_def split: BtpTask.split)
  with assms(1) show ?thesis by simp
next
  case True
  then obtain i a where t: "btp_tasks run ! t = Sent i a" by blast
  define run1 where
    "run1 = (btp_displace ilp_address i run)\<lparr>btp_pending_outgoing := hm_remove i (btp_pending_outgoing run)\<rparr>"
  note run1 = btp_inv_displace [OF assms(1) t run1_def]
  have pend: "hm_get (btp_pending_outgoing run1) = (hm_get (btp_pending_outgoing run))(i := None)"
    "hm_get (btp_pending_outgoing (btp_register ilp_address t run)) = (hm_get (btp_pending_outgoing run))(i \<mapsto> t)"
    using t by (simp_all add: btp_register_def run1_def set_task_def hm_get_remove hm_get_insert)
  have free: "hm_get (btp_pending_outgoing run) j \<noteq> Some t" for j
    using btp_invD(2) [OF assms(1), of j t] t by auto
  have len: "t < length (btp_tasks run1)" using assms(2) by (simp add: run1_def btp_displace_fields)
  show ?thesis
  proof (rule btp_inv_set [OF conjunct1 [OF run1] len])
    show "btp_tasks (btp_register ilp_address t run) = (btp_tasks run1)[t := Waiting i a]"
      using t by (simp add: btp_register_def set_task_def run1_def)
    show "responded (btp_tasks run1 ! t) = None" using run1 by (simp add: responded_def)
    fix j u
    show "u = t \<and> (\<exists>a'. Waiting i a = Waiting j a' \<or> Waiting i a = Dropped j a') \<or>
        u \<noteq> t \<and> hm_get (btp_pending_outgoing run1) j = Some u"
      if "hm_get (btp_pending_outgoing (btp_register ilp_address t run)) j = Some u"
      using that free [of j] unfolding pend by (cases "j = i") auto
    show "hm_get (btp_pending_outgoing (btp_register ilp_address t run)) j = Some u"
      if "hm_get (btp_pending_outgoing run1) j = Some u"
      using that unfolding pend by (cases "j = i") auto
  qed (use t in \<open>simp_all add: pend responded_def btp_register_def set_task_def run1_def btp_displace_fields hm_get_insert\<close>)
qed

lemma btp_inv_time_out:
  assumes "btp_inv run" "t < length (btp_tasks run)"
  shows "btp_inv (btp_time_out ilp_address t run)"
proof (cases "\<exists>i a. btp_tasks run ! t = Waiting i a")
  case True
  then obtain i a where t: "btp_tasks run ! t = Waiting i a" by blast
  then show ?thesis
    by (intro btp_inv_end [OF assms t, of _ "Failed (timed_out_reject ilp_address)"])
      (simp_all add: btp_time_out_def btp_close_connection_def set_task_def responded_def)
next
  case False
  then have "btp_time_out ilp_address t run = run" by (simp add: btp_time_out_def split: BtpTask.split)
  with assms(1) show ?thesis by simp
qed

lemma btp_inv_drop:
  assumes "btp_inv run" "t < length (btp_tasks run)"
  shows "btp_inv (btp_drop t run)"
proof (cases "btp_tasks run ! t")
  case (Sent i a)
  then have "hm_get (btp_pending_outgoing run) j \<noteq> Some t" for j
    using btp_invD(2) [OF assms(1), of j t] by auto
  then show ?thesis
    using Sent by (intro btp_inv_set [OF assms, of _ "Dropped i a"]) (auto simp: btp_drop_def set_task_def responded_def)
next
  case (Waiting i a)
  have "j = i" if "hm_get (btp_pending_outgoing run) j = Some t" for j
    using btp_invD(2) [OF assms(1) that] Waiting by auto
  then show ?thesis
    using Waiting by (intro btp_inv_set [OF assms, of _ "Dropped i a"]) (auto simp: btp_drop_def set_task_def responded_def)
qed (use assms in \<open>simp_all add: btp_drop_def\<close>)

lemma btp_receive_response:
  assumes "response \<in> set (btp_responses env account message)"
  shows "\<exists>i result. response = (acc_id account, i, result) \<and>
    btp_receive env channel_open connection account message run =
      (btp_respond i result run)\<lparr>btp_received := btp_received run @ [response]\<rparr>"
proof -
  obtain i packet where parse: "parse_ilp_packet env message = Ok (i, packet)"
    using assms by (cases "parse_ilp_packet env message") (auto simp: btp_responses_def)
  then obtain data where "message = Binary data" by (auto simp: parse_ilp_packet_def split: WsMessage.splits)
  with parse assms show ?thesis
    by (cases packet) (simp_all add: btp_receive_def handle_message_def btp_responses_def)
qed

lemma btp_inv_receive:
  assumes "btp_inv run"
  shows "btp_inv (btp_receive env channel_open connection account message run)"
proof (cases "btp_responses env account message")
  case Nil
  then show ?thesis
    by (intro btp_inv_keeps [OF assms])
      (auto simp: btp_receive_def handle_message_def btp_responses_def btp_unbounded_send_def
        split: WsMessage.splits result.splits Packet.splits)
next
  case (Cons response rest)
  then have "response \<in> set (btp_responses env account message)" by simp
  from btp_receive_response [OF this, of channel_open connection run] show ?thesis
    using btp_inv_respond [OF assms] by auto
qed

lemma btp_inv_step: "btp_step env ilp_address run run' \<Longrightarrow> btp_inv run \<Longrightarrow> btp_inv run'"
proof (induction rule: btp_step.induct)
  case (answer run channel_open handler)
  then show ?case
    by (elim btp_inv_keeps)
      (auto simp: btp_handle_incoming_def btp_unbounded_send_def Let_def split: list.split result.split option.split)
next
  case (connect run account connection)
  then show ?case by (elim btp_inv_keeps) (simp_all add: btp_add_connection_def)
next
  case (ping run channel_open connection)
  then show ?case by (elim btp_inv_keeps) (simp_all add: btp_send_ping_def btp_unbounded_send_def)
next
  case (close run account_id)
  then show ?case by (elim btp_inv_keeps) (simp_all add: btp_close_connection_def)
qed (rule btp_inv_send btp_inv_register btp_inv_receive btp_inv_time_out btp_inv_drop; assumption)+

lemma btp_inv_reaches: "btp_reaches env ilp_address run \<Longrightarrow> btp_inv run"
proof (induction rule: rtranclp_induct)
  case base
  show ?case by (simp add: btp_inv_def btp_new_def List.map_filter_simps)
next
  case (step run run')
  then show ?case using btp_inv_step by blast
qed

text \<open>
  The entry of a dropped request goes only with a response that carries its id, or with a new request that
  happens to get it.
\<close>

definition dropped_pending :: "u32 \<Rightarrow> nat \<Rightarrow> BtpRun \<Rightarrow> bool" where
  "dropped_pending i t run \<longleftrightarrow> t < length (btp_tasks run) \<and> (\<exists>a. btp_tasks run ! t = Dropped i a) \<and>
     hm_get (btp_pending_outgoing run) i = Some t"

lemma dropped_pending_resolve:
  assumes "dropped_pending i t run"
  shows "dropped_pending i t (btp_resolve u outcome run)"
  using assms
  by (cases "u = t") (auto simp: dropped_pending_def btp_resolve_def set_task_def split: BtpTask.split)

lemma dropped_pending_set_task:
  assumes "dropped_pending i t run" "u \<noteq> t" "hm_get (btp_pending_outgoing run') i = hm_get (btp_pending_outgoing run) i"
    and "btp_tasks run' = (btp_tasks run)[u := task]"
  shows "dropped_pending i t run'"
  using assms by (simp add: dropped_pending_def)

lemma dropped_pending_register:
  assumes "dropped_pending i t run" "\<And>a. btp_tasks run ! u \<noteq> Sent i a"
  shows "dropped_pending i t (btp_register ilp_address u run)"
proof (cases "\<exists>j a. btp_tasks run ! u = Sent j a")
  case True
  then obtain j a where u: "btp_tasks run ! u = Sent j a" by blast
  with assms have "j \<noteq> i" "u \<noteq> t" by (auto simp: dropped_pending_def)
  have displaced: "dropped_pending i t (btp_displace ilp_address j run)"
    using assms(1) dropped_pending_resolve [OF assms(1)] by (simp add: btp_displace_def split: option.split)
  show ?thesis
    by (rule dropped_pending_set_task [OF displaced \<open>u \<noteq> t\<close>, where task = "Waiting j a"])
      (use \<open>j \<noteq> i\<close> in \<open>simp_all add: u btp_register_def set_task_def hm_get_insert btp_displace_fields\<close>)
next
  case False
  then have "btp_register ilp_address u run = run" by (simp add: btp_register_def split: BtpTask.split)
  with assms(1) show ?thesis by simp
qed

lemma dropped_pending_time_out:
  assumes "btp_inv run" "dropped_pending i t run" "u < length (btp_tasks run)"
  shows "dropped_pending i t (btp_time_out ilp_address u run)"
proof (cases "\<exists>j a. btp_tasks run ! u = Waiting j a")
  case True
  then obtain j a where u: "btp_tasks run ! u = Waiting j a" by blast
  then have "j \<noteq> i" "u \<noteq> t" using btp_invD(3) [OF assms(1,3) u] assms(2) by (auto simp: dropped_pending_def)
  show ?thesis
    by (rule dropped_pending_set_task [OF assms(2) \<open>u \<noteq> t\<close>, where task = "Failed (timed_out_reject ilp_address)"])
      (use \<open>j \<noteq> i\<close> in \<open>simp_all add: u btp_time_out_def set_task_def btp_close_connection_def hm_get_remove\<close>)
next
  case False
  then have "btp_time_out ilp_address u run = run" by (simp add: btp_time_out_def split: BtpTask.split)
  with assms(2) show ?thesis by simp
qed

lemma dropped_pending_receive:
  assumes "dropped_pending i t run" "\<forall>(b, j, r) \<in> set (btp_responses env account message). j \<noteq> i"
  shows "dropped_pending i t (btp_receive env channel_open connection account message run)"
proof (cases "btp_responses env account message")
  case Nil
  then have "btp_tasks (btp_receive env channel_open connection account message run) = btp_tasks run"
    "btp_pending_outgoing (btp_receive env channel_open connection account message run) = btp_pending_outgoing run"
    by (auto simp: btp_receive_def handle_message_def btp_responses_def btp_unbounded_send_def
        split: WsMessage.splits result.splits Packet.splits)
  with assms(1) show ?thesis by (simp add: dropped_pending_def)
next
  case (Cons response rest)
  then have mem: "response \<in> set (btp_responses env account message)" by simp
  obtain j result where r: "response = (acc_id account, j, result)"
    "btp_receive env channel_open connection account message run =
      (btp_respond j result run)\<lparr>btp_received := btp_received run @ [response]\<rparr>"
    using btp_receive_response [OF mem, of channel_open connection run] by blast
  then have "j \<noteq> i" using assms(2) mem by auto
  then have "dropped_pending i t (run\<lparr>btp_pending_outgoing := hm_remove j (btp_pending_outgoing run)\<rparr>)"
    using assms(1) by (simp add: dropped_pending_def hm_get_remove)
  then have "dropped_pending i t (btp_respond j result run)"
    using assms(1) dropped_pending_resolve by (simp add: btp_respond_def split: option.split)
  then show ?thesis by (simp add: r(2) dropped_pending_def)
qed

lemma dropped_pending_step:
  assumes "btp_step env ilp_address run run'" "btp_inv run" "dropped_pending i t run"
    and "\<And>u a. u < length (btp_tasks run) \<Longrightarrow> btp_tasks run ! u \<noteq> Sent i a"
    and "\<And>b r. (b, i, r) \<notin> set (drop (length (btp_received run)) (btp_received run'))"
  shows "dropped_pending i t run'"
  using assms
proof (induction rule: btp_step.induct)
  case (send channel_open j request run run')
  then show ?case
    by (auto simp: dropped_pending_def btp_send_request_def btp_unbounded_send_def nth_append split: option.splits if_splits)
next
  case (receive run channel_open connection account message)
  then show ?case by (intro dropped_pending_receive) (force simp: btp_receive_def)+
next
  case (dropped u run)
  then show ?case
    by (cases "u = t") (auto simp: dropped_pending_def btp_drop_def set_task_def split: BtpTask.split)
next
  case (answer run channel_open handler)
  then show ?case
    by (auto simp: dropped_pending_def btp_handle_incoming_def btp_unbounded_send_def Let_def
        split: list.split result.split option.split)
next
  case (register u run)
  then show ?case by (intro dropped_pending_register) simp_all
next
  case (time_out u run)
  then show ?case by (intro dropped_pending_time_out) simp_all
qed (simp_all add: dropped_pending_def btp_add_connection_def btp_close_connection_def btp_send_ping_def btp_unbounded_send_def)

text \<open>A step in which no response with the id arrives and no new request holds it.\<close>

definition btp_unanswered_step :: "'d BtpEnv \<Rightarrow> Address \<Rightarrow> u32 \<Rightarrow> BtpRun \<Rightarrow> BtpRun \<Rightarrow> bool" where
  "btp_unanswered_step env ilp_address i run run' \<longleftrightarrow>
     btp_step env ilp_address run run' \<and> (\<forall>a. Sent i a \<notin> set (btp_tasks run)) \<and>
     (\<forall>b r. (b, i, r) \<notin> set (drop (length (btp_received run)) (btp_received run')))"

lemma dropped_pending_steps:
  assumes "(btp_unanswered_step env ilp_address i)\<^sup>*\<^sup>* run run'" "btp_inv run" "dropped_pending i t run"
  shows "btp_inv run' \<and> dropped_pending i t run'"
  using assms(1)
proof (induction rule: rtranclp_induct)
  case base
  show ?case using assms(2,3) by simp
next
  case (step run1 run2)
  then have s: "btp_step env ilp_address run1 run2" by (simp add: btp_unanswered_step_def)
  moreover have "btp_tasks run1 ! u \<noteq> Sent i a" if "u < length (btp_tasks run1)" for u a
    using step(2) that nth_mem by (fastforce simp: btp_unanswered_step_def)
  ultimately show ?case
    using step btp_inv_step [OF s] dropped_pending_step [OF s] by (simp add: btp_unanswered_step_def)
qed

lemma btp_drop_waiting:
  assumes "btp_inv run" "t < length (btp_tasks run)" "btp_tasks run ! t = Waiting i a"
  shows "dropped_pending i t (btp_drop t run)" "btp_connections (btp_drop t run) = btp_connections run"
  using assms(2,3) btp_invD(3) [OF assms] by (simp_all add: dropped_pending_def btp_drop_def set_task_def)

section \<open>Packets on the wire\<close>

lemma ws_message_bytes:
  "ilp_packet_to_ws_message i packet =
     Binary (put_btp (case packet of PreparePacket _ \<Rightarrow> ResponseType | _ \<Rightarrow> MessageType) i
       (put_protocol_data [\<lparr>pd_protocol_name = bstr ''ilp'', pd_content_type = ApplicationOctetStream,
          pd_data = packet_bytes packet\<rparr>]))"
  by (simp add: ilp_packet_to_ws_message_def message_to_bytes_def response_to_bytes_def split: Packet.split)

lemma length_put_protocol_entry:
  "length (put_protocol_entry entry) \<le> length (pd_protocol_name entry) + length (pd_data entry) + 19"
  using predict_le [of "length (pd_protocol_name entry)"] predict_le [of "length (pd_data entry)"]
  by (simp add: put_protocol_entry_def predict_var_octet_string_correct)

text \<open>Entries with short names, one of which carries data.\<close>

lemma short_entries_wf:
  assumes "\<forall>e \<in> set entries. utf8_valid (pd_protocol_name e) \<and> length (pd_protocol_name e) < 20 \<and>
      pd_content_type e \<in> {ApplicationOctetStream, TextPlainUtf8}"
    and "length entries < 3" "sum_list (map (\<lambda>e. length (pd_data e)) entries) < 2 ^ 63"
  shows "protocol_data_wf entries" "length (put_protocol_data entries) < 2 ^ 64"
proof -
  have "length (pd_data e) < 2 ^ 63" if "e \<in> set entries" for e
    using assms(3) member_le_sum_list [of "length (pd_data e)" "map (\<lambda>e. length (pd_data e)) entries"] that by simp
  then show "protocol_data_wf entries"
    using assms(1,2)
    by (fastforce simp: protocol_data_wf_def protocol_entry_wf_def btp_string_wf_def list_all_iff content_type_from_u8_def)
  have "sum_list (map (\<lambda>e. length (put_protocol_entry e)) entries) \<le> sum_list (map (\<lambda>e. length (pd_data e) + 38) entries)"
  proof (rule sum_list_mono)
    fix e
    assume "e \<in> set entries"
    then have "length (pd_protocol_name e) < 20" using assms(1) by blast
    then show "length (put_protocol_entry e) \<le> length (pd_data e) + 38" using length_put_protocol_entry [of e] by simp
  qed
  also have "\<dots> = sum_list (map (\<lambda>e. length (pd_data e)) entries) + length entries * 38"
    by (induction entries) simp_all
  finally show "length (put_protocol_data entries) < 2 ^ 64"
    using assms(2,3) length_put_var_uint_le [of "of_nat (length entries)"]
    by (simp add: put_protocol_data_def length_concat comp_def)
qed

lemma parse_ilp_packet_written:
  assumes "packet_try_from (env_features env) (env_parse_ts env) (env_format_ts env) (packet_bytes packet) = Ok packet"
    and "length (packet_bytes packet) < 2 ^ 63"
  shows "parse_ilp_packet env (ilp_packet_to_ws_message i packet) = Ok (i, packet)"
proof -
  let ?entries = "[\<lparr>pd_protocol_name = bstr ''ilp'', pd_content_type = ApplicationOctetStream, pd_data = packet_bytes packet\<rparr>]"
  have "utf8_valid (bstr ''ilp'')" "length (bstr ''ilp'') < 20" by code_simp+
  with assms(2) have wf: "protocol_data_wf ?entries" "length (put_protocol_data ?entries) < 2 ^ 64"
    by (intro short_entries_wf; simp)+
  have "parse_ilp_packet env (Binary (put_btp t i (put_protocol_data ?entries))) = Ok (i, packet)"
    if "t = MessageType \<or> t = ResponseType" for t
    using that wf assms(1) btp_from_bytes_put [of "env_features env" "env_datetime env" t i "put_protocol_data ?entries" "[]"]
      read_put_btp [of "put_protocol_data ?entries" "env_features env" t i "[]"]
    by (auto simp: parse_ilp_packet_def message_from_bytes_def response_from_bytes_def read_put_protocol_data
        ilp_protocol_data_def)
  then show ?thesis by (simp add: ws_message_bytes split: Packet.split)
qed

lemma parse_auth_message:
  assumes "utf8_valid token" "length token < 2 ^ 63"
  shows "parse_auth cfg (Some (auth_message i (Some token))) = Some (i, token)"
proof -
  let ?entries = "[\<lparr>pd_protocol_name = bstr ''auth'', pd_content_type = ApplicationOctetStream, pd_data = []\<rparr>,
    \<lparr>pd_protocol_name = bstr ''auth_token'', pd_content_type = TextPlainUtf8, pd_data = token\<rparr>]"
  have names: "utf8_valid (bstr ''auth'')" "length (bstr ''auth'') < 20" "utf8_valid (bstr ''auth_token'')"
    "length (bstr ''auth_token'') < 20" "bstr ''auth'' \<noteq> bstr ''auth_token''" by code_simp+
  with assms(2) have wf: "protocol_data_wf ?entries" "length (put_protocol_data ?entries) < 2 ^ 64"
    by (intro short_entries_wf; simp)+
  have "message_from_bytes cfg (message_to_bytes \<lparr>bm_request_id = i, bm_protocol_data = ?entries\<rparr>) =
      Ok \<lparr>bm_request_id = i, bm_protocol_data = ?entries\<rparr>"
    using wf read_put_btp [of "put_protocol_data ?entries" cfg MessageType i "[]"]
    by (simp add: message_from_bytes_def message_to_bytes_def read_put_protocol_data)
  then show ?thesis using names(5) assms(1) by (simp add: auth_message_def parse_auth_def)
qed

section \<open>Properties\<close>

text \<open>
  C15. ILP packets cross BTP unchanged: what \<^verbatim>\<open>ilp_packet_to_ws_message\<close> writes for a packet parses back to the
  request id and the packet. The types of the BTP packets are exchanged, though: a Prepare travels in a BTP
  response and its Fulfill or Reject in a BTP message. A server that knows the token admits a client whose
  first binary message is the one the client sends, whatever pings precede it, and answers its request id.
\<close>

theorem btp_carries_packets:
  assumes "packet_try_from (env_features env) (env_parse_ts env) (env_format_ts env) (packet_bytes packet) = Ok packet"
    and "length (packet_bytes packet) < 2 ^ 63" "utf8_valid token" "length token < 2 ^ 63"
    and "get_account token = Some account"
  shows "parse_ilp_packet env (ilp_packet_to_ws_message i packet) = Ok (i, packet) \<and>
    (\<exists>contents. ilp_packet_to_ws_message i packet =
      Binary (put_btp (case packet of PreparePacket _ \<Rightarrow> ResponseType | _ \<Rightarrow> MessageType) i contents)) \<and>
    validate_auth cfg get_account (map Ping pings @ auth_message i (Some token) # connection) =
      Ok (account, Binary (response_to_bytes \<lparr>br_request_id = i, br_protocol_data = []\<rparr>), connection)"
proof (intro conjI)
  have "get_auth cfg (map Ping pings @ auth_message i (Some token) # connection) = Ok ((i, token), connection)"
  proof (induction pings)
    case Nil
    then show ?case using parse_auth_message [OF assms(3,4), of cfg i] by (simp add: auth_message_def)
  qed simp
  then show "validate_auth cfg get_account (map Ping pings @ auth_message i (Some token) # connection) =
      Ok (account, Binary (response_to_bytes \<lparr>br_request_id = i, br_protocol_data = []\<rparr>), connection)"
    using assms(5) by (simp add: validate_auth_def)
qed (use parse_ilp_packet_written [OF assms(1,2)] ws_message_bytes in blast)+

text \<open>
  C12. However the tasks of the BTP service interleave, a request that waits is the one found under its id, so no
  two requests in flight share an id, and a request is answered only by a response that was received with its
  id, each response answering at most one request: the answers given are, as a multiset, among those received.
\<close>

theorem btp_answers_once:
  assumes "btp_reaches env ilp_address run"
  shows "(\<forall>t i a. t < length (btp_tasks run) \<and> btp_tasks run ! t = Waiting i a \<longrightarrow>
      hm_get (btp_pending_outgoing run) i = Some t) \<and>
    (\<forall>t i a r. t < length (btp_tasks run) \<and> btp_tasks run ! t = Responded i a r \<longrightarrow>
      (\<exists>b. (b, i, r) \<in> set (btp_received run))) \<and>
    mset (responses (btp_tasks run)) \<subseteq># mset (map snd (btp_received run))"
proof (intro conjI allI impI)
  note inv = btp_inv_reaches [OF assms]
  show "mset (responses (btp_tasks run)) \<subseteq># mset (map snd (btp_received run))" by (rule btp_invD(4) [OF inv])
  show "hm_get (btp_pending_outgoing run) i = Some t"
    if "t < length (btp_tasks run) \<and> btp_tasks run ! t = Waiting i a" for t i a
    using that btp_invD(3) [OF inv] by blast
  fix t i a r
  assume "t < length (btp_tasks run) \<and> btp_tasks run ! t = Responded i a r"
  then have "(i, r) \<in> set (responses (btp_tasks run))"
    by (force simp: List.map_filter_def responded_def in_set_conv_nth)
  then have "(i, r) \<in># mset (map snd (btp_received run))"
    using mset_subset_eqD [OF btp_invD(4) [OF inv]] by simp
  then show "\<exists>b. (b, i, r) \<in> set (btp_received run)" by auto
qed

text \<open>
  C13. A response is matched to a request by its id alone. A Fulfill or Reject that carries the id of a waiting
  request answers it on whichever account's connection it comes; and one that comes after the request was sent
  but before its channel was stored is lost: the request goes on to wait for another.
\<close>

theorem btp_matches_by_id_alone:
  assumes "btp_reaches env ilp_address run" "t < length (btp_tasks run)"
    and "(acc_id account, i, result) \<in> set (btp_responses env account message)"
  shows "(\<forall>a. btp_tasks run ! t = Waiting i a \<longrightarrow>
      btp_tasks (btp_receive env channel_open connection account message run) ! t = Responded i a result) \<and>
    (\<forall>a. btp_tasks run ! t = Sent i a \<longrightarrow>
      btp_tasks (btp_register ilp_address t (btp_receive env channel_open connection account message run)) ! t = Waiting i a)"
proof -
  note inv = btp_inv_reaches [OF assms(1)]
  have run': "btp_tasks (btp_receive env channel_open connection account message run) = btp_tasks (btp_respond i result run)"
    using btp_receive_response [OF assms(3), of channel_open connection run] by auto
  have "btp_tasks (btp_respond i result run) ! t = Responded i a result" if "btp_tasks run ! t = Waiting i a" for a
    using that assms(2) btp_invD(3) [OF inv assms(2) that] by (simp add: btp_respond_def btp_resolve_def set_task_def)
  moreover have "btp_tasks (btp_respond i result run) ! t = Sent i a" if "btp_tasks run ! t = Sent i a" for a
    using that by (auto simp: btp_respond_def btp_resolve_def set_task_def split: option.split BtpTask.split)
      (metis BtpTask.distinct(1) nth_list_update_neq)
  moreover have "length (btp_tasks (btp_respond i result run)) = length (btp_tasks run)"
    by (simp add: btp_respond_def btp_resolve_def set_task_def split: option.split BtpTask.split)
  ultimately show ?thesis using assms(2) by (simp add: run' btp_register_def set_task_def btp_displace_fields)
qed

definition example_env :: "unit BtpEnv" where
  "example_env = \<lparr>env_features = strict_features, env_parse_ts = example_parse_ms, env_format_ts = example_format,
     env_datetime = (\<lambda>_. None)\<rparr>"

definition example_fulfill :: Fulfill where
  "example_fulfill = fulfill_build \<lparr>fb_fulfillment = replicate 32 7, fb_data = []\<rparr>"

lemma example_fulfill_parses:
  "packet_try_from (env_features example_env) (env_parse_ts example_env) (env_format_ts example_env)
     (packet_bytes (FulfillPacket example_fulfill)) = Ok (FulfillPacket example_fulfill)"
  "length (packet_bytes (FulfillPacket example_fulfill :: SystemTime Packet)) < 2 ^ 63"
proof -
  have "fulfill_builder_wf \<lparr>fb_fulfillment = replicate 32 7, fb_data = []\<rparr>"
    by (simp add: fulfill_builder_wf_def len_defs)
  from fulfill_build_parses [OF this] have
    "fulfill_try_from (env_features example_env) (f_buffer example_fulfill) = Ok example_fulfill"
    by (simp add: example_fulfill_def)
  moreover have "packet_type_try_from (f_buffer example_fulfill) = Ok FulfillType" by code_simp
  ultimately show "packet_try_from (env_features example_env) (env_parse_ts example_env) (env_format_ts example_env)
      (packet_bytes (FulfillPacket example_fulfill)) = Ok (FulfillPacket example_fulfill)"
    by (simp add: packet_try_from_def)
  have "length (f_buffer example_fulfill) < 100" by code_simp
  then show "length (packet_bytes (FulfillPacket example_fulfill :: SystemTime Packet)) < 2 ^ 63" by simp
qed

text \<open>A request to account 4 is in flight; account 5 is connected too.\<close>

definition example_connected :: BtpRun where
  "example_connected = btp_add_connection (example_account 5 (bstr ''example.eve'') Peer) 1
     (btp_add_connection (example_account 4 (bstr ''example.bob'') Peer) 0 btp_new)"

definition example_btp_request :: OutgoingRequest where
  "example_btp_request =
     \<lparr>out_from = example_account 3 (bstr ''example.alice'') Child, out_to = example_account 4 (bstr ''example.bob'') Peer,
      out_original_amount = 0, out_prepare = prepare_build example_format
        \<lparr>pb_amount = 0, pb_expires_at = 0, pb_execution_condition = replicate 32 0,
         pb_destination = Address (bstr ''example.bob''), pb_data = []\<rparr>\<rparr>"

definition example_in_flight :: BtpRun where
  "example_in_flight = btp_register (Address (bstr ''example.us'')) 0
     (the (btp_send_request (Address (bstr ''example.us'')) (\<lambda>_. True) 7 example_btp_request example_connected))"

lemma example_sent:
  "\<exists>run. btp_send_request ilp_address (\<lambda>_. True) 7 example_btp_request example_connected = Some run \<and>
    btp_tasks run = [Sent 7 4] \<and> btp_pending_outgoing run = []"
  by (simp add: btp_send_request_def example_connected_def btp_add_connection_def btp_new_def example_account_def
      example_btp_request_def btp_unbounded_send_def)

lemma example_in_flight_facts:
  "btp_tasks example_in_flight = [Waiting 7 4]"
  using example_sent [of "Address (bstr ''example.us'')"]
  by (auto simp: example_in_flight_def btp_register_def btp_displace_def set_task_def)

lemma example_in_flight_reaches: "btp_reaches env (Address (bstr ''example.us'')) example_in_flight"
proof -
  let ?us = "Address (bstr ''example.us'')"
  have "btp_reaches env ?us example_connected"
    unfolding example_connected_def
    by (meson btp_step.connect rtranclp.rtrancl_into_rtrancl rtranclp.rtrancl_refl)
  moreover obtain run where run: "btp_send_request ?us (\<lambda>_. True) 7 example_btp_request example_connected = Some run"
      "btp_tasks run = [Sent 7 4]" using example_sent by blast
  then have "btp_step env ?us example_connected run" by (intro btp_step.send)
  moreover have "btp_step env ?us run (btp_register ?us 0 run)" using run(2) by (intro btp_step.register) simp
  ultimately show ?thesis by (simp add: example_in_flight_def run(1))
qed

lemma example_response:
  "btp_responses example_env account (ilp_packet_to_ws_message 7 (FulfillPacket example_fulfill)) =
    [(acc_id account, 7, Ok example_fulfill)]"
  using parse_ilp_packet_written [OF example_fulfill_parses] by (simp add: btp_responses_def)

theorem btp_carries_packets_witness:
  "parse_ilp_packet example_env (ilp_packet_to_ws_message 7 (FulfillPacket example_fulfill)) =
     Ok (7, FulfillPacket example_fulfill) \<and>
   (\<exists>response. validate_auth strict_features (\<lambda>token. Some (example_account 4 token Peer))
      [Ping [], auth_message 7 (Some (bstr ''secret'')), Close] = Ok (example_account 4 (bstr ''secret'') Peer, response, [Close]))"
proof -
  have "utf8_valid (bstr ''secret'')" "length (bstr ''secret'') < 100" by code_simp+
  then have "utf8_valid (bstr ''secret'')" "length (bstr ''secret'') < 2 ^ 63" by simp_all
  from btp_carries_packets [OF example_fulfill_parses this, of "\<lambda>token. Some (example_account 4 token Peer)" _ 7
      strict_features "[[]]" "[Close]"]
  show ?thesis by simp
qed

theorem btp_answers_once_witness:
  "btp_tasks example_in_flight = [Waiting 7 4] \<and> hm_get (btp_pending_outgoing example_in_flight) 7 = Some 0"
  using btp_answers_once [OF example_in_flight_reaches [of example_env]] example_in_flight_facts by simp

theorem btp_matches_by_id_alone_witness:
  "btp_tasks example_in_flight = [Waiting 7 4] \<and>
   btp_tasks (btp_receive example_env (\<lambda>_. True) 1 (example_account 5 (bstr ''example.eve'') Peer)
     (ilp_packet_to_ws_message 7 (FulfillPacket example_fulfill)) example_in_flight) ! 0 =
   Responded 7 4 (Ok example_fulfill)"
  using btp_matches_by_id_alone [OF example_in_flight_reaches, of 0 "example_account 5 (bstr ''example.eve'') Peer" 7
      "Ok example_fulfill" example_env "ilp_packet_to_ws_message 7 (FulfillPacket example_fulfill)" "\<lambda>_. True" 1]
  by (simp add: example_in_flight_facts example_response)

end
