(* ===== verification/Ossl_Err.thy ===== *)
theory Ossl_Err
  imports Prelude "HOL-Library.Multiset"
begin

text \<open>
  The error codes of the OpenSSL 1.1 headers the repository carries,
  \<^verbatim>\<open>openssl-1.1/include/openssl/err.h\<close>: library numbers, generic reasons, and the packing of a
  library, a function and a reason into one 32-bit value. An \<^verbatim>\<open>unsigned int\<close> is a 32-bit word, an
  \<^verbatim>\<open>unsigned long\<close> a 64-bit word (the LP64 targets the node is built for), an \<^verbatim>\<open>int\<close> an integer.
  A group of \<^verbatim>\<open>#define\<close> lines is a table from the macro's name to its value. The functions the
  header only declares, \<^verbatim>\<open>ERR_put_error\<close> among them, are not in the repository: the raising macros
  take it as a parameter.
\<close>

unbundle bit_operations_syntax

type_synonym code_table = "(string \<times> int) list"

section \<open>Library numbers\<close>

abbreviation ERR_LIB_NONE :: int where "ERR_LIB_NONE \<equiv> 1"
abbreviation ERR_LIB_SYS :: int where "ERR_LIB_SYS \<equiv> 2"
abbreviation ERR_LIB_BN :: int where "ERR_LIB_BN \<equiv> 3"
abbreviation ERR_LIB_RSA :: int where "ERR_LIB_RSA \<equiv> 4"
abbreviation ERR_LIB_DH :: int where "ERR_LIB_DH \<equiv> 5"
abbreviation ERR_LIB_EVP :: int where "ERR_LIB_EVP \<equiv> 6"
abbreviation ERR_LIB_BUF :: int where "ERR_LIB_BUF \<equiv> 7"
abbreviation ERR_LIB_OBJ :: int where "ERR_LIB_OBJ \<equiv> 8"
abbreviation ERR_LIB_PEM :: int where "ERR_LIB_PEM \<equiv> 9"
abbreviation ERR_LIB_DSA :: int where "ERR_LIB_DSA \<equiv> 10"
abbreviation ERR_LIB_X509 :: int where "ERR_LIB_X509 \<equiv> 11"
abbreviation ERR_LIB_ASN1 :: int where "ERR_LIB_ASN1 \<equiv> 13"
abbreviation ERR_LIB_CONF :: int where "ERR_LIB_CONF \<equiv> 14"
abbreviation ERR_LIB_CRYPTO :: int where "ERR_LIB_CRYPTO \<equiv> 15"
abbreviation ERR_LIB_EC :: int where "ERR_LIB_EC \<equiv> 16"
abbreviation ERR_LIB_SSL :: int where "ERR_LIB_SSL \<equiv> 20"
abbreviation ERR_LIB_BIO :: int where "ERR_LIB_BIO \<equiv> 32"
abbreviation ERR_LIB_PKCS7 :: int where "ERR_LIB_PKCS7 \<equiv> 33"
abbreviation ERR_LIB_X509V3 :: int where "ERR_LIB_X509V3 \<equiv> 34"
abbreviation ERR_LIB_PKCS12 :: int where "ERR_LIB_PKCS12 \<equiv> 35"
abbreviation ERR_LIB_RAND :: int where "ERR_LIB_RAND \<equiv> 36"
abbreviation ERR_LIB_DSO :: int where "ERR_LIB_DSO \<equiv> 37"
abbreviation ERR_LIB_ENGINE :: int where "ERR_LIB_ENGINE \<equiv> 38"
abbreviation ERR_LIB_OCSP :: int where "ERR_LIB_OCSP \<equiv> 39"
abbreviation ERR_LIB_UI :: int where "ERR_LIB_UI \<equiv> 40"
abbreviation ERR_LIB_COMP :: int where "ERR_LIB_COMP \<equiv> 41"
abbreviation ERR_LIB_ECDSA :: int where "ERR_LIB_ECDSA \<equiv> 42"
abbreviation ERR_LIB_ECDH :: int where "ERR_LIB_ECDH \<equiv> 43"
abbreviation ERR_LIB_OSSL_STORE :: int where "ERR_LIB_OSSL_STORE \<equiv> 44"
abbreviation ERR_LIB_FIPS :: int where "ERR_LIB_FIPS \<equiv> 45"
abbreviation ERR_LIB_CMS :: int where "ERR_LIB_CMS \<equiv> 46"
abbreviation ERR_LIB_TS :: int where "ERR_LIB_TS \<equiv> 47"
abbreviation ERR_LIB_HMAC :: int where "ERR_LIB_HMAC \<equiv> 48"
abbreviation ERR_LIB_CT :: int where "ERR_LIB_CT \<equiv> 50"
abbreviation ERR_LIB_ASYNC :: int where "ERR_LIB_ASYNC \<equiv> 51"
abbreviation ERR_LIB_KDF :: int where "ERR_LIB_KDF \<equiv> 52"
abbreviation ERR_LIB_SM2 :: int where "ERR_LIB_SM2 \<equiv> 53"
abbreviation ERR_LIB_USER :: int where "ERR_LIB_USER \<equiv> 128"

definition ERR_LIB_codes :: code_table where
  "ERR_LIB_codes = [
    (''ERR_LIB_NONE'', ERR_LIB_NONE),
    (''ERR_LIB_SYS'', ERR_LIB_SYS),
    (''ERR_LIB_BN'', ERR_LIB_BN),
    (''ERR_LIB_RSA'', ERR_LIB_RSA),
    (''ERR_LIB_DH'', ERR_LIB_DH),
    (''ERR_LIB_EVP'', ERR_LIB_EVP),
    (''ERR_LIB_BUF'', ERR_LIB_BUF),
    (''ERR_LIB_OBJ'', ERR_LIB_OBJ),
    (''ERR_LIB_PEM'', ERR_LIB_PEM),
    (''ERR_LIB_DSA'', ERR_LIB_DSA),
    (''ERR_LIB_X509'', ERR_LIB_X509),
    (''ERR_LIB_ASN1'', ERR_LIB_ASN1),
    (''ERR_LIB_CONF'', ERR_LIB_CONF),
    (''ERR_LIB_CRYPTO'', ERR_LIB_CRYPTO),
    (''ERR_LIB_EC'', ERR_LIB_EC),
    (''ERR_LIB_SSL'', ERR_LIB_SSL),
    (''ERR_LIB_BIO'', ERR_LIB_BIO),
    (''ERR_LIB_PKCS7'', ERR_LIB_PKCS7),
    (''ERR_LIB_X509V3'', ERR_LIB_X509V3),
    (''ERR_LIB_PKCS12'', ERR_LIB_PKCS12),
    (''ERR_LIB_RAND'', ERR_LIB_RAND),
    (''ERR_LIB_DSO'', ERR_LIB_DSO),
    (''ERR_LIB_ENGINE'', ERR_LIB_ENGINE),
    (''ERR_LIB_OCSP'', ERR_LIB_OCSP),
    (''ERR_LIB_UI'', ERR_LIB_UI),
    (''ERR_LIB_COMP'', ERR_LIB_COMP),
    (''ERR_LIB_ECDSA'', ERR_LIB_ECDSA),
    (''ERR_LIB_ECDH'', ERR_LIB_ECDH),
    (''ERR_LIB_OSSL_STORE'', ERR_LIB_OSSL_STORE),
    (''ERR_LIB_FIPS'', ERR_LIB_FIPS),
    (''ERR_LIB_CMS'', ERR_LIB_CMS),
    (''ERR_LIB_TS'', ERR_LIB_TS),
    (''ERR_LIB_HMAC'', ERR_LIB_HMAC),
    (''ERR_LIB_CT'', ERR_LIB_CT),
    (''ERR_LIB_ASYNC'', ERR_LIB_ASYNC),
    (''ERR_LIB_KDF'', ERR_LIB_KDF),
    (''ERR_LIB_SM2'', ERR_LIB_SM2),
    (''ERR_LIB_USER'', ERR_LIB_USER)]"

section \<open>The raising macros\<close>

text \<open>\<^verbatim>\<open>ERR_PUT_error\<close> drops file and line when the library is built with \<^verbatim>\<open>OPENSSL_NO_ERR\<close>.\<close>

definition ERR_PUT_error ::
  "bool \<Rightarrow> (int \<Rightarrow> int \<Rightarrow> int \<Rightarrow> string option \<Rightarrow> int \<Rightarrow> 'r) \<Rightarrow> int \<Rightarrow> int \<Rightarrow> int \<Rightarrow> string \<Rightarrow> int \<Rightarrow> 'r" where
  "ERR_PUT_error no_err ERR_put_error a b c d e =
     (if \<not> no_err then ERR_put_error a b c (Some d) e else ERR_put_error a b c None 0)"

text \<open>The macros \<^verbatim>\<open>XXerr(f,r)\<close> with the library each one names.\<close>

definition err_macros :: code_table where
  "err_macros = [
    (''SYSerr'', ERR_LIB_SYS),
    (''BNerr'', ERR_LIB_BN),
    (''RSAerr'', ERR_LIB_RSA),
    (''DHerr'', ERR_LIB_DH),
    (''EVPerr'', ERR_LIB_EVP),
    (''BUFerr'', ERR_LIB_BUF),
    (''OBJerr'', ERR_LIB_OBJ),
    (''PEMerr'', ERR_LIB_PEM),
    (''DSAerr'', ERR_LIB_DSA),
    (''X509err'', ERR_LIB_X509),
    (''ASN1err'', ERR_LIB_ASN1),
    (''CONFerr'', ERR_LIB_CONF),
    (''CRYPTOerr'', ERR_LIB_CRYPTO),
    (''ECerr'', ERR_LIB_EC),
    (''SSLerr'', ERR_LIB_SSL),
    (''BIOerr'', ERR_LIB_BIO),
    (''PKCS7err'', ERR_LIB_PKCS7),
    (''X509V3err'', ERR_LIB_X509V3),
    (''PKCS12err'', ERR_LIB_PKCS12),
    (''RANDerr'', ERR_LIB_RAND),
    (''DSOerr'', ERR_LIB_DSO),
    (''ENGINEerr'', ERR_LIB_ENGINE),
    (''OCSPerr'', ERR_LIB_OCSP),
    (''UIerr'', ERR_LIB_UI),
    (''COMPerr'', ERR_LIB_COMP),
    (''ECDSAerr'', ERR_LIB_ECDSA),
    (''ECDHerr'', ERR_LIB_ECDH),
    (''OSSL_STOREerr'', ERR_LIB_OSSL_STORE),
    (''FIPSerr'', ERR_LIB_FIPS),
    (''CMSerr'', ERR_LIB_CMS),
    (''TSerr'', ERR_LIB_TS),
    (''HMACerr'', ERR_LIB_HMAC),
    (''CTerr'', ERR_LIB_CT),
    (''ASYNCerr'', ERR_LIB_ASYNC),
    (''KDFerr'', ERR_LIB_KDF),
    (''SM2err'', ERR_LIB_SM2)]"

definition raise_error ::
  "bool \<Rightarrow> (int \<Rightarrow> int \<Rightarrow> int \<Rightarrow> string option \<Rightarrow> int \<Rightarrow> 'r) \<Rightarrow> string \<Rightarrow> int \<Rightarrow> int \<Rightarrow> string \<Rightarrow> int \<Rightarrow>
   'r option" where
  "raise_error no_err ERR_put_error macro f r file line =
     map_option (\<lambda>lib. ERR_PUT_error no_err ERR_put_error lib f r file line) (map_of err_macros macro)"

section \<open>Packing\<close>

definition ERR_PACK :: "int \<Rightarrow> int \<Rightarrow> int \<Rightarrow> u32" where
  "ERR_PACK l f r =
     push_bit 24 (word_of_int l AND 0x0FF) OR
     push_bit 12 (word_of_int f AND 0xFFF) OR
     (word_of_int r AND 0xFFF)"

definition ERR_GET_LIB :: "u64 \<Rightarrow> int" where
  "ERR_GET_LIB l = sint (ucast (drop_bit 24 l AND 0x0FF) :: u32)"

definition ERR_GET_FUNC :: "u64 \<Rightarrow> int" where
  "ERR_GET_FUNC l = sint (ucast (drop_bit 12 l AND 0xFFF) :: u32)"

definition ERR_GET_REASON :: "u64 \<Rightarrow> int" where
  "ERR_GET_REASON l = sint (ucast (l AND 0xFFF) :: u32)"

section \<open>System functions and generic reasons\<close>

definition SYS_F_codes :: code_table where
  "SYS_F_codes = [
    (''SYS_F_FOPEN'', 1),
    (''SYS_F_CONNECT'', 2),
    (''SYS_F_GETSERVBYNAME'', 3),
    (''SYS_F_SOCKET'', 4),
    (''SYS_F_IOCTLSOCKET'', 5),
    (''SYS_F_BIND'', 6),
    (''SYS_F_LISTEN'', 7),
    (''SYS_F_ACCEPT'', 8),
    (''SYS_F_WSASTARTUP'', 9),
    (''SYS_F_OPENDIR'', 10),
    (''SYS_F_FREAD'', 11),
    (''SYS_F_GETADDRINFO'', 12),
    (''SYS_F_GETNAMEINFO'', 13),
    (''SYS_F_SETSOCKOPT'', 14),
    (''SYS_F_GETSOCKOPT'', 15),
    (''SYS_F_GETSOCKNAME'', 16),
    (''SYS_F_GETHOSTBYNAME'', 17),
    (''SYS_F_FFLUSH'', 18),
    (''SYS_F_OPEN'', 19),
    (''SYS_F_CLOSE'', 20),
    (''SYS_F_IOCTL'', 21),
    (''SYS_F_STAT'', 22),
    (''SYS_F_FCNTL'', 23),
    (''SYS_F_FSTAT'', 24)]"

definition ERR_R_FATAL :: int where "ERR_R_FATAL = 64"

definition ERR_R_codes :: code_table where
  "ERR_R_codes = [
    (''ERR_R_SYS_LIB'', ERR_LIB_SYS),
    (''ERR_R_BN_LIB'', ERR_LIB_BN),
    (''ERR_R_RSA_LIB'', ERR_LIB_RSA),
    (''ERR_R_DH_LIB'', ERR_LIB_DH),
    (''ERR_R_EVP_LIB'', ERR_LIB_EVP),
    (''ERR_R_BUF_LIB'', ERR_LIB_BUF),
    (''ERR_R_OBJ_LIB'', ERR_LIB_OBJ),
    (''ERR_R_PEM_LIB'', ERR_LIB_PEM),
    (''ERR_R_DSA_LIB'', ERR_LIB_DSA),
    (''ERR_R_X509_LIB'', ERR_LIB_X509),
    (''ERR_R_ASN1_LIB'', ERR_LIB_ASN1),
    (''ERR_R_EC_LIB'', ERR_LIB_EC),
    (''ERR_R_BIO_LIB'', ERR_LIB_BIO),
    (''ERR_R_PKCS7_LIB'', ERR_LIB_PKCS7),
    (''ERR_R_X509V3_LIB'', ERR_LIB_X509V3),
    (''ERR_R_ENGINE_LIB'', ERR_LIB_ENGINE),
    (''ERR_R_UI_LIB'', ERR_LIB_UI),
    (''ERR_R_ECDSA_LIB'', ERR_LIB_ECDSA),
    (''ERR_R_OSSL_STORE_LIB'', ERR_LIB_OSSL_STORE),
    (''ERR_R_NESTED_ASN1_ERROR'', 58),
    (''ERR_R_MISSING_ASN1_EOS'', 63),
    (''ERR_R_MALLOC_FAILURE'', 1 OR ERR_R_FATAL),
    (''ERR_R_SHOULD_NOT_HAVE_BEEN_CALLED'', 2 OR ERR_R_FATAL),
    (''ERR_R_PASSED_NULL_PARAMETER'', 3 OR ERR_R_FATAL),
    (''ERR_R_INTERNAL_ERROR'', 4 OR ERR_R_FATAL),
    (''ERR_R_DISABLED'', 5 OR ERR_R_FATAL),
    (''ERR_R_INIT_FAIL'', 6 OR ERR_R_FATAL),
    (''ERR_R_PASSED_INVALID_ARGUMENT'', 7),
    (''ERR_R_OPERATION_FAIL'', 8 OR ERR_R_FATAL)]"

definition ERR_FATAL_ERROR :: "u64 \<Rightarrow> int" where
  "ERR_FATAL_ERROR l = sint (ucast (l AND word_of_int ERR_R_FATAL) :: u32)"

section \<open>Checking that a table is unambiguous\<close>

text \<open>
  A table of some hundred codes is checked by sorting: a merge sort that ends strictly ascending
  had no duplicate.
\<close>

fun merge_runs :: "'a::linorder list \<Rightarrow> 'a list \<Rightarrow> 'a list" where
  "merge_runs [] ys = ys"
| "merge_runs xs [] = xs"
| "merge_runs (x # xs) (y # ys) =
     (if x \<le> y then x # merge_runs xs (y # ys) else y # merge_runs (x # xs) ys)"

fun merge_neighbours :: "'a::linorder list list \<Rightarrow> 'a list list" where
  "merge_neighbours (xs # ys # zss) = merge_runs xs ys # merge_neighbours zss"
| "merge_neighbours xss = xss"

lemma length_merge_neighbours [termination_simp]:
  "length (merge_neighbours xss) \<le> length xss"
  by (induction xss rule: merge_neighbours.induct) auto

fun merge_all :: "'a::linorder list list \<Rightarrow> 'a list" where
  "merge_all [] = []"
| "merge_all [xs] = xs"
| "merge_all xss = merge_all (merge_neighbours xss)"

definition sort_codes :: "'a::linorder list \<Rightarrow> 'a list" where
  "sort_codes xs = merge_all (map (\<lambda>x. [x]) xs)"

fun ascending :: "'a::linorder list \<Rightarrow> bool" where
  "ascending (x # y # zs) \<longleftrightarrow> x < y \<and> ascending (y # zs)"
| "ascending _ \<longleftrightarrow> True"

lemma mset_merge_runs: "mset (merge_runs xs ys) = mset xs + mset ys"
  by (induction xs ys rule: merge_runs.induct) auto

lemma mset_merge_neighbours:
  "sum_list (map mset (merge_neighbours xss)) = sum_list (map mset xss)"
  by (induction xss rule: merge_neighbours.induct) (simp_all add: mset_merge_runs add.assoc)

lemma mset_merge_all: "mset (merge_all xss) = sum_list (map mset xss)"
proof (induction xss rule: merge_all.induct)
  case (3 xs ys zss)
  have "mset (merge_all (xs # ys # zss)) =
      sum_list (map mset (merge_neighbours (xs # ys # zss)))"
    using 3 by simp
  then show ?case unfolding mset_merge_neighbours .
qed simp_all

lemma mset_sort_codes [simp]: "mset (sort_codes xs) = mset xs"
proof -
  have "sum_list (map mset (map (\<lambda>x. [x]) xs)) = mset xs"
    by (induction xs) simp_all
  then show ?thesis by (simp add: sort_codes_def mset_merge_all)
qed

lemma set_sort_codes: "set (sort_codes xs) = set xs"
  by (metis mset_sort_codes set_mset_mset)

lemma ascending_sorted_wrt: "ascending xs \<longleftrightarrow> sorted_wrt (<) xs"
  by (induction xs rule: ascending.induct) (auto intro: less_trans)

lemma ascending_distinct:
  assumes "ascending (sort_codes xs)"
  shows "distinct xs"
proof -
  have "distinct (sort_codes xs)"
    using assms by (simp add: ascending_sorted_wrt strict_sorted_iff)
  then show ?thesis using mset_eq_imp_distinct_iff [OF mset_sort_codes [of xs]] by simp
qed

lemma table_unique:
  assumes "distinct (map snd t)" "(a, c) \<in> set t" "(b, c) \<in> set t"
  shows "a = b"
  using assms by (induction t) (auto simp: image_iff)

section \<open>The fields of a packed code\<close>

lemma and_FF: "(x AND 0xFF :: 'a::len word) = take_bit 8 x"
  by (simp add: take_bit_eq_mask mask_eq_exp_minus_1)

lemma and_FFF: "(x AND 0xFFF :: 'a::len word) = take_bit 12 x"
  by (simp add: take_bit_eq_mask mask_eq_exp_minus_1)

lemma int_of_small:
  assumes "0 \<le> i" "i < 2 ^ 31"
  shows "sint (ucast (word_of_int i :: u64) :: u32) = i"
proof -
  have "take_bit 64 i = i" using assms by (simp add: take_bit_int_eq_self)
  moreover have "signed_take_bit 31 i = i" using assms by (simp add: signed_take_bit_int_eq_self)
  ultimately show ?thesis using assms by (simp add: unsigned_of_int signed_of_int signed_of_nat)
qed

lemma pack_bits:
  "take_bit 8 (drop_bit 24 (ucast (ERR_PACK l f r) :: u64)) = word_of_int (take_bit 8 l)"
  "take_bit 12 (drop_bit 12 (ucast (ERR_PACK l f r) :: u64)) = word_of_int (take_bit 12 f)"
  "take_bit 12 (ucast (ERR_PACK l f r) :: u64) = word_of_int (take_bit 12 r)"
  by (rule bit_word_eqI; auto simp: ERR_PACK_def and_FF and_FFF bit_simps)+

lemma ERR_GET_PACK:
  "ERR_GET_LIB (ucast (ERR_PACK l f r)) = l mod 256"
  "ERR_GET_FUNC (ucast (ERR_PACK l f r)) = f mod 4096"
  "ERR_GET_REASON (ucast (ERR_PACK l f r)) = r mod 4096"
  unfolding ERR_GET_LIB_def ERR_GET_FUNC_def ERR_GET_REASON_def and_FF and_FFF pack_bits
  by (simp_all only: take_bit_eq_mod) (subst int_of_small; simp)+

text \<open>
  Every \<^verbatim>\<open>XXerr\<close> macro of \<^verbatim>\<open>err.h\<close> reports under the number \<^verbatim>\<open>ERR_LIB_XX\<close> of the library it is
  named after, every library but \<^verbatim>\<open>ERR_LIB_NONE\<close> and \<^verbatim>\<open>ERR_LIB_USER\<close> has one, and no two
  libraries share a number; file and line are passed on exactly without \<^verbatim>\<open>OPENSSL_NO_ERR\<close>.
\<close>

theorem err_macros_name_their_library:
  "map (\<lambda>(macro, lib). (''ERR_LIB_'' @ take (length macro - 3) macro, lib)) err_macros =
     filter (\<lambda>(_, lib). lib \<noteq> ERR_LIB_NONE \<and> lib \<noteq> ERR_LIB_USER) ERR_LIB_codes \<and>
   distinct (map snd ERR_LIB_codes) \<and>
   raise_error no_err (\<lambda>l f r file line. (l, f, r, file, line)) ''SSLerr'' f r file line =
     Some (ERR_LIB_SSL, f, r, if no_err then None else Some file, if no_err then 0 else line)"
proof (intro conjI)
  show "map (\<lambda>(macro, lib). (''ERR_LIB_'' @ take (length macro - 3) macro, lib)) err_macros =
     filter (\<lambda>(_, lib). lib \<noteq> ERR_LIB_NONE \<and> lib \<noteq> ERR_LIB_USER) ERR_LIB_codes"
    by code_simp
  show "distinct (map snd ERR_LIB_codes)" by code_simp
  have "map_of err_macros ''SSLerr'' = Some ERR_LIB_SSL" by code_simp
  then show "raise_error no_err (\<lambda>l f r file line. (l, f, r, file, line)) ''SSLerr'' f r file line =
     Some (ERR_LIB_SSL, f, r, if no_err then None else Some file, if no_err then 0 else line)"
    by (simp add: raise_error_def ERR_PUT_error_def)
qed

end
