(* ===== verification/Ossl_Tables.thy ===== *)
theory Ossl_Tables
  imports Ossl_Err
begin

text \<open>
  The function and reason codes of every library, one group per header
  \<^verbatim>\<open>openssl-1.1/include/openssl/*err.h\<close>. A table has the \<^verbatim>\<open>#define\<close> lines in their order; a list of
  more than 150 lines is split. The codes behind \<^verbatim>\<open>OPENSSL_NO_...\<close> conditionals are included.
\<close>

record err_library =
  err_lib :: int
  err_functions :: code_table
  err_reasons :: code_table

definition ASN1_F_codes :: code_table where
  "ASN1_F_codes = [
    (''ASN1_F_A2D_ASN1_OBJECT'', 100),
    (''ASN1_F_A2I_ASN1_INTEGER'', 102),
    (''ASN1_F_A2I_ASN1_STRING'', 103),
    (''ASN1_F_APPEND_EXP'', 176),
    (''ASN1_F_ASN1_BIO_INIT'', 113),
    (''ASN1_F_ASN1_BIT_STRING_SET_BIT'', 183),
    (''ASN1_F_ASN1_CB'', 177),
    (''ASN1_F_ASN1_CHECK_TLEN'', 104),
    (''ASN1_F_ASN1_COLLECT'', 106),
    (''ASN1_F_ASN1_D2I_EX_PRIMITIVE'', 108),
    (''ASN1_F_ASN1_D2I_FP'', 109),
    (''ASN1_F_ASN1_D2I_READ_BIO'', 107),
    (''ASN1_F_ASN1_DIGEST'', 184),
    (''ASN1_F_ASN1_DO_ADB'', 110),
    (''ASN1_F_ASN1_DO_LOCK'', 233),
    (''ASN1_F_ASN1_DUP'', 111),
    (''ASN1_F_ASN1_ENC_SAVE'', 115),
    (''ASN1_F_ASN1_EX_C2I'', 204),
    (''ASN1_F_ASN1_FIND_END'', 190),
    (''ASN1_F_ASN1_GENERALIZEDTIME_ADJ'', 216),
    (''ASN1_F_ASN1_GENERATE_V3'', 178),
    (''ASN1_F_ASN1_GET_INT64'', 224),
    (''ASN1_F_ASN1_GET_OBJECT'', 114),
    (''ASN1_F_ASN1_GET_UINT64'', 225),
    (''ASN1_F_ASN1_I2D_BIO'', 116),
    (''ASN1_F_ASN1_I2D_FP'', 117),
    (''ASN1_F_ASN1_ITEM_D2I_FP'', 206),
    (''ASN1_F_ASN1_ITEM_DUP'', 191),
    (''ASN1_F_ASN1_ITEM_EMBED_D2I'', 120),
    (''ASN1_F_ASN1_ITEM_EMBED_NEW'', 121),
    (''ASN1_F_ASN1_ITEM_EX_I2D'', 144),
    (''ASN1_F_ASN1_ITEM_FLAGS_I2D'', 118),
    (''ASN1_F_ASN1_ITEM_I2D_BIO'', 192),
    (''ASN1_F_ASN1_ITEM_I2D_FP'', 193),
    (''ASN1_F_ASN1_ITEM_PACK'', 198),
    (''ASN1_F_ASN1_ITEM_SIGN'', 195),
    (''ASN1_F_ASN1_ITEM_SIGN_CTX'', 220),
    (''ASN1_F_ASN1_ITEM_UNPACK'', 199),
    (''ASN1_F_ASN1_ITEM_VERIFY'', 197),
    (''ASN1_F_ASN1_MBSTRING_NCOPY'', 122),
    (''ASN1_F_ASN1_OBJECT_NEW'', 123),
    (''ASN1_F_ASN1_OUTPUT_DATA'', 214),
    (''ASN1_F_ASN1_PCTX_NEW'', 205),
    (''ASN1_F_ASN1_PRIMITIVE_NEW'', 119),
    (''ASN1_F_ASN1_SCTX_NEW'', 221),
    (''ASN1_F_ASN1_SIGN'', 128),
    (''ASN1_F_ASN1_STR2TYPE'', 179),
    (''ASN1_F_ASN1_STRING_GET_INT64'', 227),
    (''ASN1_F_ASN1_STRING_GET_UINT64'', 230),
    (''ASN1_F_ASN1_STRING_SET'', 186),
    (''ASN1_F_ASN1_STRING_TABLE_ADD'', 129),
    (''ASN1_F_ASN1_STRING_TO_BN'', 228),
    (''ASN1_F_ASN1_STRING_TYPE_NEW'', 130),
    (''ASN1_F_ASN1_TEMPLATE_EX_D2I'', 132),
    (''ASN1_F_ASN1_TEMPLATE_NEW'', 133),
    (''ASN1_F_ASN1_TEMPLATE_NOEXP_D2I'', 131),
    (''ASN1_F_ASN1_TIME_ADJ'', 217),
    (''ASN1_F_ASN1_TYPE_GET_INT_OCTETSTRING'', 134),
    (''ASN1_F_ASN1_TYPE_GET_OCTETSTRING'', 135),
    (''ASN1_F_ASN1_UTCTIME_ADJ'', 218),
    (''ASN1_F_ASN1_VERIFY'', 137),
    (''ASN1_F_B64_READ_ASN1'', 209),
    (''ASN1_F_B64_WRITE_ASN1'', 210),
    (''ASN1_F_BIO_NEW_NDEF'', 208),
    (''ASN1_F_BITSTR_CB'', 180),
    (''ASN1_F_BN_TO_ASN1_STRING'', 229),
    (''ASN1_F_C2I_ASN1_BIT_STRING'', 189),
    (''ASN1_F_C2I_ASN1_INTEGER'', 194),
    (''ASN1_F_C2I_ASN1_OBJECT'', 196),
    (''ASN1_F_C2I_IBUF'', 226),
    (''ASN1_F_C2I_UINT64_INT'', 101),
    (''ASN1_F_COLLECT_DATA'', 140),
    (''ASN1_F_D2I_ASN1_OBJECT'', 147),
    (''ASN1_F_D2I_ASN1_UINTEGER'', 150),
    (''ASN1_F_D2I_AUTOPRIVATEKEY'', 207),
    (''ASN1_F_D2I_PRIVATEKEY'', 154),
    (''ASN1_F_D2I_PUBLICKEY'', 155),
    (''ASN1_F_DO_BUF'', 142),
    (''ASN1_F_DO_CREATE'', 124),
    (''ASN1_F_DO_DUMP'', 125),
    (''ASN1_F_DO_TCREATE'', 222),
    (''ASN1_F_I2A_ASN1_OBJECT'', 126),
    (''ASN1_F_I2D_ASN1_BIO_STREAM'', 211),
    (''ASN1_F_I2D_ASN1_OBJECT'', 143),
    (''ASN1_F_I2D_DSA_PUBKEY'', 161),
    (''ASN1_F_I2D_EC_PUBKEY'', 181),
    (''ASN1_F_I2D_PRIVATEKEY'', 163),
    (''ASN1_F_I2D_PUBLICKEY'', 164),
    (''ASN1_F_I2D_RSA_PUBKEY'', 165),
    (''ASN1_F_LONG_C2I'', 166),
    (''ASN1_F_NDEF_PREFIX'', 127),
    (''ASN1_F_NDEF_SUFFIX'', 136),
    (''ASN1_F_OID_MODULE_INIT'', 174),
    (''ASN1_F_PARSE_TAGGING'', 182),
    (''ASN1_F_PKCS5_PBE2_SET_IV'', 167),
    (''ASN1_F_PKCS5_PBE2_SET_SCRYPT'', 231),
    (''ASN1_F_PKCS5_PBE_SET'', 202),
    (''ASN1_F_PKCS5_PBE_SET0_ALGOR'', 215),
    (''ASN1_F_PKCS5_PBKDF2_SET'', 219),
    (''ASN1_F_PKCS5_SCRYPT_SET'', 232),
    (''ASN1_F_SMIME_READ_ASN1'', 212),
    (''ASN1_F_SMIME_TEXT'', 213),
    (''ASN1_F_STABLE_GET'', 138),
    (''ASN1_F_STBL_MODULE_INIT'', 223),
    (''ASN1_F_UINT32_C2I'', 105),
    (''ASN1_F_UINT32_NEW'', 139),
    (''ASN1_F_UINT64_C2I'', 112),
    (''ASN1_F_UINT64_NEW'', 141),
    (''ASN1_F_X509_CRL_ADD0_REVOKED'', 169),
    (''ASN1_F_X509_INFO_NEW'', 170),
    (''ASN1_F_X509_NAME_ENCODE'', 203),
    (''ASN1_F_X509_NAME_EX_D2I'', 158),
    (''ASN1_F_X509_NAME_EX_NEW'', 171),
    (''ASN1_F_X509_PKEY_NEW'', 173)]"

definition ASN1_R_codes :: code_table where
  "ASN1_R_codes = [
    (''ASN1_R_ADDING_OBJECT'', 171),
    (''ASN1_R_ASN1_PARSE_ERROR'', 203),
    (''ASN1_R_ASN1_SIG_PARSE_ERROR'', 204),
    (''ASN1_R_AUX_ERROR'', 100),
    (''ASN1_R_BAD_OBJECT_HEADER'', 102),
    (''ASN1_R_BAD_TEMPLATE'', 230),
    (''ASN1_R_BMPSTRING_IS_WRONG_LENGTH'', 214),
    (''ASN1_R_BN_LIB'', 105),
    (''ASN1_R_BOOLEAN_IS_WRONG_LENGTH'', 106),
    (''ASN1_R_BUFFER_TOO_SMALL'', 107),
    (''ASN1_R_CIPHER_HAS_NO_OBJECT_IDENTIFIER'', 108),
    (''ASN1_R_CONTEXT_NOT_INITIALISED'', 217),
    (''ASN1_R_DATA_IS_WRONG'', 109),
    (''ASN1_R_DECODE_ERROR'', 110),
    (''ASN1_R_DEPTH_EXCEEDED'', 174),
    (''ASN1_R_DIGEST_AND_KEY_TYPE_NOT_SUPPORTED'', 198),
    (''ASN1_R_ENCODE_ERROR'', 112),
    (''ASN1_R_ERROR_GETTING_TIME'', 173),
    (''ASN1_R_ERROR_LOADING_SECTION'', 172),
    (''ASN1_R_ERROR_SETTING_CIPHER_PARAMS'', 114),
    (''ASN1_R_EXPECTING_AN_INTEGER'', 115),
    (''ASN1_R_EXPECTING_AN_OBJECT'', 116),
    (''ASN1_R_EXPLICIT_LENGTH_MISMATCH'', 119),
    (''ASN1_R_EXPLICIT_TAG_NOT_CONSTRUCTED'', 120),
    (''ASN1_R_FIELD_MISSING'', 121),
    (''ASN1_R_FIRST_NUM_TOO_LARGE'', 122),
    (''ASN1_R_HEADER_TOO_LONG'', 123),
    (''ASN1_R_ILLEGAL_BITSTRING_FORMAT'', 175),
    (''ASN1_R_ILLEGAL_BOOLEAN'', 176),
    (''ASN1_R_ILLEGAL_CHARACTERS'', 124),
    (''ASN1_R_ILLEGAL_FORMAT'', 177),
    (''ASN1_R_ILLEGAL_HEX'', 178),
    (''ASN1_R_ILLEGAL_IMPLICIT_TAG'', 179),
    (''ASN1_R_ILLEGAL_INTEGER'', 180),
    (''ASN1_R_ILLEGAL_NEGATIVE_VALUE'', 226),
    (''ASN1_R_ILLEGAL_NESTED_TAGGING'', 181),
    (''ASN1_R_ILLEGAL_NULL'', 125),
    (''ASN1_R_ILLEGAL_NULL_VALUE'', 182),
    (''ASN1_R_ILLEGAL_OBJECT'', 183),
    (''ASN1_R_ILLEGAL_OPTIONAL_ANY'', 126),
    (''ASN1_R_ILLEGAL_OPTIONS_ON_ITEM_TEMPLATE'', 170),
    (''ASN1_R_ILLEGAL_PADDING'', 221),
    (''ASN1_R_ILLEGAL_TAGGED_ANY'', 127),
    (''ASN1_R_ILLEGAL_TIME_VALUE'', 184),
    (''ASN1_R_ILLEGAL_ZERO_CONTENT'', 222),
    (''ASN1_R_INTEGER_NOT_ASCII_FORMAT'', 185),
    (''ASN1_R_INTEGER_TOO_LARGE_FOR_LONG'', 128),
    (''ASN1_R_INVALID_BIT_STRING_BITS_LEFT'', 220),
    (''ASN1_R_INVALID_BMPSTRING_LENGTH'', 129),
    (''ASN1_R_INVALID_DIGIT'', 130),
    (''ASN1_R_INVALID_MIME_TYPE'', 205),
    (''ASN1_R_INVALID_MODIFIER'', 186),
    (''ASN1_R_INVALID_NUMBER'', 187),
    (''ASN1_R_INVALID_OBJECT_ENCODING'', 216),
    (''ASN1_R_INVALID_SCRYPT_PARAMETERS'', 227),
    (''ASN1_R_INVALID_SEPARATOR'', 131),
    (''ASN1_R_INVALID_STRING_TABLE_VALUE'', 218),
    (''ASN1_R_INVALID_UNIVERSALSTRING_LENGTH'', 133),
    (''ASN1_R_INVALID_UTF8STRING'', 134),
    (''ASN1_R_INVALID_VALUE'', 219),
    (''ASN1_R_LIST_ERROR'', 188),
    (''ASN1_R_MIME_NO_CONTENT_TYPE'', 206),
    (''ASN1_R_MIME_PARSE_ERROR'', 207),
    (''ASN1_R_MIME_SIG_PARSE_ERROR'', 208),
    (''ASN1_R_MISSING_EOC'', 137),
    (''ASN1_R_MISSING_SECOND_NUMBER'', 138),
    (''ASN1_R_MISSING_VALUE'', 189),
    (''ASN1_R_MSTRING_NOT_UNIVERSAL'', 139),
    (''ASN1_R_MSTRING_WRONG_TAG'', 140),
    (''ASN1_R_NESTED_ASN1_STRING'', 197),
    (''ASN1_R_NESTED_TOO_DEEP'', 201),
    (''ASN1_R_NON_HEX_CHARACTERS'', 141),
    (''ASN1_R_NOT_ASCII_FORMAT'', 190),
    (''ASN1_R_NOT_ENOUGH_DATA'', 142),
    (''ASN1_R_NO_CONTENT_TYPE'', 209),
    (''ASN1_R_NO_MATCHING_CHOICE_TYPE'', 143),
    (''ASN1_R_NO_MULTIPART_BODY_FAILURE'', 210),
    (''ASN1_R_NO_MULTIPART_BOUNDARY'', 211),
    (''ASN1_R_NO_SIG_CONTENT_TYPE'', 212),
    (''ASN1_R_NULL_IS_WRONG_LENGTH'', 144),
    (''ASN1_R_OBJECT_NOT_ASCII_FORMAT'', 191),
    (''ASN1_R_ODD_NUMBER_OF_CHARS'', 145),
    (''ASN1_R_SECOND_NUMBER_TOO_LARGE'', 147),
    (''ASN1_R_SEQUENCE_LENGTH_MISMATCH'', 148),
    (''ASN1_R_SEQUENCE_NOT_CONSTRUCTED'', 149),
    (''ASN1_R_SEQUENCE_OR_SET_NEEDS_CONFIG'', 192),
    (''ASN1_R_SHORT_LINE'', 150),
    (''ASN1_R_SIG_INVALID_MIME_TYPE'', 213),
    (''ASN1_R_STREAMING_NOT_SUPPORTED'', 202),
    (''ASN1_R_STRING_TOO_LONG'', 151),
    (''ASN1_R_STRING_TOO_SHORT'', 152),
    (''ASN1_R_THE_ASN1_OBJECT_IDENTIFIER_IS_NOT_KNOWN_FOR_THIS_MD'', 154),
    (''ASN1_R_TIME_NOT_ASCII_FORMAT'', 193),
    (''ASN1_R_TOO_LARGE'', 223),
    (''ASN1_R_TOO_LONG'', 155),
    (''ASN1_R_TOO_SMALL'', 224),
    (''ASN1_R_TYPE_NOT_CONSTRUCTED'', 156),
    (''ASN1_R_TYPE_NOT_PRIMITIVE'', 195),
    (''ASN1_R_UNEXPECTED_EOC'', 159),
    (''ASN1_R_UNIVERSALSTRING_IS_WRONG_LENGTH'', 215),
    (''ASN1_R_UNKNOWN_FORMAT'', 160),
    (''ASN1_R_UNKNOWN_MESSAGE_DIGEST_ALGORITHM'', 161),
    (''ASN1_R_UNKNOWN_OBJECT_TYPE'', 162),
    (''ASN1_R_UNKNOWN_PUBLIC_KEY_TYPE'', 163),
    (''ASN1_R_UNKNOWN_SIGNATURE_ALGORITHM'', 199),
    (''ASN1_R_UNKNOWN_TAG'', 194),
    (''ASN1_R_UNSUPPORTED_ANY_DEFINED_BY_TYPE'', 164),
    (''ASN1_R_UNSUPPORTED_CIPHER'', 228),
    (''ASN1_R_UNSUPPORTED_PUBLIC_KEY_TYPE'', 167),
    (''ASN1_R_UNSUPPORTED_TYPE'', 196),
    (''ASN1_R_WRONG_INTEGER_TYPE'', 225),
    (''ASN1_R_WRONG_PUBLIC_KEY_TYPE'', 200),
    (''ASN1_R_WRONG_TAG'', 168)]"

definition ASN1_errors :: err_library where
  "ASN1_errors = \<lparr>err_lib = ERR_LIB_ASN1, err_functions = ASN1_F_codes, err_reasons = ASN1_R_codes\<rparr>"

definition ASYNC_F_codes :: code_table where
  "ASYNC_F_codes = [
    (''ASYNC_F_ASYNC_CTX_NEW'', 100),
    (''ASYNC_F_ASYNC_INIT_THREAD'', 101),
    (''ASYNC_F_ASYNC_JOB_NEW'', 102),
    (''ASYNC_F_ASYNC_PAUSE_JOB'', 103),
    (''ASYNC_F_ASYNC_START_FUNC'', 104),
    (''ASYNC_F_ASYNC_START_JOB'', 105),
    (''ASYNC_F_ASYNC_WAIT_CTX_SET_WAIT_FD'', 106)]"

definition ASYNC_R_codes :: code_table where
  "ASYNC_R_codes = [
    (''ASYNC_R_FAILED_TO_SET_POOL'', 101),
    (''ASYNC_R_FAILED_TO_SWAP_CONTEXT'', 102),
    (''ASYNC_R_INIT_FAILED'', 105),
    (''ASYNC_R_INVALID_POOL_SIZE'', 103)]"

definition ASYNC_errors :: err_library where
  "ASYNC_errors = \<lparr>err_lib = ERR_LIB_ASYNC, err_functions = ASYNC_F_codes, err_reasons = ASYNC_R_codes\<rparr>"

definition BIO_F_codes :: code_table where
  "BIO_F_codes = [
    (''BIO_F_ACPT_STATE'', 100),
    (''BIO_F_ADDRINFO_WRAP'', 148),
    (''BIO_F_ADDR_STRINGS'', 134),
    (''BIO_F_BIO_ACCEPT'', 101),
    (''BIO_F_BIO_ACCEPT_EX'', 137),
    (''BIO_F_BIO_ACCEPT_NEW'', 152),
    (''BIO_F_BIO_ADDR_NEW'', 144),
    (''BIO_F_BIO_BIND'', 147),
    (''BIO_F_BIO_CALLBACK_CTRL'', 131),
    (''BIO_F_BIO_CONNECT'', 138),
    (''BIO_F_BIO_CONNECT_NEW'', 153),
    (''BIO_F_BIO_CTRL'', 103),
    (''BIO_F_BIO_GETS'', 104),
    (''BIO_F_BIO_GET_HOST_IP'', 106),
    (''BIO_F_BIO_GET_NEW_INDEX'', 102),
    (''BIO_F_BIO_GET_PORT'', 107),
    (''BIO_F_BIO_LISTEN'', 139),
    (''BIO_F_BIO_LOOKUP'', 135),
    (''BIO_F_BIO_LOOKUP_EX'', 143),
    (''BIO_F_BIO_MAKE_PAIR'', 121),
    (''BIO_F_BIO_METH_NEW'', 146),
    (''BIO_F_BIO_NEW'', 108),
    (''BIO_F_BIO_NEW_DGRAM_SCTP'', 145),
    (''BIO_F_BIO_NEW_FILE'', 109),
    (''BIO_F_BIO_NEW_MEM_BUF'', 126),
    (''BIO_F_BIO_NREAD'', 123),
    (''BIO_F_BIO_NREAD0'', 124),
    (''BIO_F_BIO_NWRITE'', 125),
    (''BIO_F_BIO_NWRITE0'', 122),
    (''BIO_F_BIO_PARSE_HOSTSERV'', 136),
    (''BIO_F_BIO_PUTS'', 110),
    (''BIO_F_BIO_READ'', 111),
    (''BIO_F_BIO_READ_EX'', 105),
    (''BIO_F_BIO_READ_INTERN'', 120),
    (''BIO_F_BIO_SOCKET'', 140),
    (''BIO_F_BIO_SOCKET_NBIO'', 142),
    (''BIO_F_BIO_SOCK_INFO'', 141),
    (''BIO_F_BIO_SOCK_INIT'', 112),
    (''BIO_F_BIO_WRITE'', 113),
    (''BIO_F_BIO_WRITE_EX'', 119),
    (''BIO_F_BIO_WRITE_INTERN'', 128),
    (''BIO_F_BUFFER_CTRL'', 114),
    (''BIO_F_CONN_CTRL'', 127),
    (''BIO_F_CONN_STATE'', 115),
    (''BIO_F_DGRAM_SCTP_NEW'', 149),
    (''BIO_F_DGRAM_SCTP_READ'', 132),
    (''BIO_F_DGRAM_SCTP_WRITE'', 133),
    (''BIO_F_DOAPR_OUTCH'', 150),
    (''BIO_F_FILE_CTRL'', 116),
    (''BIO_F_FILE_READ'', 130),
    (''BIO_F_LINEBUFFER_CTRL'', 129),
    (''BIO_F_LINEBUFFER_NEW'', 151),
    (''BIO_F_MEM_WRITE'', 117),
    (''BIO_F_NBIOF_NEW'', 154),
    (''BIO_F_SLG_WRITE'', 155),
    (''BIO_F_SSL_NEW'', 118)]"

definition BIO_R_codes :: code_table where
  "BIO_R_codes = [
    (''BIO_R_ACCEPT_ERROR'', 100),
    (''BIO_R_ADDRINFO_ADDR_IS_NOT_AF_INET'', 141),
    (''BIO_R_AMBIGUOUS_HOST_OR_SERVICE'', 129),
    (''BIO_R_BAD_FOPEN_MODE'', 101),
    (''BIO_R_BROKEN_PIPE'', 124),
    (''BIO_R_CONNECT_ERROR'', 103),
    (''BIO_R_GETHOSTBYNAME_ADDR_IS_NOT_AF_INET'', 107),
    (''BIO_R_GETSOCKNAME_ERROR'', 132),
    (''BIO_R_GETSOCKNAME_TRUNCATED_ADDRESS'', 133),
    (''BIO_R_GETTING_SOCKTYPE'', 134),
    (''BIO_R_INVALID_ARGUMENT'', 125),
    (''BIO_R_INVALID_SOCKET'', 135),
    (''BIO_R_IN_USE'', 123),
    (''BIO_R_LENGTH_TOO_LONG'', 102),
    (''BIO_R_LISTEN_V6_ONLY'', 136),
    (''BIO_R_LOOKUP_RETURNED_NOTHING'', 142),
    (''BIO_R_MALFORMED_HOST_OR_SERVICE'', 130),
    (''BIO_R_NBIO_CONNECT_ERROR'', 110),
    (''BIO_R_NO_ACCEPT_ADDR_OR_SERVICE_SPECIFIED'', 143),
    (''BIO_R_NO_HOSTNAME_OR_SERVICE_SPECIFIED'', 144),
    (''BIO_R_NO_PORT_DEFINED'', 113),
    (''BIO_R_NO_SUCH_FILE'', 128),
    (''BIO_R_NULL_PARAMETER'', 115),
    (''BIO_R_UNABLE_TO_BIND_SOCKET'', 117),
    (''BIO_R_UNABLE_TO_CREATE_SOCKET'', 118),
    (''BIO_R_UNABLE_TO_KEEPALIVE'', 137),
    (''BIO_R_UNABLE_TO_LISTEN_SOCKET'', 119),
    (''BIO_R_UNABLE_TO_NODELAY'', 138),
    (''BIO_R_UNABLE_TO_REUSEADDR'', 139),
    (''BIO_R_UNAVAILABLE_IP_FAMILY'', 145),
    (''BIO_R_UNINITIALIZED'', 120),
    (''BIO_R_UNKNOWN_INFO_TYPE'', 140),
    (''BIO_R_UNSUPPORTED_IP_FAMILY'', 146),
    (''BIO_R_UNSUPPORTED_METHOD'', 121),
    (''BIO_R_UNSUPPORTED_PROTOCOL_FAMILY'', 131),
    (''BIO_R_WRITE_TO_READ_ONLY_BIO'', 126),
    (''BIO_R_WSASTARTUP'', 122)]"

definition BIO_errors :: err_library where
  "BIO_errors = \<lparr>err_lib = ERR_LIB_BIO, err_functions = BIO_F_codes, err_reasons = BIO_R_codes\<rparr>"

definition BN_F_codes :: code_table where
  "BN_F_codes = [
    (''BN_F_BNRAND'', 127),
    (''BN_F_BNRAND_RANGE'', 138),
    (''BN_F_BN_BLINDING_CONVERT_EX'', 100),
    (''BN_F_BN_BLINDING_CREATE_PARAM'', 128),
    (''BN_F_BN_BLINDING_INVERT_EX'', 101),
    (''BN_F_BN_BLINDING_NEW'', 102),
    (''BN_F_BN_BLINDING_UPDATE'', 103),
    (''BN_F_BN_BN2DEC'', 104),
    (''BN_F_BN_BN2HEX'', 105),
    (''BN_F_BN_COMPUTE_WNAF'', 142),
    (''BN_F_BN_CTX_GET'', 116),
    (''BN_F_BN_CTX_NEW'', 106),
    (''BN_F_BN_CTX_START'', 129),
    (''BN_F_BN_DIV'', 107),
    (''BN_F_BN_DIV_RECP'', 130),
    (''BN_F_BN_EXP'', 123),
    (''BN_F_BN_EXPAND_INTERNAL'', 120),
    (''BN_F_BN_GENCB_NEW'', 143),
    (''BN_F_BN_GENERATE_DSA_NONCE'', 140),
    (''BN_F_BN_GENERATE_PRIME_EX'', 141),
    (''BN_F_BN_GF2M_MOD'', 131),
    (''BN_F_BN_GF2M_MOD_EXP'', 132),
    (''BN_F_BN_GF2M_MOD_MUL'', 133),
    (''BN_F_BN_GF2M_MOD_SOLVE_QUAD'', 134),
    (''BN_F_BN_GF2M_MOD_SOLVE_QUAD_ARR'', 135),
    (''BN_F_BN_GF2M_MOD_SQR'', 136),
    (''BN_F_BN_GF2M_MOD_SQRT'', 137),
    (''BN_F_BN_LSHIFT'', 145),
    (''BN_F_BN_MOD_EXP2_MONT'', 118),
    (''BN_F_BN_MOD_EXP_MONT'', 109),
    (''BN_F_BN_MOD_EXP_MONT_CONSTTIME'', 124),
    (''BN_F_BN_MOD_EXP_MONT_WORD'', 117),
    (''BN_F_BN_MOD_EXP_RECP'', 125),
    (''BN_F_BN_MOD_EXP_SIMPLE'', 126),
    (''BN_F_BN_MOD_INVERSE'', 110),
    (''BN_F_BN_MOD_INVERSE_NO_BRANCH'', 139),
    (''BN_F_BN_MOD_LSHIFT_QUICK'', 119),
    (''BN_F_BN_MOD_SQRT'', 121),
    (''BN_F_BN_MONT_CTX_NEW'', 149),
    (''BN_F_BN_MPI2BN'', 112),
    (''BN_F_BN_NEW'', 113),
    (''BN_F_BN_POOL_GET'', 147),
    (''BN_F_BN_RAND'', 114),
    (''BN_F_BN_RAND_RANGE'', 122),
    (''BN_F_BN_RECP_CTX_NEW'', 150),
    (''BN_F_BN_RSHIFT'', 146),
    (''BN_F_BN_SET_WORDS'', 144),
    (''BN_F_BN_STACK_PUSH'', 148),
    (''BN_F_BN_USUB'', 115),
    (''BN_F_OSSL_BN_RSA_DO_UNBLIND'', 151)]"

definition BN_R_codes :: code_table where
  "BN_R_codes = [
    (''BN_R_ARG2_LT_ARG3'', 100),
    (''BN_R_BAD_RECIPROCAL'', 101),
    (''BN_R_BIGNUM_TOO_LONG'', 114),
    (''BN_R_BITS_TOO_SMALL'', 118),
    (''BN_R_CALLED_WITH_EVEN_MODULUS'', 102),
    (''BN_R_DIV_BY_ZERO'', 103),
    (''BN_R_ENCODING_ERROR'', 104),
    (''BN_R_EXPAND_ON_STATIC_BIGNUM_DATA'', 105),
    (''BN_R_INPUT_NOT_REDUCED'', 110),
    (''BN_R_INVALID_LENGTH'', 106),
    (''BN_R_INVALID_RANGE'', 115),
    (''BN_R_INVALID_SHIFT'', 119),
    (''BN_R_NOT_A_SQUARE'', 111),
    (''BN_R_NOT_INITIALIZED'', 107),
    (''BN_R_NO_INVERSE'', 108),
    (''BN_R_NO_SOLUTION'', 116),
    (''BN_R_PRIVATE_KEY_TOO_LARGE'', 117),
    (''BN_R_P_IS_NOT_PRIME'', 112),
    (''BN_R_TOO_MANY_ITERATIONS'', 113),
    (''BN_R_TOO_MANY_TEMPORARY_VARIABLES'', 109)]"

definition BN_errors :: err_library where
  "BN_errors = \<lparr>err_lib = ERR_LIB_BN, err_functions = BN_F_codes, err_reasons = BN_R_codes\<rparr>"

definition BUF_F_codes :: code_table where
  "BUF_F_codes = [
    (''BUF_F_BUF_MEM_GROW'', 100),
    (''BUF_F_BUF_MEM_GROW_CLEAN'', 105),
    (''BUF_F_BUF_MEM_NEW'', 101)]"

definition BUF_errors :: err_library where
  "BUF_errors = \<lparr>err_lib = ERR_LIB_BUF, err_functions = BUF_F_codes, err_reasons = []\<rparr>"

definition CMS_F_codes :: code_table where
  "CMS_F_codes = [
    (''CMS_F_CHECK_CONTENT'', 99),
    (''CMS_F_CMS_ADD0_CERT'', 164),
    (''CMS_F_CMS_ADD0_RECIPIENT_KEY'', 100),
    (''CMS_F_CMS_ADD0_RECIPIENT_PASSWORD'', 165),
    (''CMS_F_CMS_ADD1_RECEIPTREQUEST'', 158),
    (''CMS_F_CMS_ADD1_RECIPIENT_CERT'', 101),
    (''CMS_F_CMS_ADD1_SIGNER'', 102),
    (''CMS_F_CMS_ADD1_SIGNINGTIME'', 103),
    (''CMS_F_CMS_COMPRESS'', 104),
    (''CMS_F_CMS_COMPRESSEDDATA_CREATE'', 105),
    (''CMS_F_CMS_COMPRESSEDDATA_INIT_BIO'', 106),
    (''CMS_F_CMS_COPY_CONTENT'', 107),
    (''CMS_F_CMS_COPY_MESSAGEDIGEST'', 108),
    (''CMS_F_CMS_DATA'', 109),
    (''CMS_F_CMS_DATAFINAL'', 110),
    (''CMS_F_CMS_DATAINIT'', 111),
    (''CMS_F_CMS_DECRYPT'', 112),
    (''CMS_F_CMS_DECRYPT_SET1_KEY'', 113),
    (''CMS_F_CMS_DECRYPT_SET1_PASSWORD'', 166),
    (''CMS_F_CMS_DECRYPT_SET1_PKEY'', 114),
    (''CMS_F_CMS_DIGESTALGORITHM_FIND_CTX'', 115),
    (''CMS_F_CMS_DIGESTALGORITHM_INIT_BIO'', 116),
    (''CMS_F_CMS_DIGESTEDDATA_DO_FINAL'', 117),
    (''CMS_F_CMS_DIGEST_VERIFY'', 118),
    (''CMS_F_CMS_ENCODE_RECEIPT'', 161),
    (''CMS_F_CMS_ENCRYPT'', 119),
    (''CMS_F_CMS_ENCRYPTEDCONTENT_INIT'', 179),
    (''CMS_F_CMS_ENCRYPTEDCONTENT_INIT_BIO'', 120),
    (''CMS_F_CMS_ENCRYPTEDDATA_DECRYPT'', 121),
    (''CMS_F_CMS_ENCRYPTEDDATA_ENCRYPT'', 122),
    (''CMS_F_CMS_ENCRYPTEDDATA_SET1_KEY'', 123),
    (''CMS_F_CMS_ENVELOPEDDATA_CREATE'', 124),
    (''CMS_F_CMS_ENVELOPEDDATA_INIT_BIO'', 125),
    (''CMS_F_CMS_ENVELOPED_DATA_INIT'', 126),
    (''CMS_F_CMS_ENV_ASN1_CTRL'', 171),
    (''CMS_F_CMS_FINAL'', 127),
    (''CMS_F_CMS_GET0_CERTIFICATE_CHOICES'', 128),
    (''CMS_F_CMS_GET0_CONTENT'', 129),
    (''CMS_F_CMS_GET0_ECONTENT_TYPE'', 130),
    (''CMS_F_CMS_GET0_ENVELOPED'', 131),
    (''CMS_F_CMS_GET0_REVOCATION_CHOICES'', 132),
    (''CMS_F_CMS_GET0_SIGNED'', 133),
    (''CMS_F_CMS_MSGSIGDIGEST_ADD1'', 162),
    (''CMS_F_CMS_RECEIPTREQUEST_CREATE0'', 159),
    (''CMS_F_CMS_RECEIPT_VERIFY'', 160),
    (''CMS_F_CMS_RECIPIENTINFO_DECRYPT'', 134),
    (''CMS_F_CMS_RECIPIENTINFO_ENCRYPT'', 169),
    (''CMS_F_CMS_RECIPIENTINFO_KARI_ENCRYPT'', 178),
    (''CMS_F_CMS_RECIPIENTINFO_KARI_GET0_ALG'', 175),
    (''CMS_F_CMS_RECIPIENTINFO_KARI_GET0_ORIG_ID'', 173),
    (''CMS_F_CMS_RECIPIENTINFO_KARI_GET0_REKS'', 172),
    (''CMS_F_CMS_RECIPIENTINFO_KARI_ORIG_ID_CMP'', 174),
    (''CMS_F_CMS_RECIPIENTINFO_KEKRI_DECRYPT'', 135),
    (''CMS_F_CMS_RECIPIENTINFO_KEKRI_ENCRYPT'', 136),
    (''CMS_F_CMS_RECIPIENTINFO_KEKRI_GET0_ID'', 137),
    (''CMS_F_CMS_RECIPIENTINFO_KEKRI_ID_CMP'', 138),
    (''CMS_F_CMS_RECIPIENTINFO_KTRI_CERT_CMP'', 139),
    (''CMS_F_CMS_RECIPIENTINFO_KTRI_DECRYPT'', 140),
    (''CMS_F_CMS_RECIPIENTINFO_KTRI_ENCRYPT'', 141),
    (''CMS_F_CMS_RECIPIENTINFO_KTRI_GET0_ALGS'', 142),
    (''CMS_F_CMS_RECIPIENTINFO_KTRI_GET0_SIGNER_ID'', 143),
    (''CMS_F_CMS_RECIPIENTINFO_PWRI_CRYPT'', 167),
    (''CMS_F_CMS_RECIPIENTINFO_SET0_KEY'', 144),
    (''CMS_F_CMS_RECIPIENTINFO_SET0_PASSWORD'', 168),
    (''CMS_F_CMS_RECIPIENTINFO_SET0_PKEY'', 145),
    (''CMS_F_CMS_SD_ASN1_CTRL'', 170),
    (''CMS_F_CMS_SET1_IAS'', 176),
    (''CMS_F_CMS_SET1_KEYID'', 177),
    (''CMS_F_CMS_SET1_SIGNERIDENTIFIER'', 146),
    (''CMS_F_CMS_SET_DETACHED'', 147),
    (''CMS_F_CMS_SIGN'', 148),
    (''CMS_F_CMS_SIGNED_DATA_INIT'', 149),
    (''CMS_F_CMS_SIGNERINFO_CONTENT_SIGN'', 150),
    (''CMS_F_CMS_SIGNERINFO_SIGN'', 151),
    (''CMS_F_CMS_SIGNERINFO_VERIFY'', 152),
    (''CMS_F_CMS_SIGNERINFO_VERIFY_CERT'', 153),
    (''CMS_F_CMS_SIGNERINFO_VERIFY_CONTENT'', 154),
    (''CMS_F_CMS_SIGN_RECEIPT'', 163),
    (''CMS_F_CMS_SI_CHECK_ATTRIBUTES'', 183),
    (''CMS_F_CMS_STREAM'', 155),
    (''CMS_F_CMS_UNCOMPRESS'', 156),
    (''CMS_F_CMS_VERIFY'', 157),
    (''CMS_F_KEK_UNWRAP_KEY'', 180)]"

definition CMS_R_codes :: code_table where
  "CMS_R_codes = [
    (''CMS_R_ADD_SIGNER_ERROR'', 99),
    (''CMS_R_ATTRIBUTE_ERROR'', 161),
    (''CMS_R_CERTIFICATE_ALREADY_PRESENT'', 175),
    (''CMS_R_CERTIFICATE_HAS_NO_KEYID'', 160),
    (''CMS_R_CERTIFICATE_VERIFY_ERROR'', 100),
    (''CMS_R_CIPHER_INITIALISATION_ERROR'', 101),
    (''CMS_R_CIPHER_PARAMETER_INITIALISATION_ERROR'', 102),
    (''CMS_R_CMS_DATAFINAL_ERROR'', 103),
    (''CMS_R_CMS_LIB'', 104),
    (''CMS_R_CONTENTIDENTIFIER_MISMATCH'', 170),
    (''CMS_R_CONTENT_NOT_FOUND'', 105),
    (''CMS_R_CONTENT_TYPE_MISMATCH'', 171),
    (''CMS_R_CONTENT_TYPE_NOT_COMPRESSED_DATA'', 106),
    (''CMS_R_CONTENT_TYPE_NOT_ENVELOPED_DATA'', 107),
    (''CMS_R_CONTENT_TYPE_NOT_SIGNED_DATA'', 108),
    (''CMS_R_CONTENT_VERIFY_ERROR'', 109),
    (''CMS_R_CTRL_ERROR'', 110),
    (''CMS_R_CTRL_FAILURE'', 111),
    (''CMS_R_DECRYPT_ERROR'', 112),
    (''CMS_R_ERROR_GETTING_PUBLIC_KEY'', 113),
    (''CMS_R_ERROR_READING_MESSAGEDIGEST_ATTRIBUTE'', 114),
    (''CMS_R_ERROR_SETTING_KEY'', 115),
    (''CMS_R_ERROR_SETTING_RECIPIENTINFO'', 116),
    (''CMS_R_INVALID_ENCRYPTED_KEY_LENGTH'', 117),
    (''CMS_R_INVALID_KEY_ENCRYPTION_PARAMETER'', 176),
    (''CMS_R_INVALID_KEY_LENGTH'', 118),
    (''CMS_R_MD_BIO_INIT_ERROR'', 119),
    (''CMS_R_MESSAGEDIGEST_ATTRIBUTE_WRONG_LENGTH'', 120),
    (''CMS_R_MESSAGEDIGEST_WRONG_LENGTH'', 121),
    (''CMS_R_MSGSIGDIGEST_ERROR'', 172),
    (''CMS_R_MSGSIGDIGEST_VERIFICATION_FAILURE'', 162),
    (''CMS_R_MSGSIGDIGEST_WRONG_LENGTH'', 163),
    (''CMS_R_NEED_ONE_SIGNER'', 164),
    (''CMS_R_NOT_A_SIGNED_RECEIPT'', 165),
    (''CMS_R_NOT_ENCRYPTED_DATA'', 122),
    (''CMS_R_NOT_KEK'', 123),
    (''CMS_R_NOT_KEY_AGREEMENT'', 181),
    (''CMS_R_NOT_KEY_TRANSPORT'', 124),
    (''CMS_R_NOT_PWRI'', 177),
    (''CMS_R_NOT_SUPPORTED_FOR_THIS_KEY_TYPE'', 125),
    (''CMS_R_NO_CIPHER'', 126),
    (''CMS_R_NO_CONTENT'', 127),
    (''CMS_R_NO_CONTENT_TYPE'', 173),
    (''CMS_R_NO_DEFAULT_DIGEST'', 128),
    (''CMS_R_NO_DIGEST_SET'', 129),
    (''CMS_R_NO_KEY'', 130),
    (''CMS_R_NO_KEY_OR_CERT'', 174),
    (''CMS_R_NO_MATCHING_DIGEST'', 131),
    (''CMS_R_NO_MATCHING_RECIPIENT'', 132),
    (''CMS_R_NO_MATCHING_SIGNATURE'', 166),
    (''CMS_R_NO_MSGSIGDIGEST'', 167),
    (''CMS_R_NO_PASSWORD'', 178),
    (''CMS_R_NO_PRIVATE_KEY'', 133),
    (''CMS_R_NO_PUBLIC_KEY'', 134),
    (''CMS_R_NO_RECEIPT_REQUEST'', 168),
    (''CMS_R_NO_SIGNERS'', 135),
    (''CMS_R_PRIVATE_KEY_DOES_NOT_MATCH_CERTIFICATE'', 136),
    (''CMS_R_RECEIPT_DECODE_ERROR'', 169),
    (''CMS_R_RECIPIENT_ERROR'', 137),
    (''CMS_R_SIGNER_CERTIFICATE_NOT_FOUND'', 138),
    (''CMS_R_SIGNFINAL_ERROR'', 139),
    (''CMS_R_SMIME_TEXT_ERROR'', 140),
    (''CMS_R_STORE_INIT_ERROR'', 141),
    (''CMS_R_TYPE_NOT_COMPRESSED_DATA'', 142),
    (''CMS_R_TYPE_NOT_DATA'', 143),
    (''CMS_R_TYPE_NOT_DIGESTED_DATA'', 144),
    (''CMS_R_TYPE_NOT_ENCRYPTED_DATA'', 145),
    (''CMS_R_TYPE_NOT_ENVELOPED_DATA'', 146),
    (''CMS_R_UNABLE_TO_FINALIZE_CONTEXT'', 147),
    (''CMS_R_UNKNOWN_CIPHER'', 148),
    (''CMS_R_UNKNOWN_DIGEST_ALGORITHM'', 149),
    (''CMS_R_UNKNOWN_ID'', 150),
    (''CMS_R_UNSUPPORTED_COMPRESSION_ALGORITHM'', 151),
    (''CMS_R_UNSUPPORTED_CONTENT_ENCRYPTION_ALGORITHM'', 194),
    (''CMS_R_UNSUPPORTED_CONTENT_TYPE'', 152),
    (''CMS_R_UNSUPPORTED_KEK_ALGORITHM'', 153),
    (''CMS_R_UNSUPPORTED_KEY_ENCRYPTION_ALGORITHM'', 179),
    (''CMS_R_UNSUPPORTED_RECIPIENTINFO_TYPE'', 155),
    (''CMS_R_UNSUPPORTED_RECIPIENT_TYPE'', 154),
    (''CMS_R_UNSUPPORTED_TYPE'', 156),
    (''CMS_R_UNWRAP_ERROR'', 157),
    (''CMS_R_UNWRAP_FAILURE'', 180),
    (''CMS_R_VERIFICATION_FAILURE'', 158),
    (''CMS_R_WRAP_ERROR'', 159)]"

definition CMS_errors :: err_library where
  "CMS_errors = \<lparr>err_lib = ERR_LIB_CMS, err_functions = CMS_F_codes, err_reasons = CMS_R_codes\<rparr>"

definition COMP_F_codes :: code_table where
  "COMP_F_codes = [
    (''COMP_F_BIO_ZLIB_FLUSH'', 99),
    (''COMP_F_BIO_ZLIB_NEW'', 100),
    (''COMP_F_BIO_ZLIB_READ'', 101),
    (''COMP_F_BIO_ZLIB_WRITE'', 102),
    (''COMP_F_COMP_CTX_NEW'', 103)]"

definition COMP_R_codes :: code_table where
  "COMP_R_codes = [
    (''COMP_R_ZLIB_DEFLATE_ERROR'', 99),
    (''COMP_R_ZLIB_INFLATE_ERROR'', 100),
    (''COMP_R_ZLIB_NOT_SUPPORTED'', 101)]"

definition COMP_errors :: err_library where
  "COMP_errors = \<lparr>err_lib = ERR_LIB_COMP, err_functions = COMP_F_codes, err_reasons = COMP_R_codes\<rparr>"

definition CONF_F_codes :: code_table where
  "CONF_F_codes = [
    (''CONF_F_CONF_DUMP_FP'', 104),
    (''CONF_F_CONF_LOAD'', 100),
    (''CONF_F_CONF_LOAD_FP'', 103),
    (''CONF_F_CONF_PARSE_LIST'', 119),
    (''CONF_F_DEF_LOAD'', 120),
    (''CONF_F_DEF_LOAD_BIO'', 121),
    (''CONF_F_GET_NEXT_FILE'', 107),
    (''CONF_F_MODULE_ADD'', 122),
    (''CONF_F_MODULE_INIT'', 115),
    (''CONF_F_MODULE_LOAD_DSO'', 117),
    (''CONF_F_MODULE_RUN'', 118),
    (''CONF_F_NCONF_DUMP_BIO'', 105),
    (''CONF_F_NCONF_DUMP_FP'', 106),
    (''CONF_F_NCONF_GET_NUMBER_E'', 112),
    (''CONF_F_NCONF_GET_SECTION'', 108),
    (''CONF_F_NCONF_GET_STRING'', 109),
    (''CONF_F_NCONF_LOAD'', 113),
    (''CONF_F_NCONF_LOAD_BIO'', 110),
    (''CONF_F_NCONF_LOAD_FP'', 114),
    (''CONF_F_NCONF_NEW'', 111),
    (''CONF_F_PROCESS_INCLUDE'', 116),
    (''CONF_F_SSL_MODULE_INIT'', 123),
    (''CONF_F_STR_COPY'', 101)]"

definition CONF_R_codes :: code_table where
  "CONF_R_codes = [
    (''CONF_R_ERROR_LOADING_DSO'', 110),
    (''CONF_R_LIST_CANNOT_BE_NULL'', 115),
    (''CONF_R_MISSING_CLOSE_SQUARE_BRACKET'', 100),
    (''CONF_R_MISSING_EQUAL_SIGN'', 101),
    (''CONF_R_MISSING_INIT_FUNCTION'', 112),
    (''CONF_R_MODULE_INITIALIZATION_ERROR'', 109),
    (''CONF_R_NO_CLOSE_BRACE'', 102),
    (''CONF_R_NO_CONF'', 105),
    (''CONF_R_NO_CONF_OR_ENVIRONMENT_VARIABLE'', 106),
    (''CONF_R_NO_SECTION'', 107),
    (''CONF_R_NO_SUCH_FILE'', 114),
    (''CONF_R_NO_VALUE'', 108),
    (''CONF_R_NUMBER_TOO_LARGE'', 121),
    (''CONF_R_RECURSIVE_DIRECTORY_INCLUDE'', 111),
    (''CONF_R_SSL_COMMAND_SECTION_EMPTY'', 117),
    (''CONF_R_SSL_COMMAND_SECTION_NOT_FOUND'', 118),
    (''CONF_R_SSL_SECTION_EMPTY'', 119),
    (''CONF_R_SSL_SECTION_NOT_FOUND'', 120),
    (''CONF_R_UNABLE_TO_CREATE_NEW_SECTION'', 103),
    (''CONF_R_UNKNOWN_MODULE_NAME'', 113),
    (''CONF_R_VARIABLE_EXPANSION_TOO_LONG'', 116),
    (''CONF_R_VARIABLE_HAS_NO_VALUE'', 104)]"

definition CONF_errors :: err_library where
  "CONF_errors = \<lparr>err_lib = ERR_LIB_CONF, err_functions = CONF_F_codes, err_reasons = CONF_R_codes\<rparr>"

definition CRYPTO_F_codes :: code_table where
  "CRYPTO_F_codes = [
    (''CRYPTO_F_CMAC_CTX_NEW'', 120),
    (''CRYPTO_F_CRYPTO_DUP_EX_DATA'', 110),
    (''CRYPTO_F_CRYPTO_FREE_EX_DATA'', 111),
    (''CRYPTO_F_CRYPTO_GET_EX_NEW_INDEX'', 100),
    (''CRYPTO_F_CRYPTO_MEMDUP'', 115),
    (''CRYPTO_F_CRYPTO_NEW_EX_DATA'', 112),
    (''CRYPTO_F_CRYPTO_OCB128_COPY_CTX'', 121),
    (''CRYPTO_F_CRYPTO_OCB128_INIT'', 122),
    (''CRYPTO_F_CRYPTO_SET_EX_DATA'', 102),
    (''CRYPTO_F_FIPS_MODE_SET'', 109),
    (''CRYPTO_F_GET_AND_LOCK'', 113),
    (''CRYPTO_F_OPENSSL_ATEXIT'', 114),
    (''CRYPTO_F_OPENSSL_BUF2HEXSTR'', 117),
    (''CRYPTO_F_OPENSSL_FOPEN'', 119),
    (''CRYPTO_F_OPENSSL_HEXSTR2BUF'', 118),
    (''CRYPTO_F_OPENSSL_INIT_CRYPTO'', 116),
    (''CRYPTO_F_OPENSSL_LH_NEW'', 126),
    (''CRYPTO_F_OPENSSL_SK_DEEP_COPY'', 127),
    (''CRYPTO_F_OPENSSL_SK_DUP'', 128),
    (''CRYPTO_F_PKEY_HMAC_INIT'', 123),
    (''CRYPTO_F_PKEY_POLY1305_INIT'', 124),
    (''CRYPTO_F_PKEY_SIPHASH_INIT'', 125),
    (''CRYPTO_F_SK_RESERVE'', 129)]"

definition CRYPTO_R_codes :: code_table where
  "CRYPTO_R_codes = [
    (''CRYPTO_R_FIPS_MODE_NOT_SUPPORTED'', 101),
    (''CRYPTO_R_ILLEGAL_HEX_DIGIT'', 102),
    (''CRYPTO_R_ODD_NUMBER_OF_DIGITS'', 103)]"

definition CRYPTO_errors :: err_library where
  "CRYPTO_errors = \<lparr>err_lib = ERR_LIB_CRYPTO, err_functions = CRYPTO_F_codes, err_reasons = CRYPTO_R_codes\<rparr>"

definition CT_F_codes :: code_table where
  "CT_F_codes = [
    (''CT_F_CTLOG_NEW'', 117),
    (''CT_F_CTLOG_NEW_FROM_BASE64'', 118),
    (''CT_F_CTLOG_NEW_FROM_CONF'', 119),
    (''CT_F_CTLOG_STORE_LOAD_CTX_NEW'', 122),
    (''CT_F_CTLOG_STORE_LOAD_FILE'', 123),
    (''CT_F_CTLOG_STORE_LOAD_LOG'', 130),
    (''CT_F_CTLOG_STORE_NEW'', 131),
    (''CT_F_CT_BASE64_DECODE'', 124),
    (''CT_F_CT_POLICY_EVAL_CTX_NEW'', 133),
    (''CT_F_CT_V1_LOG_ID_FROM_PKEY'', 125),
    (''CT_F_I2O_SCT'', 107),
    (''CT_F_I2O_SCT_LIST'', 108),
    (''CT_F_I2O_SCT_SIGNATURE'', 109),
    (''CT_F_O2I_SCT'', 110),
    (''CT_F_O2I_SCT_LIST'', 111),
    (''CT_F_O2I_SCT_SIGNATURE'', 112),
    (''CT_F_SCT_CTX_NEW'', 126),
    (''CT_F_SCT_CTX_VERIFY'', 128),
    (''CT_F_SCT_NEW'', 100),
    (''CT_F_SCT_NEW_FROM_BASE64'', 127),
    (''CT_F_SCT_SET0_LOG_ID'', 101),
    (''CT_F_SCT_SET1_EXTENSIONS'', 114),
    (''CT_F_SCT_SET1_LOG_ID'', 115),
    (''CT_F_SCT_SET1_SIGNATURE'', 116),
    (''CT_F_SCT_SET_LOG_ENTRY_TYPE'', 102),
    (''CT_F_SCT_SET_SIGNATURE_NID'', 103),
    (''CT_F_SCT_SET_VERSION'', 104)]"

definition CT_R_codes :: code_table where
  "CT_R_codes = [
    (''CT_R_BASE64_DECODE_ERROR'', 108),
    (''CT_R_INVALID_LOG_ID_LENGTH'', 100),
    (''CT_R_LOG_CONF_INVALID'', 109),
    (''CT_R_LOG_CONF_INVALID_KEY'', 110),
    (''CT_R_LOG_CONF_MISSING_DESCRIPTION'', 111),
    (''CT_R_LOG_CONF_MISSING_KEY'', 112),
    (''CT_R_LOG_KEY_INVALID'', 113),
    (''CT_R_SCT_FUTURE_TIMESTAMP'', 116),
    (''CT_R_SCT_INVALID'', 104),
    (''CT_R_SCT_INVALID_SIGNATURE'', 107),
    (''CT_R_SCT_LIST_INVALID'', 105),
    (''CT_R_SCT_LOG_ID_MISMATCH'', 114),
    (''CT_R_SCT_NOT_SET'', 106),
    (''CT_R_SCT_UNSUPPORTED_VERSION'', 115),
    (''CT_R_UNRECOGNIZED_SIGNATURE_NID'', 101),
    (''CT_R_UNSUPPORTED_ENTRY_TYPE'', 102),
    (''CT_R_UNSUPPORTED_VERSION'', 103)]"

definition CT_errors :: err_library where
  "CT_errors = \<lparr>err_lib = ERR_LIB_CT, err_functions = CT_F_codes, err_reasons = CT_R_codes\<rparr>"

definition DH_F_codes :: code_table where
  "DH_F_codes = [
    (''DH_F_COMPUTE_KEY'', 102),
    (''DH_F_DHPARAMS_PRINT_FP'', 101),
    (''DH_F_DH_BUILTIN_GENPARAMS'', 106),
    (''DH_F_DH_CHECK_EX'', 121),
    (''DH_F_DH_CHECK_PARAMS_EX'', 122),
    (''DH_F_DH_CHECK_PUB_KEY_EX'', 123),
    (''DH_F_DH_CMS_DECRYPT'', 114),
    (''DH_F_DH_CMS_SET_PEERKEY'', 115),
    (''DH_F_DH_CMS_SET_SHARED_INFO'', 116),
    (''DH_F_DH_METH_DUP'', 117),
    (''DH_F_DH_METH_NEW'', 118),
    (''DH_F_DH_METH_SET1_NAME'', 119),
    (''DH_F_DH_NEW_BY_NID'', 104),
    (''DH_F_DH_NEW_METHOD'', 105),
    (''DH_F_DH_PARAM_DECODE'', 107),
    (''DH_F_DH_PKEY_PUBLIC_CHECK'', 124),
    (''DH_F_DH_PRIV_DECODE'', 110),
    (''DH_F_DH_PRIV_ENCODE'', 111),
    (''DH_F_DH_PUB_DECODE'', 108),
    (''DH_F_DH_PUB_ENCODE'', 109),
    (''DH_F_DO_DH_PRINT'', 100),
    (''DH_F_GENERATE_KEY'', 103),
    (''DH_F_PKEY_DH_CTRL_STR'', 120),
    (''DH_F_PKEY_DH_DERIVE'', 112),
    (''DH_F_PKEY_DH_INIT'', 125),
    (''DH_F_PKEY_DH_KEYGEN'', 113)]"

definition DH_R_codes :: code_table where
  "DH_R_codes = [
    (''DH_R_BAD_GENERATOR'', 101),
    (''DH_R_BN_DECODE_ERROR'', 109),
    (''DH_R_BN_ERROR'', 106),
    (''DH_R_CHECK_INVALID_J_VALUE'', 115),
    (''DH_R_CHECK_INVALID_Q_VALUE'', 116),
    (''DH_R_CHECK_PUBKEY_INVALID'', 122),
    (''DH_R_CHECK_PUBKEY_TOO_LARGE'', 123),
    (''DH_R_CHECK_PUBKEY_TOO_SMALL'', 124),
    (''DH_R_CHECK_P_NOT_PRIME'', 117),
    (''DH_R_CHECK_P_NOT_SAFE_PRIME'', 118),
    (''DH_R_CHECK_Q_NOT_PRIME'', 119),
    (''DH_R_DECODE_ERROR'', 104),
    (''DH_R_INVALID_PARAMETER_NAME'', 110),
    (''DH_R_INVALID_PARAMETER_NID'', 114),
    (''DH_R_INVALID_PUBKEY'', 102),
    (''DH_R_KDF_PARAMETER_ERROR'', 112),
    (''DH_R_KEYS_NOT_SET'', 108),
    (''DH_R_MISSING_PUBKEY'', 125),
    (''DH_R_MODULUS_TOO_LARGE'', 103),
    (''DH_R_NOT_SUITABLE_GENERATOR'', 120),
    (''DH_R_NO_PARAMETERS_SET'', 107),
    (''DH_R_NO_PRIVATE_VALUE'', 100),
    (''DH_R_PARAMETER_ENCODING_ERROR'', 105),
    (''DH_R_PEER_KEY_ERROR'', 111),
    (''DH_R_SHARED_INFO_ERROR'', 113),
    (''DH_R_UNABLE_TO_CHECK_GENERATOR'', 121)]"

definition DH_errors :: err_library where
  "DH_errors = \<lparr>err_lib = ERR_LIB_DH, err_functions = DH_F_codes, err_reasons = DH_R_codes\<rparr>"

definition DSA_F_codes :: code_table where
  "DSA_F_codes = [
    (''DSA_F_DSAPARAMS_PRINT'', 100),
    (''DSA_F_DSAPARAMS_PRINT_FP'', 101),
    (''DSA_F_DSA_BUILTIN_PARAMGEN'', 125),
    (''DSA_F_DSA_BUILTIN_PARAMGEN2'', 126),
    (''DSA_F_DSA_DO_SIGN'', 112),
    (''DSA_F_DSA_DO_VERIFY'', 113),
    (''DSA_F_DSA_METH_DUP'', 127),
    (''DSA_F_DSA_METH_NEW'', 128),
    (''DSA_F_DSA_METH_SET1_NAME'', 129),
    (''DSA_F_DSA_NEW_METHOD'', 103),
    (''DSA_F_DSA_PARAM_DECODE'', 119),
    (''DSA_F_DSA_PRINT_FP'', 105),
    (''DSA_F_DSA_PRIV_DECODE'', 115),
    (''DSA_F_DSA_PRIV_ENCODE'', 116),
    (''DSA_F_DSA_PUB_DECODE'', 117),
    (''DSA_F_DSA_PUB_ENCODE'', 118),
    (''DSA_F_DSA_SIGN'', 106),
    (''DSA_F_DSA_SIGN_SETUP'', 107),
    (''DSA_F_DSA_SIG_NEW'', 102),
    (''DSA_F_OLD_DSA_PRIV_DECODE'', 122),
    (''DSA_F_PKEY_DSA_CTRL'', 120),
    (''DSA_F_PKEY_DSA_CTRL_STR'', 104),
    (''DSA_F_PKEY_DSA_KEYGEN'', 121)]"

definition DSA_R_codes :: code_table where
  "DSA_R_codes = [
    (''DSA_R_BAD_Q_VALUE'', 102),
    (''DSA_R_BN_DECODE_ERROR'', 108),
    (''DSA_R_BN_ERROR'', 109),
    (''DSA_R_DECODE_ERROR'', 104),
    (''DSA_R_INVALID_DIGEST_TYPE'', 106),
    (''DSA_R_INVALID_PARAMETERS'', 112),
    (''DSA_R_MISSING_PARAMETERS'', 101),
    (''DSA_R_MISSING_PRIVATE_KEY'', 111),
    (''DSA_R_MODULUS_TOO_LARGE'', 103),
    (''DSA_R_NO_PARAMETERS_SET'', 107),
    (''DSA_R_PARAMETER_ENCODING_ERROR'', 105),
    (''DSA_R_Q_NOT_PRIME'', 113),
    (''DSA_R_SEED_LEN_SMALL'', 110)]"

definition DSA_errors :: err_library where
  "DSA_errors = \<lparr>err_lib = ERR_LIB_DSA, err_functions = DSA_F_codes, err_reasons = DSA_R_codes\<rparr>"

definition EC_F_codes_1 :: code_table where
  "EC_F_codes_1 = [
    (''EC_F_BN_TO_FELEM'', 224),
    (''EC_F_D2I_ECPARAMETERS'', 144),
    (''EC_F_D2I_ECPKPARAMETERS'', 145),
    (''EC_F_D2I_ECPRIVATEKEY'', 146),
    (''EC_F_DO_EC_KEY_PRINT'', 221),
    (''EC_F_ECDH_CMS_DECRYPT'', 238),
    (''EC_F_ECDH_CMS_SET_SHARED_INFO'', 239),
    (''EC_F_ECDH_COMPUTE_KEY'', 246),
    (''EC_F_ECDH_SIMPLE_COMPUTE_KEY'', 257),
    (''EC_F_ECDSA_DO_SIGN_EX'', 251),
    (''EC_F_ECDSA_DO_VERIFY'', 252),
    (''EC_F_ECDSA_SIGN_EX'', 254),
    (''EC_F_ECDSA_SIGN_SETUP'', 248),
    (''EC_F_ECDSA_SIG_NEW'', 265),
    (''EC_F_ECDSA_VERIFY'', 253),
    (''EC_F_ECD_ITEM_VERIFY'', 270),
    (''EC_F_ECKEY_PARAM2TYPE'', 223),
    (''EC_F_ECKEY_PARAM_DECODE'', 212),
    (''EC_F_ECKEY_PRIV_DECODE'', 213),
    (''EC_F_ECKEY_PRIV_ENCODE'', 214),
    (''EC_F_ECKEY_PUB_DECODE'', 215),
    (''EC_F_ECKEY_PUB_ENCODE'', 216),
    (''EC_F_ECKEY_TYPE2PARAM'', 220),
    (''EC_F_ECPARAMETERS_PRINT'', 147),
    (''EC_F_ECPARAMETERS_PRINT_FP'', 148),
    (''EC_F_ECPKPARAMETERS_PRINT'', 149),
    (''EC_F_ECPKPARAMETERS_PRINT_FP'', 150),
    (''EC_F_ECP_NISTZ256_GET_AFFINE'', 240),
    (''EC_F_ECP_NISTZ256_INV_MOD_ORD'', 275),
    (''EC_F_ECP_NISTZ256_MULT_PRECOMPUTE'', 243),
    (''EC_F_ECP_NISTZ256_POINTS_MUL'', 241),
    (''EC_F_ECP_NISTZ256_PRE_COMP_NEW'', 244),
    (''EC_F_ECP_NISTZ256_WINDOWED_MUL'', 242),
    (''EC_F_ECX_KEY_OP'', 266),
    (''EC_F_ECX_PRIV_ENCODE'', 267),
    (''EC_F_ECX_PUB_ENCODE'', 268),
    (''EC_F_EC_ASN1_GROUP2CURVE'', 153),
    (''EC_F_EC_ASN1_GROUP2FIELDID'', 154),
    (''EC_F_EC_GF2M_MONTGOMERY_POINT_MULTIPLY'', 208),
    (''EC_F_EC_GF2M_SIMPLE_FIELD_INV'', 296),
    (''EC_F_EC_GF2M_SIMPLE_GROUP_CHECK_DISCRIMINANT'', 159),
    (''EC_F_EC_GF2M_SIMPLE_GROUP_SET_CURVE'', 195),
    (''EC_F_EC_GF2M_SIMPLE_LADDER_POST'', 285),
    (''EC_F_EC_GF2M_SIMPLE_LADDER_PRE'', 288),
    (''EC_F_EC_GF2M_SIMPLE_OCT2POINT'', 160),
    (''EC_F_EC_GF2M_SIMPLE_POINT2OCT'', 161),
    (''EC_F_EC_GF2M_SIMPLE_POINTS_MUL'', 289),
    (''EC_F_EC_GF2M_SIMPLE_POINT_GET_AFFINE_COORDINATES'', 162),
    (''EC_F_EC_GF2M_SIMPLE_POINT_SET_AFFINE_COORDINATES'', 163),
    (''EC_F_EC_GF2M_SIMPLE_SET_COMPRESSED_COORDINATES'', 164),
    (''EC_F_EC_GFP_MONT_FIELD_DECODE'', 133),
    (''EC_F_EC_GFP_MONT_FIELD_ENCODE'', 134),
    (''EC_F_EC_GFP_MONT_FIELD_INV'', 297),
    (''EC_F_EC_GFP_MONT_FIELD_MUL'', 131),
    (''EC_F_EC_GFP_MONT_FIELD_SET_TO_ONE'', 209),
    (''EC_F_EC_GFP_MONT_FIELD_SQR'', 132),
    (''EC_F_EC_GFP_MONT_GROUP_SET_CURVE'', 189),
    (''EC_F_EC_GFP_NISTP224_GROUP_SET_CURVE'', 225),
    (''EC_F_EC_GFP_NISTP224_POINTS_MUL'', 228),
    (''EC_F_EC_GFP_NISTP224_POINT_GET_AFFINE_COORDINATES'', 226),
    (''EC_F_EC_GFP_NISTP256_GROUP_SET_CURVE'', 230),
    (''EC_F_EC_GFP_NISTP256_POINTS_MUL'', 231),
    (''EC_F_EC_GFP_NISTP256_POINT_GET_AFFINE_COORDINATES'', 232),
    (''EC_F_EC_GFP_NISTP521_GROUP_SET_CURVE'', 233),
    (''EC_F_EC_GFP_NISTP521_POINTS_MUL'', 234),
    (''EC_F_EC_GFP_NISTP521_POINT_GET_AFFINE_COORDINATES'', 235),
    (''EC_F_EC_GFP_NIST_FIELD_MUL'', 200),
    (''EC_F_EC_GFP_NIST_FIELD_SQR'', 201),
    (''EC_F_EC_GFP_NIST_GROUP_SET_CURVE'', 202),
    (''EC_F_EC_GFP_SIMPLE_BLIND_COORDINATES'', 287),
    (''EC_F_EC_GFP_SIMPLE_FIELD_INV'', 298),
    (''EC_F_EC_GFP_SIMPLE_GROUP_CHECK_DISCRIMINANT'', 165),
    (''EC_F_EC_GFP_SIMPLE_GROUP_SET_CURVE'', 166),
    (''EC_F_EC_GFP_SIMPLE_MAKE_AFFINE'', 102),
    (''EC_F_EC_GFP_SIMPLE_OCT2POINT'', 103),
    (''EC_F_EC_GFP_SIMPLE_POINT2OCT'', 104),
    (''EC_F_EC_GFP_SIMPLE_POINTS_MAKE_AFFINE'', 137),
    (''EC_F_EC_GFP_SIMPLE_POINT_GET_AFFINE_COORDINATES'', 167),
    (''EC_F_EC_GFP_SIMPLE_POINT_SET_AFFINE_COORDINATES'', 168),
    (''EC_F_EC_GFP_SIMPLE_SET_COMPRESSED_COORDINATES'', 169),
    (''EC_F_EC_GROUP_CHECK'', 170),
    (''EC_F_EC_GROUP_CHECK_DISCRIMINANT'', 171),
    (''EC_F_EC_GROUP_COPY'', 106),
    (''EC_F_EC_GROUP_GET_CURVE'', 291),
    (''EC_F_EC_GROUP_GET_CURVE_GF2M'', 172),
    (''EC_F_EC_GROUP_GET_CURVE_GFP'', 130),
    (''EC_F_EC_GROUP_GET_DEGREE'', 173),
    (''EC_F_EC_GROUP_GET_ECPARAMETERS'', 261),
    (''EC_F_EC_GROUP_GET_ECPKPARAMETERS'', 262),
    (''EC_F_EC_GROUP_GET_PENTANOMIAL_BASIS'', 193),
    (''EC_F_EC_GROUP_GET_TRINOMIAL_BASIS'', 194),
    (''EC_F_EC_GROUP_NEW'', 108),
    (''EC_F_EC_GROUP_NEW_BY_CURVE_NAME'', 174),
    (''EC_F_EC_GROUP_NEW_FROM_DATA'', 175),
    (''EC_F_EC_GROUP_NEW_FROM_ECPARAMETERS'', 263),
    (''EC_F_EC_GROUP_NEW_FROM_ECPKPARAMETERS'', 264),
    (''EC_F_EC_GROUP_SET_CURVE'', 292),
    (''EC_F_EC_GROUP_SET_CURVE_GF2M'', 176),
    (''EC_F_EC_GROUP_SET_CURVE_GFP'', 109),
    (''EC_F_EC_GROUP_SET_GENERATOR'', 111),
    (''EC_F_EC_GROUP_SET_SEED'', 286),
    (''EC_F_EC_KEY_CHECK_KEY'', 177),
    (''EC_F_EC_KEY_COPY'', 178),
    (''EC_F_EC_KEY_GENERATE_KEY'', 179),
    (''EC_F_EC_KEY_NEW'', 182),
    (''EC_F_EC_KEY_NEW_METHOD'', 245),
    (''EC_F_EC_KEY_OCT2PRIV'', 255),
    (''EC_F_EC_KEY_PRINT'', 180),
    (''EC_F_EC_KEY_PRINT_FP'', 181),
    (''EC_F_EC_KEY_PRIV2BUF'', 279),
    (''EC_F_EC_KEY_PRIV2OCT'', 256),
    (''EC_F_EC_KEY_SET_PUBLIC_KEY_AFFINE_COORDINATES'', 229),
    (''EC_F_EC_KEY_SIMPLE_CHECK_KEY'', 258),
    (''EC_F_EC_KEY_SIMPLE_OCT2PRIV'', 259),
    (''EC_F_EC_KEY_SIMPLE_PRIV2OCT'', 260),
    (''EC_F_EC_PKEY_CHECK'', 273),
    (''EC_F_EC_PKEY_PARAM_CHECK'', 274),
    (''EC_F_EC_POINTS_MAKE_AFFINE'', 136),
    (''EC_F_EC_POINTS_MUL'', 290),
    (''EC_F_EC_POINT_ADD'', 112),
    (''EC_F_EC_POINT_BN2POINT'', 280),
    (''EC_F_EC_POINT_CMP'', 113),
    (''EC_F_EC_POINT_COPY'', 114),
    (''EC_F_EC_POINT_DBL'', 115),
    (''EC_F_EC_POINT_GET_AFFINE_COORDINATES'', 293),
    (''EC_F_EC_POINT_GET_AFFINE_COORDINATES_GF2M'', 183),
    (''EC_F_EC_POINT_GET_AFFINE_COORDINATES_GFP'', 116),
    (''EC_F_EC_POINT_GET_JPROJECTIVE_COORDINATES_GFP'', 117),
    (''EC_F_EC_POINT_INVERT'', 210),
    (''EC_F_EC_POINT_IS_AT_INFINITY'', 118),
    (''EC_F_EC_POINT_IS_ON_CURVE'', 119),
    (''EC_F_EC_POINT_MAKE_AFFINE'', 120),
    (''EC_F_EC_POINT_NEW'', 121),
    (''EC_F_EC_POINT_OCT2POINT'', 122),
    (''EC_F_EC_POINT_POINT2BUF'', 281),
    (''EC_F_EC_POINT_POINT2OCT'', 123),
    (''EC_F_EC_POINT_SET_AFFINE_COORDINATES'', 294),
    (''EC_F_EC_POINT_SET_AFFINE_COORDINATES_GF2M'', 185),
    (''EC_F_EC_POINT_SET_AFFINE_COORDINATES_GFP'', 124),
    (''EC_F_EC_POINT_SET_COMPRESSED_COORDINATES'', 295),
    (''EC_F_EC_POINT_SET_COMPRESSED_COORDINATES_GF2M'', 186),
    (''EC_F_EC_POINT_SET_COMPRESSED_COORDINATES_GFP'', 125),
    (''EC_F_EC_POINT_SET_JPROJECTIVE_COORDINATES_GFP'', 126),
    (''EC_F_EC_POINT_SET_TO_INFINITY'', 127),
    (''EC_F_EC_PRE_COMP_NEW'', 196),
    (''EC_F_EC_SCALAR_MUL_LADDER'', 284),
    (''EC_F_EC_WNAF_MUL'', 187),
    (''EC_F_EC_WNAF_PRECOMPUTE_MULT'', 188),
    (''EC_F_I2D_ECPARAMETERS'', 190),
    (''EC_F_I2D_ECPKPARAMETERS'', 191)]"

definition EC_F_codes_2 :: code_table where
  "EC_F_codes_2 = [
    (''EC_F_I2D_ECPRIVATEKEY'', 192),
    (''EC_F_I2O_ECPUBLICKEY'', 151),
    (''EC_F_NISTP224_PRE_COMP_NEW'', 227),
    (''EC_F_NISTP256_PRE_COMP_NEW'', 236),
    (''EC_F_NISTP521_PRE_COMP_NEW'', 237),
    (''EC_F_O2I_ECPUBLICKEY'', 152),
    (''EC_F_OLD_EC_PRIV_DECODE'', 222),
    (''EC_F_OSSL_ECDH_COMPUTE_KEY'', 247),
    (''EC_F_OSSL_ECDSA_SIGN_SIG'', 249),
    (''EC_F_OSSL_ECDSA_VERIFY_SIG'', 250),
    (''EC_F_PKEY_ECD_CTRL'', 271),
    (''EC_F_PKEY_ECD_DIGESTSIGN'', 272),
    (''EC_F_PKEY_ECD_DIGESTSIGN25519'', 276),
    (''EC_F_PKEY_ECD_DIGESTSIGN448'', 277),
    (''EC_F_PKEY_ECX_DERIVE'', 269),
    (''EC_F_PKEY_EC_CTRL'', 197),
    (''EC_F_PKEY_EC_CTRL_STR'', 198),
    (''EC_F_PKEY_EC_DERIVE'', 217),
    (''EC_F_PKEY_EC_INIT'', 282),
    (''EC_F_PKEY_EC_KDF_DERIVE'', 283),
    (''EC_F_PKEY_EC_KEYGEN'', 199),
    (''EC_F_PKEY_EC_PARAMGEN'', 219),
    (''EC_F_PKEY_EC_SIGN'', 218),
    (''EC_F_VALIDATE_ECX_DERIVE'', 278)]"

definition EC_F_codes :: code_table where
  "EC_F_codes = EC_F_codes_1 @ EC_F_codes_2"

definition EC_R_codes :: code_table where
  "EC_R_codes = [
    (''EC_R_ASN1_ERROR'', 115),
    (''EC_R_BAD_SIGNATURE'', 156),
    (''EC_R_BIGNUM_OUT_OF_RANGE'', 144),
    (''EC_R_BUFFER_TOO_SMALL'', 100),
    (''EC_R_CANNOT_INVERT'', 165),
    (''EC_R_COORDINATES_OUT_OF_RANGE'', 146),
    (''EC_R_CURVE_DOES_NOT_SUPPORT_ECDH'', 160),
    (''EC_R_CURVE_DOES_NOT_SUPPORT_SIGNING'', 159),
    (''EC_R_D2I_ECPKPARAMETERS_FAILURE'', 117),
    (''EC_R_DECODE_ERROR'', 142),
    (''EC_R_DISCRIMINANT_IS_ZERO'', 118),
    (''EC_R_EC_GROUP_NEW_BY_NAME_FAILURE'', 119),
    (''EC_R_FIELD_TOO_LARGE'', 143),
    (''EC_R_GF2M_NOT_SUPPORTED'', 147),
    (''EC_R_GROUP2PKPARAMETERS_FAILURE'', 120),
    (''EC_R_I2D_ECPKPARAMETERS_FAILURE'', 121),
    (''EC_R_INCOMPATIBLE_OBJECTS'', 101),
    (''EC_R_INVALID_ARGUMENT'', 112),
    (''EC_R_INVALID_COMPRESSED_POINT'', 110),
    (''EC_R_INVALID_COMPRESSION_BIT'', 109),
    (''EC_R_INVALID_CURVE'', 141),
    (''EC_R_INVALID_DIGEST'', 151),
    (''EC_R_INVALID_DIGEST_TYPE'', 138),
    (''EC_R_INVALID_ENCODING'', 102),
    (''EC_R_INVALID_FIELD'', 103),
    (''EC_R_INVALID_FORM'', 104),
    (''EC_R_INVALID_GROUP_ORDER'', 122),
    (''EC_R_INVALID_KEY'', 116),
    (''EC_R_INVALID_OUTPUT_LENGTH'', 161),
    (''EC_R_INVALID_PEER_KEY'', 133),
    (''EC_R_INVALID_PENTANOMIAL_BASIS'', 132),
    (''EC_R_INVALID_PRIVATE_KEY'', 123),
    (''EC_R_INVALID_TRINOMIAL_BASIS'', 137),
    (''EC_R_KDF_PARAMETER_ERROR'', 148),
    (''EC_R_KEYS_NOT_SET'', 140),
    (''EC_R_LADDER_POST_FAILURE'', 136),
    (''EC_R_LADDER_PRE_FAILURE'', 153),
    (''EC_R_LADDER_STEP_FAILURE'', 162),
    (''EC_R_MISSING_OID'', 167),
    (''EC_R_MISSING_PARAMETERS'', 124),
    (''EC_R_MISSING_PRIVATE_KEY'', 125),
    (''EC_R_NEED_NEW_SETUP_VALUES'', 157),
    (''EC_R_NOT_A_NIST_PRIME'', 135),
    (''EC_R_NOT_IMPLEMENTED'', 126),
    (''EC_R_NOT_INITIALIZED'', 111),
    (''EC_R_NO_PARAMETERS_SET'', 139),
    (''EC_R_NO_PRIVATE_VALUE'', 154),
    (''EC_R_OPERATION_NOT_SUPPORTED'', 152),
    (''EC_R_PASSED_NULL_PARAMETER'', 134),
    (''EC_R_PEER_KEY_ERROR'', 149),
    (''EC_R_PKPARAMETERS2GROUP_FAILURE'', 127),
    (''EC_R_POINT_ARITHMETIC_FAILURE'', 155),
    (''EC_R_POINT_AT_INFINITY'', 106),
    (''EC_R_POINT_COORDINATES_BLIND_FAILURE'', 163),
    (''EC_R_POINT_IS_NOT_ON_CURVE'', 107),
    (''EC_R_RANDOM_NUMBER_GENERATION_FAILED'', 158),
    (''EC_R_SHARED_INFO_ERROR'', 150),
    (''EC_R_SLOT_FULL'', 108),
    (''EC_R_UNDEFINED_GENERATOR'', 113),
    (''EC_R_UNDEFINED_ORDER'', 128),
    (''EC_R_UNKNOWN_COFACTOR'', 164),
    (''EC_R_UNKNOWN_GROUP'', 129),
    (''EC_R_UNKNOWN_ORDER'', 114),
    (''EC_R_UNSUPPORTED_FIELD'', 131),
    (''EC_R_WRONG_CURVE_PARAMETERS'', 145),
    (''EC_R_WRONG_ORDER'', 130)]"

definition EC_errors :: err_library where
  "EC_errors = \<lparr>err_lib = ERR_LIB_EC, err_functions = EC_F_codes, err_reasons = EC_R_codes\<rparr>"

definition ENGINE_F_codes :: code_table where
  "ENGINE_F_codes = [
    (''ENGINE_F_DIGEST_UPDATE'', 198),
    (''ENGINE_F_DYNAMIC_CTRL'', 180),
    (''ENGINE_F_DYNAMIC_GET_DATA_CTX'', 181),
    (''ENGINE_F_DYNAMIC_LOAD'', 182),
    (''ENGINE_F_DYNAMIC_SET_DATA_CTX'', 183),
    (''ENGINE_F_ENGINE_ADD'', 105),
    (''ENGINE_F_ENGINE_BY_ID'', 106),
    (''ENGINE_F_ENGINE_CMD_IS_EXECUTABLE'', 170),
    (''ENGINE_F_ENGINE_CTRL'', 142),
    (''ENGINE_F_ENGINE_CTRL_CMD'', 178),
    (''ENGINE_F_ENGINE_CTRL_CMD_STRING'', 171),
    (''ENGINE_F_ENGINE_FINISH'', 107),
    (''ENGINE_F_ENGINE_GET_CIPHER'', 185),
    (''ENGINE_F_ENGINE_GET_DIGEST'', 186),
    (''ENGINE_F_ENGINE_GET_FIRST'', 195),
    (''ENGINE_F_ENGINE_GET_LAST'', 196),
    (''ENGINE_F_ENGINE_GET_NEXT'', 115),
    (''ENGINE_F_ENGINE_GET_PKEY_ASN1_METH'', 193),
    (''ENGINE_F_ENGINE_GET_PKEY_METH'', 192),
    (''ENGINE_F_ENGINE_GET_PREV'', 116),
    (''ENGINE_F_ENGINE_INIT'', 119),
    (''ENGINE_F_ENGINE_LIST_ADD'', 120),
    (''ENGINE_F_ENGINE_LIST_REMOVE'', 121),
    (''ENGINE_F_ENGINE_LOAD_PRIVATE_KEY'', 150),
    (''ENGINE_F_ENGINE_LOAD_PUBLIC_KEY'', 151),
    (''ENGINE_F_ENGINE_LOAD_SSL_CLIENT_CERT'', 194),
    (''ENGINE_F_ENGINE_NEW'', 122),
    (''ENGINE_F_ENGINE_PKEY_ASN1_FIND_STR'', 197),
    (''ENGINE_F_ENGINE_REMOVE'', 123),
    (''ENGINE_F_ENGINE_SET_DEFAULT_STRING'', 189),
    (''ENGINE_F_ENGINE_SET_ID'', 129),
    (''ENGINE_F_ENGINE_SET_NAME'', 130),
    (''ENGINE_F_ENGINE_TABLE_REGISTER'', 184),
    (''ENGINE_F_ENGINE_UNLOCKED_FINISH'', 191),
    (''ENGINE_F_ENGINE_UP_REF'', 190),
    (''ENGINE_F_INT_CLEANUP_ITEM'', 199),
    (''ENGINE_F_INT_CTRL_HELPER'', 172),
    (''ENGINE_F_INT_ENGINE_CONFIGURE'', 188),
    (''ENGINE_F_INT_ENGINE_MODULE_INIT'', 187),
    (''ENGINE_F_OSSL_HMAC_INIT'', 200)]"

definition ENGINE_R_codes :: code_table where
  "ENGINE_R_codes = [
    (''ENGINE_R_ALREADY_LOADED'', 100),
    (''ENGINE_R_ARGUMENT_IS_NOT_A_NUMBER'', 133),
    (''ENGINE_R_CMD_NOT_EXECUTABLE'', 134),
    (''ENGINE_R_COMMAND_TAKES_INPUT'', 135),
    (''ENGINE_R_COMMAND_TAKES_NO_INPUT'', 136),
    (''ENGINE_R_CONFLICTING_ENGINE_ID'', 103),
    (''ENGINE_R_CTRL_COMMAND_NOT_IMPLEMENTED'', 119),
    (''ENGINE_R_DSO_FAILURE'', 104),
    (''ENGINE_R_DSO_NOT_FOUND'', 132),
    (''ENGINE_R_ENGINES_SECTION_ERROR'', 148),
    (''ENGINE_R_ENGINE_CONFIGURATION_ERROR'', 102),
    (''ENGINE_R_ENGINE_IS_NOT_IN_LIST'', 105),
    (''ENGINE_R_ENGINE_SECTION_ERROR'', 149),
    (''ENGINE_R_FAILED_LOADING_PRIVATE_KEY'', 128),
    (''ENGINE_R_FAILED_LOADING_PUBLIC_KEY'', 129),
    (''ENGINE_R_FINISH_FAILED'', 106),
    (''ENGINE_R_ID_OR_NAME_MISSING'', 108),
    (''ENGINE_R_INIT_FAILED'', 109),
    (''ENGINE_R_INTERNAL_LIST_ERROR'', 110),
    (''ENGINE_R_INVALID_ARGUMENT'', 143),
    (''ENGINE_R_INVALID_CMD_NAME'', 137),
    (''ENGINE_R_INVALID_CMD_NUMBER'', 138),
    (''ENGINE_R_INVALID_INIT_VALUE'', 151),
    (''ENGINE_R_INVALID_STRING'', 150),
    (''ENGINE_R_NOT_INITIALISED'', 117),
    (''ENGINE_R_NOT_LOADED'', 112),
    (''ENGINE_R_NO_CONTROL_FUNCTION'', 120),
    (''ENGINE_R_NO_INDEX'', 144),
    (''ENGINE_R_NO_LOAD_FUNCTION'', 125),
    (''ENGINE_R_NO_REFERENCE'', 130),
    (''ENGINE_R_NO_SUCH_ENGINE'', 116),
    (''ENGINE_R_UNIMPLEMENTED_CIPHER'', 146),
    (''ENGINE_R_UNIMPLEMENTED_DIGEST'', 147),
    (''ENGINE_R_UNIMPLEMENTED_PUBLIC_KEY_METHOD'', 101),
    (''ENGINE_R_VERSION_INCOMPATIBILITY'', 145)]"

definition ENGINE_errors :: err_library where
  "ENGINE_errors = \<lparr>err_lib = ERR_LIB_ENGINE, err_functions = ENGINE_F_codes, err_reasons = ENGINE_R_codes\<rparr>"

definition EVP_F_codes :: code_table where
  "EVP_F_codes = [
    (''EVP_F_AESNI_INIT_KEY'', 165),
    (''EVP_F_AESNI_XTS_INIT_KEY'', 207),
    (''EVP_F_AES_GCM_CTRL'', 196),
    (''EVP_F_AES_INIT_KEY'', 133),
    (''EVP_F_AES_OCB_CIPHER'', 169),
    (''EVP_F_AES_T4_INIT_KEY'', 178),
    (''EVP_F_AES_T4_XTS_INIT_KEY'', 208),
    (''EVP_F_AES_WRAP_CIPHER'', 170),
    (''EVP_F_AES_XTS_INIT_KEY'', 209),
    (''EVP_F_ALG_MODULE_INIT'', 177),
    (''EVP_F_ARIA_CCM_INIT_KEY'', 175),
    (''EVP_F_ARIA_GCM_CTRL'', 197),
    (''EVP_F_ARIA_GCM_INIT_KEY'', 176),
    (''EVP_F_ARIA_INIT_KEY'', 185),
    (''EVP_F_B64_NEW'', 198),
    (''EVP_F_CAMELLIA_INIT_KEY'', 159),
    (''EVP_F_CHACHA20_POLY1305_CTRL'', 182),
    (''EVP_F_CMLL_T4_INIT_KEY'', 179),
    (''EVP_F_DES_EDE3_WRAP_CIPHER'', 171),
    (''EVP_F_DO_SIGVER_INIT'', 161),
    (''EVP_F_ENC_NEW'', 199),
    (''EVP_F_EVP_CIPHERINIT_EX'', 123),
    (''EVP_F_EVP_CIPHER_ASN1_TO_PARAM'', 204),
    (''EVP_F_EVP_CIPHER_CTX_COPY'', 163),
    (''EVP_F_EVP_CIPHER_CTX_CTRL'', 124),
    (''EVP_F_EVP_CIPHER_CTX_SET_KEY_LENGTH'', 122),
    (''EVP_F_EVP_CIPHER_PARAM_TO_ASN1'', 205),
    (''EVP_F_EVP_DECRYPTFINAL_EX'', 101),
    (''EVP_F_EVP_DECRYPTUPDATE'', 166),
    (''EVP_F_EVP_DIGESTFINALXOF'', 174),
    (''EVP_F_EVP_DIGESTINIT_EX'', 128),
    (''EVP_F_EVP_ENCRYPTDECRYPTUPDATE'', 219),
    (''EVP_F_EVP_ENCRYPTFINAL_EX'', 127),
    (''EVP_F_EVP_ENCRYPTUPDATE'', 167),
    (''EVP_F_EVP_MD_CTX_COPY_EX'', 110),
    (''EVP_F_EVP_MD_SIZE'', 162),
    (''EVP_F_EVP_OPENINIT'', 102),
    (''EVP_F_EVP_PBE_ALG_ADD'', 115),
    (''EVP_F_EVP_PBE_ALG_ADD_TYPE'', 160),
    (''EVP_F_EVP_PBE_CIPHERINIT'', 116),
    (''EVP_F_EVP_PBE_SCRYPT'', 181),
    (''EVP_F_EVP_PKCS82PKEY'', 111),
    (''EVP_F_EVP_PKEY2PKCS8'', 113),
    (''EVP_F_EVP_PKEY_ASN1_ADD0'', 188),
    (''EVP_F_EVP_PKEY_CHECK'', 186),
    (''EVP_F_EVP_PKEY_COPY_PARAMETERS'', 103),
    (''EVP_F_EVP_PKEY_CTX_CTRL'', 137),
    (''EVP_F_EVP_PKEY_CTX_CTRL_STR'', 150),
    (''EVP_F_EVP_PKEY_CTX_DUP'', 156),
    (''EVP_F_EVP_PKEY_CTX_MD'', 168),
    (''EVP_F_EVP_PKEY_DECRYPT'', 104),
    (''EVP_F_EVP_PKEY_DECRYPT_INIT'', 138),
    (''EVP_F_EVP_PKEY_DECRYPT_OLD'', 151),
    (''EVP_F_EVP_PKEY_DERIVE'', 153),
    (''EVP_F_EVP_PKEY_DERIVE_INIT'', 154),
    (''EVP_F_EVP_PKEY_DERIVE_SET_PEER'', 155),
    (''EVP_F_EVP_PKEY_ENCRYPT'', 105),
    (''EVP_F_EVP_PKEY_ENCRYPT_INIT'', 139),
    (''EVP_F_EVP_PKEY_ENCRYPT_OLD'', 152),
    (''EVP_F_EVP_PKEY_GET0_DH'', 119),
    (''EVP_F_EVP_PKEY_GET0_DSA'', 120),
    (''EVP_F_EVP_PKEY_GET0_EC_KEY'', 131),
    (''EVP_F_EVP_PKEY_GET0_HMAC'', 183),
    (''EVP_F_EVP_PKEY_GET0_POLY1305'', 184),
    (''EVP_F_EVP_PKEY_GET0_RSA'', 121),
    (''EVP_F_EVP_PKEY_GET0_SIPHASH'', 172),
    (''EVP_F_EVP_PKEY_GET_RAW_PRIVATE_KEY'', 202),
    (''EVP_F_EVP_PKEY_GET_RAW_PUBLIC_KEY'', 203),
    (''EVP_F_EVP_PKEY_KEYGEN'', 146),
    (''EVP_F_EVP_PKEY_KEYGEN_INIT'', 147),
    (''EVP_F_EVP_PKEY_METH_ADD0'', 194),
    (''EVP_F_EVP_PKEY_METH_NEW'', 195),
    (''EVP_F_EVP_PKEY_NEW'', 106),
    (''EVP_F_EVP_PKEY_NEW_CMAC_KEY'', 193),
    (''EVP_F_EVP_PKEY_NEW_RAW_PRIVATE_KEY'', 191),
    (''EVP_F_EVP_PKEY_NEW_RAW_PUBLIC_KEY'', 192),
    (''EVP_F_EVP_PKEY_PARAMGEN'', 148),
    (''EVP_F_EVP_PKEY_PARAMGEN_INIT'', 149),
    (''EVP_F_EVP_PKEY_PARAM_CHECK'', 189),
    (''EVP_F_EVP_PKEY_PUBLIC_CHECK'', 190),
    (''EVP_F_EVP_PKEY_SET1_ENGINE'', 187),
    (''EVP_F_EVP_PKEY_SET_ALIAS_TYPE'', 206),
    (''EVP_F_EVP_PKEY_SIGN'', 140),
    (''EVP_F_EVP_PKEY_SIGN_INIT'', 141),
    (''EVP_F_EVP_PKEY_VERIFY'', 142),
    (''EVP_F_EVP_PKEY_VERIFY_INIT'', 143),
    (''EVP_F_EVP_PKEY_VERIFY_RECOVER'', 144),
    (''EVP_F_EVP_PKEY_VERIFY_RECOVER_INIT'', 145),
    (''EVP_F_EVP_SIGNFINAL'', 107),
    (''EVP_F_EVP_VERIFYFINAL'', 108),
    (''EVP_F_INT_CTX_NEW'', 157),
    (''EVP_F_OK_NEW'', 200),
    (''EVP_F_PKCS5_PBE_KEYIVGEN'', 117),
    (''EVP_F_PKCS5_V2_PBE_KEYIVGEN'', 118),
    (''EVP_F_PKCS5_V2_PBKDF2_KEYIVGEN'', 164),
    (''EVP_F_PKCS5_V2_SCRYPT_KEYIVGEN'', 180),
    (''EVP_F_PKEY_SET_TYPE'', 158),
    (''EVP_F_RC2_MAGIC_TO_METH'', 109),
    (''EVP_F_RC5_CTRL'', 125),
    (''EVP_F_R_32_12_16_INIT_KEY'', 242),
    (''EVP_F_S390X_AES_GCM_CTRL'', 201),
    (''EVP_F_UPDATE'', 173)]"

definition EVP_R_codes :: code_table where
  "EVP_R_codes = [
    (''EVP_R_AES_KEY_SETUP_FAILED'', 143),
    (''EVP_R_ARIA_KEY_SETUP_FAILED'', 176),
    (''EVP_R_BAD_DECRYPT'', 100),
    (''EVP_R_BAD_KEY_LENGTH'', 195),
    (''EVP_R_BUFFER_TOO_SMALL'', 155),
    (''EVP_R_CAMELLIA_KEY_SETUP_FAILED'', 157),
    (''EVP_R_CIPHER_PARAMETER_ERROR'', 122),
    (''EVP_R_COMMAND_NOT_SUPPORTED'', 147),
    (''EVP_R_COPY_ERROR'', 173),
    (''EVP_R_CTRL_NOT_IMPLEMENTED'', 132),
    (''EVP_R_CTRL_OPERATION_NOT_IMPLEMENTED'', 133),
    (''EVP_R_DATA_NOT_MULTIPLE_OF_BLOCK_LENGTH'', 138),
    (''EVP_R_DECODE_ERROR'', 114),
    (''EVP_R_DIFFERENT_KEY_TYPES'', 101),
    (''EVP_R_DIFFERENT_PARAMETERS'', 153),
    (''EVP_R_ERROR_LOADING_SECTION'', 165),
    (''EVP_R_ERROR_SETTING_FIPS_MODE'', 166),
    (''EVP_R_EXPECTING_AN_HMAC_KEY'', 174),
    (''EVP_R_EXPECTING_AN_RSA_KEY'', 127),
    (''EVP_R_EXPECTING_A_DH_KEY'', 128),
    (''EVP_R_EXPECTING_A_DSA_KEY'', 129),
    (''EVP_R_EXPECTING_A_EC_KEY'', 142),
    (''EVP_R_EXPECTING_A_POLY1305_KEY'', 164),
    (''EVP_R_EXPECTING_A_SIPHASH_KEY'', 175),
    (''EVP_R_FIPS_MODE_NOT_SUPPORTED'', 167),
    (''EVP_R_GET_RAW_KEY_FAILED'', 182),
    (''EVP_R_ILLEGAL_SCRYPT_PARAMETERS'', 171),
    (''EVP_R_INITIALIZATION_ERROR'', 134),
    (''EVP_R_INPUT_NOT_INITIALIZED'', 111),
    (''EVP_R_INVALID_DIGEST'', 152),
    (''EVP_R_INVALID_FIPS_MODE'', 168),
    (''EVP_R_INVALID_IV_LENGTH'', 194),
    (''EVP_R_INVALID_KEY'', 163),
    (''EVP_R_INVALID_KEY_LENGTH'', 130),
    (''EVP_R_INVALID_OPERATION'', 148),
    (''EVP_R_KEYGEN_FAILURE'', 120),
    (''EVP_R_KEY_SETUP_FAILED'', 180),
    (''EVP_R_MEMORY_LIMIT_EXCEEDED'', 172),
    (''EVP_R_MESSAGE_DIGEST_IS_NULL'', 159),
    (''EVP_R_METHOD_NOT_SUPPORTED'', 144),
    (''EVP_R_MISSING_PARAMETERS'', 103),
    (''EVP_R_NOT_XOF_OR_INVALID_LENGTH'', 178),
    (''EVP_R_NO_CIPHER_SET'', 131),
    (''EVP_R_NO_DEFAULT_DIGEST'', 158),
    (''EVP_R_NO_DIGEST_SET'', 139),
    (''EVP_R_NO_KEY_SET'', 154),
    (''EVP_R_NO_OPERATION_SET'', 149),
    (''EVP_R_ONLY_ONESHOT_SUPPORTED'', 177),
    (''EVP_R_OPERATION_NOT_SUPPORTED_FOR_THIS_KEYTYPE'', 150),
    (''EVP_R_OPERATON_NOT_INITIALIZED'', 151),
    (''EVP_R_OUTPUT_WOULD_OVERFLOW'', 184),
    (''EVP_R_PARTIALLY_OVERLAPPING'', 162),
    (''EVP_R_PBKDF2_ERROR'', 181),
    (''EVP_R_PKEY_APPLICATION_ASN1_METHOD_ALREADY_REGISTERED'', 179),
    (''EVP_R_PRIVATE_KEY_DECODE_ERROR'', 145),
    (''EVP_R_PRIVATE_KEY_ENCODE_ERROR'', 146),
    (''EVP_R_PUBLIC_KEY_NOT_RSA'', 106),
    (''EVP_R_UNKNOWN_CIPHER'', 160),
    (''EVP_R_UNKNOWN_DIGEST'', 161),
    (''EVP_R_UNKNOWN_OPTION'', 169),
    (''EVP_R_UNKNOWN_PBE_ALGORITHM'', 121),
    (''EVP_R_UNSUPPORTED_ALGORITHM'', 156),
    (''EVP_R_UNSUPPORTED_CIPHER'', 107),
    (''EVP_R_UNSUPPORTED_KEYLENGTH'', 123),
    (''EVP_R_UNSUPPORTED_KEY_DERIVATION_FUNCTION'', 124),
    (''EVP_R_UNSUPPORTED_KEY_SIZE'', 108),
    (''EVP_R_UNSUPPORTED_NUMBER_OF_ROUNDS'', 135),
    (''EVP_R_UNSUPPORTED_PRF'', 125),
    (''EVP_R_UNSUPPORTED_PRIVATE_KEY_ALGORITHM'', 118),
    (''EVP_R_UNSUPPORTED_SALT_TYPE'', 126),
    (''EVP_R_WRAP_MODE_NOT_ALLOWED'', 170),
    (''EVP_R_WRONG_FINAL_BLOCK_LENGTH'', 109),
    (''EVP_R_XTS_DUPLICATED_KEYS'', 183)]"

definition EVP_errors :: err_library where
  "EVP_errors = \<lparr>err_lib = ERR_LIB_EVP, err_functions = EVP_F_codes, err_reasons = EVP_R_codes\<rparr>"

definition KDF_F_codes :: code_table where
  "KDF_F_codes = [
    (''KDF_F_PKEY_HKDF_CTRL_STR'', 103),
    (''KDF_F_PKEY_HKDF_DERIVE'', 102),
    (''KDF_F_PKEY_HKDF_INIT'', 108),
    (''KDF_F_PKEY_SCRYPT_CTRL_STR'', 104),
    (''KDF_F_PKEY_SCRYPT_CTRL_UINT64'', 105),
    (''KDF_F_PKEY_SCRYPT_DERIVE'', 109),
    (''KDF_F_PKEY_SCRYPT_INIT'', 106),
    (''KDF_F_PKEY_SCRYPT_SET_MEMBUF'', 107),
    (''KDF_F_PKEY_TLS1_PRF_CTRL_STR'', 100),
    (''KDF_F_PKEY_TLS1_PRF_DERIVE'', 101),
    (''KDF_F_PKEY_TLS1_PRF_INIT'', 110),
    (''KDF_F_TLS1_PRF_ALG'', 111)]"

definition KDF_R_codes :: code_table where
  "KDF_R_codes = [
    (''KDF_R_INVALID_DIGEST'', 100),
    (''KDF_R_MISSING_ITERATION_COUNT'', 109),
    (''KDF_R_MISSING_KEY'', 104),
    (''KDF_R_MISSING_MESSAGE_DIGEST'', 105),
    (''KDF_R_MISSING_PARAMETER'', 101),
    (''KDF_R_MISSING_PASS'', 110),
    (''KDF_R_MISSING_SALT'', 111),
    (''KDF_R_MISSING_SECRET'', 107),
    (''KDF_R_MISSING_SEED'', 106),
    (''KDF_R_UNKNOWN_PARAMETER_TYPE'', 103),
    (''KDF_R_VALUE_ERROR'', 108),
    (''KDF_R_VALUE_MISSING'', 102)]"

definition KDF_errors :: err_library where
  "KDF_errors = \<lparr>err_lib = ERR_LIB_KDF, err_functions = KDF_F_codes, err_reasons = KDF_R_codes\<rparr>"

definition OBJ_F_codes :: code_table where
  "OBJ_F_codes = [
    (''OBJ_F_OBJ_ADD_OBJECT'', 105),
    (''OBJ_F_OBJ_ADD_SIGID'', 107),
    (''OBJ_F_OBJ_CREATE'', 100),
    (''OBJ_F_OBJ_DUP'', 101),
    (''OBJ_F_OBJ_NAME_NEW_INDEX'', 106),
    (''OBJ_F_OBJ_NID2LN'', 102),
    (''OBJ_F_OBJ_NID2OBJ'', 103),
    (''OBJ_F_OBJ_NID2SN'', 104),
    (''OBJ_F_OBJ_TXT2OBJ'', 108)]"

definition OBJ_R_codes :: code_table where
  "OBJ_R_codes = [
    (''OBJ_R_OID_EXISTS'', 102),
    (''OBJ_R_UNKNOWN_NID'', 101)]"

definition OBJ_errors :: err_library where
  "OBJ_errors = \<lparr>err_lib = ERR_LIB_OBJ, err_functions = OBJ_F_codes, err_reasons = OBJ_R_codes\<rparr>"

definition OCSP_F_codes :: code_table where
  "OCSP_F_codes = [
    (''OCSP_F_D2I_OCSP_NONCE'', 102),
    (''OCSP_F_OCSP_BASIC_ADD1_STATUS'', 103),
    (''OCSP_F_OCSP_BASIC_SIGN'', 104),
    (''OCSP_F_OCSP_BASIC_SIGN_CTX'', 119),
    (''OCSP_F_OCSP_BASIC_VERIFY'', 105),
    (''OCSP_F_OCSP_CERT_ID_NEW'', 101),
    (''OCSP_F_OCSP_CHECK_DELEGATED'', 106),
    (''OCSP_F_OCSP_CHECK_IDS'', 107),
    (''OCSP_F_OCSP_CHECK_ISSUER'', 108),
    (''OCSP_F_OCSP_CHECK_VALIDITY'', 115),
    (''OCSP_F_OCSP_MATCH_ISSUERID'', 109),
    (''OCSP_F_OCSP_PARSE_URL'', 114),
    (''OCSP_F_OCSP_REQUEST_SIGN'', 110),
    (''OCSP_F_OCSP_REQUEST_VERIFY'', 116),
    (''OCSP_F_OCSP_RESPONSE_GET1_BASIC'', 111),
    (''OCSP_F_PARSE_HTTP_LINE1'', 118)]"

definition OCSP_R_codes :: code_table where
  "OCSP_R_codes = [
    (''OCSP_R_CERTIFICATE_VERIFY_ERROR'', 101),
    (''OCSP_R_DIGEST_ERR'', 102),
    (''OCSP_R_ERROR_IN_NEXTUPDATE_FIELD'', 122),
    (''OCSP_R_ERROR_IN_THISUPDATE_FIELD'', 123),
    (''OCSP_R_ERROR_PARSING_URL'', 121),
    (''OCSP_R_MISSING_OCSPSIGNING_USAGE'', 103),
    (''OCSP_R_NEXTUPDATE_BEFORE_THISUPDATE'', 124),
    (''OCSP_R_NOT_BASIC_RESPONSE'', 104),
    (''OCSP_R_NO_CERTIFICATES_IN_CHAIN'', 105),
    (''OCSP_R_NO_RESPONSE_DATA'', 108),
    (''OCSP_R_NO_REVOKED_TIME'', 109),
    (''OCSP_R_NO_SIGNER_KEY'', 130),
    (''OCSP_R_PRIVATE_KEY_DOES_NOT_MATCH_CERTIFICATE'', 110),
    (''OCSP_R_REQUEST_NOT_SIGNED'', 128),
    (''OCSP_R_RESPONSE_CONTAINS_NO_REVOCATION_DATA'', 111),
    (''OCSP_R_ROOT_CA_NOT_TRUSTED'', 112),
    (''OCSP_R_SERVER_RESPONSE_ERROR'', 114),
    (''OCSP_R_SERVER_RESPONSE_PARSE_ERROR'', 115),
    (''OCSP_R_SIGNATURE_FAILURE'', 117),
    (''OCSP_R_SIGNER_CERTIFICATE_NOT_FOUND'', 118),
    (''OCSP_R_STATUS_EXPIRED'', 125),
    (''OCSP_R_STATUS_NOT_YET_VALID'', 126),
    (''OCSP_R_STATUS_TOO_OLD'', 127),
    (''OCSP_R_UNKNOWN_MESSAGE_DIGEST'', 119),
    (''OCSP_R_UNKNOWN_NID'', 120),
    (''OCSP_R_UNSUPPORTED_REQUESTORNAME_TYPE'', 129)]"

definition OCSP_errors :: err_library where
  "OCSP_errors = \<lparr>err_lib = ERR_LIB_OCSP, err_functions = OCSP_F_codes, err_reasons = OCSP_R_codes\<rparr>"

definition PEM_F_codes :: code_table where
  "PEM_F_codes = [
    (''PEM_F_B2I_DSS'', 127),
    (''PEM_F_B2I_PVK_BIO'', 128),
    (''PEM_F_B2I_RSA'', 129),
    (''PEM_F_CHECK_BITLEN_DSA'', 130),
    (''PEM_F_CHECK_BITLEN_RSA'', 131),
    (''PEM_F_D2I_PKCS8PRIVATEKEY_BIO'', 120),
    (''PEM_F_D2I_PKCS8PRIVATEKEY_FP'', 121),
    (''PEM_F_DO_B2I'', 132),
    (''PEM_F_DO_B2I_BIO'', 133),
    (''PEM_F_DO_BLOB_HEADER'', 134),
    (''PEM_F_DO_I2B'', 146),
    (''PEM_F_DO_PK8PKEY'', 126),
    (''PEM_F_DO_PK8PKEY_FP'', 125),
    (''PEM_F_DO_PVK_BODY'', 135),
    (''PEM_F_DO_PVK_HEADER'', 136),
    (''PEM_F_GET_HEADER_AND_DATA'', 143),
    (''PEM_F_GET_NAME'', 144),
    (''PEM_F_I2B_PVK'', 137),
    (''PEM_F_I2B_PVK_BIO'', 138),
    (''PEM_F_LOAD_IV'', 101),
    (''PEM_F_PEM_ASN1_READ'', 102),
    (''PEM_F_PEM_ASN1_READ_BIO'', 103),
    (''PEM_F_PEM_ASN1_WRITE'', 104),
    (''PEM_F_PEM_ASN1_WRITE_BIO'', 105),
    (''PEM_F_PEM_DEF_CALLBACK'', 100),
    (''PEM_F_PEM_DO_HEADER'', 106),
    (''PEM_F_PEM_GET_EVP_CIPHER_INFO'', 107),
    (''PEM_F_PEM_READ'', 108),
    (''PEM_F_PEM_READ_BIO'', 109),
    (''PEM_F_PEM_READ_BIO_DHPARAMS'', 141),
    (''PEM_F_PEM_READ_BIO_EX'', 145),
    (''PEM_F_PEM_READ_BIO_PARAMETERS'', 140),
    (''PEM_F_PEM_READ_BIO_PRIVATEKEY'', 123),
    (''PEM_F_PEM_READ_DHPARAMS'', 142),
    (''PEM_F_PEM_READ_PRIVATEKEY'', 124),
    (''PEM_F_PEM_SIGNFINAL'', 112),
    (''PEM_F_PEM_WRITE'', 113),
    (''PEM_F_PEM_WRITE_BIO'', 114),
    (''PEM_F_PEM_WRITE_BIO_PRIVATEKEY_TRADITIONAL'', 147),
    (''PEM_F_PEM_WRITE_PRIVATEKEY'', 139),
    (''PEM_F_PEM_X509_INFO_READ'', 115),
    (''PEM_F_PEM_X509_INFO_READ_BIO'', 116),
    (''PEM_F_PEM_X509_INFO_WRITE_BIO'', 117)]"

definition PEM_R_codes :: code_table where
  "PEM_R_codes = [
    (''PEM_R_BAD_BASE64_DECODE'', 100),
    (''PEM_R_BAD_DECRYPT'', 101),
    (''PEM_R_BAD_END_LINE'', 102),
    (''PEM_R_BAD_IV_CHARS'', 103),
    (''PEM_R_BAD_MAGIC_NUMBER'', 116),
    (''PEM_R_BAD_PASSWORD_READ'', 104),
    (''PEM_R_BAD_VERSION_NUMBER'', 117),
    (''PEM_R_BIO_WRITE_FAILURE'', 118),
    (''PEM_R_CIPHER_IS_NULL'', 127),
    (''PEM_R_ERROR_CONVERTING_PRIVATE_KEY'', 115),
    (''PEM_R_EXPECTING_PRIVATE_KEY_BLOB'', 119),
    (''PEM_R_EXPECTING_PUBLIC_KEY_BLOB'', 120),
    (''PEM_R_HEADER_TOO_LONG'', 128),
    (''PEM_R_INCONSISTENT_HEADER'', 121),
    (''PEM_R_KEYBLOB_HEADER_PARSE_ERROR'', 122),
    (''PEM_R_KEYBLOB_TOO_SHORT'', 123),
    (''PEM_R_MISSING_DEK_IV'', 129),
    (''PEM_R_NOT_DEK_INFO'', 105),
    (''PEM_R_NOT_ENCRYPTED'', 106),
    (''PEM_R_NOT_PROC_TYPE'', 107),
    (''PEM_R_NO_START_LINE'', 108),
    (''PEM_R_PROBLEMS_GETTING_PASSWORD'', 109),
    (''PEM_R_PVK_DATA_TOO_SHORT'', 124),
    (''PEM_R_PVK_TOO_SHORT'', 125),
    (''PEM_R_READ_KEY'', 111),
    (''PEM_R_SHORT_HEADER'', 112),
    (''PEM_R_UNEXPECTED_DEK_IV'', 130),
    (''PEM_R_UNSUPPORTED_CIPHER'', 113),
    (''PEM_R_UNSUPPORTED_ENCRYPTION'', 114),
    (''PEM_R_UNSUPPORTED_KEY_COMPONENTS'', 126),
    (''PEM_R_UNSUPPORTED_PUBLIC_KEY_TYPE'', 110)]"

definition PEM_errors :: err_library where
  "PEM_errors = \<lparr>err_lib = ERR_LIB_PEM, err_functions = PEM_F_codes, err_reasons = PEM_R_codes\<rparr>"

definition PKCS12_F_codes :: code_table where
  "PKCS12_F_codes = [
    (''PKCS12_F_OPENSSL_ASC2UNI'', 121),
    (''PKCS12_F_OPENSSL_UNI2ASC'', 124),
    (''PKCS12_F_OPENSSL_UNI2UTF8'', 127),
    (''PKCS12_F_OPENSSL_UTF82UNI'', 129),
    (''PKCS12_F_PKCS12_CREATE'', 105),
    (''PKCS12_F_PKCS12_GEN_MAC'', 107),
    (''PKCS12_F_PKCS12_INIT'', 109),
    (''PKCS12_F_PKCS12_ITEM_DECRYPT_D2I'', 106),
    (''PKCS12_F_PKCS12_ITEM_I2D_ENCRYPT'', 108),
    (''PKCS12_F_PKCS12_ITEM_PACK_SAFEBAG'', 117),
    (''PKCS12_F_PKCS12_KEY_GEN_ASC'', 110),
    (''PKCS12_F_PKCS12_KEY_GEN_UNI'', 111),
    (''PKCS12_F_PKCS12_KEY_GEN_UTF8'', 116),
    (''PKCS12_F_PKCS12_NEWPASS'', 128),
    (''PKCS12_F_PKCS12_PACK_P7DATA'', 114),
    (''PKCS12_F_PKCS12_PACK_P7ENCDATA'', 115),
    (''PKCS12_F_PKCS12_PARSE'', 118),
    (''PKCS12_F_PKCS12_PBE_CRYPT'', 119),
    (''PKCS12_F_PKCS12_PBE_KEYIVGEN'', 120),
    (''PKCS12_F_PKCS12_SAFEBAG_CREATE0_P8INF'', 112),
    (''PKCS12_F_PKCS12_SAFEBAG_CREATE0_PKCS8'', 113),
    (''PKCS12_F_PKCS12_SAFEBAG_CREATE_PKCS8_ENCRYPT'', 133),
    (''PKCS12_F_PKCS12_SETUP_MAC'', 122),
    (''PKCS12_F_PKCS12_SET_MAC'', 123),
    (''PKCS12_F_PKCS12_UNPACK_AUTHSAFES'', 130),
    (''PKCS12_F_PKCS12_UNPACK_P7DATA'', 131),
    (''PKCS12_F_PKCS12_VERIFY_MAC'', 126),
    (''PKCS12_F_PKCS8_ENCRYPT'', 125),
    (''PKCS12_F_PKCS8_SET0_PBE'', 132)]"

definition PKCS12_R_codes :: code_table where
  "PKCS12_R_codes = [
    (''PKCS12_R_CANT_PACK_STRUCTURE'', 100),
    (''PKCS12_R_CONTENT_TYPE_NOT_DATA'', 121),
    (''PKCS12_R_DECODE_ERROR'', 101),
    (''PKCS12_R_ENCODE_ERROR'', 102),
    (''PKCS12_R_ENCRYPT_ERROR'', 103),
    (''PKCS12_R_ERROR_SETTING_ENCRYPTED_DATA_TYPE'', 120),
    (''PKCS12_R_INVALID_NULL_ARGUMENT'', 104),
    (''PKCS12_R_INVALID_NULL_PKCS12_POINTER'', 105),
    (''PKCS12_R_IV_GEN_ERROR'', 106),
    (''PKCS12_R_KEY_GEN_ERROR'', 107),
    (''PKCS12_R_MAC_ABSENT'', 108),
    (''PKCS12_R_MAC_GENERATION_ERROR'', 109),
    (''PKCS12_R_MAC_SETUP_ERROR'', 110),
    (''PKCS12_R_MAC_STRING_SET_ERROR'', 111),
    (''PKCS12_R_MAC_VERIFY_FAILURE'', 113),
    (''PKCS12_R_PARSE_ERROR'', 114),
    (''PKCS12_R_PKCS12_ALGOR_CIPHERINIT_ERROR'', 115),
    (''PKCS12_R_PKCS12_CIPHERFINAL_ERROR'', 116),
    (''PKCS12_R_PKCS12_PBE_CRYPT_ERROR'', 117),
    (''PKCS12_R_UNKNOWN_DIGEST_ALGORITHM'', 118),
    (''PKCS12_R_UNSUPPORTED_PKCS12_MODE'', 119)]"

definition PKCS12_errors :: err_library where
  "PKCS12_errors = \<lparr>err_lib = ERR_LIB_PKCS12, err_functions = PKCS12_F_codes, err_reasons = PKCS12_R_codes\<rparr>"

definition PKCS7_F_codes :: code_table where
  "PKCS7_F_codes = [
    (''PKCS7_F_DO_PKCS7_SIGNED_ATTRIB'', 136),
    (''PKCS7_F_PKCS7_ADD0_ATTRIB_SIGNING_TIME'', 135),
    (''PKCS7_F_PKCS7_ADD_ATTRIB_SMIMECAP'', 118),
    (''PKCS7_F_PKCS7_ADD_CERTIFICATE'', 100),
    (''PKCS7_F_PKCS7_ADD_CRL'', 101),
    (''PKCS7_F_PKCS7_ADD_RECIPIENT_INFO'', 102),
    (''PKCS7_F_PKCS7_ADD_SIGNATURE'', 131),
    (''PKCS7_F_PKCS7_ADD_SIGNER'', 103),
    (''PKCS7_F_PKCS7_BIO_ADD_DIGEST'', 125),
    (''PKCS7_F_PKCS7_COPY_EXISTING_DIGEST'', 138),
    (''PKCS7_F_PKCS7_CTRL'', 104),
    (''PKCS7_F_PKCS7_DATADECODE'', 112),
    (''PKCS7_F_PKCS7_DATAFINAL'', 128),
    (''PKCS7_F_PKCS7_DATAINIT'', 105),
    (''PKCS7_F_PKCS7_DATAVERIFY'', 107),
    (''PKCS7_F_PKCS7_DECRYPT'', 114),
    (''PKCS7_F_PKCS7_DECRYPT_RINFO'', 133),
    (''PKCS7_F_PKCS7_ENCODE_RINFO'', 132),
    (''PKCS7_F_PKCS7_ENCRYPT'', 115),
    (''PKCS7_F_PKCS7_FINAL'', 134),
    (''PKCS7_F_PKCS7_FIND_DIGEST'', 127),
    (''PKCS7_F_PKCS7_GET0_SIGNERS'', 124),
    (''PKCS7_F_PKCS7_RECIP_INFO_SET'', 130),
    (''PKCS7_F_PKCS7_SET_CIPHER'', 108),
    (''PKCS7_F_PKCS7_SET_CONTENT'', 109),
    (''PKCS7_F_PKCS7_SET_DIGEST'', 126),
    (''PKCS7_F_PKCS7_SET_TYPE'', 110),
    (''PKCS7_F_PKCS7_SIGN'', 116),
    (''PKCS7_F_PKCS7_SIGNATUREVERIFY'', 113),
    (''PKCS7_F_PKCS7_SIGNER_INFO_SET'', 129),
    (''PKCS7_F_PKCS7_SIGNER_INFO_SIGN'', 139),
    (''PKCS7_F_PKCS7_SIGN_ADD_SIGNER'', 137),
    (''PKCS7_F_PKCS7_SIMPLE_SMIMECAP'', 119),
    (''PKCS7_F_PKCS7_VERIFY'', 117)]"

definition PKCS7_R_codes :: code_table where
  "PKCS7_R_codes = [
    (''PKCS7_R_CERTIFICATE_VERIFY_ERROR'', 117),
    (''PKCS7_R_CIPHER_HAS_NO_OBJECT_IDENTIFIER'', 144),
    (''PKCS7_R_CIPHER_NOT_INITIALIZED'', 116),
    (''PKCS7_R_CONTENT_AND_DATA_PRESENT'', 118),
    (''PKCS7_R_CTRL_ERROR'', 152),
    (''PKCS7_R_DECRYPT_ERROR'', 119),
    (''PKCS7_R_DIGEST_FAILURE'', 101),
    (''PKCS7_R_ENCRYPTION_CTRL_FAILURE'', 149),
    (''PKCS7_R_ENCRYPTION_NOT_SUPPORTED_FOR_THIS_KEY_TYPE'', 150),
    (''PKCS7_R_ERROR_ADDING_RECIPIENT'', 120),
    (''PKCS7_R_ERROR_SETTING_CIPHER'', 121),
    (''PKCS7_R_INVALID_NULL_POINTER'', 143),
    (''PKCS7_R_INVALID_SIGNED_DATA_TYPE'', 155),
    (''PKCS7_R_NO_CONTENT'', 122),
    (''PKCS7_R_NO_DEFAULT_DIGEST'', 151),
    (''PKCS7_R_NO_MATCHING_DIGEST_TYPE_FOUND'', 154),
    (''PKCS7_R_NO_RECIPIENT_MATCHES_CERTIFICATE'', 115),
    (''PKCS7_R_NO_SIGNATURES_ON_DATA'', 123),
    (''PKCS7_R_NO_SIGNERS'', 142),
    (''PKCS7_R_OPERATION_NOT_SUPPORTED_ON_THIS_TYPE'', 104),
    (''PKCS7_R_PKCS7_ADD_SIGNATURE_ERROR'', 124),
    (''PKCS7_R_PKCS7_ADD_SIGNER_ERROR'', 153),
    (''PKCS7_R_PKCS7_DATASIGN'', 145),
    (''PKCS7_R_PRIVATE_KEY_DOES_NOT_MATCH_CERTIFICATE'', 127),
    (''PKCS7_R_SIGNATURE_FAILURE'', 105),
    (''PKCS7_R_SIGNER_CERTIFICATE_NOT_FOUND'', 128),
    (''PKCS7_R_SIGNING_CTRL_FAILURE'', 147),
    (''PKCS7_R_SIGNING_NOT_SUPPORTED_FOR_THIS_KEY_TYPE'', 148),
    (''PKCS7_R_SMIME_TEXT_ERROR'', 129),
    (''PKCS7_R_UNABLE_TO_FIND_CERTIFICATE'', 106),
    (''PKCS7_R_UNABLE_TO_FIND_MEM_BIO'', 107),
    (''PKCS7_R_UNABLE_TO_FIND_MESSAGE_DIGEST'', 108),
    (''PKCS7_R_UNKNOWN_DIGEST_TYPE'', 109),
    (''PKCS7_R_UNKNOWN_OPERATION'', 110),
    (''PKCS7_R_UNSUPPORTED_CIPHER_TYPE'', 111),
    (''PKCS7_R_UNSUPPORTED_CONTENT_TYPE'', 112),
    (''PKCS7_R_WRONG_CONTENT_TYPE'', 113),
    (''PKCS7_R_WRONG_PKCS7_TYPE'', 114)]"

definition PKCS7_errors :: err_library where
  "PKCS7_errors = \<lparr>err_lib = ERR_LIB_PKCS7, err_functions = PKCS7_F_codes, err_reasons = PKCS7_R_codes\<rparr>"

definition RAND_F_codes :: code_table where
  "RAND_F_codes = [
    (''RAND_F_DATA_COLLECT_METHOD'', 127),
    (''RAND_F_DRBG_BYTES'', 101),
    (''RAND_F_DRBG_GET_ENTROPY'', 105),
    (''RAND_F_DRBG_SETUP'', 117),
    (''RAND_F_GET_ENTROPY'', 106),
    (''RAND_F_RAND_BYTES'', 100),
    (''RAND_F_RAND_DRBG_ENABLE_LOCKING'', 119),
    (''RAND_F_RAND_DRBG_GENERATE'', 107),
    (''RAND_F_RAND_DRBG_GET_ENTROPY'', 120),
    (''RAND_F_RAND_DRBG_GET_NONCE'', 123),
    (''RAND_F_RAND_DRBG_INSTANTIATE'', 108),
    (''RAND_F_RAND_DRBG_NEW'', 109),
    (''RAND_F_RAND_DRBG_RESEED'', 110),
    (''RAND_F_RAND_DRBG_RESTART'', 102),
    (''RAND_F_RAND_DRBG_SET'', 104),
    (''RAND_F_RAND_DRBG_SET_DEFAULTS'', 121),
    (''RAND_F_RAND_DRBG_UNINSTANTIATE'', 118),
    (''RAND_F_RAND_LOAD_FILE'', 111),
    (''RAND_F_RAND_POOL_ACQUIRE_ENTROPY'', 122),
    (''RAND_F_RAND_POOL_ADD'', 103),
    (''RAND_F_RAND_POOL_ADD_BEGIN'', 113),
    (''RAND_F_RAND_POOL_ADD_END'', 114),
    (''RAND_F_RAND_POOL_ATTACH'', 124),
    (''RAND_F_RAND_POOL_BYTES_NEEDED'', 115),
    (''RAND_F_RAND_POOL_GROW'', 125),
    (''RAND_F_RAND_POOL_NEW'', 116),
    (''RAND_F_RAND_PSEUDO_BYTES'', 126),
    (''RAND_F_RAND_WRITE_FILE'', 112)]"

definition RAND_R_codes :: code_table where
  "RAND_R_codes = [
    (''RAND_R_ADDITIONAL_INPUT_TOO_LONG'', 102),
    (''RAND_R_ALREADY_INSTANTIATED'', 103),
    (''RAND_R_ARGUMENT_OUT_OF_RANGE'', 105),
    (''RAND_R_CANNOT_OPEN_FILE'', 121),
    (''RAND_R_DRBG_ALREADY_INITIALIZED'', 129),
    (''RAND_R_DRBG_NOT_INITIALISED'', 104),
    (''RAND_R_ENTROPY_INPUT_TOO_LONG'', 106),
    (''RAND_R_ENTROPY_OUT_OF_RANGE'', 124),
    (''RAND_R_ERROR_ENTROPY_POOL_WAS_IGNORED'', 127),
    (''RAND_R_ERROR_INITIALISING_DRBG'', 107),
    (''RAND_R_ERROR_INSTANTIATING_DRBG'', 108),
    (''RAND_R_ERROR_RETRIEVING_ADDITIONAL_INPUT'', 109),
    (''RAND_R_ERROR_RETRIEVING_ENTROPY'', 110),
    (''RAND_R_ERROR_RETRIEVING_NONCE'', 111),
    (''RAND_R_FAILED_TO_CREATE_LOCK'', 126),
    (''RAND_R_FUNC_NOT_IMPLEMENTED'', 101),
    (''RAND_R_FWRITE_ERROR'', 123),
    (''RAND_R_GENERATE_ERROR'', 112),
    (''RAND_R_INTERNAL_ERROR'', 113),
    (''RAND_R_IN_ERROR_STATE'', 114),
    (''RAND_R_NOT_A_REGULAR_FILE'', 122),
    (''RAND_R_NOT_INSTANTIATED'', 115),
    (''RAND_R_NO_DRBG_IMPLEMENTATION_SELECTED'', 128),
    (''RAND_R_PARENT_LOCKING_NOT_ENABLED'', 130),
    (''RAND_R_PARENT_STRENGTH_TOO_WEAK'', 131),
    (''RAND_R_PERSONALISATION_STRING_TOO_LONG'', 116),
    (''RAND_R_PREDICTION_RESISTANCE_NOT_SUPPORTED'', 133),
    (''RAND_R_PRNG_NOT_SEEDED'', 100),
    (''RAND_R_RANDOM_POOL_OVERFLOW'', 125),
    (''RAND_R_RANDOM_POOL_UNDERFLOW'', 134),
    (''RAND_R_REQUEST_TOO_LARGE_FOR_DRBG'', 117),
    (''RAND_R_RESEED_ERROR'', 118),
    (''RAND_R_SELFTEST_FAILURE'', 119),
    (''RAND_R_TOO_LITTLE_NONCE_REQUESTED'', 135),
    (''RAND_R_TOO_MUCH_NONCE_REQUESTED'', 136),
    (''RAND_R_UNSUPPORTED_DRBG_FLAGS'', 132),
    (''RAND_R_UNSUPPORTED_DRBG_TYPE'', 120)]"

definition RAND_errors :: err_library where
  "RAND_errors = \<lparr>err_lib = ERR_LIB_RAND, err_functions = RAND_F_codes, err_reasons = RAND_R_codes\<rparr>"

definition RSA_F_codes :: code_table where
  "RSA_F_codes = [
    (''RSA_F_CHECK_PADDING_MD'', 140),
    (''RSA_F_ENCODE_PKCS1'', 146),
    (''RSA_F_INT_RSA_VERIFY'', 145),
    (''RSA_F_OLD_RSA_PRIV_DECODE'', 147),
    (''RSA_F_PKEY_PSS_INIT'', 165),
    (''RSA_F_PKEY_RSA_CTRL'', 143),
    (''RSA_F_PKEY_RSA_CTRL_STR'', 144),
    (''RSA_F_PKEY_RSA_SIGN'', 142),
    (''RSA_F_PKEY_RSA_VERIFY'', 149),
    (''RSA_F_PKEY_RSA_VERIFYRECOVER'', 141),
    (''RSA_F_RSA_ALGOR_TO_MD'', 156),
    (''RSA_F_RSA_BUILTIN_KEYGEN'', 129),
    (''RSA_F_RSA_CHECK_KEY'', 123),
    (''RSA_F_RSA_CHECK_KEY_EX'', 160),
    (''RSA_F_RSA_CMS_DECRYPT'', 159),
    (''RSA_F_RSA_CMS_VERIFY'', 158),
    (''RSA_F_RSA_ITEM_VERIFY'', 148),
    (''RSA_F_RSA_METH_DUP'', 161),
    (''RSA_F_RSA_METH_NEW'', 162),
    (''RSA_F_RSA_METH_SET1_NAME'', 163),
    (''RSA_F_RSA_MGF1_TO_MD'', 157),
    (''RSA_F_RSA_MULTIP_INFO_NEW'', 166),
    (''RSA_F_RSA_NEW_METHOD'', 106),
    (''RSA_F_RSA_NULL'', 124),
    (''RSA_F_RSA_NULL_PRIVATE_DECRYPT'', 132),
    (''RSA_F_RSA_NULL_PRIVATE_ENCRYPT'', 133),
    (''RSA_F_RSA_NULL_PUBLIC_DECRYPT'', 134),
    (''RSA_F_RSA_NULL_PUBLIC_ENCRYPT'', 135),
    (''RSA_F_RSA_OSSL_PRIVATE_DECRYPT'', 101),
    (''RSA_F_RSA_OSSL_PRIVATE_ENCRYPT'', 102),
    (''RSA_F_RSA_OSSL_PUBLIC_DECRYPT'', 103),
    (''RSA_F_RSA_OSSL_PUBLIC_ENCRYPT'', 104),
    (''RSA_F_RSA_PADDING_ADD_NONE'', 107),
    (''RSA_F_RSA_PADDING_ADD_PKCS1_OAEP'', 121),
    (''RSA_F_RSA_PADDING_ADD_PKCS1_OAEP_MGF1'', 154),
    (''RSA_F_RSA_PADDING_ADD_PKCS1_PSS'', 125),
    (''RSA_F_RSA_PADDING_ADD_PKCS1_PSS_MGF1'', 152),
    (''RSA_F_RSA_PADDING_ADD_PKCS1_TYPE_1'', 108),
    (''RSA_F_RSA_PADDING_ADD_PKCS1_TYPE_2'', 109),
    (''RSA_F_RSA_PADDING_ADD_SSLV23'', 110),
    (''RSA_F_RSA_PADDING_ADD_X931'', 127),
    (''RSA_F_RSA_PADDING_CHECK_NONE'', 111),
    (''RSA_F_RSA_PADDING_CHECK_PKCS1_OAEP'', 122),
    (''RSA_F_RSA_PADDING_CHECK_PKCS1_OAEP_MGF1'', 153),
    (''RSA_F_RSA_PADDING_CHECK_PKCS1_TYPE_1'', 112),
    (''RSA_F_RSA_PADDING_CHECK_PKCS1_TYPE_2'', 113),
    (''RSA_F_RSA_PADDING_CHECK_SSLV23'', 114),
    (''RSA_F_RSA_PADDING_CHECK_X931'', 128),
    (''RSA_F_RSA_PARAM_DECODE'', 164),
    (''RSA_F_RSA_PRINT'', 115),
    (''RSA_F_RSA_PRINT_FP'', 116),
    (''RSA_F_RSA_PRIV_DECODE'', 150),
    (''RSA_F_RSA_PRIV_ENCODE'', 138),
    (''RSA_F_RSA_PSS_GET_PARAM'', 151),
    (''RSA_F_RSA_PSS_TO_CTX'', 155),
    (''RSA_F_RSA_PUB_DECODE'', 139),
    (''RSA_F_RSA_SETUP_BLINDING'', 136),
    (''RSA_F_RSA_SIGN'', 117),
    (''RSA_F_RSA_SIGN_ASN1_OCTET_STRING'', 118),
    (''RSA_F_RSA_VERIFY'', 119),
    (''RSA_F_RSA_VERIFY_ASN1_OCTET_STRING'', 120),
    (''RSA_F_RSA_VERIFY_PKCS1_PSS_MGF1'', 126),
    (''RSA_F_SETUP_TBUF'', 167)]"

definition RSA_R_codes :: code_table where
  "RSA_R_codes = [
    (''RSA_R_ALGORITHM_MISMATCH'', 100),
    (''RSA_R_BAD_E_VALUE'', 101),
    (''RSA_R_BAD_FIXED_HEADER_DECRYPT'', 102),
    (''RSA_R_BAD_PAD_BYTE_COUNT'', 103),
    (''RSA_R_BAD_SIGNATURE'', 104),
    (''RSA_R_BLOCK_TYPE_IS_NOT_01'', 106),
    (''RSA_R_BLOCK_TYPE_IS_NOT_02'', 107),
    (''RSA_R_DATA_GREATER_THAN_MOD_LEN'', 108),
    (''RSA_R_DATA_TOO_LARGE'', 109),
    (''RSA_R_DATA_TOO_LARGE_FOR_KEY_SIZE'', 110),
    (''RSA_R_DATA_TOO_LARGE_FOR_MODULUS'', 132),
    (''RSA_R_DATA_TOO_SMALL'', 111),
    (''RSA_R_DATA_TOO_SMALL_FOR_KEY_SIZE'', 122),
    (''RSA_R_DIGEST_DOES_NOT_MATCH'', 158),
    (''RSA_R_DIGEST_NOT_ALLOWED'', 145),
    (''RSA_R_DIGEST_TOO_BIG_FOR_RSA_KEY'', 112),
    (''RSA_R_DMP1_NOT_CONGRUENT_TO_D'', 124),
    (''RSA_R_DMQ1_NOT_CONGRUENT_TO_D'', 125),
    (''RSA_R_D_E_NOT_CONGRUENT_TO_1'', 123),
    (''RSA_R_FIRST_OCTET_INVALID'', 133),
    (''RSA_R_ILLEGAL_OR_UNSUPPORTED_PADDING_MODE'', 144),
    (''RSA_R_INVALID_DIGEST'', 157),
    (''RSA_R_INVALID_DIGEST_LENGTH'', 143),
    (''RSA_R_INVALID_HEADER'', 137),
    (''RSA_R_INVALID_LABEL'', 160),
    (''RSA_R_INVALID_MESSAGE_LENGTH'', 131),
    (''RSA_R_INVALID_MGF1_MD'', 156),
    (''RSA_R_INVALID_MULTI_PRIME_KEY'', 167),
    (''RSA_R_INVALID_OAEP_PARAMETERS'', 161),
    (''RSA_R_INVALID_PADDING'', 138),
    (''RSA_R_INVALID_PADDING_MODE'', 141),
    (''RSA_R_INVALID_PSS_PARAMETERS'', 149),
    (''RSA_R_INVALID_PSS_SALTLEN'', 146),
    (''RSA_R_INVALID_SALT_LENGTH'', 150),
    (''RSA_R_INVALID_TRAILER'', 139),
    (''RSA_R_INVALID_X931_DIGEST'', 142),
    (''RSA_R_IQMP_NOT_INVERSE_OF_Q'', 126),
    (''RSA_R_KEY_PRIME_NUM_INVALID'', 165),
    (''RSA_R_KEY_SIZE_TOO_SMALL'', 120),
    (''RSA_R_LAST_OCTET_INVALID'', 134),
    (''RSA_R_MISSING_PRIVATE_KEY'', 179),
    (''RSA_R_MGF1_DIGEST_NOT_ALLOWED'', 152),
    (''RSA_R_MODULUS_TOO_LARGE'', 105),
    (''RSA_R_MP_COEFFICIENT_NOT_INVERSE_OF_R'', 168),
    (''RSA_R_MP_EXPONENT_NOT_CONGRUENT_TO_D'', 169),
    (''RSA_R_MP_R_NOT_PRIME'', 170),
    (''RSA_R_NO_PUBLIC_EXPONENT'', 140),
    (''RSA_R_NULL_BEFORE_BLOCK_MISSING'', 113),
    (''RSA_R_N_DOES_NOT_EQUAL_PRODUCT_OF_PRIMES'', 172),
    (''RSA_R_N_DOES_NOT_EQUAL_P_Q'', 127),
    (''RSA_R_OAEP_DECODING_ERROR'', 121),
    (''RSA_R_OPERATION_NOT_SUPPORTED_FOR_THIS_KEYTYPE'', 148),
    (''RSA_R_PADDING_CHECK_FAILED'', 114),
    (''RSA_R_PKCS_DECODING_ERROR'', 159),
    (''RSA_R_PSS_SALTLEN_TOO_SMALL'', 164),
    (''RSA_R_P_NOT_PRIME'', 128),
    (''RSA_R_Q_NOT_PRIME'', 129),
    (''RSA_R_RSA_OPERATIONS_NOT_SUPPORTED'', 130),
    (''RSA_R_SLEN_CHECK_FAILED'', 136),
    (''RSA_R_SLEN_RECOVERY_FAILED'', 135),
    (''RSA_R_SSLV3_ROLLBACK_ATTACK'', 115),
    (''RSA_R_THE_ASN1_OBJECT_IDENTIFIER_IS_NOT_KNOWN_FOR_THIS_MD'', 116),
    (''RSA_R_UNKNOWN_ALGORITHM_TYPE'', 117),
    (''RSA_R_UNKNOWN_DIGEST'', 166),
    (''RSA_R_UNKNOWN_MASK_DIGEST'', 151),
    (''RSA_R_UNKNOWN_PADDING_TYPE'', 118),
    (''RSA_R_UNSUPPORTED_ENCRYPTION_TYPE'', 162),
    (''RSA_R_UNSUPPORTED_LABEL_SOURCE'', 163),
    (''RSA_R_UNSUPPORTED_MASK_ALGORITHM'', 153),
    (''RSA_R_UNSUPPORTED_MASK_PARAMETER'', 154),
    (''RSA_R_UNSUPPORTED_SIGNATURE_TYPE'', 155),
    (''RSA_R_VALUE_MISSING'', 147),
    (''RSA_R_WRONG_SIGNATURE_LENGTH'', 119)]"

definition RSA_errors :: err_library where
  "RSA_errors = \<lparr>err_lib = ERR_LIB_RSA, err_functions = RSA_F_codes, err_reasons = RSA_R_codes\<rparr>"

definition SSL_F_codes_1 :: code_table where
  "SSL_F_codes_1 = [
    (''SSL_F_ADD_CLIENT_KEY_SHARE_EXT'', 438),
    (''SSL_F_ADD_KEY_SHARE'', 512),
    (''SSL_F_BYTES_TO_CIPHER_LIST'', 519),
    (''SSL_F_CHECK_SUITEB_CIPHER_LIST'', 331),
    (''SSL_F_CIPHERSUITE_CB'', 622),
    (''SSL_F_CONSTRUCT_CA_NAMES'', 552),
    (''SSL_F_CONSTRUCT_KEY_EXCHANGE_TBS'', 553),
    (''SSL_F_CONSTRUCT_STATEFUL_TICKET'', 636),
    (''SSL_F_CONSTRUCT_STATELESS_TICKET'', 637),
    (''SSL_F_CREATE_SYNTHETIC_MESSAGE_HASH'', 539),
    (''SSL_F_CREATE_TICKET_PREQUEL'', 638),
    (''SSL_F_CT_MOVE_SCTS'', 345),
    (''SSL_F_CT_STRICT'', 349),
    (''SSL_F_CUSTOM_EXT_ADD'', 554),
    (''SSL_F_CUSTOM_EXT_PARSE'', 555),
    (''SSL_F_D2I_SSL_SESSION'', 103),
    (''SSL_F_DANE_CTX_ENABLE'', 347),
    (''SSL_F_DANE_MTYPE_SET'', 393),
    (''SSL_F_DANE_TLSA_ADD'', 394),
    (''SSL_F_DERIVE_SECRET_KEY_AND_IV'', 514),
    (''SSL_F_DO_DTLS1_WRITE'', 245),
    (''SSL_F_DO_SSL3_WRITE'', 104),
    (''SSL_F_DTLS1_BUFFER_RECORD'', 247),
    (''SSL_F_DTLS1_CHECK_TIMEOUT_NUM'', 318),
    (''SSL_F_DTLS1_HEARTBEAT'', 305),
    (''SSL_F_DTLS1_HM_FRAGMENT_NEW'', 623),
    (''SSL_F_DTLS1_PREPROCESS_FRAGMENT'', 288),
    (''SSL_F_DTLS1_PROCESS_BUFFERED_RECORDS'', 424),
    (''SSL_F_DTLS1_PROCESS_RECORD'', 257),
    (''SSL_F_DTLS1_READ_BYTES'', 258),
    (''SSL_F_DTLS1_READ_FAILED'', 339),
    (''SSL_F_DTLS1_RETRANSMIT_MESSAGE'', 390),
    (''SSL_F_DTLS1_WRITE_APP_DATA_BYTES'', 268),
    (''SSL_F_DTLS1_WRITE_BYTES'', 545),
    (''SSL_F_DTLSV1_LISTEN'', 350),
    (''SSL_F_DTLS_CONSTRUCT_CHANGE_CIPHER_SPEC'', 371),
    (''SSL_F_DTLS_CONSTRUCT_HELLO_VERIFY_REQUEST'', 385),
    (''SSL_F_DTLS_GET_REASSEMBLED_MESSAGE'', 370),
    (''SSL_F_DTLS_PROCESS_HELLO_VERIFY'', 386),
    (''SSL_F_DTLS_RECORD_LAYER_NEW'', 635),
    (''SSL_F_DTLS_WAIT_FOR_DRY'', 592),
    (''SSL_F_EARLY_DATA_COUNT_OK'', 532),
    (''SSL_F_FINAL_EARLY_DATA'', 556),
    (''SSL_F_FINAL_EC_PT_FORMATS'', 485),
    (''SSL_F_FINAL_EMS'', 486),
    (''SSL_F_FINAL_KEY_SHARE'', 503),
    (''SSL_F_FINAL_MAXFRAGMENTLEN'', 557),
    (''SSL_F_FINAL_PSK'', 639),
    (''SSL_F_FINAL_RENEGOTIATE'', 483),
    (''SSL_F_FINAL_SERVER_NAME'', 558),
    (''SSL_F_FINAL_SIG_ALGS'', 497),
    (''SSL_F_GET_CERT_VERIFY_TBS_DATA'', 588),
    (''SSL_F_NSS_KEYLOG_INT'', 500),
    (''SSL_F_OPENSSL_INIT_SSL'', 342),
    (''SSL_F_OSSL_STATEM_CLIENT13_READ_TRANSITION'', 436),
    (''SSL_F_OSSL_STATEM_CLIENT13_WRITE_TRANSITION'', 598),
    (''SSL_F_OSSL_STATEM_CLIENT_CONSTRUCT_MESSAGE'', 430),
    (''SSL_F_OSSL_STATEM_CLIENT_POST_PROCESS_MESSAGE'', 593),
    (''SSL_F_OSSL_STATEM_CLIENT_PROCESS_MESSAGE'', 594),
    (''SSL_F_OSSL_STATEM_CLIENT_READ_TRANSITION'', 417),
    (''SSL_F_OSSL_STATEM_CLIENT_WRITE_TRANSITION'', 599),
    (''SSL_F_OSSL_STATEM_SERVER13_READ_TRANSITION'', 437),
    (''SSL_F_OSSL_STATEM_SERVER13_WRITE_TRANSITION'', 600),
    (''SSL_F_OSSL_STATEM_SERVER_CONSTRUCT_MESSAGE'', 431),
    (''SSL_F_OSSL_STATEM_SERVER_POST_PROCESS_MESSAGE'', 601),
    (''SSL_F_OSSL_STATEM_SERVER_POST_WORK'', 602),
    (''SSL_F_OSSL_STATEM_SERVER_PRE_WORK'', 640),
    (''SSL_F_OSSL_STATEM_SERVER_PROCESS_MESSAGE'', 603),
    (''SSL_F_OSSL_STATEM_SERVER_READ_TRANSITION'', 418),
    (''SSL_F_OSSL_STATEM_SERVER_WRITE_TRANSITION'', 604),
    (''SSL_F_PARSE_CA_NAMES'', 541),
    (''SSL_F_PITEM_NEW'', 624),
    (''SSL_F_PQUEUE_NEW'', 625),
    (''SSL_F_PROCESS_KEY_SHARE_EXT'', 439),
    (''SSL_F_READ_STATE_MACHINE'', 352),
    (''SSL_F_SET_CLIENT_CIPHERSUITE'', 540),
    (''SSL_F_SRP_GENERATE_CLIENT_MASTER_SECRET'', 595),
    (''SSL_F_SRP_GENERATE_SERVER_MASTER_SECRET'', 589),
    (''SSL_F_SRP_VERIFY_SERVER_PARAM'', 596),
    (''SSL_F_SSL3_CHANGE_CIPHER_STATE'', 129),
    (''SSL_F_SSL3_CHECK_CERT_AND_ALGORITHM'', 130),
    (''SSL_F_SSL3_CTRL'', 213),
    (''SSL_F_SSL3_CTX_CTRL'', 133),
    (''SSL_F_SSL3_DIGEST_CACHED_RECORDS'', 293),
    (''SSL_F_SSL3_DO_CHANGE_CIPHER_SPEC'', 292),
    (''SSL_F_SSL3_ENC'', 608),
    (''SSL_F_SSL3_FINAL_FINISH_MAC'', 285),
    (''SSL_F_SSL3_FINISH_MAC'', 587),
    (''SSL_F_SSL3_GENERATE_KEY_BLOCK'', 238),
    (''SSL_F_SSL3_GENERATE_MASTER_SECRET'', 388),
    (''SSL_F_SSL3_GET_RECORD'', 143),
    (''SSL_F_SSL3_INIT_FINISHED_MAC'', 397),
    (''SSL_F_SSL3_OUTPUT_CERT_CHAIN'', 147),
    (''SSL_F_SSL3_READ_BYTES'', 148),
    (''SSL_F_SSL3_READ_N'', 149),
    (''SSL_F_SSL3_SETUP_KEY_BLOCK'', 157),
    (''SSL_F_SSL3_SETUP_READ_BUFFER'', 156),
    (''SSL_F_SSL3_SETUP_WRITE_BUFFER'', 291),
    (''SSL_F_SSL3_WRITE_BYTES'', 158),
    (''SSL_F_SSL3_WRITE_PENDING'', 159),
    (''SSL_F_SSL_ADD_CERT_CHAIN'', 316),
    (''SSL_F_SSL_ADD_CERT_TO_BUF'', 319),
    (''SSL_F_SSL_ADD_CERT_TO_WPACKET'', 493),
    (''SSL_F_SSL_ADD_CLIENTHELLO_RENEGOTIATE_EXT'', 298),
    (''SSL_F_SSL_ADD_CLIENTHELLO_TLSEXT'', 277),
    (''SSL_F_SSL_ADD_CLIENTHELLO_USE_SRTP_EXT'', 307),
    (''SSL_F_SSL_ADD_DIR_CERT_SUBJECTS_TO_STACK'', 215),
    (''SSL_F_SSL_ADD_FILE_CERT_SUBJECTS_TO_STACK'', 216),
    (''SSL_F_SSL_ADD_SERVERHELLO_RENEGOTIATE_EXT'', 299),
    (''SSL_F_SSL_ADD_SERVERHELLO_TLSEXT'', 278),
    (''SSL_F_SSL_ADD_SERVERHELLO_USE_SRTP_EXT'', 308),
    (''SSL_F_SSL_BAD_METHOD'', 160),
    (''SSL_F_SSL_BUILD_CERT_CHAIN'', 332),
    (''SSL_F_SSL_BYTES_TO_CIPHER_LIST'', 161),
    (''SSL_F_SSL_CACHE_CIPHERLIST'', 520),
    (''SSL_F_SSL_CERT_ADD0_CHAIN_CERT'', 346),
    (''SSL_F_SSL_CERT_DUP'', 221),
    (''SSL_F_SSL_CERT_NEW'', 162),
    (''SSL_F_SSL_CERT_SET0_CHAIN'', 340),
    (''SSL_F_SSL_CHECK_PRIVATE_KEY'', 163),
    (''SSL_F_SSL_CHECK_SERVERHELLO_TLSEXT'', 280),
    (''SSL_F_SSL_CHECK_SRP_EXT_CLIENTHELLO'', 606),
    (''SSL_F_SSL_CHECK_SRVR_ECC_CERT_AND_ALG'', 279),
    (''SSL_F_SSL_CHOOSE_CLIENT_VERSION'', 607),
    (''SSL_F_SSL_CIPHER_DESCRIPTION'', 626),
    (''SSL_F_SSL_CIPHER_LIST_TO_BYTES'', 425),
    (''SSL_F_SSL_CIPHER_PROCESS_RULESTR'', 230),
    (''SSL_F_SSL_CIPHER_STRENGTH_SORT'', 231),
    (''SSL_F_SSL_CLEAR'', 164),
    (''SSL_F_SSL_CLIENT_HELLO_GET1_EXTENSIONS_PRESENT'', 627),
    (''SSL_F_SSL_COMP_ADD_COMPRESSION_METHOD'', 165),
    (''SSL_F_SSL_CONF_CMD'', 334),
    (''SSL_F_SSL_CREATE_CIPHER_LIST'', 166),
    (''SSL_F_SSL_CTRL'', 232),
    (''SSL_F_SSL_CTX_CHECK_PRIVATE_KEY'', 168),
    (''SSL_F_SSL_CTX_ENABLE_CT'', 398),
    (''SSL_F_SSL_CTX_MAKE_PROFILES'', 309),
    (''SSL_F_SSL_CTX_NEW'', 169),
    (''SSL_F_SSL_CTX_SET_ALPN_PROTOS'', 343),
    (''SSL_F_SSL_CTX_SET_CIPHER_LIST'', 269),
    (''SSL_F_SSL_CTX_SET_CLIENT_CERT_ENGINE'', 290),
    (''SSL_F_SSL_CTX_SET_CT_VALIDATION_CALLBACK'', 396),
    (''SSL_F_SSL_CTX_SET_SESSION_ID_CONTEXT'', 219),
    (''SSL_F_SSL_CTX_SET_SSL_VERSION'', 170),
    (''SSL_F_SSL_CTX_SET_TLSEXT_MAX_FRAGMENT_LENGTH'', 551),
    (''SSL_F_SSL_CTX_USE_CERTIFICATE'', 171),
    (''SSL_F_SSL_CTX_USE_CERTIFICATE_ASN1'', 172),
    (''SSL_F_SSL_CTX_USE_CERTIFICATE_FILE'', 173),
    (''SSL_F_SSL_CTX_USE_PRIVATEKEY'', 174),
    (''SSL_F_SSL_CTX_USE_PRIVATEKEY_ASN1'', 175)]"

definition SSL_F_codes_2 :: code_table where
  "SSL_F_codes_2 = [
    (''SSL_F_SSL_CTX_USE_PRIVATEKEY_FILE'', 176),
    (''SSL_F_SSL_CTX_USE_PSK_IDENTITY_HINT'', 272),
    (''SSL_F_SSL_CTX_USE_RSAPRIVATEKEY'', 177),
    (''SSL_F_SSL_CTX_USE_RSAPRIVATEKEY_ASN1'', 178),
    (''SSL_F_SSL_CTX_USE_RSAPRIVATEKEY_FILE'', 179),
    (''SSL_F_SSL_CTX_USE_SERVERINFO'', 336),
    (''SSL_F_SSL_CTX_USE_SERVERINFO_EX'', 543),
    (''SSL_F_SSL_CTX_USE_SERVERINFO_FILE'', 337),
    (''SSL_F_SSL_DANE_DUP'', 403),
    (''SSL_F_SSL_DANE_ENABLE'', 395),
    (''SSL_F_SSL_DERIVE'', 590),
    (''SSL_F_SSL_DO_CONFIG'', 391),
    (''SSL_F_SSL_DO_HANDSHAKE'', 180),
    (''SSL_F_SSL_DUP_CA_LIST'', 408),
    (''SSL_F_SSL_ENABLE_CT'', 402),
    (''SSL_F_SSL_GENERATE_PKEY_GROUP'', 559),
    (''SSL_F_SSL_GENERATE_SESSION_ID'', 547),
    (''SSL_F_SSL_GET_NEW_SESSION'', 181),
    (''SSL_F_SSL_GET_PREV_SESSION'', 217),
    (''SSL_F_SSL_GET_SERVER_CERT_INDEX'', 322),
    (''SSL_F_SSL_GET_SIGN_PKEY'', 183),
    (''SSL_F_SSL_HANDSHAKE_HASH'', 560),
    (''SSL_F_SSL_INIT_WBIO_BUFFER'', 184),
    (''SSL_F_SSL_KEY_UPDATE'', 515),
    (''SSL_F_SSL_LOAD_CLIENT_CA_FILE'', 185),
    (''SSL_F_SSL_LOG_MASTER_SECRET'', 498),
    (''SSL_F_SSL_LOG_RSA_CLIENT_KEY_EXCHANGE'', 499),
    (''SSL_F_SSL_MODULE_INIT'', 392),
    (''SSL_F_SSL_NEW'', 186),
    (''SSL_F_SSL_NEXT_PROTO_VALIDATE'', 565),
    (''SSL_F_SSL_PARSE_CLIENTHELLO_RENEGOTIATE_EXT'', 300),
    (''SSL_F_SSL_PARSE_CLIENTHELLO_TLSEXT'', 302),
    (''SSL_F_SSL_PARSE_CLIENTHELLO_USE_SRTP_EXT'', 310),
    (''SSL_F_SSL_PARSE_SERVERHELLO_RENEGOTIATE_EXT'', 301),
    (''SSL_F_SSL_PARSE_SERVERHELLO_TLSEXT'', 303),
    (''SSL_F_SSL_PARSE_SERVERHELLO_USE_SRTP_EXT'', 311),
    (''SSL_F_SSL_PEEK'', 270),
    (''SSL_F_SSL_PEEK_EX'', 432),
    (''SSL_F_SSL_PEEK_INTERNAL'', 522),
    (''SSL_F_SSL_READ'', 223),
    (''SSL_F_SSL_READ_EARLY_DATA'', 529),
    (''SSL_F_SSL_READ_EX'', 434),
    (''SSL_F_SSL_READ_INTERNAL'', 523),
    (''SSL_F_SSL_RENEGOTIATE'', 516),
    (''SSL_F_SSL_RENEGOTIATE_ABBREVIATED'', 546),
    (''SSL_F_SSL_SCAN_CLIENTHELLO_TLSEXT'', 320),
    (''SSL_F_SSL_SCAN_SERVERHELLO_TLSEXT'', 321),
    (''SSL_F_SSL_SESSION_DUP'', 348),
    (''SSL_F_SSL_SESSION_NEW'', 189),
    (''SSL_F_SSL_SESSION_PRINT_FP'', 190),
    (''SSL_F_SSL_SESSION_SET1_ID'', 423),
    (''SSL_F_SSL_SESSION_SET1_ID_CONTEXT'', 312),
    (''SSL_F_SSL_SET_ALPN_PROTOS'', 344),
    (''SSL_F_SSL_SET_CERT'', 191),
    (''SSL_F_SSL_SET_CERT_AND_KEY'', 621),
    (''SSL_F_SSL_SET_CIPHER_LIST'', 271),
    (''SSL_F_SSL_SET_CT_VALIDATION_CALLBACK'', 399),
    (''SSL_F_SSL_SET_FD'', 192),
    (''SSL_F_SSL_SET_PKEY'', 193),
    (''SSL_F_SSL_SET_RFD'', 194),
    (''SSL_F_SSL_SET_SESSION'', 195),
    (''SSL_F_SSL_SET_SESSION_ID_CONTEXT'', 218),
    (''SSL_F_SSL_SET_SESSION_TICKET_EXT'', 294),
    (''SSL_F_SSL_SET_TLSEXT_MAX_FRAGMENT_LENGTH'', 550),
    (''SSL_F_SSL_SET_WFD'', 196),
    (''SSL_F_SSL_SHUTDOWN'', 224),
    (''SSL_F_SSL_SRP_CTX_INIT'', 313),
    (''SSL_F_SSL_START_ASYNC_JOB'', 389),
    (''SSL_F_SSL_UNDEFINED_FUNCTION'', 197),
    (''SSL_F_SSL_UNDEFINED_VOID_FUNCTION'', 244),
    (''SSL_F_SSL_USE_CERTIFICATE'', 198),
    (''SSL_F_SSL_USE_CERTIFICATE_ASN1'', 199),
    (''SSL_F_SSL_USE_CERTIFICATE_FILE'', 200),
    (''SSL_F_SSL_USE_PRIVATEKEY'', 201),
    (''SSL_F_SSL_USE_PRIVATEKEY_ASN1'', 202),
    (''SSL_F_SSL_USE_PRIVATEKEY_FILE'', 203),
    (''SSL_F_SSL_USE_PSK_IDENTITY_HINT'', 273),
    (''SSL_F_SSL_USE_RSAPRIVATEKEY'', 204),
    (''SSL_F_SSL_USE_RSAPRIVATEKEY_ASN1'', 205),
    (''SSL_F_SSL_USE_RSAPRIVATEKEY_FILE'', 206),
    (''SSL_F_SSL_VALIDATE_CT'', 400),
    (''SSL_F_SSL_VERIFY_CERT_CHAIN'', 207),
    (''SSL_F_SSL_VERIFY_CLIENT_POST_HANDSHAKE'', 616),
    (''SSL_F_SSL_WRITE'', 208),
    (''SSL_F_SSL_WRITE_EARLY_DATA'', 526),
    (''SSL_F_SSL_WRITE_EARLY_FINISH'', 527),
    (''SSL_F_SSL_WRITE_EX'', 433),
    (''SSL_F_SSL_WRITE_INTERNAL'', 524),
    (''SSL_F_STATE_MACHINE'', 353),
    (''SSL_F_TLS12_CHECK_PEER_SIGALG'', 333),
    (''SSL_F_TLS12_COPY_SIGALGS'', 533),
    (''SSL_F_TLS13_CHANGE_CIPHER_STATE'', 440),
    (''SSL_F_TLS13_ENC'', 609),
    (''SSL_F_TLS13_FINAL_FINISH_MAC'', 605),
    (''SSL_F_TLS13_GENERATE_SECRET'', 591),
    (''SSL_F_TLS13_HKDF_EXPAND'', 561),
    (''SSL_F_TLS13_RESTORE_HANDSHAKE_DIGEST_FOR_PHA'', 617),
    (''SSL_F_TLS13_SAVE_HANDSHAKE_DIGEST_FOR_PHA'', 618),
    (''SSL_F_TLS13_SETUP_KEY_BLOCK'', 441),
    (''SSL_F_TLS1_CHANGE_CIPHER_STATE'', 209),
    (''SSL_F_TLS1_CHECK_DUPLICATE_EXTENSIONS'', 341),
    (''SSL_F_TLS1_ENC'', 401),
    (''SSL_F_TLS1_EXPORT_KEYING_MATERIAL'', 314),
    (''SSL_F_TLS1_GET_CURVELIST'', 338),
    (''SSL_F_TLS1_PRF'', 284),
    (''SSL_F_TLS1_SAVE_U16'', 628),
    (''SSL_F_TLS1_SETUP_KEY_BLOCK'', 211),
    (''SSL_F_TLS1_SET_GROUPS'', 629),
    (''SSL_F_TLS1_SET_RAW_SIGALGS'', 630),
    (''SSL_F_TLS1_SET_SERVER_SIGALGS'', 335),
    (''SSL_F_TLS1_SET_SHARED_SIGALGS'', 631),
    (''SSL_F_TLS1_SET_SIGALGS'', 632),
    (''SSL_F_TLS_CHOOSE_SIGALG'', 513),
    (''SSL_F_TLS_CLIENT_KEY_EXCHANGE_POST_WORK'', 354),
    (''SSL_F_TLS_COLLECT_EXTENSIONS'', 435),
    (''SSL_F_TLS_CONSTRUCT_CERTIFICATE_AUTHORITIES'', 542),
    (''SSL_F_TLS_CONSTRUCT_CERTIFICATE_REQUEST'', 372),
    (''SSL_F_TLS_CONSTRUCT_CERT_STATUS'', 429),
    (''SSL_F_TLS_CONSTRUCT_CERT_STATUS_BODY'', 494),
    (''SSL_F_TLS_CONSTRUCT_CERT_VERIFY'', 496),
    (''SSL_F_TLS_CONSTRUCT_CHANGE_CIPHER_SPEC'', 427),
    (''SSL_F_TLS_CONSTRUCT_CKE_DHE'', 404),
    (''SSL_F_TLS_CONSTRUCT_CKE_ECDHE'', 405),
    (''SSL_F_TLS_CONSTRUCT_CKE_GOST'', 406),
    (''SSL_F_TLS_CONSTRUCT_CKE_PSK_PREAMBLE'', 407),
    (''SSL_F_TLS_CONSTRUCT_CKE_RSA'', 409),
    (''SSL_F_TLS_CONSTRUCT_CKE_SRP'', 410),
    (''SSL_F_TLS_CONSTRUCT_CLIENT_CERTIFICATE'', 484),
    (''SSL_F_TLS_CONSTRUCT_CLIENT_HELLO'', 487),
    (''SSL_F_TLS_CONSTRUCT_CLIENT_KEY_EXCHANGE'', 488),
    (''SSL_F_TLS_CONSTRUCT_CLIENT_VERIFY'', 489),
    (''SSL_F_TLS_CONSTRUCT_CTOS_ALPN'', 466),
    (''SSL_F_TLS_CONSTRUCT_CTOS_CERTIFICATE'', 355),
    (''SSL_F_TLS_CONSTRUCT_CTOS_COOKIE'', 535),
    (''SSL_F_TLS_CONSTRUCT_CTOS_EARLY_DATA'', 530),
    (''SSL_F_TLS_CONSTRUCT_CTOS_EC_PT_FORMATS'', 467),
    (''SSL_F_TLS_CONSTRUCT_CTOS_EMS'', 468),
    (''SSL_F_TLS_CONSTRUCT_CTOS_ETM'', 469),
    (''SSL_F_TLS_CONSTRUCT_CTOS_HELLO'', 356),
    (''SSL_F_TLS_CONSTRUCT_CTOS_KEY_EXCHANGE'', 357),
    (''SSL_F_TLS_CONSTRUCT_CTOS_KEY_SHARE'', 470),
    (''SSL_F_TLS_CONSTRUCT_CTOS_MAXFRAGMENTLEN'', 549),
    (''SSL_F_TLS_CONSTRUCT_CTOS_NPN'', 471),
    (''SSL_F_TLS_CONSTRUCT_CTOS_PADDING'', 472),
    (''SSL_F_TLS_CONSTRUCT_CTOS_POST_HANDSHAKE_AUTH'', 619),
    (''SSL_F_TLS_CONSTRUCT_CTOS_PSK'', 501),
    (''SSL_F_TLS_CONSTRUCT_CTOS_PSK_KEX_MODES'', 509),
    (''SSL_F_TLS_CONSTRUCT_CTOS_RENEGOTIATE'', 473),
    (''SSL_F_TLS_CONSTRUCT_CTOS_SCT'', 474),
    (''SSL_F_TLS_CONSTRUCT_CTOS_SERVER_NAME'', 475)]"

definition SSL_F_codes_3 :: code_table where
  "SSL_F_codes_3 = [
    (''SSL_F_TLS_CONSTRUCT_CTOS_SESSION_TICKET'', 476),
    (''SSL_F_TLS_CONSTRUCT_CTOS_SIG_ALGS'', 477),
    (''SSL_F_TLS_CONSTRUCT_CTOS_SRP'', 478),
    (''SSL_F_TLS_CONSTRUCT_CTOS_STATUS_REQUEST'', 479),
    (''SSL_F_TLS_CONSTRUCT_CTOS_SUPPORTED_GROUPS'', 480),
    (''SSL_F_TLS_CONSTRUCT_CTOS_SUPPORTED_VERSIONS'', 481),
    (''SSL_F_TLS_CONSTRUCT_CTOS_USE_SRTP'', 482),
    (''SSL_F_TLS_CONSTRUCT_CTOS_VERIFY'', 358),
    (''SSL_F_TLS_CONSTRUCT_ENCRYPTED_EXTENSIONS'', 443),
    (''SSL_F_TLS_CONSTRUCT_END_OF_EARLY_DATA'', 536),
    (''SSL_F_TLS_CONSTRUCT_EXTENSIONS'', 447),
    (''SSL_F_TLS_CONSTRUCT_FINISHED'', 359),
    (''SSL_F_TLS_CONSTRUCT_HELLO_REQUEST'', 373),
    (''SSL_F_TLS_CONSTRUCT_HELLO_RETRY_REQUEST'', 510),
    (''SSL_F_TLS_CONSTRUCT_KEY_UPDATE'', 517),
    (''SSL_F_TLS_CONSTRUCT_NEW_SESSION_TICKET'', 428),
    (''SSL_F_TLS_CONSTRUCT_NEXT_PROTO'', 426),
    (''SSL_F_TLS_CONSTRUCT_SERVER_CERTIFICATE'', 490),
    (''SSL_F_TLS_CONSTRUCT_SERVER_HELLO'', 491),
    (''SSL_F_TLS_CONSTRUCT_SERVER_KEY_EXCHANGE'', 492),
    (''SSL_F_TLS_CONSTRUCT_STOC_ALPN'', 451),
    (''SSL_F_TLS_CONSTRUCT_STOC_CERTIFICATE'', 374),
    (''SSL_F_TLS_CONSTRUCT_STOC_COOKIE'', 613),
    (''SSL_F_TLS_CONSTRUCT_STOC_CRYPTOPRO_BUG'', 452),
    (''SSL_F_TLS_CONSTRUCT_STOC_DONE'', 375),
    (''SSL_F_TLS_CONSTRUCT_STOC_EARLY_DATA'', 531),
    (''SSL_F_TLS_CONSTRUCT_STOC_EARLY_DATA_INFO'', 525),
    (''SSL_F_TLS_CONSTRUCT_STOC_EC_PT_FORMATS'', 453),
    (''SSL_F_TLS_CONSTRUCT_STOC_EMS'', 454),
    (''SSL_F_TLS_CONSTRUCT_STOC_ETM'', 455),
    (''SSL_F_TLS_CONSTRUCT_STOC_HELLO'', 376),
    (''SSL_F_TLS_CONSTRUCT_STOC_KEY_EXCHANGE'', 377),
    (''SSL_F_TLS_CONSTRUCT_STOC_KEY_SHARE'', 456),
    (''SSL_F_TLS_CONSTRUCT_STOC_MAXFRAGMENTLEN'', 548),
    (''SSL_F_TLS_CONSTRUCT_STOC_NEXT_PROTO_NEG'', 457),
    (''SSL_F_TLS_CONSTRUCT_STOC_PSK'', 504),
    (''SSL_F_TLS_CONSTRUCT_STOC_RENEGOTIATE'', 458),
    (''SSL_F_TLS_CONSTRUCT_STOC_SERVER_NAME'', 459),
    (''SSL_F_TLS_CONSTRUCT_STOC_SESSION_TICKET'', 460),
    (''SSL_F_TLS_CONSTRUCT_STOC_STATUS_REQUEST'', 461),
    (''SSL_F_TLS_CONSTRUCT_STOC_SUPPORTED_GROUPS'', 544),
    (''SSL_F_TLS_CONSTRUCT_STOC_SUPPORTED_VERSIONS'', 611),
    (''SSL_F_TLS_CONSTRUCT_STOC_USE_SRTP'', 462),
    (''SSL_F_TLS_EARLY_POST_PROCESS_CLIENT_HELLO'', 521),
    (''SSL_F_TLS_FINISH_HANDSHAKE'', 597),
    (''SSL_F_TLS_GET_MESSAGE_BODY'', 351),
    (''SSL_F_TLS_GET_MESSAGE_HEADER'', 387),
    (''SSL_F_TLS_HANDLE_ALPN'', 562),
    (''SSL_F_TLS_HANDLE_STATUS_REQUEST'', 563),
    (''SSL_F_TLS_PARSE_CERTIFICATE_AUTHORITIES'', 566),
    (''SSL_F_TLS_PARSE_CLIENTHELLO_TLSEXT'', 449),
    (''SSL_F_TLS_PARSE_CTOS_ALPN'', 567),
    (''SSL_F_TLS_PARSE_CTOS_COOKIE'', 614),
    (''SSL_F_TLS_PARSE_CTOS_EARLY_DATA'', 568),
    (''SSL_F_TLS_PARSE_CTOS_EC_PT_FORMATS'', 569),
    (''SSL_F_TLS_PARSE_CTOS_EMS'', 570),
    (''SSL_F_TLS_PARSE_CTOS_KEY_SHARE'', 463),
    (''SSL_F_TLS_PARSE_CTOS_MAXFRAGMENTLEN'', 571),
    (''SSL_F_TLS_PARSE_CTOS_POST_HANDSHAKE_AUTH'', 620),
    (''SSL_F_TLS_PARSE_CTOS_PSK'', 505),
    (''SSL_F_TLS_PARSE_CTOS_PSK_KEX_MODES'', 572),
    (''SSL_F_TLS_PARSE_CTOS_RENEGOTIATE'', 464),
    (''SSL_F_TLS_PARSE_CTOS_SERVER_NAME'', 573),
    (''SSL_F_TLS_PARSE_CTOS_SESSION_TICKET'', 574),
    (''SSL_F_TLS_PARSE_CTOS_SIG_ALGS'', 575),
    (''SSL_F_TLS_PARSE_CTOS_SIG_ALGS_CERT'', 615),
    (''SSL_F_TLS_PARSE_CTOS_SRP'', 576),
    (''SSL_F_TLS_PARSE_CTOS_STATUS_REQUEST'', 577),
    (''SSL_F_TLS_PARSE_CTOS_SUPPORTED_GROUPS'', 578),
    (''SSL_F_TLS_PARSE_CTOS_USE_SRTP'', 465),
    (''SSL_F_TLS_PARSE_STOC_ALPN'', 579),
    (''SSL_F_TLS_PARSE_STOC_COOKIE'', 534),
    (''SSL_F_TLS_PARSE_STOC_EARLY_DATA'', 538),
    (''SSL_F_TLS_PARSE_STOC_EARLY_DATA_INFO'', 528),
    (''SSL_F_TLS_PARSE_STOC_EC_PT_FORMATS'', 580),
    (''SSL_F_TLS_PARSE_STOC_KEY_SHARE'', 445),
    (''SSL_F_TLS_PARSE_STOC_MAXFRAGMENTLEN'', 581),
    (''SSL_F_TLS_PARSE_STOC_NPN'', 582),
    (''SSL_F_TLS_PARSE_STOC_PSK'', 502),
    (''SSL_F_TLS_PARSE_STOC_RENEGOTIATE'', 448),
    (''SSL_F_TLS_PARSE_STOC_SCT'', 564),
    (''SSL_F_TLS_PARSE_STOC_SERVER_NAME'', 583),
    (''SSL_F_TLS_PARSE_STOC_SESSION_TICKET'', 584),
    (''SSL_F_TLS_PARSE_STOC_STATUS_REQUEST'', 585),
    (''SSL_F_TLS_PARSE_STOC_SUPPORTED_VERSIONS'', 612),
    (''SSL_F_TLS_PARSE_STOC_USE_SRTP'', 446),
    (''SSL_F_TLS_POST_PROCESS_CLIENT_HELLO'', 378),
    (''SSL_F_TLS_POST_PROCESS_CLIENT_KEY_EXCHANGE'', 384),
    (''SSL_F_TLS_PREPARE_CLIENT_CERTIFICATE'', 360),
    (''SSL_F_TLS_PROCESS_AS_HELLO_RETRY_REQUEST'', 610),
    (''SSL_F_TLS_PROCESS_CERTIFICATE_REQUEST'', 361),
    (''SSL_F_TLS_PROCESS_CERT_STATUS'', 362),
    (''SSL_F_TLS_PROCESS_CERT_STATUS_BODY'', 495),
    (''SSL_F_TLS_PROCESS_CERT_VERIFY'', 379),
    (''SSL_F_TLS_PROCESS_CHANGE_CIPHER_SPEC'', 363),
    (''SSL_F_TLS_PROCESS_CKE_DHE'', 411),
    (''SSL_F_TLS_PROCESS_CKE_ECDHE'', 412),
    (''SSL_F_TLS_PROCESS_CKE_GOST'', 413),
    (''SSL_F_TLS_PROCESS_CKE_PSK_PREAMBLE'', 414),
    (''SSL_F_TLS_PROCESS_CKE_RSA'', 415),
    (''SSL_F_TLS_PROCESS_CKE_SRP'', 416),
    (''SSL_F_TLS_PROCESS_CLIENT_CERTIFICATE'', 380),
    (''SSL_F_TLS_PROCESS_CLIENT_HELLO'', 381),
    (''SSL_F_TLS_PROCESS_CLIENT_KEY_EXCHANGE'', 382),
    (''SSL_F_TLS_PROCESS_ENCRYPTED_EXTENSIONS'', 444),
    (''SSL_F_TLS_PROCESS_END_OF_EARLY_DATA'', 537),
    (''SSL_F_TLS_PROCESS_FINISHED'', 364),
    (''SSL_F_TLS_PROCESS_HELLO_REQ'', 507),
    (''SSL_F_TLS_PROCESS_HELLO_RETRY_REQUEST'', 511),
    (''SSL_F_TLS_PROCESS_INITIAL_SERVER_FLIGHT'', 442),
    (''SSL_F_TLS_PROCESS_KEY_EXCHANGE'', 365),
    (''SSL_F_TLS_PROCESS_KEY_UPDATE'', 518),
    (''SSL_F_TLS_PROCESS_NEW_SESSION_TICKET'', 366),
    (''SSL_F_TLS_PROCESS_NEXT_PROTO'', 383),
    (''SSL_F_TLS_PROCESS_SERVER_CERTIFICATE'', 367),
    (''SSL_F_TLS_PROCESS_SERVER_DONE'', 368),
    (''SSL_F_TLS_PROCESS_SERVER_HELLO'', 369),
    (''SSL_F_TLS_PROCESS_SKE_DHE'', 419),
    (''SSL_F_TLS_PROCESS_SKE_ECDHE'', 420),
    (''SSL_F_TLS_PROCESS_SKE_PSK_PREAMBLE'', 421),
    (''SSL_F_TLS_PROCESS_SKE_SRP'', 422),
    (''SSL_F_TLS_PSK_DO_BINDER'', 506),
    (''SSL_F_TLS_SCAN_CLIENTHELLO_TLSEXT'', 450),
    (''SSL_F_TLS_SETUP_HANDSHAKE'', 508),
    (''SSL_F_USE_CERTIFICATE_CHAIN_FILE'', 220),
    (''SSL_F_WPACKET_INTERN_INIT_LEN'', 633),
    (''SSL_F_WPACKET_START_SUB_PACKET_LEN__'', 634),
    (''SSL_F_WRITE_STATE_MACHINE'', 586)]"

definition SSL_F_codes :: code_table where
  "SSL_F_codes = SSL_F_codes_1 @ SSL_F_codes_2 @ SSL_F_codes_3"

definition SSL_R_codes_1 :: code_table where
  "SSL_R_codes_1 = [
    (''SSL_R_APPLICATION_DATA_AFTER_CLOSE_NOTIFY'', 291),
    (''SSL_R_APP_DATA_IN_HANDSHAKE'', 100),
    (''SSL_R_ATTEMPT_TO_REUSE_SESSION_IN_DIFFERENT_CONTEXT'', 272),
    (''SSL_R_AT_LEAST_TLS_1_0_NEEDED_IN_FIPS_MODE'', 143),
    (''SSL_R_AT_LEAST_TLS_1_2_NEEDED_IN_SUITEB_MODE'', 158),
    (''SSL_R_BAD_CHANGE_CIPHER_SPEC'', 103),
    (''SSL_R_BAD_CIPHER'', 186),
    (''SSL_R_BAD_DATA'', 390),
    (''SSL_R_BAD_DATA_RETURNED_BY_CALLBACK'', 106),
    (''SSL_R_BAD_DECOMPRESSION'', 107),
    (''SSL_R_BAD_DH_VALUE'', 102),
    (''SSL_R_BAD_DIGEST_LENGTH'', 111),
    (''SSL_R_BAD_EARLY_DATA'', 233),
    (''SSL_R_BAD_ECC_CERT'', 304),
    (''SSL_R_BAD_ECPOINT'', 306),
    (''SSL_R_BAD_EXTENSION'', 110),
    (''SSL_R_BAD_HANDSHAKE_LENGTH'', 332),
    (''SSL_R_BAD_HANDSHAKE_STATE'', 236),
    (''SSL_R_BAD_HELLO_REQUEST'', 105),
    (''SSL_R_BAD_HRR_VERSION'', 263),
    (''SSL_R_BAD_KEY_SHARE'', 108),
    (''SSL_R_BAD_KEY_UPDATE'', 122),
    (''SSL_R_BAD_LEGACY_VERSION'', 292),
    (''SSL_R_BAD_LENGTH'', 271),
    (''SSL_R_BAD_PACKET'', 240),
    (''SSL_R_BAD_PACKET_LENGTH'', 115),
    (''SSL_R_BAD_PROTOCOL_VERSION_NUMBER'', 116),
    (''SSL_R_BAD_PSK'', 219),
    (''SSL_R_BAD_PSK_IDENTITY'', 114),
    (''SSL_R_BAD_RECORD_TYPE'', 443),
    (''SSL_R_BAD_RSA_ENCRYPT'', 119),
    (''SSL_R_BAD_SIGNATURE'', 123),
    (''SSL_R_BAD_SRP_A_LENGTH'', 347),
    (''SSL_R_BAD_SRP_PARAMETERS'', 371),
    (''SSL_R_BAD_SRTP_MKI_VALUE'', 352),
    (''SSL_R_BAD_SRTP_PROTECTION_PROFILE_LIST'', 353),
    (''SSL_R_BAD_SSL_FILETYPE'', 124),
    (''SSL_R_BAD_VALUE'', 384),
    (''SSL_R_BAD_WRITE_RETRY'', 127),
    (''SSL_R_BINDER_DOES_NOT_VERIFY'', 253),
    (''SSL_R_BIO_NOT_SET'', 128),
    (''SSL_R_BLOCK_CIPHER_PAD_IS_WRONG'', 129),
    (''SSL_R_BN_LIB'', 130),
    (''SSL_R_CALLBACK_FAILED'', 234),
    (''SSL_R_CANNOT_CHANGE_CIPHER'', 109),
    (''SSL_R_CA_DN_LENGTH_MISMATCH'', 131),
    (''SSL_R_CA_KEY_TOO_SMALL'', 397),
    (''SSL_R_CA_MD_TOO_WEAK'', 398),
    (''SSL_R_CCS_RECEIVED_EARLY'', 133),
    (''SSL_R_CERTIFICATE_VERIFY_FAILED'', 134),
    (''SSL_R_CERT_CB_ERROR'', 377),
    (''SSL_R_CERT_LENGTH_MISMATCH'', 135),
    (''SSL_R_CIPHERSUITE_DIGEST_HAS_CHANGED'', 218),
    (''SSL_R_CIPHER_CODE_WRONG_LENGTH'', 137),
    (''SSL_R_CIPHER_OR_HASH_UNAVAILABLE'', 138),
    (''SSL_R_CLIENTHELLO_TLSEXT'', 226),
    (''SSL_R_COMPRESSED_LENGTH_TOO_LONG'', 140),
    (''SSL_R_COMPRESSION_DISABLED'', 343),
    (''SSL_R_COMPRESSION_FAILURE'', 141),
    (''SSL_R_COMPRESSION_ID_NOT_WITHIN_PRIVATE_RANGE'', 307),
    (''SSL_R_COMPRESSION_LIBRARY_ERROR'', 142),
    (''SSL_R_CONNECTION_TYPE_NOT_SET'', 144),
    (''SSL_R_CONTEXT_NOT_DANE_ENABLED'', 167),
    (''SSL_R_COOKIE_GEN_CALLBACK_FAILURE'', 400),
    (''SSL_R_COOKIE_MISMATCH'', 308),
    (''SSL_R_CUSTOM_EXT_HANDLER_ALREADY_INSTALLED'', 206),
    (''SSL_R_DANE_ALREADY_ENABLED'', 172),
    (''SSL_R_DANE_CANNOT_OVERRIDE_MTYPE_FULL'', 173),
    (''SSL_R_DANE_NOT_ENABLED'', 175),
    (''SSL_R_DANE_TLSA_BAD_CERTIFICATE'', 180),
    (''SSL_R_DANE_TLSA_BAD_CERTIFICATE_USAGE'', 184),
    (''SSL_R_DANE_TLSA_BAD_DATA_LENGTH'', 189),
    (''SSL_R_DANE_TLSA_BAD_DIGEST_LENGTH'', 192),
    (''SSL_R_DANE_TLSA_BAD_MATCHING_TYPE'', 200),
    (''SSL_R_DANE_TLSA_BAD_PUBLIC_KEY'', 201),
    (''SSL_R_DANE_TLSA_BAD_SELECTOR'', 202),
    (''SSL_R_DANE_TLSA_NULL_DATA'', 203),
    (''SSL_R_DATA_BETWEEN_CCS_AND_FINISHED'', 145),
    (''SSL_R_DATA_LENGTH_TOO_LONG'', 146),
    (''SSL_R_DECRYPTION_FAILED'', 147),
    (''SSL_R_DECRYPTION_FAILED_OR_BAD_RECORD_MAC'', 281),
    (''SSL_R_DH_KEY_TOO_SMALL'', 394),
    (''SSL_R_DH_PUBLIC_VALUE_LENGTH_IS_WRONG'', 148),
    (''SSL_R_DIGEST_CHECK_FAILED'', 149),
    (''SSL_R_DTLS_MESSAGE_TOO_BIG'', 334),
    (''SSL_R_DUPLICATE_COMPRESSION_ID'', 309),
    (''SSL_R_ECC_CERT_NOT_FOR_SIGNING'', 318),
    (''SSL_R_ECDH_REQUIRED_FOR_SUITEB_MODE'', 374),
    (''SSL_R_EE_KEY_TOO_SMALL'', 399),
    (''SSL_R_EMPTY_SRTP_PROTECTION_PROFILE_LIST'', 354),
    (''SSL_R_ENCRYPTED_LENGTH_TOO_LONG'', 150),
    (''SSL_R_ERROR_IN_RECEIVED_CIPHER_LIST'', 151),
    (''SSL_R_ERROR_SETTING_TLSA_BASE_DOMAIN'', 204),
    (''SSL_R_EXCEEDS_MAX_FRAGMENT_SIZE'', 194),
    (''SSL_R_EXCESSIVE_MESSAGE_SIZE'', 152),
    (''SSL_R_EXTENSION_NOT_RECEIVED'', 279),
    (''SSL_R_EXTRA_DATA_IN_MESSAGE'', 153),
    (''SSL_R_EXT_LENGTH_MISMATCH'', 163),
    (''SSL_R_FAILED_TO_INIT_ASYNC'', 405),
    (''SSL_R_FRAGMENTED_CLIENT_HELLO'', 401),
    (''SSL_R_GOT_A_FIN_BEFORE_A_CCS'', 154),
    (''SSL_R_HTTPS_PROXY_REQUEST'', 155),
    (''SSL_R_HTTP_REQUEST'', 156),
    (''SSL_R_ILLEGAL_POINT_COMPRESSION'', 162),
    (''SSL_R_ILLEGAL_SUITEB_DIGEST'', 380),
    (''SSL_R_INAPPROPRIATE_FALLBACK'', 373),
    (''SSL_R_INCONSISTENT_COMPRESSION'', 340),
    (''SSL_R_INCONSISTENT_EARLY_DATA_ALPN'', 222),
    (''SSL_R_INCONSISTENT_EARLY_DATA_SNI'', 231),
    (''SSL_R_INCONSISTENT_EXTMS'', 104),
    (''SSL_R_INSUFFICIENT_SECURITY'', 241),
    (''SSL_R_INVALID_ALERT'', 205),
    (''SSL_R_INVALID_CCS_MESSAGE'', 260),
    (''SSL_R_INVALID_CERTIFICATE_OR_ALG'', 238),
    (''SSL_R_INVALID_COMMAND'', 280),
    (''SSL_R_INVALID_COMPRESSION_ALGORITHM'', 341),
    (''SSL_R_INVALID_CONFIG'', 283),
    (''SSL_R_INVALID_CONFIGURATION_NAME'', 113),
    (''SSL_R_INVALID_CONTEXT'', 282),
    (''SSL_R_INVALID_CT_VALIDATION_TYPE'', 212),
    (''SSL_R_INVALID_KEY_UPDATE_TYPE'', 120),
    (''SSL_R_INVALID_MAX_EARLY_DATA'', 174),
    (''SSL_R_INVALID_NULL_CMD_NAME'', 385),
    (''SSL_R_INVALID_SEQUENCE_NUMBER'', 402),
    (''SSL_R_INVALID_SERVERINFO_DATA'', 388),
    (''SSL_R_INVALID_SESSION_ID'', 999),
    (''SSL_R_INVALID_SRP_USERNAME'', 357),
    (''SSL_R_INVALID_STATUS_RESPONSE'', 328),
    (''SSL_R_INVALID_TICKET_KEYS_LENGTH'', 325),
    (''SSL_R_LENGTH_MISMATCH'', 159),
    (''SSL_R_LENGTH_TOO_LONG'', 404),
    (''SSL_R_LENGTH_TOO_SHORT'', 160),
    (''SSL_R_LIBRARY_BUG'', 274),
    (''SSL_R_LIBRARY_HAS_NO_CIPHERS'', 161),
    (''SSL_R_MISSING_DSA_SIGNING_CERT'', 165),
    (''SSL_R_MISSING_ECDSA_SIGNING_CERT'', 381),
    (''SSL_R_MISSING_FATAL'', 256),
    (''SSL_R_MISSING_PARAMETERS'', 290),
    (''SSL_R_MISSING_PSK_KEX_MODES_EXTENSION'', 310),
    (''SSL_R_MISSING_RSA_CERTIFICATE'', 168),
    (''SSL_R_MISSING_RSA_ENCRYPTING_CERT'', 169),
    (''SSL_R_MISSING_RSA_SIGNING_CERT'', 170),
    (''SSL_R_MISSING_SIGALGS_EXTENSION'', 112),
    (''SSL_R_MISSING_SIGNING_CERT'', 221),
    (''SSL_R_MISSING_SRP_PARAM'', 358),
    (''SSL_R_MISSING_SUPPORTED_GROUPS_EXTENSION'', 209),
    (''SSL_R_MISSING_TMP_DH_KEY'', 171),
    (''SSL_R_MISSING_TMP_ECDH_KEY'', 311),
    (''SSL_R_MIXED_HANDSHAKE_AND_NON_HANDSHAKE_DATA'', 293),
    (''SSL_R_NOT_ON_RECORD_BOUNDARY'', 182)]"

definition SSL_R_codes_2 :: code_table where
  "SSL_R_codes_2 = [
    (''SSL_R_NOT_REPLACING_CERTIFICATE'', 289),
    (''SSL_R_NOT_SERVER'', 284),
    (''SSL_R_NO_APPLICATION_PROTOCOL'', 235),
    (''SSL_R_NO_CERTIFICATES_RETURNED'', 176),
    (''SSL_R_NO_CERTIFICATE_ASSIGNED'', 177),
    (''SSL_R_NO_CERTIFICATE_SET'', 179),
    (''SSL_R_NO_CHANGE_FOLLOWING_HRR'', 214),
    (''SSL_R_NO_CIPHERS_AVAILABLE'', 181),
    (''SSL_R_NO_CIPHERS_SPECIFIED'', 183),
    (''SSL_R_NO_CIPHER_MATCH'', 185),
    (''SSL_R_NO_CLIENT_CERT_METHOD'', 331),
    (''SSL_R_NO_COMPRESSION_SPECIFIED'', 187),
    (''SSL_R_NO_COOKIE_CALLBACK_SET'', 287),
    (''SSL_R_NO_GOST_CERTIFICATE_SENT_BY_PEER'', 330),
    (''SSL_R_NO_METHOD_SPECIFIED'', 188),
    (''SSL_R_NO_PEM_EXTENSIONS'', 389),
    (''SSL_R_NO_PRIVATE_KEY_ASSIGNED'', 190),
    (''SSL_R_NO_PROTOCOLS_AVAILABLE'', 191),
    (''SSL_R_NO_RENEGOTIATION'', 339),
    (''SSL_R_NO_REQUIRED_DIGEST'', 324),
    (''SSL_R_NO_SHARED_CIPHER'', 193),
    (''SSL_R_NO_SHARED_GROUPS'', 410),
    (''SSL_R_NO_SHARED_SIGNATURE_ALGORITHMS'', 376),
    (''SSL_R_NO_SRTP_PROFILES'', 359),
    (''SSL_R_NO_SUITABLE_KEY_SHARE'', 101),
    (''SSL_R_NO_SUITABLE_SIGNATURE_ALGORITHM'', 118),
    (''SSL_R_NO_VALID_SCTS'', 216),
    (''SSL_R_NO_VERIFY_COOKIE_CALLBACK'', 403),
    (''SSL_R_NULL_SSL_CTX'', 195),
    (''SSL_R_NULL_SSL_METHOD_PASSED'', 196),
    (''SSL_R_OCSP_CALLBACK_FAILURE'', 294),
    (''SSL_R_OLD_SESSION_CIPHER_NOT_RETURNED'', 197),
    (''SSL_R_OLD_SESSION_COMPRESSION_ALGORITHM_NOT_RETURNED'', 344),
    (''SSL_R_OVERFLOW_ERROR'', 237),
    (''SSL_R_PACKET_LENGTH_TOO_LONG'', 198),
    (''SSL_R_PARSE_TLSEXT'', 227),
    (''SSL_R_PATH_TOO_LONG'', 270),
    (''SSL_R_PEER_DID_NOT_RETURN_A_CERTIFICATE'', 199),
    (''SSL_R_PEM_NAME_BAD_PREFIX'', 391),
    (''SSL_R_PEM_NAME_TOO_SHORT'', 392),
    (''SSL_R_PIPELINE_FAILURE'', 406),
    (''SSL_R_POST_HANDSHAKE_AUTH_ENCODING_ERR'', 278),
    (''SSL_R_PRIVATE_KEY_MISMATCH'', 288),
    (''SSL_R_PROTOCOL_IS_SHUTDOWN'', 207),
    (''SSL_R_PSK_IDENTITY_NOT_FOUND'', 223),
    (''SSL_R_PSK_NO_CLIENT_CB'', 224),
    (''SSL_R_PSK_NO_SERVER_CB'', 225),
    (''SSL_R_READ_BIO_NOT_SET'', 211),
    (''SSL_R_READ_TIMEOUT_EXPIRED'', 312),
    (''SSL_R_RECORD_LENGTH_MISMATCH'', 213),
    (''SSL_R_RECORD_TOO_SMALL'', 298),
    (''SSL_R_RENEGOTIATE_EXT_TOO_LONG'', 335),
    (''SSL_R_RENEGOTIATION_ENCODING_ERR'', 336),
    (''SSL_R_RENEGOTIATION_MISMATCH'', 337),
    (''SSL_R_REQUEST_PENDING'', 285),
    (''SSL_R_REQUEST_SENT'', 286),
    (''SSL_R_REQUIRED_CIPHER_MISSING'', 215),
    (''SSL_R_REQUIRED_COMPRESSION_ALGORITHM_MISSING'', 342),
    (''SSL_R_SCSV_RECEIVED_WHEN_RENEGOTIATING'', 345),
    (''SSL_R_SCT_VERIFICATION_FAILED'', 208),
    (''SSL_R_SERVERHELLO_TLSEXT'', 275),
    (''SSL_R_SESSION_ID_CONTEXT_UNINITIALIZED'', 277),
    (''SSL_R_SHUTDOWN_WHILE_IN_INIT'', 407),
    (''SSL_R_SIGNATURE_ALGORITHMS_ERROR'', 360),
    (''SSL_R_SIGNATURE_FOR_NON_SIGNING_CERTIFICATE'', 220),
    (''SSL_R_SRP_A_CALC'', 361),
    (''SSL_R_SRTP_COULD_NOT_ALLOCATE_PROFILES'', 362),
    (''SSL_R_SRTP_PROTECTION_PROFILE_LIST_TOO_LONG'', 363),
    (''SSL_R_SRTP_UNKNOWN_PROTECTION_PROFILE'', 364),
    (''SSL_R_SSL3_EXT_INVALID_MAX_FRAGMENT_LENGTH'', 232),
    (''SSL_R_SSL3_EXT_INVALID_SERVERNAME'', 319),
    (''SSL_R_SSL3_EXT_INVALID_SERVERNAME_TYPE'', 320),
    (''SSL_R_SSL3_SESSION_ID_TOO_LONG'', 300),
    (''SSL_R_SSLV3_ALERT_BAD_CERTIFICATE'', 1042),
    (''SSL_R_SSLV3_ALERT_BAD_RECORD_MAC'', 1020),
    (''SSL_R_SSLV3_ALERT_CERTIFICATE_EXPIRED'', 1045),
    (''SSL_R_SSLV3_ALERT_CERTIFICATE_REVOKED'', 1044),
    (''SSL_R_SSLV3_ALERT_CERTIFICATE_UNKNOWN'', 1046),
    (''SSL_R_SSLV3_ALERT_DECOMPRESSION_FAILURE'', 1030),
    (''SSL_R_SSLV3_ALERT_HANDSHAKE_FAILURE'', 1040),
    (''SSL_R_SSLV3_ALERT_ILLEGAL_PARAMETER'', 1047),
    (''SSL_R_SSLV3_ALERT_NO_CERTIFICATE'', 1041),
    (''SSL_R_SSLV3_ALERT_UNEXPECTED_MESSAGE'', 1010),
    (''SSL_R_SSLV3_ALERT_UNSUPPORTED_CERTIFICATE'', 1043),
    (''SSL_R_SSL_COMMAND_SECTION_EMPTY'', 117),
    (''SSL_R_SSL_COMMAND_SECTION_NOT_FOUND'', 125),
    (''SSL_R_SSL_CTX_HAS_NO_DEFAULT_SSL_VERSION'', 228),
    (''SSL_R_SSL_HANDSHAKE_FAILURE'', 229),
    (''SSL_R_SSL_LIBRARY_HAS_NO_CIPHERS'', 230),
    (''SSL_R_SSL_NEGATIVE_LENGTH'', 372),
    (''SSL_R_SSL_SECTION_EMPTY'', 126),
    (''SSL_R_SSL_SECTION_NOT_FOUND'', 136),
    (''SSL_R_SSL_SESSION_ID_CALLBACK_FAILED'', 301),
    (''SSL_R_SSL_SESSION_ID_CONFLICT'', 302),
    (''SSL_R_SSL_SESSION_ID_CONTEXT_TOO_LONG'', 273),
    (''SSL_R_SSL_SESSION_ID_HAS_BAD_LENGTH'', 303),
    (''SSL_R_SSL_SESSION_ID_TOO_LONG'', 408),
    (''SSL_R_SSL_SESSION_VERSION_MISMATCH'', 210),
    (''SSL_R_STILL_IN_INIT'', 121),
    (''SSL_R_TLSV13_ALERT_CERTIFICATE_REQUIRED'', 1116),
    (''SSL_R_TLSV13_ALERT_MISSING_EXTENSION'', 1109),
    (''SSL_R_TLSV1_ALERT_ACCESS_DENIED'', 1049),
    (''SSL_R_TLSV1_ALERT_DECODE_ERROR'', 1050),
    (''SSL_R_TLSV1_ALERT_DECRYPTION_FAILED'', 1021),
    (''SSL_R_TLSV1_ALERT_DECRYPT_ERROR'', 1051),
    (''SSL_R_TLSV1_ALERT_EXPORT_RESTRICTION'', 1060),
    (''SSL_R_TLSV1_ALERT_INAPPROPRIATE_FALLBACK'', 1086),
    (''SSL_R_TLSV1_ALERT_INSUFFICIENT_SECURITY'', 1071),
    (''SSL_R_TLSV1_ALERT_INTERNAL_ERROR'', 1080),
    (''SSL_R_TLSV1_ALERT_NO_RENEGOTIATION'', 1100),
    (''SSL_R_TLSV1_ALERT_PROTOCOL_VERSION'', 1070),
    (''SSL_R_TLSV1_ALERT_RECORD_OVERFLOW'', 1022),
    (''SSL_R_TLSV1_ALERT_UNKNOWN_CA'', 1048),
    (''SSL_R_TLSV1_ALERT_USER_CANCELLED'', 1090),
    (''SSL_R_TLSV1_BAD_CERTIFICATE_HASH_VALUE'', 1114),
    (''SSL_R_TLSV1_BAD_CERTIFICATE_STATUS_RESPONSE'', 1113),
    (''SSL_R_TLSV1_CERTIFICATE_UNOBTAINABLE'', 1111),
    (''SSL_R_TLSV1_UNRECOGNIZED_NAME'', 1112),
    (''SSL_R_TLSV1_UNSUPPORTED_EXTENSION'', 1110),
    (''SSL_R_TLS_HEARTBEAT_PEER_DOESNT_ACCEPT'', 365),
    (''SSL_R_TLS_HEARTBEAT_PENDING'', 366),
    (''SSL_R_TLS_ILLEGAL_EXPORTER_LABEL'', 367),
    (''SSL_R_TLS_INVALID_ECPOINTFORMAT_LIST'', 157),
    (''SSL_R_TOO_MANY_KEY_UPDATES'', 132),
    (''SSL_R_TOO_MANY_WARN_ALERTS'', 409),
    (''SSL_R_TOO_MUCH_EARLY_DATA'', 164),
    (''SSL_R_UNABLE_TO_FIND_ECDH_PARAMETERS'', 314),
    (''SSL_R_UNABLE_TO_FIND_PUBLIC_KEY_PARAMETERS'', 239),
    (''SSL_R_UNABLE_TO_LOAD_SSL3_MD5_ROUTINES'', 242),
    (''SSL_R_UNABLE_TO_LOAD_SSL3_SHA1_ROUTINES'', 243),
    (''SSL_R_UNEXPECTED_CCS_MESSAGE'', 262),
    (''SSL_R_UNEXPECTED_END_OF_EARLY_DATA'', 178),
    (''SSL_R_UNEXPECTED_MESSAGE'', 244),
    (''SSL_R_UNEXPECTED_RECORD'', 245),
    (''SSL_R_UNINITIALIZED'', 276),
    (''SSL_R_UNKNOWN_ALERT_TYPE'', 246),
    (''SSL_R_UNKNOWN_CERTIFICATE_TYPE'', 247),
    (''SSL_R_UNKNOWN_CIPHER_RETURNED'', 248),
    (''SSL_R_UNKNOWN_CIPHER_TYPE'', 249),
    (''SSL_R_UNKNOWN_CMD_NAME'', 386),
    (''SSL_R_UNKNOWN_COMMAND'', 139),
    (''SSL_R_UNKNOWN_DIGEST'', 368),
    (''SSL_R_UNKNOWN_KEY_EXCHANGE_TYPE'', 250),
    (''SSL_R_UNKNOWN_PKEY_TYPE'', 251),
    (''SSL_R_UNKNOWN_PROTOCOL'', 252),
    (''SSL_R_UNKNOWN_SSL_VERSION'', 254),
    (''SSL_R_UNKNOWN_STATE'', 255),
    (''SSL_R_UNSAFE_LEGACY_RENEGOTIATION_DISABLED'', 338),
    (''SSL_R_UNSOLICITED_EXTENSION'', 217),
    (''SSL_R_UNSUPPORTED_COMPRESSION_ALGORITHM'', 257)]"

definition SSL_R_codes_3 :: code_table where
  "SSL_R_codes_3 = [
    (''SSL_R_UNSUPPORTED_ELLIPTIC_CURVE'', 315),
    (''SSL_R_UNSUPPORTED_PROTOCOL'', 258),
    (''SSL_R_UNSUPPORTED_SSL_VERSION'', 259),
    (''SSL_R_UNSUPPORTED_STATUS_TYPE'', 329),
    (''SSL_R_USE_SRTP_NOT_NEGOTIATED'', 369),
    (''SSL_R_VERSION_TOO_HIGH'', 166),
    (''SSL_R_VERSION_TOO_LOW'', 396),
    (''SSL_R_WRONG_CERTIFICATE_TYPE'', 383),
    (''SSL_R_WRONG_CIPHER_RETURNED'', 261),
    (''SSL_R_WRONG_CURVE'', 378),
    (''SSL_R_WRONG_SIGNATURE_LENGTH'', 264),
    (''SSL_R_WRONG_SIGNATURE_SIZE'', 265),
    (''SSL_R_WRONG_SIGNATURE_TYPE'', 370),
    (''SSL_R_WRONG_SSL_VERSION'', 266),
    (''SSL_R_WRONG_VERSION_NUMBER'', 267),
    (''SSL_R_X509_LIB'', 268),
    (''SSL_R_X509_VERIFICATION_SETUP_PROBLEMS'', 269)]"

definition SSL_R_codes :: code_table where
  "SSL_R_codes = SSL_R_codes_1 @ SSL_R_codes_2 @ SSL_R_codes_3"

definition SSL_errors :: err_library where
  "SSL_errors = \<lparr>err_lib = ERR_LIB_SSL, err_functions = SSL_F_codes, err_reasons = SSL_R_codes\<rparr>"

definition OSSL_STORE_F_codes :: code_table where
  "OSSL_STORE_F_codes = [
    (''OSSL_STORE_F_FILE_CTRL'', 129),
    (''OSSL_STORE_F_FILE_FIND'', 138),
    (''OSSL_STORE_F_FILE_GET_PASS'', 118),
    (''OSSL_STORE_F_FILE_LOAD'', 119),
    (''OSSL_STORE_F_FILE_LOAD_TRY_DECODE'', 124),
    (''OSSL_STORE_F_FILE_NAME_TO_URI'', 126),
    (''OSSL_STORE_F_FILE_OPEN'', 120),
    (''OSSL_STORE_F_OSSL_STORE_ATTACH_PEM_BIO'', 127),
    (''OSSL_STORE_F_OSSL_STORE_EXPECT'', 130),
    (''OSSL_STORE_F_OSSL_STORE_FILE_ATTACH_PEM_BIO_INT'', 128),
    (''OSSL_STORE_F_OSSL_STORE_FIND'', 131),
    (''OSSL_STORE_F_OSSL_STORE_GET0_LOADER_INT'', 100),
    (''OSSL_STORE_F_OSSL_STORE_INFO_GET1_CERT'', 101),
    (''OSSL_STORE_F_OSSL_STORE_INFO_GET1_CRL'', 102),
    (''OSSL_STORE_F_OSSL_STORE_INFO_GET1_NAME'', 103),
    (''OSSL_STORE_F_OSSL_STORE_INFO_GET1_NAME_DESCRIPTION'', 135),
    (''OSSL_STORE_F_OSSL_STORE_INFO_GET1_PARAMS'', 104),
    (''OSSL_STORE_F_OSSL_STORE_INFO_GET1_PKEY'', 105),
    (''OSSL_STORE_F_OSSL_STORE_INFO_NEW_CERT'', 106),
    (''OSSL_STORE_F_OSSL_STORE_INFO_NEW_CRL'', 107),
    (''OSSL_STORE_F_OSSL_STORE_INFO_NEW_EMBEDDED'', 123),
    (''OSSL_STORE_F_OSSL_STORE_INFO_NEW_NAME'', 109),
    (''OSSL_STORE_F_OSSL_STORE_INFO_NEW_PARAMS'', 110),
    (''OSSL_STORE_F_OSSL_STORE_INFO_NEW_PKEY'', 111),
    (''OSSL_STORE_F_OSSL_STORE_INFO_SET0_NAME_DESCRIPTION'', 134),
    (''OSSL_STORE_F_OSSL_STORE_INIT_ONCE'', 112),
    (''OSSL_STORE_F_OSSL_STORE_LOADER_NEW'', 113),
    (''OSSL_STORE_F_OSSL_STORE_OPEN'', 114),
    (''OSSL_STORE_F_OSSL_STORE_OPEN_INT'', 115),
    (''OSSL_STORE_F_OSSL_STORE_REGISTER_LOADER_INT'', 117),
    (''OSSL_STORE_F_OSSL_STORE_SEARCH_BY_ALIAS'', 132),
    (''OSSL_STORE_F_OSSL_STORE_SEARCH_BY_ISSUER_SERIAL'', 133),
    (''OSSL_STORE_F_OSSL_STORE_SEARCH_BY_KEY_FINGERPRINT'', 136),
    (''OSSL_STORE_F_OSSL_STORE_SEARCH_BY_NAME'', 137),
    (''OSSL_STORE_F_OSSL_STORE_UNREGISTER_LOADER_INT'', 116),
    (''OSSL_STORE_F_TRY_DECODE_PARAMS'', 121),
    (''OSSL_STORE_F_TRY_DECODE_PKCS12'', 122),
    (''OSSL_STORE_F_TRY_DECODE_PKCS8ENCRYPTED'', 125)]"

definition OSSL_STORE_R_codes :: code_table where
  "OSSL_STORE_R_codes = [
    (''OSSL_STORE_R_AMBIGUOUS_CONTENT_TYPE'', 107),
    (''OSSL_STORE_R_BAD_PASSWORD_READ'', 115),
    (''OSSL_STORE_R_ERROR_VERIFYING_PKCS12_MAC'', 113),
    (''OSSL_STORE_R_FINGERPRINT_SIZE_DOES_NOT_MATCH_DIGEST'', 121),
    (''OSSL_STORE_R_INVALID_SCHEME'', 106),
    (''OSSL_STORE_R_IS_NOT_A'', 112),
    (''OSSL_STORE_R_LOADER_INCOMPLETE'', 116),
    (''OSSL_STORE_R_LOADING_STARTED'', 117),
    (''OSSL_STORE_R_NOT_A_CERTIFICATE'', 100),
    (''OSSL_STORE_R_NOT_A_CRL'', 101),
    (''OSSL_STORE_R_NOT_A_KEY'', 102),
    (''OSSL_STORE_R_NOT_A_NAME'', 103),
    (''OSSL_STORE_R_NOT_PARAMETERS'', 104),
    (''OSSL_STORE_R_PASSPHRASE_CALLBACK_ERROR'', 114),
    (''OSSL_STORE_R_PATH_MUST_BE_ABSOLUTE'', 108),
    (''OSSL_STORE_R_SEARCH_ONLY_SUPPORTED_FOR_DIRECTORIES'', 119),
    (''OSSL_STORE_R_UI_PROCESS_INTERRUPTED_OR_CANCELLED'', 109),
    (''OSSL_STORE_R_UNREGISTERED_SCHEME'', 105),
    (''OSSL_STORE_R_UNSUPPORTED_CONTENT_TYPE'', 110),
    (''OSSL_STORE_R_UNSUPPORTED_OPERATION'', 118),
    (''OSSL_STORE_R_UNSUPPORTED_SEARCH_TYPE'', 120),
    (''OSSL_STORE_R_URI_AUTHORITY_UNSUPPORTED'', 111)]"

definition OSSL_STORE_errors :: err_library where
  "OSSL_STORE_errors = \<lparr>err_lib = ERR_LIB_OSSL_STORE, err_functions = OSSL_STORE_F_codes, err_reasons = OSSL_STORE_R_codes\<rparr>"

definition TS_F_codes :: code_table where
  "TS_F_codes = [
    (''TS_F_DEF_SERIAL_CB'', 110),
    (''TS_F_DEF_TIME_CB'', 111),
    (''TS_F_ESS_ADD_SIGNING_CERT'', 112),
    (''TS_F_ESS_ADD_SIGNING_CERT_V2'', 147),
    (''TS_F_ESS_CERT_ID_NEW_INIT'', 113),
    (''TS_F_ESS_CERT_ID_V2_NEW_INIT'', 156),
    (''TS_F_ESS_SIGNING_CERT_NEW_INIT'', 114),
    (''TS_F_ESS_SIGNING_CERT_V2_NEW_INIT'', 157),
    (''TS_F_INT_TS_RESP_VERIFY_TOKEN'', 149),
    (''TS_F_PKCS7_TO_TS_TST_INFO'', 148),
    (''TS_F_TS_ACCURACY_SET_MICROS'', 115),
    (''TS_F_TS_ACCURACY_SET_MILLIS'', 116),
    (''TS_F_TS_ACCURACY_SET_SECONDS'', 117),
    (''TS_F_TS_CHECK_IMPRINTS'', 100),
    (''TS_F_TS_CHECK_NONCES'', 101),
    (''TS_F_TS_CHECK_POLICY'', 102),
    (''TS_F_TS_CHECK_SIGNING_CERTS'', 103),
    (''TS_F_TS_CHECK_STATUS_INFO'', 104),
    (''TS_F_TS_COMPUTE_IMPRINT'', 145),
    (''TS_F_TS_CONF_INVALID'', 151),
    (''TS_F_TS_CONF_LOAD_CERT'', 153),
    (''TS_F_TS_CONF_LOAD_CERTS'', 154),
    (''TS_F_TS_CONF_LOAD_KEY'', 155),
    (''TS_F_TS_CONF_LOOKUP_FAIL'', 152),
    (''TS_F_TS_CONF_SET_DEFAULT_ENGINE'', 146),
    (''TS_F_TS_GET_STATUS_TEXT'', 105),
    (''TS_F_TS_MSG_IMPRINT_SET_ALGO'', 118),
    (''TS_F_TS_REQ_SET_MSG_IMPRINT'', 119),
    (''TS_F_TS_REQ_SET_NONCE'', 120),
    (''TS_F_TS_REQ_SET_POLICY_ID'', 121),
    (''TS_F_TS_RESP_CREATE_RESPONSE'', 122),
    (''TS_F_TS_RESP_CREATE_TST_INFO'', 123),
    (''TS_F_TS_RESP_CTX_ADD_FAILURE_INFO'', 124),
    (''TS_F_TS_RESP_CTX_ADD_MD'', 125),
    (''TS_F_TS_RESP_CTX_ADD_POLICY'', 126),
    (''TS_F_TS_RESP_CTX_NEW'', 127),
    (''TS_F_TS_RESP_CTX_SET_ACCURACY'', 128),
    (''TS_F_TS_RESP_CTX_SET_CERTS'', 129),
    (''TS_F_TS_RESP_CTX_SET_DEF_POLICY'', 130),
    (''TS_F_TS_RESP_CTX_SET_SIGNER_CERT'', 131),
    (''TS_F_TS_RESP_CTX_SET_STATUS_INFO'', 132),
    (''TS_F_TS_RESP_GET_POLICY'', 133),
    (''TS_F_TS_RESP_SET_GENTIME_WITH_PRECISION'', 134),
    (''TS_F_TS_RESP_SET_STATUS_INFO'', 135),
    (''TS_F_TS_RESP_SET_TST_INFO'', 150),
    (''TS_F_TS_RESP_SIGN'', 136),
    (''TS_F_TS_RESP_VERIFY_SIGNATURE'', 106),
    (''TS_F_TS_TST_INFO_SET_ACCURACY'', 137),
    (''TS_F_TS_TST_INFO_SET_MSG_IMPRINT'', 138),
    (''TS_F_TS_TST_INFO_SET_NONCE'', 139),
    (''TS_F_TS_TST_INFO_SET_POLICY_ID'', 140),
    (''TS_F_TS_TST_INFO_SET_SERIAL'', 141),
    (''TS_F_TS_TST_INFO_SET_TIME'', 142),
    (''TS_F_TS_TST_INFO_SET_TSA'', 143),
    (''TS_F_TS_VERIFY'', 108),
    (''TS_F_TS_VERIFY_CERT'', 109),
    (''TS_F_TS_VERIFY_CTX_NEW'', 144)]"

definition TS_R_codes :: code_table where
  "TS_R_codes = [
    (''TS_R_BAD_PKCS7_TYPE'', 132),
    (''TS_R_BAD_TYPE'', 133),
    (''TS_R_CANNOT_LOAD_CERT'', 137),
    (''TS_R_CANNOT_LOAD_KEY'', 138),
    (''TS_R_CERTIFICATE_VERIFY_ERROR'', 100),
    (''TS_R_COULD_NOT_SET_ENGINE'', 127),
    (''TS_R_COULD_NOT_SET_TIME'', 115),
    (''TS_R_DETACHED_CONTENT'', 134),
    (''TS_R_ESS_ADD_SIGNING_CERT_ERROR'', 116),
    (''TS_R_ESS_ADD_SIGNING_CERT_V2_ERROR'', 139),
    (''TS_R_ESS_SIGNING_CERTIFICATE_ERROR'', 101),
    (''TS_R_INVALID_NULL_POINTER'', 102),
    (''TS_R_INVALID_SIGNER_CERTIFICATE_PURPOSE'', 117),
    (''TS_R_MESSAGE_IMPRINT_MISMATCH'', 103),
    (''TS_R_NONCE_MISMATCH'', 104),
    (''TS_R_NONCE_NOT_RETURNED'', 105),
    (''TS_R_NO_CONTENT'', 106),
    (''TS_R_NO_TIME_STAMP_TOKEN'', 107),
    (''TS_R_PKCS7_ADD_SIGNATURE_ERROR'', 118),
    (''TS_R_PKCS7_ADD_SIGNED_ATTR_ERROR'', 119),
    (''TS_R_PKCS7_TO_TS_TST_INFO_FAILED'', 129),
    (''TS_R_POLICY_MISMATCH'', 108),
    (''TS_R_PRIVATE_KEY_DOES_NOT_MATCH_CERTIFICATE'', 120),
    (''TS_R_RESPONSE_SETUP_ERROR'', 121),
    (''TS_R_SIGNATURE_FAILURE'', 109),
    (''TS_R_THERE_MUST_BE_ONE_SIGNER'', 110),
    (''TS_R_TIME_SYSCALL_ERROR'', 122),
    (''TS_R_TOKEN_NOT_PRESENT'', 130),
    (''TS_R_TOKEN_PRESENT'', 131),
    (''TS_R_TSA_NAME_MISMATCH'', 111),
    (''TS_R_TSA_UNTRUSTED'', 112),
    (''TS_R_TST_INFO_SETUP_ERROR'', 123),
    (''TS_R_TS_DATASIGN'', 124),
    (''TS_R_UNACCEPTABLE_POLICY'', 125),
    (''TS_R_UNSUPPORTED_MD_ALGORITHM'', 126),
    (''TS_R_UNSUPPORTED_VERSION'', 113),
    (''TS_R_VAR_BAD_VALUE'', 135),
    (''TS_R_VAR_LOOKUP_FAILURE'', 136),
    (''TS_R_WRONG_CONTENT_TYPE'', 114)]"

definition TS_errors :: err_library where
  "TS_errors = \<lparr>err_lib = ERR_LIB_TS, err_functions = TS_F_codes, err_reasons = TS_R_codes\<rparr>"

definition UI_F_codes :: code_table where
  "UI_F_codes = [
    (''UI_F_CLOSE_CONSOLE'', 115),
    (''UI_F_ECHO_CONSOLE'', 116),
    (''UI_F_GENERAL_ALLOCATE_BOOLEAN'', 108),
    (''UI_F_GENERAL_ALLOCATE_PROMPT'', 109),
    (''UI_F_NOECHO_CONSOLE'', 117),
    (''UI_F_OPEN_CONSOLE'', 114),
    (''UI_F_UI_CONSTRUCT_PROMPT'', 121),
    (''UI_F_UI_CREATE_METHOD'', 112),
    (''UI_F_UI_CTRL'', 111),
    (''UI_F_UI_DUP_ERROR_STRING'', 101),
    (''UI_F_UI_DUP_INFO_STRING'', 102),
    (''UI_F_UI_DUP_INPUT_BOOLEAN'', 110),
    (''UI_F_UI_DUP_INPUT_STRING'', 103),
    (''UI_F_UI_DUP_USER_DATA'', 118),
    (''UI_F_UI_DUP_VERIFY_STRING'', 106),
    (''UI_F_UI_GET0_RESULT'', 107),
    (''UI_F_UI_GET_RESULT_LENGTH'', 119),
    (''UI_F_UI_NEW_METHOD'', 104),
    (''UI_F_UI_PROCESS'', 113),
    (''UI_F_UI_SET_RESULT'', 105),
    (''UI_F_UI_SET_RESULT_EX'', 120)]"

definition UI_R_codes :: code_table where
  "UI_R_codes = [
    (''UI_R_COMMON_OK_AND_CANCEL_CHARACTERS'', 104),
    (''UI_R_INDEX_TOO_LARGE'', 102),
    (''UI_R_INDEX_TOO_SMALL'', 103),
    (''UI_R_NO_RESULT_BUFFER'', 105),
    (''UI_R_PROCESSING_ERROR'', 107),
    (''UI_R_RESULT_TOO_LARGE'', 100),
    (''UI_R_RESULT_TOO_SMALL'', 101),
    (''UI_R_SYSASSIGN_ERROR'', 109),
    (''UI_R_SYSDASSGN_ERROR'', 110),
    (''UI_R_SYSQIOW_ERROR'', 111),
    (''UI_R_UNKNOWN_CONTROL_COMMAND'', 106),
    (''UI_R_UNKNOWN_TTYGET_ERRNO_VALUE'', 108),
    (''UI_R_USER_DATA_DUPLICATION_UNSUPPORTED'', 112)]"

definition UI_errors :: err_library where
  "UI_errors = \<lparr>err_lib = ERR_LIB_UI, err_functions = UI_F_codes, err_reasons = UI_R_codes\<rparr>"

definition X509_F_codes :: code_table where
  "X509_F_codes = [
    (''X509_F_ADD_CERT_DIR'', 100),
    (''X509_F_BUILD_CHAIN'', 106),
    (''X509_F_BY_FILE_CTRL'', 101),
    (''X509_F_CHECK_NAME_CONSTRAINTS'', 149),
    (''X509_F_CHECK_POLICY'', 145),
    (''X509_F_DANE_I2D'', 107),
    (''X509_F_DIR_CTRL'', 102),
    (''X509_F_GET_CERT_BY_SUBJECT'', 103),
    (''X509_F_I2D_X509_AUX'', 151),
    (''X509_F_LOOKUP_CERTS_SK'', 152),
    (''X509_F_NETSCAPE_SPKI_B64_DECODE'', 129),
    (''X509_F_NETSCAPE_SPKI_B64_ENCODE'', 130),
    (''X509_F_NEW_DIR'', 153),
    (''X509_F_X509AT_ADD1_ATTR'', 135),
    (''X509_F_X509V3_ADD_EXT'', 104),
    (''X509_F_X509_ATTRIBUTE_CREATE_BY_NID'', 136),
    (''X509_F_X509_ATTRIBUTE_CREATE_BY_OBJ'', 137),
    (''X509_F_X509_ATTRIBUTE_CREATE_BY_TXT'', 140),
    (''X509_F_X509_ATTRIBUTE_GET0_DATA'', 139),
    (''X509_F_X509_ATTRIBUTE_SET1_DATA'', 138),
    (''X509_F_X509_CHECK_PRIVATE_KEY'', 128),
    (''X509_F_X509_CRL_DIFF'', 105),
    (''X509_F_X509_CRL_METHOD_NEW'', 154),
    (''X509_F_X509_CRL_PRINT_FP'', 147),
    (''X509_F_X509_EXTENSION_CREATE_BY_NID'', 108),
    (''X509_F_X509_EXTENSION_CREATE_BY_OBJ'', 109),
    (''X509_F_X509_GET_PUBKEY_PARAMETERS'', 110),
    (''X509_F_X509_LOAD_CERT_CRL_FILE'', 132),
    (''X509_F_X509_LOAD_CERT_FILE'', 111),
    (''X509_F_X509_LOAD_CRL_FILE'', 112),
    (''X509_F_X509_LOOKUP_METH_NEW'', 160),
    (''X509_F_X509_LOOKUP_NEW'', 155),
    (''X509_F_X509_NAME_ADD_ENTRY'', 113),
    (''X509_F_X509_NAME_CANON'', 156),
    (''X509_F_X509_NAME_ENTRY_CREATE_BY_NID'', 114),
    (''X509_F_X509_NAME_ENTRY_CREATE_BY_TXT'', 131),
    (''X509_F_X509_NAME_ENTRY_SET_OBJECT'', 115),
    (''X509_F_X509_NAME_ONELINE'', 116),
    (''X509_F_X509_NAME_PRINT'', 117),
    (''X509_F_X509_OBJECT_NEW'', 150),
    (''X509_F_X509_PRINT_EX_FP'', 118),
    (''X509_F_X509_PUBKEY_DECODE'', 148),
    (''X509_F_X509_PUBKEY_GET'', 161),
    (''X509_F_X509_PUBKEY_GET0'', 119),
    (''X509_F_X509_PUBKEY_SET'', 120),
    (''X509_F_X509_REQ_CHECK_PRIVATE_KEY'', 144),
    (''X509_F_X509_REQ_PRINT_EX'', 121),
    (''X509_F_X509_REQ_PRINT_FP'', 122),
    (''X509_F_X509_REQ_TO_X509'', 123),
    (''X509_F_X509_STORE_ADD_CERT'', 124),
    (''X509_F_X509_STORE_ADD_CRL'', 125),
    (''X509_F_X509_STORE_ADD_LOOKUP'', 157),
    (''X509_F_X509_STORE_CTX_GET1_ISSUER'', 146),
    (''X509_F_X509_STORE_CTX_INIT'', 143),
    (''X509_F_X509_STORE_CTX_NEW'', 142),
    (''X509_F_X509_STORE_CTX_PURPOSE_INHERIT'', 134),
    (''X509_F_X509_STORE_NEW'', 158),
    (''X509_F_X509_TO_X509_REQ'', 126),
    (''X509_F_X509_TRUST_ADD'', 133),
    (''X509_F_X509_TRUST_SET'', 141),
    (''X509_F_X509_VERIFY_CERT'', 127),
    (''X509_F_X509_VERIFY_PARAM_NEW'', 159)]"

definition X509_R_codes :: code_table where
  "X509_R_codes = [
    (''X509_R_AKID_MISMATCH'', 110),
    (''X509_R_BAD_SELECTOR'', 133),
    (''X509_R_BAD_X509_FILETYPE'', 100),
    (''X509_R_BASE64_DECODE_ERROR'', 118),
    (''X509_R_CANT_CHECK_DH_KEY'', 114),
    (''X509_R_CERT_ALREADY_IN_HASH_TABLE'', 101),
    (''X509_R_CRL_ALREADY_DELTA'', 127),
    (''X509_R_CRL_VERIFY_FAILURE'', 131),
    (''X509_R_IDP_MISMATCH'', 128),
    (''X509_R_INVALID_ATTRIBUTES'', 138),
    (''X509_R_INVALID_DIRECTORY'', 113),
    (''X509_R_INVALID_FIELD_NAME'', 119),
    (''X509_R_INVALID_TRUST'', 123),
    (''X509_R_ISSUER_MISMATCH'', 129),
    (''X509_R_KEY_TYPE_MISMATCH'', 115),
    (''X509_R_KEY_VALUES_MISMATCH'', 116),
    (''X509_R_LOADING_CERT_DIR'', 103),
    (''X509_R_LOADING_DEFAULTS'', 104),
    (''X509_R_METHOD_NOT_SUPPORTED'', 124),
    (''X509_R_NAME_TOO_LONG'', 134),
    (''X509_R_NEWER_CRL_NOT_NEWER'', 132),
    (''X509_R_NO_CERTIFICATE_FOUND'', 135),
    (''X509_R_NO_CERTIFICATE_OR_CRL_FOUND'', 136),
    (''X509_R_NO_CERT_SET_FOR_US_TO_VERIFY'', 105),
    (''X509_R_NO_CRL_FOUND'', 137),
    (''X509_R_NO_CRL_NUMBER'', 130),
    (''X509_R_PUBLIC_KEY_DECODE_ERROR'', 125),
    (''X509_R_PUBLIC_KEY_ENCODE_ERROR'', 126),
    (''X509_R_SHOULD_RETRY'', 106),
    (''X509_R_UNABLE_TO_FIND_PARAMETERS_IN_CHAIN'', 107),
    (''X509_R_UNABLE_TO_GET_CERTS_PUBLIC_KEY'', 108),
    (''X509_R_UNKNOWN_KEY_TYPE'', 117),
    (''X509_R_UNKNOWN_NID'', 109),
    (''X509_R_UNKNOWN_PURPOSE_ID'', 121),
    (''X509_R_UNKNOWN_TRUST_ID'', 120),
    (''X509_R_UNSUPPORTED_ALGORITHM'', 111),
    (''X509_R_WRONG_LOOKUP_TYPE'', 112),
    (''X509_R_WRONG_TYPE'', 122)]"

definition X509_errors :: err_library where
  "X509_errors = \<lparr>err_lib = ERR_LIB_X509, err_functions = X509_F_codes, err_reasons = X509_R_codes\<rparr>"

definition X509V3_F_codes :: code_table where
  "X509V3_F_codes = [
    (''X509V3_F_A2I_GENERAL_NAME'', 164),
    (''X509V3_F_ADDR_VALIDATE_PATH_INTERNAL'', 166),
    (''X509V3_F_ASIDENTIFIERCHOICE_CANONIZE'', 161),
    (''X509V3_F_ASIDENTIFIERCHOICE_IS_CANONICAL'', 162),
    (''X509V3_F_BIGNUM_TO_STRING'', 167),
    (''X509V3_F_COPY_EMAIL'', 122),
    (''X509V3_F_COPY_ISSUER'', 123),
    (''X509V3_F_DO_DIRNAME'', 144),
    (''X509V3_F_DO_EXT_I2D'', 135),
    (''X509V3_F_DO_EXT_NCONF'', 151),
    (''X509V3_F_GNAMES_FROM_SECTNAME'', 156),
    (''X509V3_F_I2S_ASN1_ENUMERATED'', 121),
    (''X509V3_F_I2S_ASN1_IA5STRING'', 149),
    (''X509V3_F_I2S_ASN1_INTEGER'', 120),
    (''X509V3_F_I2V_AUTHORITY_INFO_ACCESS'', 138),
    (''X509V3_F_I2V_AUTHORITY_KEYID'', 173),
    (''X509V3_F_LEVEL_ADD_NODE'', 168),
    (''X509V3_F_NOTICE_SECTION'', 132),
    (''X509V3_F_NREF_NOS'', 133),
    (''X509V3_F_POLICY_CACHE_CREATE'', 169),
    (''X509V3_F_POLICY_CACHE_NEW'', 170),
    (''X509V3_F_POLICY_DATA_NEW'', 171),
    (''X509V3_F_POLICY_SECTION'', 131),
    (''X509V3_F_PROCESS_PCI_VALUE'', 150),
    (''X509V3_F_R2I_CERTPOL'', 130),
    (''X509V3_F_R2I_PCI'', 155),
    (''X509V3_F_S2I_ASN1_IA5STRING'', 100),
    (''X509V3_F_S2I_ASN1_INTEGER'', 108),
    (''X509V3_F_S2I_ASN1_OCTET_STRING'', 112),
    (''X509V3_F_S2I_SKEY_ID'', 115),
    (''X509V3_F_SET_DIST_POINT_NAME'', 158),
    (''X509V3_F_SXNET_ADD_ID_ASC'', 125),
    (''X509V3_F_SXNET_ADD_ID_INTEGER'', 126),
    (''X509V3_F_SXNET_ADD_ID_ULONG'', 127),
    (''X509V3_F_SXNET_GET_ID_ASC'', 128),
    (''X509V3_F_SXNET_GET_ID_ULONG'', 129),
    (''X509V3_F_TREE_INIT'', 172),
    (''X509V3_F_V2I_ASIDENTIFIERS'', 163),
    (''X509V3_F_V2I_ASN1_BIT_STRING'', 101),
    (''X509V3_F_V2I_AUTHORITY_INFO_ACCESS'', 139),
    (''X509V3_F_V2I_AUTHORITY_KEYID'', 119),
    (''X509V3_F_V2I_BASIC_CONSTRAINTS'', 102),
    (''X509V3_F_V2I_CRLD'', 134),
    (''X509V3_F_V2I_EXTENDED_KEY_USAGE'', 103),
    (''X509V3_F_V2I_GENERAL_NAMES'', 118),
    (''X509V3_F_V2I_GENERAL_NAME_EX'', 117),
    (''X509V3_F_V2I_IDP'', 157),
    (''X509V3_F_V2I_IPADDRBLOCKS'', 159),
    (''X509V3_F_V2I_ISSUER_ALT'', 153),
    (''X509V3_F_V2I_NAME_CONSTRAINTS'', 147),
    (''X509V3_F_V2I_POLICY_CONSTRAINTS'', 146),
    (''X509V3_F_V2I_POLICY_MAPPINGS'', 145),
    (''X509V3_F_V2I_SUBJECT_ALT'', 154),
    (''X509V3_F_V2I_TLS_FEATURE'', 165),
    (''X509V3_F_V3_GENERIC_EXTENSION'', 116),
    (''X509V3_F_X509V3_ADD1_I2D'', 140),
    (''X509V3_F_X509V3_ADD_LEN_VALUE'', 174),
    (''X509V3_F_X509V3_ADD_VALUE'', 105),
    (''X509V3_F_X509V3_EXT_ADD'', 104),
    (''X509V3_F_X509V3_EXT_ADD_ALIAS'', 106),
    (''X509V3_F_X509V3_EXT_I2D'', 136),
    (''X509V3_F_X509V3_EXT_NCONF'', 152),
    (''X509V3_F_X509V3_GET_SECTION'', 142),
    (''X509V3_F_X509V3_GET_STRING'', 143),
    (''X509V3_F_X509V3_GET_VALUE_BOOL'', 110),
    (''X509V3_F_X509V3_PARSE_LIST'', 109),
    (''X509V3_F_X509_PURPOSE_ADD'', 137),
    (''X509V3_F_X509_PURPOSE_SET'', 141)]"

definition X509V3_R_codes :: code_table where
  "X509V3_R_codes = [
    (''X509V3_R_BAD_IP_ADDRESS'', 118),
    (''X509V3_R_BAD_OBJECT'', 119),
    (''X509V3_R_BN_DEC2BN_ERROR'', 100),
    (''X509V3_R_BN_TO_ASN1_INTEGER_ERROR'', 101),
    (''X509V3_R_DIRNAME_ERROR'', 149),
    (''X509V3_R_DISTPOINT_ALREADY_SET'', 160),
    (''X509V3_R_DUPLICATE_ZONE_ID'', 133),
    (''X509V3_R_ERROR_CONVERTING_ZONE'', 131),
    (''X509V3_R_ERROR_CREATING_EXTENSION'', 144),
    (''X509V3_R_ERROR_IN_EXTENSION'', 128),
    (''X509V3_R_EXPECTED_A_SECTION_NAME'', 137),
    (''X509V3_R_EXTENSION_EXISTS'', 145),
    (''X509V3_R_EXTENSION_NAME_ERROR'', 115),
    (''X509V3_R_EXTENSION_NOT_FOUND'', 102),
    (''X509V3_R_EXTENSION_SETTING_NOT_SUPPORTED'', 103),
    (''X509V3_R_EXTENSION_VALUE_ERROR'', 116),
    (''X509V3_R_ILLEGAL_EMPTY_EXTENSION'', 151),
    (''X509V3_R_INCORRECT_POLICY_SYNTAX_TAG'', 152),
    (''X509V3_R_INVALID_ASNUMBER'', 162),
    (''X509V3_R_INVALID_ASRANGE'', 163),
    (''X509V3_R_INVALID_BOOLEAN_STRING'', 104),
    (''X509V3_R_INVALID_EXTENSION_STRING'', 105),
    (''X509V3_R_INVALID_INHERITANCE'', 165),
    (''X509V3_R_INVALID_IPADDRESS'', 166),
    (''X509V3_R_INVALID_MULTIPLE_RDNS'', 161),
    (''X509V3_R_INVALID_NAME'', 106),
    (''X509V3_R_INVALID_NULL_ARGUMENT'', 107),
    (''X509V3_R_INVALID_NULL_NAME'', 108),
    (''X509V3_R_INVALID_NULL_VALUE'', 109),
    (''X509V3_R_INVALID_NUMBER'', 140),
    (''X509V3_R_INVALID_NUMBERS'', 141),
    (''X509V3_R_INVALID_OBJECT_IDENTIFIER'', 110),
    (''X509V3_R_INVALID_OPTION'', 138),
    (''X509V3_R_INVALID_POLICY_IDENTIFIER'', 134),
    (''X509V3_R_INVALID_PROXY_POLICY_SETTING'', 153),
    (''X509V3_R_INVALID_PURPOSE'', 146),
    (''X509V3_R_INVALID_SAFI'', 164),
    (''X509V3_R_INVALID_SECTION'', 135),
    (''X509V3_R_INVALID_SYNTAX'', 143),
    (''X509V3_R_ISSUER_DECODE_ERROR'', 126),
    (''X509V3_R_MISSING_VALUE'', 124),
    (''X509V3_R_NEED_ORGANIZATION_AND_NUMBERS'', 142),
    (''X509V3_R_NO_CONFIG_DATABASE'', 136),
    (''X509V3_R_NO_ISSUER_CERTIFICATE'', 121),
    (''X509V3_R_NO_ISSUER_DETAILS'', 127),
    (''X509V3_R_NO_POLICY_IDENTIFIER'', 139),
    (''X509V3_R_NO_PROXY_CERT_POLICY_LANGUAGE_DEFINED'', 154),
    (''X509V3_R_NO_PUBLIC_KEY'', 114),
    (''X509V3_R_NO_SUBJECT_DETAILS'', 125),
    (''X509V3_R_OPERATION_NOT_DEFINED'', 148),
    (''X509V3_R_OTHERNAME_ERROR'', 147),
    (''X509V3_R_POLICY_LANGUAGE_ALREADY_DEFINED'', 155),
    (''X509V3_R_POLICY_PATH_LENGTH'', 156),
    (''X509V3_R_POLICY_PATH_LENGTH_ALREADY_DEFINED'', 157),
    (''X509V3_R_POLICY_WHEN_PROXY_LANGUAGE_REQUIRES_NO_POLICY'', 159),
    (''X509V3_R_SECTION_NOT_FOUND'', 150),
    (''X509V3_R_UNABLE_TO_GET_ISSUER_DETAILS'', 122),
    (''X509V3_R_UNABLE_TO_GET_ISSUER_KEYID'', 123),
    (''X509V3_R_UNKNOWN_BIT_STRING_ARGUMENT'', 111),
    (''X509V3_R_UNKNOWN_EXTENSION'', 129),
    (''X509V3_R_UNKNOWN_EXTENSION_NAME'', 130),
    (''X509V3_R_UNKNOWN_OPTION'', 120),
    (''X509V3_R_UNSUPPORTED_OPTION'', 117),
    (''X509V3_R_UNSUPPORTED_TYPE'', 167),
    (''X509V3_R_USER_TOO_LONG'', 132)]"

definition X509V3_errors :: err_library where
  "X509V3_errors = \<lparr>err_lib = ERR_LIB_X509V3, err_functions = X509V3_F_codes, err_reasons = X509V3_R_codes\<rparr>"

definition err_libraries :: "err_library list" where
  "err_libraries = [
     ASN1_errors, ASYNC_errors, BIO_errors, BN_errors, BUF_errors, CMS_errors, COMP_errors,
     CONF_errors, CRYPTO_errors, CT_errors, DH_errors, DSA_errors, EC_errors, ENGINE_errors,
     EVP_errors, KDF_errors, OBJ_errors, OCSP_errors, PEM_errors, PKCS12_errors, PKCS7_errors,
     RAND_errors, RSA_errors, SSL_errors, OSSL_STORE_errors, TS_errors, UI_errors, X509_errors,
     X509V3_errors]"

end
