(* ===== verification/Ossl_Codes.thy ===== *)
theory Ossl_Codes
  imports Ossl_Tables
begin

text \<open>
  Properties of the error codes: every table fits the field \<^verbatim>\<open>ERR_PACK\<close> has for it, and a packed code
  identifies its library, function and reason.
\<close>

section \<open>Every table is unambiguous and fits its field\<close>

definition codes_ok :: "code_table \<Rightarrow> bool" where
  "codes_ok t \<longleftrightarrow> ascending (sort_codes (map snd t)) \<and> list_all (\<lambda>c. 99 \<le> c \<and> c < 4096) (map snd t)"

definition library_ok :: "err_library \<Rightarrow> bool" where
  "library_ok L \<longleftrightarrow> codes_ok (err_functions L) \<and> codes_ok (err_reasons L)"

lemma ASN1_errors_ok: "library_ok ASN1_errors"
  by code_simp

lemma ASYNC_errors_ok: "library_ok ASYNC_errors"
  by code_simp

lemma BIO_errors_ok: "library_ok BIO_errors"
  by code_simp

lemma BN_errors_ok: "library_ok BN_errors"
  by code_simp

lemma BUF_errors_ok: "library_ok BUF_errors"
  by code_simp

lemma CMS_errors_ok: "library_ok CMS_errors"
  by code_simp

lemma COMP_errors_ok: "library_ok COMP_errors"
  by code_simp

lemma CONF_errors_ok: "library_ok CONF_errors"
  by code_simp

lemma CRYPTO_errors_ok: "library_ok CRYPTO_errors"
  by code_simp

lemma CT_errors_ok: "library_ok CT_errors"
  by code_simp

lemma DH_errors_ok: "library_ok DH_errors"
  by code_simp

lemma DSA_errors_ok: "library_ok DSA_errors"
  by code_simp

lemma EC_errors_ok: "library_ok EC_errors"
  by code_simp

lemma ENGINE_errors_ok: "library_ok ENGINE_errors"
  by code_simp

lemma EVP_errors_ok: "library_ok EVP_errors"
  by code_simp

lemma KDF_errors_ok: "library_ok KDF_errors"
  by code_simp

lemma OBJ_errors_ok: "library_ok OBJ_errors"
  by code_simp

lemma OCSP_errors_ok: "library_ok OCSP_errors"
  by code_simp

lemma PEM_errors_ok: "library_ok PEM_errors"
  by code_simp

lemma PKCS12_errors_ok: "library_ok PKCS12_errors"
  by code_simp

lemma PKCS7_errors_ok: "library_ok PKCS7_errors"
  by code_simp

lemma RAND_errors_ok: "library_ok RAND_errors"
  by code_simp

lemma RSA_errors_ok: "library_ok RSA_errors"
  by code_simp

lemma SSL_errors_ok: "library_ok SSL_errors"
  by code_simp

lemma OSSL_STORE_errors_ok: "library_ok OSSL_STORE_errors"
  by code_simp

lemma TS_errors_ok: "library_ok TS_errors"
  by code_simp

lemma UI_errors_ok: "library_ok UI_errors"
  by code_simp

lemma X509_errors_ok: "library_ok X509_errors"
  by code_simp

lemma X509V3_errors_ok: "library_ok X509V3_errors"
  by code_simp

lemmas errors_ok =
  ASN1_errors_ok ASYNC_errors_ok BIO_errors_ok BN_errors_ok BUF_errors_ok CMS_errors_ok
  COMP_errors_ok CONF_errors_ok CRYPTO_errors_ok CT_errors_ok DH_errors_ok DSA_errors_ok
  EC_errors_ok ENGINE_errors_ok EVP_errors_ok KDF_errors_ok OBJ_errors_ok OCSP_errors_ok
  PEM_errors_ok PKCS12_errors_ok PKCS7_errors_ok RAND_errors_ok RSA_errors_ok SSL_errors_ok
  OSSL_STORE_errors_ok TS_errors_ok UI_errors_ok X509_errors_ok X509V3_errors_ok

lemma err_libraries_ok: "L \<in> set err_libraries \<Longrightarrow> library_ok L"
proof -
  have "list_all library_ok err_libraries" by (simp add: err_libraries_def errors_ok)
  then show "L \<in> set err_libraries \<Longrightarrow> library_ok L" by (simp add: list_all_iff)
qed

lemmas errors_defs =
  ASN1_errors_def ASYNC_errors_def BIO_errors_def BN_errors_def BUF_errors_def CMS_errors_def
  COMP_errors_def CONF_errors_def CRYPTO_errors_def CT_errors_def DH_errors_def DSA_errors_def
  EC_errors_def ENGINE_errors_def EVP_errors_def KDF_errors_def OBJ_errors_def OCSP_errors_def
  PEM_errors_def PKCS12_errors_def PKCS7_errors_def RAND_errors_def RSA_errors_def
  SSL_errors_def OSSL_STORE_errors_def TS_errors_def UI_errors_def X509_errors_def
  X509V3_errors_def

lemma err_libraries_numbers:
  "distinct (map err_lib err_libraries)" "list_all (\<lambda>n. 0 \<le> n \<and> n < 256) (map err_lib err_libraries)"
  by (simp_all add: err_libraries_def errors_defs)

lemma err_library_number_range: "L \<in> set err_libraries \<Longrightarrow> 0 \<le> err_lib L \<and> err_lib L < 256"
  using err_libraries_numbers(2) by (auto simp: list_all_iff)

lemma err_library_by_number:
  assumes "L \<in> set err_libraries" "L' \<in> set err_libraries" "err_lib L = err_lib L'"
  shows "L = L'"
  using assms err_libraries_numbers(1) by (auto simp: distinct_map inj_on_def)

section \<open>A packed code names one library, function and reason\<close>

text \<open>
  The generic reasons lie below 99, the codes of a library at 99 or above. Two generic reasons share
  a code, so a reason is determined up to that pair.
\<close>

definition clash :: "string \<Rightarrow> bool" where
  "clash r \<longleftrightarrow> r = ''ERR_R_BUF_LIB'' \<or> r = ''ERR_R_PASSED_INVALID_ARGUMENT''"

lemma ERR_R_codes_range: "list_all (\<lambda>c. 0 \<le> c \<and> c < 99) (map snd ERR_R_codes)"
  by code_simp

lemma ERR_R_codes_unambiguous: "distinct (map snd (filter (\<lambda>(r, _). r \<noteq> ''ERR_R_BUF_LIB'') ERR_R_codes))"
  by code_simp

lemma ERR_R_clash:
  "map_of ERR_R_codes ''ERR_R_BUF_LIB'' = Some 7" "map_of ERR_R_codes ''ERR_R_PASSED_INVALID_ARGUMENT'' = Some 7"
  "filter (\<lambda>(r, c). c = 7 \<or> r = ''ERR_R_BUF_LIB'') ERR_R_codes =
     [(''ERR_R_BUF_LIB'', 7), (''ERR_R_PASSED_INVALID_ARGUMENT'', 7)]"
  by code_simp+

lemma ERR_R_code_names:
  assumes "(r, c) \<in> set ERR_R_codes" "(r', c) \<in> set ERR_R_codes"
  shows "r' = r \<or> clash r \<and> clash r'"
proof (cases "c = 7")
  case True
  then have "(r, c) \<in> set (filter (\<lambda>(r, c). c = 7 \<or> r = ''ERR_R_BUF_LIB'') ERR_R_codes)"
    "(r', c) \<in> set (filter (\<lambda>(r, c). c = 7 \<or> r = ''ERR_R_BUF_LIB'') ERR_R_codes)"
    using assms by simp_all
  then show ?thesis unfolding ERR_R_clash(3) by (auto simp: clash_def)
next
  case False
  have "r \<noteq> ''ERR_R_BUF_LIB''" if "(r, c) \<in> set ERR_R_codes" for r
  proof
    assume "r = ''ERR_R_BUF_LIB''"
    with that have "(r, c) \<in> set (filter (\<lambda>(r, c). c = 7 \<or> r = ''ERR_R_BUF_LIB'') ERR_R_codes)" by simp
    then show False unfolding ERR_R_clash(3) using False by auto
  qed
  then have "(r, c) \<in> set (filter (\<lambda>(r, _). r \<noteq> ''ERR_R_BUF_LIB'') ERR_R_codes)"
    "(r', c) \<in> set (filter (\<lambda>(r, _). r \<noteq> ''ERR_R_BUF_LIB'') ERR_R_codes)"
    using assms by auto
  then show ?thesis using table_unique [OF ERR_R_codes_unambiguous] by blast
qed

definition reasons_of :: "err_library \<Rightarrow> code_table" where
  "reasons_of L = ERR_R_codes @ err_reasons L"

lemma functions_unambiguous:
  assumes "L \<in> set err_libraries"
  shows "distinct (map snd (err_functions L))" "(f, c) \<in> set (err_functions L) \<Longrightarrow> 0 \<le> c \<and> c < 4096"
  using err_libraries_ok [OF assms]
  by (auto simp: library_ok_def codes_ok_def list_all_iff intro: ascending_distinct)

lemma library_reasons:
  assumes "L \<in> set err_libraries"
  shows "distinct (map snd (err_reasons L))" "(r, c) \<in> set (err_reasons L) \<Longrightarrow> 99 \<le> c \<and> c < 4096"
  using err_libraries_ok [OF assms]
  by (auto simp: library_ok_def codes_ok_def list_all_iff intro: ascending_distinct)

lemma generic_reasons: "(r, c) \<in> set ERR_R_codes \<Longrightarrow> 0 \<le> c \<and> c < 99"
  using ERR_R_codes_range by (auto simp: list_all_iff)

lemma reason_range:
  assumes "L \<in> set err_libraries" "(r, c) \<in> set (reasons_of L)"
  shows "0 \<le> c \<and> c < 4096"
  using assms(2) library_reasons(2) [OF assms(1), of r c] generic_reasons [of r c]
  by (auto simp: reasons_of_def)

lemma reason_names:
  assumes "L \<in> set err_libraries" "(r, c) \<in> set (reasons_of L)" "(r', c) \<in> set (reasons_of L)"
  shows "r' = r \<or> clash r \<and> clash r'"
proof (cases "c < 99")
  case True
  then have "(r, c) \<in> set ERR_R_codes" "(r', c) \<in> set ERR_R_codes"
    using assms(2,3) library_reasons(2) [OF assms(1)] by (fastforce simp: reasons_of_def)+
  then show ?thesis by (rule ERR_R_code_names)
next
  case False
  then have "(r, c) \<in> set (err_reasons L)" "(r', c) \<in> set (err_reasons L)"
    using assms(2,3) generic_reasons by (fastforce simp: reasons_of_def)+
  then show ?thesis using table_unique [OF library_reasons(1) [OF assms(1)]] by blast
qed

text \<open>\<open>e\<close> is what the raising macro of a library packs for a function and a reason of that library.\<close>

definition raises :: "err_library \<Rightarrow> string \<Rightarrow> string \<Rightarrow> u32 \<Rightarrow> bool" where
  "raises L f r e \<longleftrightarrow> L \<in> set err_libraries \<and>
     list_ex (\<lambda>(f', fc). f' = f \<and>
       list_ex (\<lambda>(r', rc). r' = r \<and> e = ERR_PACK (err_lib L) fc rc) (reasons_of L)) (err_functions L)"

lemma raisesE:
  assumes "raises L f r e"
  obtains fc rc where "L \<in> set err_libraries" "(f, fc) \<in> set (err_functions L)"
    "(r, rc) \<in> set (reasons_of L)" "e = ERR_PACK (err_lib L) fc rc"
    "ERR_GET_LIB (ucast e) = err_lib L" "ERR_GET_FUNC (ucast e) = fc" "ERR_GET_REASON (ucast e) = rc"
proof -
  obtain fc rc where *: "L \<in> set err_libraries" "(f, fc) \<in> set (err_functions L)"
      "(r, rc) \<in> set (reasons_of L)" "e = ERR_PACK (err_lib L) fc rc"
    using assms by (auto simp: raises_def list_ex_iff)
  show thesis
  proof (rule that [OF *])
    show "ERR_GET_LIB (ucast e) = err_lib L"
      using err_library_number_range [OF *(1)] by (simp add: *(4) ERR_GET_PACK)
    show "ERR_GET_FUNC (ucast e) = fc"
      using functions_unambiguous(2) [OF *(1,2)] by (simp add: *(4) ERR_GET_PACK)
    show "ERR_GET_REASON (ucast e) = rc"
      using reason_range [OF *(1,3)] by (simp add: *(4) ERR_GET_PACK)
  qed
qed

text \<open>
  C38. A packed error code identifies what was raised: whatever library, function and reason of the
  headers, generic reasons included, were packed, the three extraction macros return their codes,
  and no other library or function packs to the same value, nor any other reason but for one pair
  of generic reasons with equal codes, \<^verbatim>\<open>ERR_R_BUF_LIB\<close> and \<^verbatim>\<open>ERR_R_PASSED_INVALID_ARGUMENT\<close>.
\<close>

theorem packed_error_identifies_its_names:
  assumes "raises L f r e"
  shows "ERR_GET_LIB (ucast e) = err_lib L \<and>
    (f, ERR_GET_FUNC (ucast e)) \<in> set (err_functions L) \<and>
    (r, ERR_GET_REASON (ucast e)) \<in> set (reasons_of L) \<and>
    (\<forall>L' f' r'. raises L' f' r' e \<longrightarrow> L' = L \<and> f' = f \<and> (r' = r \<or> clash r \<and> clash r'))"
proof (intro conjI allI impI)
  obtain fc rc where e: "L \<in> set err_libraries" "(f, fc) \<in> set (err_functions L)"
      "(r, rc) \<in> set (reasons_of L)" "ERR_GET_LIB (ucast e) = err_lib L"
      "ERR_GET_FUNC (ucast e) = fc" "ERR_GET_REASON (ucast e) = rc"
    using assms by (rule raisesE)
  show "ERR_GET_LIB (ucast e) = err_lib L" "(f, ERR_GET_FUNC (ucast e)) \<in> set (err_functions L)"
    "(r, ERR_GET_REASON (ucast e)) \<in> set (reasons_of L)" using e by simp_all
  fix L' f' r'
  assume "raises L' f' r' e"
  then obtain fc' rc' where e': "L' \<in> set err_libraries" "(f', fc') \<in> set (err_functions L')"
      "(r', rc') \<in> set (reasons_of L')" "ERR_GET_LIB (ucast e) = err_lib L'"
      "ERR_GET_FUNC (ucast e) = fc'" "ERR_GET_REASON (ucast e) = rc'"
    by (rule raisesE)
  show L: "L' = L" using err_library_by_number [OF e'(1) e(1)] e(4) e'(4) by simp
  show "f' = f"
    using table_unique [OF functions_unambiguous(1) [OF e(1)], of f' fc f] e(2,5) e'(2,5) L by simp
  show "r' = r \<or> clash r \<and> clash r'"
    using reason_names [OF e(1,3), of r'] e(6) e'(3,6) L by simp
qed

lemma BUF_raises:
  "raises BUF_errors ''BUF_F_BUF_MEM_GROW'' ''ERR_R_MALLOC_FAILURE'' 0x07064041"
proof -
  have "BUF_errors \<in> set err_libraries" by (simp add: err_libraries_def)
  moreover have "list_ex (\<lambda>(f', fc). f' = ''BUF_F_BUF_MEM_GROW'' \<and>
       list_ex (\<lambda>(r', rc). r' = ''ERR_R_MALLOC_FAILURE'' \<and>
         0x07064041 = ERR_PACK (err_lib BUF_errors) fc rc) (reasons_of BUF_errors))
       (err_functions BUF_errors)"
    by code_simp
  ultimately show ?thesis by (simp add: raises_def)
qed

theorem packed_error_identifies_its_names_witness:
  "raises BUF_errors ''BUF_F_BUF_MEM_GROW'' ''ERR_R_MALLOC_FAILURE'' 0x07064041 \<and>
   ERR_GET_LIB (ucast (0x07064041 :: u32)) = 7 \<and>
   {(f, r). \<exists>L. raises L f r 0x07064041} = {(''BUF_F_BUF_MEM_GROW'', ''ERR_R_MALLOC_FAILURE'')}"
proof (intro conjI set_eqI iffI)
  note W = packed_error_identifies_its_names [OF BUF_raises]
  show raises: "raises BUF_errors ''BUF_F_BUF_MEM_GROW'' ''ERR_R_MALLOC_FAILURE'' 0x07064041"
    by (rule BUF_raises)
  have "err_lib BUF_errors = 7" by (simp add: BUF_errors_def)
  with W [THEN conjunct1] show "ERR_GET_LIB (ucast (0x07064041 :: u32)) = 7" by (rule trans)
  fix p
  show "p \<in> {(f, r). \<exists>L. raises L f r 0x07064041}"
    if "p \<in> {(''BUF_F_BUF_MEM_GROW'', ''ERR_R_MALLOC_FAILURE'')}" using that raises by blast
  assume "p \<in> {(f, r). \<exists>L. raises L f r 0x07064041}"
  then obtain L f r where p: "p = (f, r)" and "raises L f r 0x07064041" by blast
  note this(2) [THEN W [THEN conjunct2, THEN conjunct2, THEN conjunct2, rule_format]]
  moreover have "\<not> clash ''ERR_R_MALLOC_FAILURE''" by (simp add: clash_def)
  ultimately show "p \<in> {(''BUF_F_BUF_MEM_GROW'', ''ERR_R_MALLOC_FAILURE'')}" using p by blast
qed

text \<open>
  The reservations the comments of \<^verbatim>\<open>err.h\<close> state. Every generic reason is at most 99, and two of
  them have the same code. Of the reasons of the libraries exactly two lie below 100.
\<close>

theorem reserved_reason_codes:
  "list_all (\<lambda>(_, c). 0 \<le> c \<and> c \<le> 99) ERR_R_codes \<and>
   filter (\<lambda>(_, c). c = 7) ERR_R_codes =
     [(''ERR_R_BUF_LIB'', 7), (''ERR_R_PASSED_INVALID_ARGUMENT'', 7)] \<and>
   concat (map (\<lambda>L. filter (\<lambda>(_, c). c < 100) (err_reasons L)) err_libraries) =
     [(''CMS_R_ADD_SIGNER_ERROR'', 99), (''COMP_R_ZLIB_DEFLATE_ERROR'', 99)]"
proof (intro conjI)
  show "list_all (\<lambda>(_, c). 0 \<le> c \<and> c \<le> 99) ERR_R_codes" by code_simp
  show "filter (\<lambda>(_, c). c = 7) ERR_R_codes =
     [(''ERR_R_BUF_LIB'', 7), (''ERR_R_PASSED_INVALID_ARGUMENT'', 7)]" by code_simp
  show "concat (map (\<lambda>L. filter (\<lambda>(_, c). c < 100) (err_reasons L)) err_libraries) =
     [(''CMS_R_ADD_SIGNER_ERROR'', 99), (''COMP_R_ZLIB_DEFLATE_ERROR'', 99)]"
    by code_simp
qed

end
