(* ===== verification/Ossl_Tls.thy ===== *)
theory Ossl_Tls
  imports Ossl_Codes
begin

text \<open>
  TLS alerts and cipher suites of the OpenSSL headers \<^verbatim>\<open>ssl3.h\<close>, \<^verbatim>\<open>tls1.h\<close> and \<^verbatim>\<open>ssl.h\<close>: an alert
  received from the peer is reported as the reason \<^verbatim>\<open>SSL_AD_REASON_OFFSET\<close> plus the alert, and a
  cipher suite is named on the wire by the low two bytes of its code.
\<close>

section \<open>Alerts\<close>

definition SSL3_AD_codes :: code_table where
  "SSL3_AD_codes = [
    (''SSL3_AD_CLOSE_NOTIFY'', 0),
    (''SSL3_AD_UNEXPECTED_MESSAGE'', 10),
    (''SSL3_AD_BAD_RECORD_MAC'', 20),
    (''SSL3_AD_DECOMPRESSION_FAILURE'', 30),
    (''SSL3_AD_HANDSHAKE_FAILURE'', 40),
    (''SSL3_AD_NO_CERTIFICATE'', 41),
    (''SSL3_AD_BAD_CERTIFICATE'', 42),
    (''SSL3_AD_UNSUPPORTED_CERTIFICATE'', 43),
    (''SSL3_AD_CERTIFICATE_REVOKED'', 44),
    (''SSL3_AD_CERTIFICATE_EXPIRED'', 45),
    (''SSL3_AD_CERTIFICATE_UNKNOWN'', 46),
    (''SSL3_AD_ILLEGAL_PARAMETER'', 47)]"

definition TLS1_AD_codes :: code_table where
  "TLS1_AD_codes = [
    (''TLS1_AD_DECRYPTION_FAILED'', 21),
    (''TLS1_AD_RECORD_OVERFLOW'', 22),
    (''TLS1_AD_UNKNOWN_CA'', 48),
    (''TLS1_AD_ACCESS_DENIED'', 49),
    (''TLS1_AD_DECODE_ERROR'', 50),
    (''TLS1_AD_DECRYPT_ERROR'', 51),
    (''TLS1_AD_EXPORT_RESTRICTION'', 60),
    (''TLS1_AD_PROTOCOL_VERSION'', 70),
    (''TLS1_AD_INSUFFICIENT_SECURITY'', 71),
    (''TLS1_AD_INTERNAL_ERROR'', 80),
    (''TLS1_AD_INAPPROPRIATE_FALLBACK'', 86),
    (''TLS1_AD_USER_CANCELLED'', 90),
    (''TLS1_AD_NO_RENEGOTIATION'', 100),
    (''TLS13_AD_MISSING_EXTENSION'', 109),
    (''TLS13_AD_CERTIFICATE_REQUIRED'', 116),
    (''TLS1_AD_UNSUPPORTED_EXTENSION'', 110),
    (''TLS1_AD_CERTIFICATE_UNOBTAINABLE'', 111),
    (''TLS1_AD_UNRECOGNIZED_NAME'', 112),
    (''TLS1_AD_BAD_CERTIFICATE_STATUS_RESPONSE'', 113),
    (''TLS1_AD_BAD_CERTIFICATE_HASH_VALUE'', 114),
    (''TLS1_AD_UNKNOWN_PSK_IDENTITY'', 115),
    (''TLS1_AD_NO_APPLICATION_PROTOCOL'', 120)]"

definition SSL_AD_aliases :: "(string \<times> string) list" where
  "SSL_AD_aliases = [
    (''SSL_AD_CLOSE_NOTIFY'', ''SSL3_AD_CLOSE_NOTIFY''),
    (''SSL_AD_UNEXPECTED_MESSAGE'', ''SSL3_AD_UNEXPECTED_MESSAGE''),
    (''SSL_AD_BAD_RECORD_MAC'', ''SSL3_AD_BAD_RECORD_MAC''),
    (''SSL_AD_DECRYPTION_FAILED'', ''TLS1_AD_DECRYPTION_FAILED''),
    (''SSL_AD_RECORD_OVERFLOW'', ''TLS1_AD_RECORD_OVERFLOW''),
    (''SSL_AD_DECOMPRESSION_FAILURE'', ''SSL3_AD_DECOMPRESSION_FAILURE''),
    (''SSL_AD_HANDSHAKE_FAILURE'', ''SSL3_AD_HANDSHAKE_FAILURE''),
    (''SSL_AD_NO_CERTIFICATE'', ''SSL3_AD_NO_CERTIFICATE''),
    (''SSL_AD_BAD_CERTIFICATE'', ''SSL3_AD_BAD_CERTIFICATE''),
    (''SSL_AD_UNSUPPORTED_CERTIFICATE'', ''SSL3_AD_UNSUPPORTED_CERTIFICATE''),
    (''SSL_AD_CERTIFICATE_REVOKED'', ''SSL3_AD_CERTIFICATE_REVOKED''),
    (''SSL_AD_CERTIFICATE_EXPIRED'', ''SSL3_AD_CERTIFICATE_EXPIRED''),
    (''SSL_AD_CERTIFICATE_UNKNOWN'', ''SSL3_AD_CERTIFICATE_UNKNOWN''),
    (''SSL_AD_ILLEGAL_PARAMETER'', ''SSL3_AD_ILLEGAL_PARAMETER''),
    (''SSL_AD_UNKNOWN_CA'', ''TLS1_AD_UNKNOWN_CA''),
    (''SSL_AD_ACCESS_DENIED'', ''TLS1_AD_ACCESS_DENIED''),
    (''SSL_AD_DECODE_ERROR'', ''TLS1_AD_DECODE_ERROR''),
    (''SSL_AD_DECRYPT_ERROR'', ''TLS1_AD_DECRYPT_ERROR''),
    (''SSL_AD_EXPORT_RESTRICTION'', ''TLS1_AD_EXPORT_RESTRICTION''),
    (''SSL_AD_PROTOCOL_VERSION'', ''TLS1_AD_PROTOCOL_VERSION''),
    (''SSL_AD_INSUFFICIENT_SECURITY'', ''TLS1_AD_INSUFFICIENT_SECURITY''),
    (''SSL_AD_INTERNAL_ERROR'', ''TLS1_AD_INTERNAL_ERROR''),
    (''SSL_AD_USER_CANCELLED'', ''TLS1_AD_USER_CANCELLED''),
    (''SSL_AD_NO_RENEGOTIATION'', ''TLS1_AD_NO_RENEGOTIATION''),
    (''SSL_AD_MISSING_EXTENSION'', ''TLS13_AD_MISSING_EXTENSION''),
    (''SSL_AD_CERTIFICATE_REQUIRED'', ''TLS13_AD_CERTIFICATE_REQUIRED''),
    (''SSL_AD_UNSUPPORTED_EXTENSION'', ''TLS1_AD_UNSUPPORTED_EXTENSION''),
    (''SSL_AD_CERTIFICATE_UNOBTAINABLE'', ''TLS1_AD_CERTIFICATE_UNOBTAINABLE''),
    (''SSL_AD_UNRECOGNIZED_NAME'', ''TLS1_AD_UNRECOGNIZED_NAME''),
    (''SSL_AD_BAD_CERTIFICATE_STATUS_RESPONSE'', ''TLS1_AD_BAD_CERTIFICATE_STATUS_RESPONSE''),
    (''SSL_AD_BAD_CERTIFICATE_HASH_VALUE'', ''TLS1_AD_BAD_CERTIFICATE_HASH_VALUE''),
    (''SSL_AD_UNKNOWN_PSK_IDENTITY'', ''TLS1_AD_UNKNOWN_PSK_IDENTITY''),
    (''SSL_AD_INAPPROPRIATE_FALLBACK'', ''TLS1_AD_INAPPROPRIATE_FALLBACK''),
    (''SSL_AD_NO_APPLICATION_PROTOCOL'', ''TLS1_AD_NO_APPLICATION_PROTOCOL'')]"

definition SSL_AD_REASON_OFFSET :: int where "SSL_AD_REASON_OFFSET = 1000"

text \<open>The value of an \<^verbatim>\<open>SSL_AD_...\<close> macro is that of the macro it stands for.\<close>

definition SSL_AD_codes :: code_table where
  "SSL_AD_codes = List.map_filter
     (\<lambda>(name, target). map_option (Pair name) (map_of (SSL3_AD_codes @ TLS1_AD_codes) target))
     SSL_AD_aliases"

section \<open>Cipher suites\<close>

definition SSL3_CK_codes :: code_table where
  "SSL3_CK_codes = [
    (''SSL3_CK_SCSV'', 0x030000FF),
    (''SSL3_CK_FALLBACK_SCSV'', 0x03005600),
    (''SSL3_CK_RSA_NULL_MD5'', 0x03000001),
    (''SSL3_CK_RSA_NULL_SHA'', 0x03000002),
    (''SSL3_CK_RSA_RC4_40_MD5'', 0x03000003),
    (''SSL3_CK_RSA_RC4_128_MD5'', 0x03000004),
    (''SSL3_CK_RSA_RC4_128_SHA'', 0x03000005),
    (''SSL3_CK_RSA_RC2_40_MD5'', 0x03000006),
    (''SSL3_CK_RSA_IDEA_128_SHA'', 0x03000007),
    (''SSL3_CK_RSA_DES_40_CBC_SHA'', 0x03000008),
    (''SSL3_CK_RSA_DES_64_CBC_SHA'', 0x03000009),
    (''SSL3_CK_RSA_DES_192_CBC3_SHA'', 0x0300000A),
    (''SSL3_CK_DH_DSS_DES_40_CBC_SHA'', 0x0300000B),
    (''SSL3_CK_DH_DSS_DES_64_CBC_SHA'', 0x0300000C),
    (''SSL3_CK_DH_DSS_DES_192_CBC3_SHA'', 0x0300000D),
    (''SSL3_CK_DH_RSA_DES_40_CBC_SHA'', 0x0300000E),
    (''SSL3_CK_DH_RSA_DES_64_CBC_SHA'', 0x0300000F),
    (''SSL3_CK_DH_RSA_DES_192_CBC3_SHA'', 0x03000010),
    (''SSL3_CK_DHE_DSS_DES_40_CBC_SHA'', 0x03000011),
    (''SSL3_CK_DHE_DSS_DES_64_CBC_SHA'', 0x03000012),
    (''SSL3_CK_DHE_DSS_DES_192_CBC3_SHA'', 0x03000013),
    (''SSL3_CK_DHE_RSA_DES_40_CBC_SHA'', 0x03000014),
    (''SSL3_CK_DHE_RSA_DES_64_CBC_SHA'', 0x03000015),
    (''SSL3_CK_DHE_RSA_DES_192_CBC3_SHA'', 0x03000016),
    (''SSL3_CK_ADH_RC4_40_MD5'', 0x03000017),
    (''SSL3_CK_ADH_RC4_128_MD5'', 0x03000018),
    (''SSL3_CK_ADH_DES_40_CBC_SHA'', 0x03000019),
    (''SSL3_CK_ADH_DES_64_CBC_SHA'', 0x0300001A),
    (''SSL3_CK_ADH_DES_192_CBC_SHA'', 0x0300001B)]"

definition SSL3_CK_aliases :: "(string \<times> string) list" where
  "SSL3_CK_aliases = [
    (''SSL3_CK_EDH_DSS_DES_40_CBC_SHA'', ''SSL3_CK_DHE_DSS_DES_40_CBC_SHA''),
    (''SSL3_CK_EDH_DSS_DES_64_CBC_SHA'', ''SSL3_CK_DHE_DSS_DES_64_CBC_SHA''),
    (''SSL3_CK_EDH_DSS_DES_192_CBC3_SHA'', ''SSL3_CK_DHE_DSS_DES_192_CBC3_SHA''),
    (''SSL3_CK_EDH_RSA_DES_40_CBC_SHA'', ''SSL3_CK_DHE_RSA_DES_40_CBC_SHA''),
    (''SSL3_CK_EDH_RSA_DES_64_CBC_SHA'', ''SSL3_CK_DHE_RSA_DES_64_CBC_SHA''),
    (''SSL3_CK_EDH_RSA_DES_192_CBC3_SHA'', ''SSL3_CK_DHE_RSA_DES_192_CBC3_SHA'')]"

definition TLS1_CK_codes_1 :: code_table where
  "TLS1_CK_codes_1 = [
    (''TLS1_CK_PSK_WITH_RC4_128_SHA'', 0x0300008A),
    (''TLS1_CK_PSK_WITH_3DES_EDE_CBC_SHA'', 0x0300008B),
    (''TLS1_CK_PSK_WITH_AES_128_CBC_SHA'', 0x0300008C),
    (''TLS1_CK_PSK_WITH_AES_256_CBC_SHA'', 0x0300008D),
    (''TLS1_CK_DHE_PSK_WITH_RC4_128_SHA'', 0x0300008E),
    (''TLS1_CK_DHE_PSK_WITH_3DES_EDE_CBC_SHA'', 0x0300008F),
    (''TLS1_CK_DHE_PSK_WITH_AES_128_CBC_SHA'', 0x03000090),
    (''TLS1_CK_DHE_PSK_WITH_AES_256_CBC_SHA'', 0x03000091),
    (''TLS1_CK_RSA_PSK_WITH_RC4_128_SHA'', 0x03000092),
    (''TLS1_CK_RSA_PSK_WITH_3DES_EDE_CBC_SHA'', 0x03000093),
    (''TLS1_CK_RSA_PSK_WITH_AES_128_CBC_SHA'', 0x03000094),
    (''TLS1_CK_RSA_PSK_WITH_AES_256_CBC_SHA'', 0x03000095),
    (''TLS1_CK_PSK_WITH_AES_128_GCM_SHA256'', 0x030000A8),
    (''TLS1_CK_PSK_WITH_AES_256_GCM_SHA384'', 0x030000A9),
    (''TLS1_CK_DHE_PSK_WITH_AES_128_GCM_SHA256'', 0x030000AA),
    (''TLS1_CK_DHE_PSK_WITH_AES_256_GCM_SHA384'', 0x030000AB),
    (''TLS1_CK_RSA_PSK_WITH_AES_128_GCM_SHA256'', 0x030000AC),
    (''TLS1_CK_RSA_PSK_WITH_AES_256_GCM_SHA384'', 0x030000AD),
    (''TLS1_CK_PSK_WITH_AES_128_CBC_SHA256'', 0x030000AE),
    (''TLS1_CK_PSK_WITH_AES_256_CBC_SHA384'', 0x030000AF),
    (''TLS1_CK_PSK_WITH_NULL_SHA256'', 0x030000B0),
    (''TLS1_CK_PSK_WITH_NULL_SHA384'', 0x030000B1),
    (''TLS1_CK_DHE_PSK_WITH_AES_128_CBC_SHA256'', 0x030000B2),
    (''TLS1_CK_DHE_PSK_WITH_AES_256_CBC_SHA384'', 0x030000B3),
    (''TLS1_CK_DHE_PSK_WITH_NULL_SHA256'', 0x030000B4),
    (''TLS1_CK_DHE_PSK_WITH_NULL_SHA384'', 0x030000B5),
    (''TLS1_CK_RSA_PSK_WITH_AES_128_CBC_SHA256'', 0x030000B6),
    (''TLS1_CK_RSA_PSK_WITH_AES_256_CBC_SHA384'', 0x030000B7),
    (''TLS1_CK_RSA_PSK_WITH_NULL_SHA256'', 0x030000B8),
    (''TLS1_CK_RSA_PSK_WITH_NULL_SHA384'', 0x030000B9),
    (''TLS1_CK_PSK_WITH_NULL_SHA'', 0x0300002C),
    (''TLS1_CK_DHE_PSK_WITH_NULL_SHA'', 0x0300002D),
    (''TLS1_CK_RSA_PSK_WITH_NULL_SHA'', 0x0300002E),
    (''TLS1_CK_RSA_WITH_AES_128_SHA'', 0x0300002F),
    (''TLS1_CK_DH_DSS_WITH_AES_128_SHA'', 0x03000030),
    (''TLS1_CK_DH_RSA_WITH_AES_128_SHA'', 0x03000031),
    (''TLS1_CK_DHE_DSS_WITH_AES_128_SHA'', 0x03000032),
    (''TLS1_CK_DHE_RSA_WITH_AES_128_SHA'', 0x03000033),
    (''TLS1_CK_ADH_WITH_AES_128_SHA'', 0x03000034),
    (''TLS1_CK_RSA_WITH_AES_256_SHA'', 0x03000035),
    (''TLS1_CK_DH_DSS_WITH_AES_256_SHA'', 0x03000036),
    (''TLS1_CK_DH_RSA_WITH_AES_256_SHA'', 0x03000037),
    (''TLS1_CK_DHE_DSS_WITH_AES_256_SHA'', 0x03000038),
    (''TLS1_CK_DHE_RSA_WITH_AES_256_SHA'', 0x03000039),
    (''TLS1_CK_ADH_WITH_AES_256_SHA'', 0x0300003A),
    (''TLS1_CK_RSA_WITH_NULL_SHA256'', 0x0300003B),
    (''TLS1_CK_RSA_WITH_AES_128_SHA256'', 0x0300003C),
    (''TLS1_CK_RSA_WITH_AES_256_SHA256'', 0x0300003D),
    (''TLS1_CK_DH_DSS_WITH_AES_128_SHA256'', 0x0300003E),
    (''TLS1_CK_DH_RSA_WITH_AES_128_SHA256'', 0x0300003F),
    (''TLS1_CK_DHE_DSS_WITH_AES_128_SHA256'', 0x03000040),
    (''TLS1_CK_RSA_WITH_CAMELLIA_128_CBC_SHA'', 0x03000041),
    (''TLS1_CK_DH_DSS_WITH_CAMELLIA_128_CBC_SHA'', 0x03000042),
    (''TLS1_CK_DH_RSA_WITH_CAMELLIA_128_CBC_SHA'', 0x03000043),
    (''TLS1_CK_DHE_DSS_WITH_CAMELLIA_128_CBC_SHA'', 0x03000044),
    (''TLS1_CK_DHE_RSA_WITH_CAMELLIA_128_CBC_SHA'', 0x03000045),
    (''TLS1_CK_ADH_WITH_CAMELLIA_128_CBC_SHA'', 0x03000046),
    (''TLS1_CK_DHE_RSA_WITH_AES_128_SHA256'', 0x03000067),
    (''TLS1_CK_DH_DSS_WITH_AES_256_SHA256'', 0x03000068),
    (''TLS1_CK_DH_RSA_WITH_AES_256_SHA256'', 0x03000069),
    (''TLS1_CK_DHE_DSS_WITH_AES_256_SHA256'', 0x0300006A),
    (''TLS1_CK_DHE_RSA_WITH_AES_256_SHA256'', 0x0300006B),
    (''TLS1_CK_ADH_WITH_AES_128_SHA256'', 0x0300006C),
    (''TLS1_CK_ADH_WITH_AES_256_SHA256'', 0x0300006D),
    (''TLS1_CK_RSA_WITH_CAMELLIA_256_CBC_SHA'', 0x03000084),
    (''TLS1_CK_DH_DSS_WITH_CAMELLIA_256_CBC_SHA'', 0x03000085),
    (''TLS1_CK_DH_RSA_WITH_CAMELLIA_256_CBC_SHA'', 0x03000086),
    (''TLS1_CK_DHE_DSS_WITH_CAMELLIA_256_CBC_SHA'', 0x03000087),
    (''TLS1_CK_DHE_RSA_WITH_CAMELLIA_256_CBC_SHA'', 0x03000088),
    (''TLS1_CK_ADH_WITH_CAMELLIA_256_CBC_SHA'', 0x03000089),
    (''TLS1_CK_RSA_WITH_SEED_SHA'', 0x03000096),
    (''TLS1_CK_DH_DSS_WITH_SEED_SHA'', 0x03000097),
    (''TLS1_CK_DH_RSA_WITH_SEED_SHA'', 0x03000098),
    (''TLS1_CK_DHE_DSS_WITH_SEED_SHA'', 0x03000099),
    (''TLS1_CK_DHE_RSA_WITH_SEED_SHA'', 0x0300009A),
    (''TLS1_CK_ADH_WITH_SEED_SHA'', 0x0300009B),
    (''TLS1_CK_RSA_WITH_AES_128_GCM_SHA256'', 0x0300009C),
    (''TLS1_CK_RSA_WITH_AES_256_GCM_SHA384'', 0x0300009D),
    (''TLS1_CK_DHE_RSA_WITH_AES_128_GCM_SHA256'', 0x0300009E),
    (''TLS1_CK_DHE_RSA_WITH_AES_256_GCM_SHA384'', 0x0300009F),
    (''TLS1_CK_DH_RSA_WITH_AES_128_GCM_SHA256'', 0x030000A0),
    (''TLS1_CK_DH_RSA_WITH_AES_256_GCM_SHA384'', 0x030000A1),
    (''TLS1_CK_DHE_DSS_WITH_AES_128_GCM_SHA256'', 0x030000A2),
    (''TLS1_CK_DHE_DSS_WITH_AES_256_GCM_SHA384'', 0x030000A3),
    (''TLS1_CK_DH_DSS_WITH_AES_128_GCM_SHA256'', 0x030000A4),
    (''TLS1_CK_DH_DSS_WITH_AES_256_GCM_SHA384'', 0x030000A5),
    (''TLS1_CK_ADH_WITH_AES_128_GCM_SHA256'', 0x030000A6),
    (''TLS1_CK_ADH_WITH_AES_256_GCM_SHA384'', 0x030000A7),
    (''TLS1_CK_RSA_WITH_AES_128_CCM'', 0x0300C09C),
    (''TLS1_CK_RSA_WITH_AES_256_CCM'', 0x0300C09D),
    (''TLS1_CK_DHE_RSA_WITH_AES_128_CCM'', 0x0300C09E),
    (''TLS1_CK_DHE_RSA_WITH_AES_256_CCM'', 0x0300C09F),
    (''TLS1_CK_RSA_WITH_AES_128_CCM_8'', 0x0300C0A0),
    (''TLS1_CK_RSA_WITH_AES_256_CCM_8'', 0x0300C0A1),
    (''TLS1_CK_DHE_RSA_WITH_AES_128_CCM_8'', 0x0300C0A2),
    (''TLS1_CK_DHE_RSA_WITH_AES_256_CCM_8'', 0x0300C0A3),
    (''TLS1_CK_PSK_WITH_AES_128_CCM'', 0x0300C0A4),
    (''TLS1_CK_PSK_WITH_AES_256_CCM'', 0x0300C0A5),
    (''TLS1_CK_DHE_PSK_WITH_AES_128_CCM'', 0x0300C0A6),
    (''TLS1_CK_DHE_PSK_WITH_AES_256_CCM'', 0x0300C0A7),
    (''TLS1_CK_PSK_WITH_AES_128_CCM_8'', 0x0300C0A8),
    (''TLS1_CK_PSK_WITH_AES_256_CCM_8'', 0x0300C0A9),
    (''TLS1_CK_DHE_PSK_WITH_AES_128_CCM_8'', 0x0300C0AA),
    (''TLS1_CK_DHE_PSK_WITH_AES_256_CCM_8'', 0x0300C0AB),
    (''TLS1_CK_ECDHE_ECDSA_WITH_AES_128_CCM'', 0x0300C0AC),
    (''TLS1_CK_ECDHE_ECDSA_WITH_AES_256_CCM'', 0x0300C0AD),
    (''TLS1_CK_ECDHE_ECDSA_WITH_AES_128_CCM_8'', 0x0300C0AE),
    (''TLS1_CK_ECDHE_ECDSA_WITH_AES_256_CCM_8'', 0x0300C0AF),
    (''TLS1_CK_RSA_WITH_CAMELLIA_128_CBC_SHA256'', 0x030000BA),
    (''TLS1_CK_DH_DSS_WITH_CAMELLIA_128_CBC_SHA256'', 0x030000BB),
    (''TLS1_CK_DH_RSA_WITH_CAMELLIA_128_CBC_SHA256'', 0x030000BC),
    (''TLS1_CK_DHE_DSS_WITH_CAMELLIA_128_CBC_SHA256'', 0x030000BD),
    (''TLS1_CK_DHE_RSA_WITH_CAMELLIA_128_CBC_SHA256'', 0x030000BE),
    (''TLS1_CK_ADH_WITH_CAMELLIA_128_CBC_SHA256'', 0x030000BF),
    (''TLS1_CK_RSA_WITH_CAMELLIA_256_CBC_SHA256'', 0x030000C0),
    (''TLS1_CK_DH_DSS_WITH_CAMELLIA_256_CBC_SHA256'', 0x030000C1),
    (''TLS1_CK_DH_RSA_WITH_CAMELLIA_256_CBC_SHA256'', 0x030000C2),
    (''TLS1_CK_DHE_DSS_WITH_CAMELLIA_256_CBC_SHA256'', 0x030000C3),
    (''TLS1_CK_DHE_RSA_WITH_CAMELLIA_256_CBC_SHA256'', 0x030000C4),
    (''TLS1_CK_ADH_WITH_CAMELLIA_256_CBC_SHA256'', 0x030000C5),
    (''TLS1_CK_ECDH_ECDSA_WITH_NULL_SHA'', 0x0300C001),
    (''TLS1_CK_ECDH_ECDSA_WITH_RC4_128_SHA'', 0x0300C002),
    (''TLS1_CK_ECDH_ECDSA_WITH_DES_192_CBC3_SHA'', 0x0300C003)]"

definition TLS1_CK_codes_2 :: code_table where
  "TLS1_CK_codes_2 = [
    (''TLS1_CK_ECDH_ECDSA_WITH_AES_128_CBC_SHA'', 0x0300C004),
    (''TLS1_CK_ECDH_ECDSA_WITH_AES_256_CBC_SHA'', 0x0300C005),
    (''TLS1_CK_ECDHE_ECDSA_WITH_NULL_SHA'', 0x0300C006),
    (''TLS1_CK_ECDHE_ECDSA_WITH_RC4_128_SHA'', 0x0300C007),
    (''TLS1_CK_ECDHE_ECDSA_WITH_DES_192_CBC3_SHA'', 0x0300C008),
    (''TLS1_CK_ECDHE_ECDSA_WITH_AES_128_CBC_SHA'', 0x0300C009),
    (''TLS1_CK_ECDHE_ECDSA_WITH_AES_256_CBC_SHA'', 0x0300C00A),
    (''TLS1_CK_ECDH_RSA_WITH_NULL_SHA'', 0x0300C00B),
    (''TLS1_CK_ECDH_RSA_WITH_RC4_128_SHA'', 0x0300C00C),
    (''TLS1_CK_ECDH_RSA_WITH_DES_192_CBC3_SHA'', 0x0300C00D),
    (''TLS1_CK_ECDH_RSA_WITH_AES_128_CBC_SHA'', 0x0300C00E),
    (''TLS1_CK_ECDH_RSA_WITH_AES_256_CBC_SHA'', 0x0300C00F),
    (''TLS1_CK_ECDHE_RSA_WITH_NULL_SHA'', 0x0300C010),
    (''TLS1_CK_ECDHE_RSA_WITH_RC4_128_SHA'', 0x0300C011),
    (''TLS1_CK_ECDHE_RSA_WITH_DES_192_CBC3_SHA'', 0x0300C012),
    (''TLS1_CK_ECDHE_RSA_WITH_AES_128_CBC_SHA'', 0x0300C013),
    (''TLS1_CK_ECDHE_RSA_WITH_AES_256_CBC_SHA'', 0x0300C014),
    (''TLS1_CK_ECDH_anon_WITH_NULL_SHA'', 0x0300C015),
    (''TLS1_CK_ECDH_anon_WITH_RC4_128_SHA'', 0x0300C016),
    (''TLS1_CK_ECDH_anon_WITH_DES_192_CBC3_SHA'', 0x0300C017),
    (''TLS1_CK_ECDH_anon_WITH_AES_128_CBC_SHA'', 0x0300C018),
    (''TLS1_CK_ECDH_anon_WITH_AES_256_CBC_SHA'', 0x0300C019),
    (''TLS1_CK_SRP_SHA_WITH_3DES_EDE_CBC_SHA'', 0x0300C01A),
    (''TLS1_CK_SRP_SHA_RSA_WITH_3DES_EDE_CBC_SHA'', 0x0300C01B),
    (''TLS1_CK_SRP_SHA_DSS_WITH_3DES_EDE_CBC_SHA'', 0x0300C01C),
    (''TLS1_CK_SRP_SHA_WITH_AES_128_CBC_SHA'', 0x0300C01D),
    (''TLS1_CK_SRP_SHA_RSA_WITH_AES_128_CBC_SHA'', 0x0300C01E),
    (''TLS1_CK_SRP_SHA_DSS_WITH_AES_128_CBC_SHA'', 0x0300C01F),
    (''TLS1_CK_SRP_SHA_WITH_AES_256_CBC_SHA'', 0x0300C020),
    (''TLS1_CK_SRP_SHA_RSA_WITH_AES_256_CBC_SHA'', 0x0300C021),
    (''TLS1_CK_SRP_SHA_DSS_WITH_AES_256_CBC_SHA'', 0x0300C022),
    (''TLS1_CK_ECDHE_ECDSA_WITH_AES_128_SHA256'', 0x0300C023),
    (''TLS1_CK_ECDHE_ECDSA_WITH_AES_256_SHA384'', 0x0300C024),
    (''TLS1_CK_ECDH_ECDSA_WITH_AES_128_SHA256'', 0x0300C025),
    (''TLS1_CK_ECDH_ECDSA_WITH_AES_256_SHA384'', 0x0300C026),
    (''TLS1_CK_ECDHE_RSA_WITH_AES_128_SHA256'', 0x0300C027),
    (''TLS1_CK_ECDHE_RSA_WITH_AES_256_SHA384'', 0x0300C028),
    (''TLS1_CK_ECDH_RSA_WITH_AES_128_SHA256'', 0x0300C029),
    (''TLS1_CK_ECDH_RSA_WITH_AES_256_SHA384'', 0x0300C02A),
    (''TLS1_CK_ECDHE_ECDSA_WITH_AES_128_GCM_SHA256'', 0x0300C02B),
    (''TLS1_CK_ECDHE_ECDSA_WITH_AES_256_GCM_SHA384'', 0x0300C02C),
    (''TLS1_CK_ECDH_ECDSA_WITH_AES_128_GCM_SHA256'', 0x0300C02D),
    (''TLS1_CK_ECDH_ECDSA_WITH_AES_256_GCM_SHA384'', 0x0300C02E),
    (''TLS1_CK_ECDHE_RSA_WITH_AES_128_GCM_SHA256'', 0x0300C02F),
    (''TLS1_CK_ECDHE_RSA_WITH_AES_256_GCM_SHA384'', 0x0300C030),
    (''TLS1_CK_ECDH_RSA_WITH_AES_128_GCM_SHA256'', 0x0300C031),
    (''TLS1_CK_ECDH_RSA_WITH_AES_256_GCM_SHA384'', 0x0300C032),
    (''TLS1_CK_ECDHE_PSK_WITH_RC4_128_SHA'', 0x0300C033),
    (''TLS1_CK_ECDHE_PSK_WITH_3DES_EDE_CBC_SHA'', 0x0300C034),
    (''TLS1_CK_ECDHE_PSK_WITH_AES_128_CBC_SHA'', 0x0300C035),
    (''TLS1_CK_ECDHE_PSK_WITH_AES_256_CBC_SHA'', 0x0300C036),
    (''TLS1_CK_ECDHE_PSK_WITH_AES_128_CBC_SHA256'', 0x0300C037),
    (''TLS1_CK_ECDHE_PSK_WITH_AES_256_CBC_SHA384'', 0x0300C038),
    (''TLS1_CK_ECDHE_PSK_WITH_NULL_SHA'', 0x0300C039),
    (''TLS1_CK_ECDHE_PSK_WITH_NULL_SHA256'', 0x0300C03A),
    (''TLS1_CK_ECDHE_PSK_WITH_NULL_SHA384'', 0x0300C03B),
    (''TLS1_CK_ECDHE_ECDSA_WITH_CAMELLIA_128_CBC_SHA256'', 0x0300C072),
    (''TLS1_CK_ECDHE_ECDSA_WITH_CAMELLIA_256_CBC_SHA384'', 0x0300C073),
    (''TLS1_CK_ECDH_ECDSA_WITH_CAMELLIA_128_CBC_SHA256'', 0x0300C074),
    (''TLS1_CK_ECDH_ECDSA_WITH_CAMELLIA_256_CBC_SHA384'', 0x0300C075),
    (''TLS1_CK_ECDHE_RSA_WITH_CAMELLIA_128_CBC_SHA256'', 0x0300C076),
    (''TLS1_CK_ECDHE_RSA_WITH_CAMELLIA_256_CBC_SHA384'', 0x0300C077),
    (''TLS1_CK_ECDH_RSA_WITH_CAMELLIA_128_CBC_SHA256'', 0x0300C078),
    (''TLS1_CK_ECDH_RSA_WITH_CAMELLIA_256_CBC_SHA384'', 0x0300C079),
    (''TLS1_CK_PSK_WITH_CAMELLIA_128_CBC_SHA256'', 0x0300C094),
    (''TLS1_CK_PSK_WITH_CAMELLIA_256_CBC_SHA384'', 0x0300C095),
    (''TLS1_CK_DHE_PSK_WITH_CAMELLIA_128_CBC_SHA256'', 0x0300C096),
    (''TLS1_CK_DHE_PSK_WITH_CAMELLIA_256_CBC_SHA384'', 0x0300C097),
    (''TLS1_CK_RSA_PSK_WITH_CAMELLIA_128_CBC_SHA256'', 0x0300C098),
    (''TLS1_CK_RSA_PSK_WITH_CAMELLIA_256_CBC_SHA384'', 0x0300C099),
    (''TLS1_CK_ECDHE_PSK_WITH_CAMELLIA_128_CBC_SHA256'', 0x0300C09A),
    (''TLS1_CK_ECDHE_PSK_WITH_CAMELLIA_256_CBC_SHA384'', 0x0300C09B),
    (''TLS1_CK_ECDHE_RSA_WITH_CHACHA20_POLY1305'', 0x0300CCA8),
    (''TLS1_CK_ECDHE_ECDSA_WITH_CHACHA20_POLY1305'', 0x0300CCA9),
    (''TLS1_CK_DHE_RSA_WITH_CHACHA20_POLY1305'', 0x0300CCAA),
    (''TLS1_CK_PSK_WITH_CHACHA20_POLY1305'', 0x0300CCAB),
    (''TLS1_CK_ECDHE_PSK_WITH_CHACHA20_POLY1305'', 0x0300CCAC),
    (''TLS1_CK_DHE_PSK_WITH_CHACHA20_POLY1305'', 0x0300CCAD),
    (''TLS1_CK_RSA_PSK_WITH_CHACHA20_POLY1305'', 0x0300CCAE),
    (''TLS1_3_CK_AES_128_GCM_SHA256'', 0x03001301),
    (''TLS1_3_CK_AES_256_GCM_SHA384'', 0x03001302),
    (''TLS1_3_CK_CHACHA20_POLY1305_SHA256'', 0x03001303),
    (''TLS1_3_CK_AES_128_CCM_SHA256'', 0x03001304),
    (''TLS1_3_CK_AES_128_CCM_8_SHA256'', 0x03001305),
    (''TLS1_CK_RSA_WITH_ARIA_128_GCM_SHA256'', 0x0300C050),
    (''TLS1_CK_RSA_WITH_ARIA_256_GCM_SHA384'', 0x0300C051),
    (''TLS1_CK_DHE_RSA_WITH_ARIA_128_GCM_SHA256'', 0x0300C052),
    (''TLS1_CK_DHE_RSA_WITH_ARIA_256_GCM_SHA384'', 0x0300C053),
    (''TLS1_CK_DH_RSA_WITH_ARIA_128_GCM_SHA256'', 0x0300C054),
    (''TLS1_CK_DH_RSA_WITH_ARIA_256_GCM_SHA384'', 0x0300C055),
    (''TLS1_CK_DHE_DSS_WITH_ARIA_128_GCM_SHA256'', 0x0300C056),
    (''TLS1_CK_DHE_DSS_WITH_ARIA_256_GCM_SHA384'', 0x0300C057),
    (''TLS1_CK_DH_DSS_WITH_ARIA_128_GCM_SHA256'', 0x0300C058),
    (''TLS1_CK_DH_DSS_WITH_ARIA_256_GCM_SHA384'', 0x0300C059),
    (''TLS1_CK_DH_anon_WITH_ARIA_128_GCM_SHA256'', 0x0300C05A),
    (''TLS1_CK_DH_anon_WITH_ARIA_256_GCM_SHA384'', 0x0300C05B),
    (''TLS1_CK_ECDHE_ECDSA_WITH_ARIA_128_GCM_SHA256'', 0x0300C05C),
    (''TLS1_CK_ECDHE_ECDSA_WITH_ARIA_256_GCM_SHA384'', 0x0300C05D),
    (''TLS1_CK_ECDH_ECDSA_WITH_ARIA_128_GCM_SHA256'', 0x0300C05E),
    (''TLS1_CK_ECDH_ECDSA_WITH_ARIA_256_GCM_SHA384'', 0x0300C05F),
    (''TLS1_CK_ECDHE_RSA_WITH_ARIA_128_GCM_SHA256'', 0x0300C060),
    (''TLS1_CK_ECDHE_RSA_WITH_ARIA_256_GCM_SHA384'', 0x0300C061),
    (''TLS1_CK_ECDH_RSA_WITH_ARIA_128_GCM_SHA256'', 0x0300C062),
    (''TLS1_CK_ECDH_RSA_WITH_ARIA_256_GCM_SHA384'', 0x0300C063),
    (''TLS1_CK_PSK_WITH_ARIA_128_GCM_SHA256'', 0x0300C06A),
    (''TLS1_CK_PSK_WITH_ARIA_256_GCM_SHA384'', 0x0300C06B),
    (''TLS1_CK_DHE_PSK_WITH_ARIA_128_GCM_SHA256'', 0x0300C06C),
    (''TLS1_CK_DHE_PSK_WITH_ARIA_256_GCM_SHA384'', 0x0300C06D),
    (''TLS1_CK_RSA_PSK_WITH_ARIA_128_GCM_SHA256'', 0x0300C06E),
    (''TLS1_CK_RSA_PSK_WITH_ARIA_256_GCM_SHA384'', 0x0300C06F)]"

definition TLS1_CK_codes :: code_table where
  "TLS1_CK_codes = TLS1_CK_codes_1 @ TLS1_CK_codes_2"

definition cipher_suites :: code_table where
  "cipher_suites = SSL3_CK_codes @ TLS1_CK_codes"

section \<open>Properties\<close>



end
