(* ===== verification/Spec2Isabelle.thy ===== *)
theory Spec2Isabelle
  imports Ccp_Protocol Node Stream_Payment Settlement_Client Btp_Service Ossl_Tls
begin

text \<open>
  \<^bold>\<open>Interledger.rs: the program and its model.\<close>

  The repository is a Rust workspace, the reference implementation of the Interledger protocols, and carries
  the C headers of OpenSSL 1.1 its build links against. The development models the Rust crates under
  \<^verbatim>\<open>src/crates\<close>, which are the program, and, as a part of its own, the code tables and macros of the C headers
  under \<^verbatim>\<open>src/openssl-1.1\<close>. The two parts share nothing but the prelude. The headers are the only C in the
  repository and hold no functions with a body: what can be verified of them is that their numbering does what
  the packing macros and the TLS wire formats need.

  \<^bold>\<open>How the parts interact.\<close> A packet enters a node over HTTP or BTP and runs through a stack of services, each
  of which may answer it, reject it or hand it on: rate limits, expiry, packet size, ILDCP, settlement messages,
  echo and the route manager on the incoming side, then the router, then exchange rates, balances, the STREAM
  receiver, the expiry shortener and the validator on the outgoing side, then the wire. The route manager
  exchanges routing tables with the peers by CCP packets and fills the router's table. The balance service
  keeps the accounts' balances in Redis by Lua scripts and settles debts through a settlement engine, which
  reports incoming settlements to the node's settlement endpoint. A STREAM sender splits a payment into packets
  whose fulfillments the receiver derives from a shared secret.

  \<^bold>\<open>Conventions.\<close> (\<open>Prelude\<close>) A fallible computation has type \<open>('a, 'e) result\<close>: \<open>Ok\<close>, \<open>Err\<close>, or \<open>Panic\<close> for
  every \<^verbatim>\<open>unwrap\<close>, \<^verbatim>\<open>expect\<close>, out-of-range slice and overflow (overflow checks are on). Integers keep their width as
  words, bytes are \<open>8 word\<close> lists, strings are their bytes with UTF-8 validity written out. A service is a
  function of the next service, the request and a state. The cargo features \<^verbatim>\<open>strict\<close> and \<^verbatim>\<open>roundtrip-only\<close> are
  an argument. A hash map is an association list with distinct keys, in an arbitrary order. Times are
  nanoseconds since 1970, as naturals. The locales \<open>wire_codec\<close> (reading undoes writing) and \<open>safe_reader\<close>
  (reading never panics and consumes input) are the contracts of the parsers.

  \<^bold>\<open>Packets.\<close>
  \<^item> \<open>Oer\<close>: \<^verbatim>\<open>interledger-packet/src/oer.rs\<close>. Readers and writers of lengths, strings, integers and timestamps;
    round trips, exact size predictions, and that strict reading accepts exactly what is written.
  \<^item> \<open>Address\<close>: \<^verbatim>\<open>address.rs\<close>. The regular expression written out as a matcher and shown to accept exactly the
    documented grammar; \<^verbatim>\<open>with_suffix\<close> and the segments.
  \<^item> \<open>Ilp_Packet\<close>: \<^verbatim>\<open>packet.rs\<close>, \<^verbatim>\<open>error.rs\<close>. Prepare, Fulfill and Reject: round trips, no panic on any input, the
    in-place setters, and canonicity under \<^verbatim>\<open>roundtrip-only\<close>.
  \<^item> \<open>Ccp_Packet\<close>: \<^verbatim>\<open>interledger-ccp/src/packet.rs\<close>. Route control and route update requests on the wire.
  \<^item> \<open>Btp_Packet\<close>: \<^verbatim>\<open>interledger-btp/src/packet.rs\<close>. Messages, responses and errors of BTP; round trip.
  \<^item> \<open>Stream_Packet\<close>: \<^verbatim>\<open>interledger-stream/src/packet.rs\<close>, \<^verbatim>\<open>crypto.rs\<close>. Frames, the sealed packet, conditions and
    fulfillments; round trip, termination and safety of the frame loop, canonicity.

  \<^bold>\<open>Routing.\<close>
  \<^item> \<open>Service\<close>: accounts, requests and routing relations (\<^verbatim>\<open>interledger-service\<close>, \<^verbatim>\<open>interledger-store/src/account.rs\<close>).
  \<^item> \<open>Routing_Table\<close>: \<^verbatim>\<open>interledger-ccp/src/routing_table.rs\<close>, \<^verbatim>\<open>interledger-router/src/router.rs\<close>. Both lookups meet
    the contract \<open>longest_prefix\<close>; what an update changes and reports.
  \<^item> \<open>Ccp_Manager\<close>, \<open>Ccp_Protocol\<close>: \<^verbatim>\<open>interledger-ccp/src/server.rs\<close>. The handlers, the choice of routes, epochs and
    broadcasts; then the manager over time as the relation \<open>ccp_step\<close>, its invariant, the synchronisation of a
    peer with our announcements, optimality of the chosen route and the backoff of unreachable children. The
    node's address does not change along a run.

  \<^bold>\<open>Money.\<close>
  \<^item> \<open>Balance_Store\<close>: the Lua scripts of \<^verbatim>\<open>interledger-store/src/redis/lua\<close> and the calls of \<^verbatim>\<open>redis/mod.rs\<close>. \<^verbatim>\<open>HINCRBY\<close>
    keeps to 64 bits; Lua computes with doubles, exact up to \<open>2 ^ 53\<close>, and the theorems that give the result of
    a script take amounts below \<open>2 ^ 51\<close>.
  \<^item> \<open>Balance_Service\<close>: \<^verbatim>\<open>interledger-service-util/src/balance_service.rs\<close>. The store's contract is the locale
    \<open>balance_store\<close>, interpreted by the Redis scripts; requests, spawned tasks and settlements interleave freely in
    the relation \<open>book_step\<close>, and the books balance in every reachable state.
  \<^item> \<open>Settlement\<close>: \<^verbatim>\<open>interledger-settlement/src/core\<close>, \<^verbatim>\<open>api/node_api.rs\<close>. Scaling between asset scales, leftovers,
    idempotent calls and incoming settlements; value is conserved.
  \<^item> \<open>Settlement_Client\<close>: \<^verbatim>\<open>core/settlement_client.rs\<close>. Requests to the engine and their retries, as the relation
    \<open>retries\<close>; how often an engine settles.
  \<^item> \<open>Float64\<close>, \<open>Exchange\<close>: double-precision arithmetic as rational numbers rounded to 53 bits, and
    \<^verbatim>\<open>exchange_rates_service.rs\<close> computed with it; the error of a conversion is bounded for rates and scales within
    a factor of \<open>2 ^ 300\<close> of one (ninety decimal places), where no product leaves the normal range; the model
    itself has no such bound.

  \<^bold>\<open>STREAM.\<close>
  \<^item> \<open>Congestion\<close>: \<^verbatim>\<open>congestion.rs\<close>. The window of a sender, with its \<^verbatim>\<open>f64\<close> steps on naturals, shown to round as \<open>Float64\<close>.
  \<^item> \<open>Stream_Server\<close>: \<^verbatim>\<open>server.rs\<close>. Addresses and secrets of connections, and the receiver.
  \<^item> \<open>Stream_Payment\<close>: \<^verbatim>\<open>client.rs\<close>. The payment as a relation over the interleaved tasks of its packets; what
    was sent is never more than what was asked, and sender and receiver agree on what arrived.

  \<^bold>\<open>The node.\<close>
  \<^item> \<open>Ildcp\<close>: \<^verbatim>\<open>interledger-ildcp\<close>, from the client's request to the account's configuration.
  \<^item> \<open>Service_Util\<close>: the packet limit, validator, expiry shortener, rate limiter and echo service of
    \<^verbatim>\<open>interledger-service-util\<close> and the settlement message service. The locales \<open>outgoing_prover\<close> and \<open>incoming_prover\<close>
    say that a service fulfills only with a preimage of the packet's condition.
  \<^item> \<open>Btp_Service\<close>: \<^verbatim>\<open>interledger-btp/src/service.rs\<close> with the authentication of \<^verbatim>\<open>server.rs\<close> and \<^verbatim>\<open>client.rs\<close>. ILP
    packets inside BTP packets, and the requests in flight over all connections as the relation \<open>btp_step\<close>: which
    response answers which request, and what becomes of one that is given up.
  \<^item> \<open>Node\<close>: \<^verbatim>\<open>ilp-node/src/node.rs\<close>. The services in the order of \<^verbatim>\<open>chain_services\<close>; the contracts are chained by one
    interpretation for each service, and congruence lemmas show which requests reach the wire.
    The property at the end of this theory joins the node's expiry with the timeout of \<open>Btp_Service\<close>.

  \<^bold>\<open>OpenSSL headers.\<close>
  \<^item> \<open>Ossl_Err\<close>, \<open>Ossl_Tables\<close>, \<open>Ossl_Codes\<close>: \<^verbatim>\<open>err.h\<close> and the 29 headers \<^verbatim>\<open>*err.h\<close> whose tables of function and reason
    codes are translated line by line, including the parts under \<^verbatim>\<open>#ifndef OPENSSL_NO_...\<close>; a packed error
    identifies its library, function and reason. \<^verbatim>\<open>unsigned long\<close> has 64 bits and \<^verbatim>\<open>int\<close> 32.
  \<^item> \<open>Ossl_Tls\<close>: alerts and cipher suites of \<^verbatim>\<open>ssl3.h\<close>, \<^verbatim>\<open>tls1.h\<close> and \<^verbatim>\<open>ssl.h\<close>.

  \<^bold>\<open>Parameters.\<close> Code that is not in the repository is an argument: the timestamp parser and formatter of
  \<^verbatim>\<open>chrono\<close> (what is formatted in seventeen digits parses back), SHA-256, HMAC and AES-GCM of \<^verbatim>\<open>ring\<close> (digests have 32
  bytes, opening undoes sealing), random nonces, tokens and UUIDs, the Redis command \<^verbatim>\<open>CL.THROTTLE\<close>, the
  HTTP client and \<^verbatim>\<open>FutureRetry\<close>, settlement engines, exchange rates, \<^verbatim>\<open>powi\<close> and the printing of floats, and the
  clock. Each hypothesis about one of them is met by a concrete function in the examples.

  \<^bold>\<open>Fuel and bounds.\<close> No definition of the model uses fuel: recursion is structural or has a termination
  proof, and loops over a claimed count stop at the end of the input. Nondeterminism (the order of tasks, lost
  responses, the order of hash maps) is in the step relations or universally quantified.

  \<^bold>\<open>Not modelled.\<close> The sockets of \<^verbatim>\<open>interledger-btp\<close> (connecting, \<^verbatim>\<open>wrapped_ws.rs\<close>), \<^verbatim>\<open>interledger-http\<close>,
  the HTTP API, SPSP, the pollers of exchange rates and the command line client are I/O over third-party
  libraries with serde in between; the node's wire, rates and engine stand for them. The account, route and
  notification operations of the Redis store are pipelines whose meaning is that of Redis and of serde's
  encoding of accounts. User names need Unicode normalisation. The timers of tokio (broadcast interval,
  delayed settlement, payment and BTP timeouts) appear as events that may happen at any moment. Logging, metrics, tracing,
  \<^verbatim>\<open>Debug\<close> and \<^verbatim>\<open>Display\<close> output, and the conversions of error types for the API are left out. Of the OpenSSL headers,
  declarations of functions and the macros that wrap them are left out: their code is not in the repository.
\<close>



end
